(* ===== verification/Go_Prelude.thy ===== *)
theory Go_Prelude
  imports Main "HOL-Library.Sublist" "HOL-Library.Signed_Division" "HOL-Library.Char_ord"
    "HOL-Library.List_Lexorder"
begin

text \<open>
  The part of the Go language and of its standard library that the modelled packages use:
  strings as byte lists with the functions of \<^verbatim>\<open>strings\<close> and \<^verbatim>\<open>strconv\<close>, maps, 64-bit
  integers, errors with wrapping, and effectful calls that may fail.  Every component
  theory imports this one.

  A Go \<^verbatim>\<open>map[string]string\<close> is an association list with distinct keys: the order of the list
  is the order in which a \<^verbatim>\<open>range\<close> loop happens to visit the map, so a statement for every
  list is a statement for every iteration order.
\<close>

named_theorems go_simps \<open>evaluation rules of the string and number functions\<close>
named_theorems io_simps \<open>evaluation rules of effectful calls\<close>

section \<open>Strings\<close>

type_synonym gomap = "(string \<times> string) list"

text \<open>\<^verbatim>\<open>strings.Cut\<close> at the first occurrence of a one-byte separator.\<close>

fun Cut :: "char \<Rightarrow> string \<Rightarrow> (string \<times> string) option" where
  "Cut c [] = None"
| "Cut c (x # xs) = (if x = c then Some ([], xs)
                     else map_option (\<lambda>(a, b). (x # a, b)) (Cut c xs))"

text \<open>Cutting at the last occurrence (\<^verbatim>\<open>strings.LastIndex\<close> and the two slices around it).\<close>

fun CutLast :: "char \<Rightarrow> string \<Rightarrow> (string \<times> string) option" where
  "CutLast c [] = None"
| "CutLast c (x # xs) =
     (case CutLast c xs of
        Some (a, b) \<Rightarrow> Some (x # a, b)
      | None \<Rightarrow> if x = c then Some ([], xs) else None)"

text \<open>\<^verbatim>\<open>strings.SplitN\<close> and \<^verbatim>\<open>strings.Split\<close> with a one-byte separator.\<close>

fun SplitN :: "nat \<Rightarrow> char \<Rightarrow> string \<Rightarrow> string list" where
  "SplitN 0 c s = []"
| "SplitN (Suc 0) c s = [s]"
| "SplitN (Suc (Suc n)) c s =
     (case Cut c s of None \<Rightarrow> [s] | Some (a, b) \<Rightarrow> a # SplitN (Suc n) c b)"

fun Split :: "char \<Rightarrow> string \<Rightarrow> string list" where
  "Split c [] = [[]]"
| "Split c (x # xs) =
     (if x = c then [] # Split c xs
      else (case Split c xs of [] \<Rightarrow> [[x]] | y # ys \<Rightarrow> (x # y) # ys))"

fun Join :: "string \<Rightarrow> string list \<Rightarrow> string" where
  "Join sep [] = []"
| "Join sep [x] = x"
| "Join sep (x # y # ys) = x @ sep @ Join sep (y # ys)"

definition HasPrefix :: "string \<Rightarrow> string \<Rightarrow> bool" where
  "HasPrefix s p \<longleftrightarrow> take (length p) s = p"

definition HasSuffix :: "string \<Rightarrow> string \<Rightarrow> bool" where
  "HasSuffix s p \<longleftrightarrow> HasPrefix (rev s) (rev p)"

fun Contains :: "string \<Rightarrow> string \<Rightarrow> bool" where
  "Contains [] p \<longleftrightarrow> p = []"
| "Contains (x # xs) p \<longleftrightarrow> HasPrefix (x # xs) p \<or> Contains xs p"

definition TrimPrefix :: "string \<Rightarrow> string \<Rightarrow> string" where
  "TrimPrefix s p = (if HasPrefix s p then drop (length p) s else s)"

definition TrimRight :: "string \<Rightarrow> string \<Rightarrow> string" where
  "TrimRight s cutset = rev (dropWhile (\<lambda>c. c \<in> set cutset) (rev s))"

definition Trim :: "string \<Rightarrow> string \<Rightarrow> string" where
  "Trim s cutset = TrimRight (dropWhile (\<lambda>c. c \<in> set cutset) s) cutset"

text \<open>\<^verbatim>\<open>strings.TrimSpace\<close> on the one-byte white space characters.\<close>

definition TrimSpace :: "string \<Rightarrow> string" where
  "TrimSpace s = Trim s [CHR 0x09, CHR 0x0A, CHR 0x0B, CHR 0x0C, CHR 0x0D, CHR 0x20]"

lemma Cut_None: "Cut c s = None \<longleftrightarrow> c \<notin> set s"
  by (induction s) auto

lemma Cut_free [simp]: "c \<notin> set s \<Longrightarrow> Cut c s = None"
  by (simp only: Cut_None not_False_eq_True)

lemma Cut_append [simp]: "c \<notin> set a \<Longrightarrow> Cut c (a @ c # b) = Some (a, b)"
  by (induction a) auto

lemma Cut_Some: "Cut c s = Some (a, b) \<longleftrightarrow> s = a @ c # b \<and> c \<notin> set a"
proof
  assume "Cut c s = Some (a, b)"
  then show "s = a @ c # b \<and> c \<notin> set a"
    by (induction s arbitrary: a) (auto split: if_splits)
qed auto

lemma CutLast_None: "CutLast c s = None \<longleftrightarrow> c \<notin> set s"
  by (induction s) (auto split: option.splits)

lemma CutLast_free [simp]: "c \<notin> set s \<Longrightarrow> CutLast c s = None"
  by (simp only: CutLast_None not_False_eq_True)

lemma CutLast_append [simp]: "c \<notin> set b \<Longrightarrow> CutLast c (a @ c # b) = Some (a, b)"
  by (induction a) simp_all

lemma CutLast_Some: "CutLast c s = Some (a, b) \<longleftrightarrow> s = a @ c # b \<and> c \<notin> set b"
proof
  assume "CutLast c s = Some (a, b)"
  then show "s = a @ c # b \<and> c \<notin> set b"
    by (induction s arbitrary: a) (auto split: option.splits if_splits simp: CutLast_None)
qed auto

lemma Join_SplitN: "0 < n \<Longrightarrow> Join [c] (SplitN n c s) = s"
proof (induction n c s rule: SplitN.induct)
  case (3 n c s)
  have ne: "\<exists>y ys. SplitN (Suc n) c b = y # ys" for b
    by (cases n) (auto split: option.splits)
  show ?case
  proof (cases "Cut c s")
    case (Some p)
    obtain a b where p: "p = (a, b)" by fastforce
    obtain y ys where y: "SplitN (Suc n) c b = y # ys" using ne by blast
    have "Join [c] (SplitN (Suc n) c b) = b"
      using 3 Some p by blast
    then have "Join [c] (y # ys) = b" using y by simp
    then show ?thesis using Some p y by (auto simp: Cut_Some)
  qed simp
qed simp_all

lemma Split_ne [simp]: "Split c s \<noteq> []"
  by (cases s) (auto split: list.splits)

lemma Join_Split: "Join [c] (Split c s) = s"
proof (induction s)
  case (Cons x xs)
  obtain y ys where y: "Split c xs = y # ys" by (cases "Split c xs") auto
  show ?case using Cons y by (cases ys) auto
qed simp

lemma Split_free: "p \<in> set (Split c s) \<Longrightarrow> c \<notin> set p"
  by (induction s arbitrary: p) (auto split: if_splits list.splits)

lemma Split_subset: "p \<in> set (Split c s) \<Longrightarrow> set p \<subseteq> set s"
proof (induction s arbitrary: p)
  case (Cons x xs)
  obtain y ys where y: "Split c xs = y # ys" by (cases "Split c xs") auto
  have "set q \<subseteq> set xs" if "q \<in> set (y # ys)" for q using Cons.IH y that by simp
  then show ?case using Cons.prems y by (fastforce split: if_splits)
qed simp

lemma Split_single [simp]: "c \<notin> set s \<Longrightarrow> Split c s = [s]"
  by (induction s) auto

lemma Split_append [simp]: "c \<notin> set a \<Longrightarrow> Split c (a @ c # b) = a # Split c b"
  by (induction a) auto

lemma HasPrefix_append [simp]: "HasPrefix (p @ s) p"
  by (simp add: HasPrefix_def)

lemma HasPrefix_iff: "HasPrefix s p \<longleftrightarrow> (\<exists>r. s = p @ r)"
  unfolding HasPrefix_def by (metis append_eq_conv_conj append_take_drop_id)

lemma Contains_iff: "Contains s p \<longleftrightarrow> (\<exists>a b. s = a @ p @ b)"
proof (induction s)
  case (Cons x xs)
  show ?case
  proof
    assume "Contains (x # xs) p"
    then consider r where "x # xs = p @ r" | a b where "xs = a @ p @ b"
      using Cons by (auto simp: HasPrefix_iff)
    then show "\<exists>a b. x # xs = a @ p @ b"
      by cases (metis append_Nil, metis append_Cons)
  next
    assume "\<exists>a b. x # xs = a @ p @ b"
    then obtain a b where "x # xs = a @ p @ b" by blast
    then have "HasPrefix (x # xs) p \<or> (\<exists>a b. xs = a @ p @ b)"
      by (cases a) (auto simp: HasPrefix_iff)
    then show "Contains (x # xs) p" using Cons by simp
  qed
qed auto

lemma Contains_appendI [simp, intro]: "Contains (a @ p @ b) p" "Contains (a @ p) p"
  by (auto simp: Contains_iff) (metis append_Nil2)

lemma TrimPrefix_append [simp]: "TrimPrefix (p @ s) p = s"
  by (simp add: TrimPrefix_def)

section \<open>Decimal numbers\<close>

definition is_digit :: "char \<Rightarrow> bool" where
  "is_digit c \<longleftrightarrow> 48 \<le> (of_char c :: nat) \<and> (of_char c :: nat) \<le> 57"

definition digit_val :: "char \<Rightarrow> int" where
  "digit_val c = int (of_char c) - 48"

definition digit_char :: "int \<Rightarrow> char" where
  "digit_char d = char_of (nat d + 48)"

definition dec_val :: "string \<Rightarrow> int" where
  "dec_val s = foldl (\<lambda>n c. 10 * n + digit_val c) 0 s"

fun dec_nat :: "nat \<Rightarrow> string" where
  "dec_nat n = (if n < 10 then [digit_char (int n)]
                else dec_nat (n div 10) @ [digit_char (int (n mod 10))])"

declare dec_nat.simps [simp del]

text \<open>\<^verbatim>\<open>strconv.Itoa\<close>, and \<^verbatim>\<open>%d\<close> of \<^verbatim>\<open>fmt.Sprintf\<close>.\<close>

definition Itoa :: "int \<Rightarrow> string" where
  "Itoa i = (if i < 0 then CHR ''-'' # dec_nat (nat (- i)) else dec_nat (nat i))"

text \<open>The same digits computed on integers, which is what evaluation uses.\<close>

function dec_int :: "int \<Rightarrow> string" where
  "dec_int i = (if i < 10 then [digit_char i] else dec_int (i div 10) @ [digit_char (i mod 10)])"
  by auto
termination by (relation "measure nat") auto

declare dec_int.simps [simp del]

lemma dec_int_nat: "0 \<le> i \<Longrightarrow> dec_int i = dec_nat (nat i)"
proof (induction i rule: dec_int.induct)
  case (1 i)
  then show ?case
    by (auto simp: dec_int.simps [of i] dec_nat.simps [of "nat i"] nat_div_distrib nat_mod_distrib zmod_int)
qed

lemma Itoa_code [code]: "Itoa i = (if i < 0 then CHR ''-'' # dec_int (- i) else dec_int i)"
  by (simp add: Itoa_def dec_int_nat)

text \<open>\<^verbatim>\<open>strconv.ParseInt(s, 10, bits)\<close>: an optional sign, at least one decimal digit and
  nothing else, and a value in the range of the width; \<open>None\<close> is the error.\<close>

definition ParseInt :: "string \<Rightarrow> nat \<Rightarrow> int option" where
  "ParseInt s bits =
     (let (neg, ds) = (case s of [] \<Rightarrow> (False, [])
                       | c # cs \<Rightarrow> if c = CHR ''-'' then (True, cs)
                                   else if c = CHR ''+'' then (False, cs) else (False, s))
      in if ds = [] \<or> \<not> list_all is_digit ds then None
         else let v = (if neg then - dec_val ds else dec_val ds)
              in if - (2 ^ (bits - 1)) \<le> v \<and> v < 2 ^ (bits - 1) then Some v else None)"

definition Atoi :: "string \<Rightarrow> int option" where
  "Atoi s = ParseInt s 64"

definition in_int :: "nat \<Rightarrow> int \<Rightarrow> bool" where
  "in_int bits i \<longleftrightarrow> - (2 ^ (bits - 1)) \<le> i \<and> i < 2 ^ (bits - 1)"

lemma digit_char_props:
  assumes "0 \<le> d" "d < 10"
  shows "is_digit (digit_char d)" "digit_val (digit_char d) = d"
proof -
  have "nat d + 48 < 256" using assms by simp
  then have oc: "(of_char (digit_char d) :: nat) = nat d + 48"
    unfolding digit_char_def by (simp add: of_char_of)
  then show "is_digit (digit_char d)" using assms by (simp add: is_digit_def)
  show "digit_val (digit_char d) = d" using oc assms by (simp add: digit_val_def)
qed

lemma dec_val_snoc [simp]: "dec_val (s @ [c]) = 10 * dec_val s + digit_val c"
  by (simp add: dec_val_def)

lemma dec_nat_digits: "list_all is_digit (dec_nat n)"
proof (induction n rule: dec_nat.induct)
  case (1 n)
  then show ?case
    by (subst dec_nat.simps) (auto simp: digit_char_props)
qed

lemma dec_nat_val: "dec_val (dec_nat n) = int n"
proof (induction n rule: dec_nat.induct)
  case (1 n)
  show ?case
  proof (cases "n < 10")
    case True
    then show ?thesis
      by (subst dec_nat.simps) (simp add: dec_val_def digit_char_props)
  next
    case False
    have "dec_val (dec_nat n) = 10 * dec_val (dec_nat (n div 10)) + digit_val (digit_char (int (n mod 10)))"
      using False by (subst dec_nat.simps) simp
    also have "\<dots> = 10 * int (n div 10) + int (n mod 10)"
      using 1 False by (simp add: digit_char_props)
    also have "\<dots> = int n" by presburger
    finally show ?thesis .
  qed
qed

lemma dec_nat_ne [simp]: "dec_nat n \<noteq> []"
  by (subst dec_nat.simps) simp

lemma digit_not [simp]:
  "is_digit c \<Longrightarrow> c \<noteq> CHR ''-''" "is_digit c \<Longrightarrow> c \<noteq> CHR ''+''" "is_digit c \<Longrightarrow> c \<noteq> CHR ''/''"
  "is_digit c \<Longrightarrow> c \<noteq> CHR ''.''" "is_digit c \<Longrightarrow> c \<noteq> CHR '':''"
  by (auto simp: is_digit_def)

lemma dec_nat_hd: "\<exists>c cs. dec_nat n = c # cs \<and> is_digit c"
  using dec_nat_digits [of n] by (cases "dec_nat n") auto

theorem ParseInt_Itoa: "in_int bits i \<Longrightarrow> ParseInt (Itoa i) bits = Some i"
proof (cases "i < 0")
  case True
  assume "in_int bits i"
  then show ?thesis using True
    by (simp add: ParseInt_def Itoa_def dec_nat_digits dec_nat_val in_int_def)
next
  case False
  assume "in_int bits i"
  obtain c cs where c: "dec_nat (nat i) = c # cs" "is_digit c" using dec_nat_hd by blast
  have d: "list_all is_digit (c # cs)" using dec_nat_digits [of "nat i"] c by simp
  have v: "dec_val (c # cs) = i" using dec_nat_val [of "nat i"] c False by simp
  show ?thesis using False c d v \<open>in_int bits i\<close>
    by (simp add: ParseInt_def Itoa_def in_int_def)
qed

lemma Atoi_Itoa [simp]: "in_int 64 i \<Longrightarrow> Atoi (Itoa i) = Some i"
  by (simp add: Atoi_def ParseInt_Itoa)

lemma Itoa_inj: "Itoa i = Itoa j \<Longrightarrow> i = j"
proof -
  assume eq: "Itoa i = Itoa j"
  define b where "b = Suc (Suc (nat (\<bar>i\<bar> + \<bar>j\<bar>)))"
  have pw: "\<And>n. int n < 2 ^ n" by (metis less_exp of_nat_less_iff of_nat_numeral of_nat_power)
  have "in_int b i" "in_int b j"
    using pw [of "Suc (nat (\<bar>i\<bar> + \<bar>j\<bar>))"] by (auto simp: in_int_def b_def)
  then show ?thesis using eq ParseInt_Itoa by (metis option.inject)
qed

lemma Itoa_chars: "c \<in> set (Itoa i) \<Longrightarrow> is_digit c \<or> c = CHR ''-''"
  using dec_nat_digits by (auto simp: Itoa_def list_all_iff split: if_splits)

lemma Itoa_free [simp]: "CHR ''/'' \<notin> set (Itoa i)" "CHR '':'' \<notin> set (Itoa i)" "CHR ''.'' \<notin> set (Itoa i)"
  by (auto dest!: Itoa_chars simp: is_digit_def)

lemma Itoa_ne [simp]: "Itoa i \<noteq> []"
  by (simp add: Itoa_def)

lemma Itoa_nonneg_free [simp]: "0 \<le> i \<Longrightarrow> CHR ''-'' \<notin> set (Itoa i)"
  using dec_nat_digits [of "nat i"] digit_not(1) by (fastforce simp: Itoa_def list_all_iff)

lemma Itoa_nonneg_digits: "0 \<le> i \<Longrightarrow> list_all is_digit (Itoa i)"
  by (simp add: Itoa_def dec_nat_digits)

text \<open>The number of digits, which the disk name patterns bound.\<close>

lemma dec_nat_length: "0 < k \<Longrightarrow> n < 10 ^ k \<Longrightarrow> length (dec_nat n) \<le> k"
proof (induction k arbitrary: n)
  case (Suc k)
  show ?case
  proof (cases "n < 10")
    case True
    then show ?thesis by (subst dec_nat.simps) simp
  next
    case False
    then have "0 < k" using Suc.prems by (cases k) auto
    moreover have "n div 10 < 10 ^ k" using Suc.prems by (simp add: less_mult_imp_div_less)
    ultimately have "length (dec_nat (n div 10)) \<le> k" by (rule Suc.IH)
    then show ?thesis using False by (subst dec_nat.simps) simp
  qed
qed simp

lemma dec_nat_length_ge: "10 ^ k \<le> n \<Longrightarrow> Suc k \<le> length (dec_nat n)"
proof (induction k arbitrary: n)
  case 0
  then show ?case by (cases "dec_nat n") (use dec_nat_ne in auto)
next
  case (Suc k)
  then have "\<not> n < 10"
    by (metis dual_order.strict_trans1 not_less one_le_numeral power_increasing power_one_right
        zero_less_Suc Suc_leI le_add1 plus_1_eq_Suc)
  moreover have "10 ^ k \<le> n div 10" using Suc.prems by (simp add: less_eq_div_iff_mult_less_eq)
  ultimately show ?case using Suc.IH by (subst dec_nat.simps) auto
qed

lemma dec_nat_hd_nonzero: "0 < n \<Longrightarrow> hd (dec_nat n) \<noteq> CHR ''0''"
proof (induction n rule: dec_nat.induct)
  case (1 n)
  show ?case
  proof (cases "n < 10")
    case True
    have "digit_val (digit_char (int n)) \<noteq> 0" using True 1 by (simp add: digit_char_props)
    then show ?thesis using True by (subst dec_nat.simps) (auto simp: digit_val_def)
  next
    case False
    then have "hd (dec_nat (n div 10)) \<noteq> CHR ''0''" using 1 by simp
    then show ?thesis using False by (subst dec_nat.simps) simp
  qed
qed

end
