(* ===== verification/Go_Effects.thy ===== *)
theory Go_Effects
  imports Go_Prelude "HOL-Library.AList"
begin

text \<open>
  Errors and effects.  An \<^verbatim>\<open>error\<close> value keeps what the program can observe of it: its text,
  the sentinel it is or wraps, and the gRPC code of a status error.  An effectful
  function takes the world and returns an error or a value together with the next world.
  The world pairs the state of everything outside the program (the Proxmox cluster, the
  Kubernetes API server), of an arbitrary type, with the list of the requests the program
  has sent, each with the outside state it was sent in.  That list is only ever appended to
  and read by no definition: it is what safety statements are about.
\<close>

section \<open>Errors\<close>

text \<open>Sentinel errors of the program and of the libraries it calls.  The text of a library's
  sentinel is not the program's, so it is carried along.\<close>

datatype sentinel =
    ErrVirtualMachineNotFound | ErrVirtualMachineUnreachable | ErrNotFound
  | ErrStorageAbsent | ErrStorageNotFound
  | ErrClustersNotFound | ErrHAGroupNotFound | ErrRegionNotFound | ErrInstanceNotFound
  | ErrInvalidTarget
  | ErrMissingPVERegion | ErrMissingPVEAPIURL | ErrAuthCredentialsMissing | ErrInvalidAuthCredentials
  | ErrInvalidCloudConfig
  | K8sNotFound | K8sAlreadyExists | K8sConflict
  | ContextCanceled | ContextDeadlineExceeded
  | ErrAlreadyOnTarget | ErrInUse | ErrSharedStorage
  | OsNotExist

datatype code =
    InvalidArgument | NotFound | AlreadyExists | FailedPrecondition | OutOfRange
  | ResourceExhausted | PermissionDenied | Unauthenticated | Aborted
  | Internal | Unavailable | Unimplemented | Unknown

datatype goerr =
    Sentinel sentinel string
  | Plain string
  | Wrap string goerr
  | Status code string

fun code_name :: "code \<Rightarrow> string" where
  "code_name InvalidArgument = ''InvalidArgument''"
| "code_name NotFound = ''NotFound''"
| "code_name AlreadyExists = ''AlreadyExists''"
| "code_name FailedPrecondition = ''FailedPrecondition''"
| "code_name OutOfRange = ''OutOfRange''"
| "code_name ResourceExhausted = ''ResourceExhausted''"
| "code_name PermissionDenied = ''PermissionDenied''"
| "code_name Unauthenticated = ''Unauthenticated''"
| "code_name Aborted = ''Aborted''"
| "code_name Internal = ''Internal''"
| "code_name Unavailable = ''Unavailable''"
| "code_name Unimplemented = ''Unimplemented''"
| "code_name Unknown = ''Unknown''"

text \<open>The text of an error (\<^verbatim>\<open>err.Error()\<close>).\<close>

fun Error :: "goerr \<Rightarrow> string" where
  "Error (Sentinel s m) = m"
| "Error (Plain m) = m"
| "Error (Wrap m e) = m"
| "Error (Status c m) = ''rpc error: code = '' @ code_name c @ '' desc = '' @ m"

text \<open>\<^verbatim>\<open>errors.Is\<close> follows the chain of wrapped errors; comparing with \<^verbatim>\<open>==\<close> does not.\<close>

fun errIs :: "goerr \<Rightarrow> sentinel \<Rightarrow> bool" where
  "errIs (Sentinel s' m) s \<longleftrightarrow> s' = s"
| "errIs (Wrap m e) s \<longleftrightarrow> errIs e s"
| "errIs _ s \<longleftrightarrow> False"

fun errEq :: "goerr \<Rightarrow> sentinel \<Rightarrow> bool" where
  "errEq (Sentinel s' m) s \<longleftrightarrow> s' = s"
| "errEq _ s \<longleftrightarrow> False"

text \<open>\<^verbatim>\<open>status.Code\<close> of a non-nil error.\<close>

fun statusCode :: "goerr \<Rightarrow> code" where
  "statusCode (Status c m) = c"
| "statusCode (Wrap m e) = statusCode e"
| "statusCode _ = Unknown"

text \<open>A panic is the error that names it.\<close>

definition nilDereference :: goerr where
  "nilDereference = Plain ''runtime error: invalid memory address or nil pointer dereference''"

definition outOfRange :: goerr where
  "outOfRange = Plain ''runtime error: slice bounds out of range''"

lemma errEq_errIs: "errEq e s \<Longrightarrow> errIs e s"
  by (cases e) auto

section \<open>Maps\<close>

text \<open>Reading a missing key of a \<^verbatim>\<open>map[string]string\<close> gives the empty string.\<close>

definition mget :: "gomap \<Rightarrow> string \<Rightarrow> string" where
  "mget m k = (case map_of m k of None \<Rightarrow> [] | Some v \<Rightarrow> v)"

definition mset_key :: "gomap \<Rightarrow> string \<Rightarrow> string \<Rightarrow> gomap" where
  "mset_key m k v = AList.update k v m"

definition wf_map :: "gomap \<Rightarrow> bool" where
  "wf_map m \<longleftrightarrow> distinct (map fst m)"

lemma mget_set [simp]: "mget (mset_key m k v) k' = (if k' = k then v else mget m k')"
  by (simp add: mget_def mset_key_def update_conv)

lemma mget_Nil [simp]: "mget [] k = []"
  by (simp add: mget_def)

lemma wf_map_set [simp, intro]: "wf_map m \<Longrightarrow> wf_map (mset_key m k v)"
  by (simp add: wf_map_def mset_key_def distinct_update)

lemma wf_map_Nil [simp, intro]: "wf_map []"
  by (simp add: wf_map_def)

lemma map_of_set: "map_of (mset_key m k v) = (map_of m)(k \<mapsto> v)"
  by (simp add: mset_key_def update_conv')

section \<open>Effectful calls\<close>

record ('e, 'r) world =
  env :: 'e
  trace :: "('e \<times> 'r) list"

type_synonym ('w, 'a) io = "'w \<Rightarrow> (goerr + 'a) \<times> 'w"
type_synonym ('e, 'a) api = "'e \<Rightarrow> (goerr + 'a) \<times> 'e"

definition ret :: "'a \<Rightarrow> ('w, 'a) io" where
  "ret x w = (Inr x, w)"

definition fail :: "goerr \<Rightarrow> ('w, 'a) io" where
  "fail e w = (Inl e, w)"

text \<open>\<open>call m h k\<close> is the Go idiom \<^verbatim>\<open>x, err := m(); if err != nil { h(err) }; k(x)\<close>.\<close>

definition call :: "('w, 'a) io \<Rightarrow> (goerr \<Rightarrow> ('w, 'b) io) \<Rightarrow> ('a \<Rightarrow> ('w, 'b) io) \<Rightarrow> ('w, 'b) io" where
  "call m h k w = (case m w of (Inl e, w') \<Rightarrow> h e w' | (Inr x, w') \<Rightarrow> k x w')"

text \<open>A call whose error, if any, is returned unchanged, and a call whose error is dropped.\<close>

definition bindE :: "('w, 'a) io \<Rightarrow> ('a \<Rightarrow> ('w, 'b) io) \<Rightarrow> ('w, 'b) io" where
  "bindE m k = call m fail k"

text \<open>A pure result used as a call.\<close>

definition lift :: "goerr + 'a \<Rightarrow> ('w, 'a) io" where
  "lift r w = (r, w)"

text \<open>One request to the outside: it is recorded and answered by the environment.\<close>

definition invoke :: "'r \<Rightarrow> ('e, 'a) api \<Rightarrow> (('e, 'r) world, 'a) io" where
  "invoke r f w = (let (x, e') = f (env w) in (x, w\<lparr>env := e', trace := trace w @ [(env w, r)]\<rparr>))"

lemma call_ret [io_simps, simp]: "call (ret x) h k = k x"
  by (rule ext) (simp add: call_def ret_def)

lemma call_fail [io_simps, simp]: "call (fail e) h k = h e"
  by (rule ext) (simp add: call_def fail_def)

lemma call_lift [io_simps, simp]: "call (lift (Inl e)) h k = h e" "call (lift (Inr x)) h k = k x"
  by (rule ext, simp add: call_def lift_def)+

lemma bindE_ret [io_simps, simp]: "bindE (ret x) k = k x"
  by (simp add: bindE_def)

lemma bindE_fail [io_simps, simp]: "bindE (fail e) k = fail e"
  by (simp add: bindE_def)

lemma call_split:
  "P (call m h k w) \<longleftrightarrow> (\<forall>e w'. m w = (Inl e, w') \<longrightarrow> P (h e w')) \<and> (\<forall>x w'. m w = (Inr x, w') \<longrightarrow> P (k x w'))"
  by (auto simp: call_def split: prod.split sum.split)

lemma call_Inl: "m w = (Inl e, w') \<Longrightarrow> call m h k w = h e w'"
  by (simp add: call_def)

lemma call_Inr: "m w = (Inr x, w') \<Longrightarrow> call m h k w = k x w'"
  by (simp add: call_def)

text \<open>A successful sequence inverts into its successful steps.\<close>

lemma call_fail_InrD:
  assumes "call m (\<lambda>e. fail (f e)) k w = (Inr y, w')"
  obtains x v where "m w = (Inr x, v)" "k x v = (Inr y, w')"
  using assms by (auto simp: call_def fail_def split: prod.splits sum.splits)

lemma bindE_InrD:
  assumes "bindE m k w = (Inr y, w')"
  obtains x v where "m w = (Inr x, v)" "k x v = (Inr y, w')"
  using assms by (auto simp: bindE_def call_def fail_def split: prod.splits sum.splits)

section \<open>Which requests a program sends\<close>

text \<open>\<open>triple I P m Q\<close>: started in an outside state that satisfies \<open>I\<close>, every request that \<open>m\<close> sends
  satisfies \<open>P\<close> together with the state it is sent in, the requests already sent stay recorded,
  and the result and the final state satisfy \<open>Q\<close>, whatever the environment answers.\<close>

definition triple :: "('e \<Rightarrow> bool) \<Rightarrow> ('e \<times> 'r \<Rightarrow> bool) \<Rightarrow> (('e, 'r) world, 'a) io \<Rightarrow>
    (goerr + 'a \<Rightarrow> 'e \<Rightarrow> bool) \<Rightarrow> bool" where
  "triple I P m Q \<longleftrightarrow> (\<forall>w. I (env w) \<longrightarrow>
     (\<exists>rs. trace (snd (m w)) = trace w @ rs \<and> list_all P rs) \<and> Q (fst (m w)) (env (snd (m w))))"

named_theorems triple_intros \<open>composition rules for triples\<close>

lemma triple_ret [triple_intros]: "(\<And>e. I e \<Longrightarrow> Q (Inr x) e) \<Longrightarrow> triple I P (ret x) Q"
  by (auto simp: triple_def ret_def)

lemma triple_fail [triple_intros]: "(\<And>e. I e \<Longrightarrow> Q (Inl err) e) \<Longrightarrow> triple I P (fail err) Q"
  by (auto simp: triple_def fail_def)

lemma triple_lift [triple_intros]: "(\<And>e. I e \<Longrightarrow> Q r e) \<Longrightarrow> triple I P (lift r) Q"
  by (auto simp: triple_def lift_def)

lemma triple_invoke [triple_intros]:
  "(\<And>e. I e \<Longrightarrow> P (e, r) \<and> Q (fst (f e)) (snd (f e))) \<Longrightarrow> triple I P (invoke r f) Q"
  by (fastforce simp: triple_def invoke_def split: prod.split)

lemma triple_call:
  assumes m: "triple I P m R"
    and h: "\<And>e. triple (R (Inl e)) P (h e) Q" and k: "\<And>x. triple (R (Inr x)) P (k x) Q"
  shows "triple I P (call m h k) Q"
  unfolding triple_def
proof (intro allI impI)
  fix w :: "('a, 'b) world" assume "I (env w)"
  obtain r w1 where m1: "m w = (r, w1)" by fastforce
  obtain rs where rs: "trace w1 = trace w @ rs" "list_all P rs" and R: "R r (env w1)"
    using m \<open>I (env w)\<close> m1 unfolding triple_def by (metis fst_conv snd_conv)
  define n where "n = (case r of Inl e \<Rightarrow> h e | Inr x \<Rightarrow> k x)"
  have "triple (R r) P n Q" using h k by (auto simp: n_def split: sum.split)
  then obtain rs' where "trace (snd (n w1)) = trace w1 @ rs'" "list_all P rs'" "Q (fst (n w1)) (env (snd (n w1)))"
    using R unfolding triple_def by metis
  moreover have "call m h k w = n w1"
    using m1 by (auto simp: call_def n_def split: sum.split)
  ultimately show "(\<exists>rs. trace (snd (call m h k w)) = trace w @ rs \<and> list_all P rs) \<and>
      Q (fst (call m h k w)) (env (snd (call m h k w)))"
    using rs by (auto intro: exI [of _ "rs @ rs'"])
qed

lemma triple_bindE:
  assumes "triple I P m R" "\<And>e x. R (Inl e) x \<Longrightarrow> Q (Inl e) x" "\<And>x. triple (R (Inr x)) P (k x) Q"
  shows "triple I P (bindE m k) Q"
  unfolding bindE_def using assms by (intro triple_call [where R = R] triple_fail)

lemma triple_if [triple_intros]:
  "(b \<Longrightarrow> triple I P m Q) \<Longrightarrow> (\<not> b \<Longrightarrow> triple I P n Q) \<Longrightarrow> triple I P (if b then m else n) Q"
  by simp

lemma triple_prod: "(\<And>x y. triple I P (f x y) Q) \<Longrightarrow> triple I P (case p of (x, y) \<Rightarrow> f x y) Q"
  by (cases p) simp

lemma triple_pre: "triple I P m Q \<Longrightarrow> (\<And>e. J e \<Longrightarrow> I e) \<Longrightarrow> triple J P m Q"
  by (simp add: triple_def)

lemma triple_mono:
  assumes "triple I P m Q" "\<And>r. P r \<Longrightarrow> P' r" "\<And>r e. Q r e \<Longrightarrow> Q' r e"
  shows "triple I P' m Q'"
  using assms unfolding triple_def list_all_iff by (metis (no_types, lifting))

lemma triple_const: "(b \<Longrightarrow> triple I P m Q) \<Longrightarrow> triple (\<lambda>e. I e \<and> b) P m Q"
  by (cases b) (auto simp: triple_def)

text \<open>When nothing is known of the environment: every request satisfies \<open>P\<close>.\<close>

definition emits :: "('r \<Rightarrow> bool) \<Rightarrow> (('e, 'r) world, 'a) io \<Rightarrow> bool" where
  "emits P m \<longleftrightarrow> triple (\<lambda>_. True) (\<lambda>(_, r). P r) m (\<lambda>_ _. True)"

named_theorems emits_intros \<open>composition rules for the requests a program sends\<close>

lemma emits_ret [emits_intros]: "emits P (ret x)"
  by (simp add: emits_def triple_ret)

lemma emits_fail [emits_intros]: "emits P (fail e)"
  by (simp add: emits_def triple_fail)

lemma emits_lift [emits_intros]: "emits P (lift r)"
  by (simp add: emits_def triple_lift)

lemma emits_invoke [emits_intros]: "P r \<Longrightarrow> emits P (invoke r f)"
  by (simp add: emits_def triple_invoke)

lemma emits_call [emits_intros]:
  assumes "emits P m" "\<And>e. emits P (h e)" "\<And>x. emits P (k x)"
  shows "emits P (call m h k)"
  using assms unfolding emits_def by (rule triple_call)

lemma emits_bindE [emits_intros]: "emits P m \<Longrightarrow> (\<And>x. emits P (k x)) \<Longrightarrow> emits P (bindE m k)"
  unfolding bindE_def by (intro emits_call emits_fail)

lemma emits_if [emits_intros]: "(b \<Longrightarrow> emits P m) \<Longrightarrow> (\<not> b \<Longrightarrow> emits P n) \<Longrightarrow> emits P (if b then m else n)"
  by simp

lemma emits_sum [emits_intros]:
  "(\<And>x. emits P (f x)) \<Longrightarrow> (\<And>y. emits P (g y)) \<Longrightarrow> emits P (case s of Inl x \<Rightarrow> f x | Inr y \<Rightarrow> g y)"
  by (simp split: sum.split)

lemma emits_option [emits_intros]:
  "emits P a \<Longrightarrow> (\<And>y. emits P (g y)) \<Longrightarrow> emits P (case s of None \<Rightarrow> a | Some y \<Rightarrow> g y)"
  by (simp split: option.split)

lemma emits_prod [emits_intros]: "(\<And>x y. emits P (f x y)) \<Longrightarrow> emits P (case s of (x, y) \<Rightarrow> f x y)"
  by (simp split: prod.split)

lemma emits_mono: "emits P m \<Longrightarrow> (\<And>r. P r \<Longrightarrow> Q r) \<Longrightarrow> emits Q m"
  unfolding emits_def by (erule triple_mono) auto

text \<open>The requests a run sends.\<close>

definition sent :: "(('e, 'r) world, 'a) io \<Rightarrow> ('e, 'r) world \<Rightarrow> ('e \<times> 'r) list" where
  "sent m w = drop (length (trace w)) (trace (snd (m w)))"

lemma triple_sent: "triple I P m Q \<Longrightarrow> I (env w) \<Longrightarrow> r \<in> set (sent m w) \<Longrightarrow> P r"
  unfolding triple_def sent_def list_all_iff by (metis append_eq_conv_conj)

lemma triple_result: "triple I P m Q \<Longrightarrow> I (env w) \<Longrightarrow> Q (fst (m w)) (env (snd (m w)))"
  unfolding triple_def by blast

lemma emits_sent: "emits P m \<Longrightarrow> r \<in> set (sent m w) \<Longrightarrow> P (snd r)"
  unfolding emits_def by (drule triple_sent) auto

section \<open>Which values a program returns\<close>

text \<open>\<open>returns B m\<close>: every value \<open>m\<close> returns without an error satisfies \<open>B\<close>.\<close>

definition returns :: "('a \<Rightarrow> bool) \<Rightarrow> ('w, 'a) io \<Rightarrow> bool" where
  "returns B m \<longleftrightarrow> (\<forall>w x w'. m w = (Inr x, w') \<longrightarrow> B x)"

named_theorems returns_intros \<open>composition rules for the values a program returns\<close>

lemma returns_ret [returns_intros]: "B x \<Longrightarrow> returns B (ret x)"
  by (simp add: returns_def ret_def)

lemma returns_fail [returns_intros]: "returns B (fail e)"
  by (simp add: returns_def fail_def)

lemma returns_lift: "(\<And>x. r = Inr x \<Longrightarrow> B x) \<Longrightarrow> returns B (lift r)"
  by (simp add: returns_def lift_def)

lemma returns_call: "returns A m \<Longrightarrow> (\<And>e. returns B (h e)) \<Longrightarrow> (\<And>x. A x \<Longrightarrow> returns B (k x)) \<Longrightarrow> returns B (call m h k)"
  by (fastforce simp: returns_def call_def split: prod.splits sum.splits)

lemma returns_any: "returns (\<lambda>_. True) m"
  by (simp add: returns_def)

lemma returns_call_any [returns_intros]:
  "(\<And>e. returns B (h e)) \<Longrightarrow> (\<And>x. returns B (k x)) \<Longrightarrow> returns B (call m h k)"
  by (rule returns_call [OF returns_any])

lemma returns_bindE: "returns A m \<Longrightarrow> (\<And>x. A x \<Longrightarrow> returns B (k x)) \<Longrightarrow> returns B (bindE m k)"
  unfolding bindE_def by (rule returns_call [where A = A]) (auto intro: returns_fail)

lemma returns_bindE_any [returns_intros]: "(\<And>x. returns B (k x)) \<Longrightarrow> returns B (bindE m k)"
  by (rule returns_bindE [OF returns_any])

lemma returns_if [returns_intros]: "(b \<Longrightarrow> returns B m) \<Longrightarrow> (\<not> b \<Longrightarrow> returns B n) \<Longrightarrow> returns B (if b then m else n)"
  by simp

lemma returns_option [returns_intros]:
  "returns B a \<Longrightarrow> (\<And>y. returns B (g y)) \<Longrightarrow> returns B (case s of None \<Rightarrow> a | Some y \<Rightarrow> g y)"
  by (simp split: option.split)

lemma returns_prod [returns_intros]: "(\<And>x y. returns B (f x y)) \<Longrightarrow> returns B (case s of (x, y) \<Rightarrow> f x y)"
  by (simp split: prod.split)

lemma returnsD: "returns B m \<Longrightarrow> m w = (Inr x, w') \<Longrightarrow> B x"
  unfolding returns_def by blast

text \<open>\<open>fails B m\<close>: every error \<open>m\<close> returns satisfies \<open>B\<close>.\<close>

definition fails :: "(goerr \<Rightarrow> bool) \<Rightarrow> ('w, 'a) io \<Rightarrow> bool" where
  "fails B m \<longleftrightarrow> (\<forall>w e w'. m w = (Inl e, w') \<longrightarrow> B e)"

named_theorems fails_intros \<open>composition rules for the errors a program returns\<close>

lemma fails_ret [fails_intros]: "fails B (ret x)"
  by (simp add: fails_def ret_def)

lemma fails_fail [fails_intros]: "B e \<Longrightarrow> fails B (fail e)"
  by (simp add: fails_def fail_def)

lemma fails_lift: "(\<And>e. r = Inl e \<Longrightarrow> B e) \<Longrightarrow> fails B (lift r)"
  by (simp add: fails_def lift_def)

lemma fails_call [fails_intros]: "(\<And>e. fails B (h e)) \<Longrightarrow> (\<And>x. fails B (k x)) \<Longrightarrow> fails B (call m h k)"
  by (fastforce simp: fails_def call_def split: prod.splits sum.splits)

lemma fails_callE:
  "fails A m \<Longrightarrow> (\<And>e. A e \<Longrightarrow> fails B (h e)) \<Longrightarrow> (\<And>x. fails B (k x)) \<Longrightarrow> fails B (call m h k)"
  by (fastforce simp: fails_def call_def split: prod.splits sum.splits)

lemma fails_bindE [fails_intros]: "fails B m \<Longrightarrow> (\<And>x. fails B (k x)) \<Longrightarrow> fails B (bindE m k)"
  unfolding bindE_def by (rule fails_callE [where A = B]) (auto intro: fails_fail)

lemma fails_if [fails_intros]: "(b \<Longrightarrow> fails B m) \<Longrightarrow> (\<not> b \<Longrightarrow> fails B n) \<Longrightarrow> fails B (if b then m else n)"
  by simp

lemma fails_option [fails_intros]:
  "fails B a \<Longrightarrow> (\<And>y. fails B (g y)) \<Longrightarrow> fails B (case s of None \<Rightarrow> a | Some y \<Rightarrow> g y)"
  by (simp split: option.split)

lemma fails_prod [fails_intros]: "(\<And>x y. fails B (f x y)) \<Longrightarrow> fails B (case s of (x, y) \<Rightarrow> f x y)"
  by (simp split: prod.split)

lemma fails_list [fails_intros]:
  "fails B a \<Longrightarrow> (\<And>y ys. fails B (g y ys)) \<Longrightarrow> fails B (case s of [] \<Rightarrow> a | y # ys \<Rightarrow> g y ys)"
  by (simp split: list.split)

lemma failsD: "fails B m \<Longrightarrow> fst (m w) = Inl e \<Longrightarrow> B e"
  unfolding fails_def by (metis prod.collapse)

text \<open>Values known to satisfy \<open>B\<close> may be assumed to do so in the rest of a program.\<close>

lemma triple_callR:
  assumes "returns B m" "triple I P m R"
    and "\<And>e. triple (R (Inl e)) P (h e) Q" "\<And>x. B x \<Longrightarrow> triple (R (Inr x)) P (k x) Q"
  shows "triple I P (call m h k) Q"
proof (rule triple_call [where R = "\<lambda>r e. R r e \<and> (\<forall>x. r = Inr x \<longrightarrow> B x)"])
  show "triple I P m (\<lambda>r e. R r e \<and> (\<forall>x. r = Inr x \<longrightarrow> B x))"
    using assms(1,2) unfolding returns_def triple_def by (metis prod.collapse)
  show "triple (\<lambda>a. R (Inl e) a \<and> (\<forall>x. Inl e = Inr x \<longrightarrow> B x)) P (h e) Q" for e
    by (rule triple_pre [OF assms(3)]) simp
  show "triple (\<lambda>e. R (Inr x) e \<and> (\<forall>xa. Inr x = Inr xa \<longrightarrow> B xa)) P (k x) Q" for x
    by (rule triple_pre [OF triple_const [where b = "B x", OF assms(4)]]) simp_all
qed

lemma triple_bindR:
  assumes "returns B m" "triple I P m R"
    and "\<And>e x. R (Inl e) x \<Longrightarrow> Q (Inl e) x" "\<And>x. B x \<Longrightarrow> triple (R (Inr x)) P (k x) Q"
  shows "triple I P (bindE m k) Q"
  unfolding bindE_def using assms by (intro triple_callR [OF assms(1,2)] triple_fail)

lemma emits_callR:
  assumes "returns B m" "emits P m" "\<And>e. emits P (h e)" "\<And>x. B x \<Longrightarrow> emits P (k x)"
  shows "emits P (call m h k)"
  using assms unfolding emits_def by (rule triple_callR)

lemma emits_bindR:
  assumes "returns B m" "emits P m" "\<And>x. B x \<Longrightarrow> emits P (k x)"
  shows "emits P (bindE m k)"
  unfolding bindE_def using assms by (intro emits_callR [OF assms(1,2)] emits_fail)

section \<open>Loops with effects\<close>

text \<open>A \<^verbatim>\<open>for\<close> loop over a list whose body may end the function: \<open>Inl\<close> continues with the
  next element, \<open>Inr\<close> returns.\<close>

fun for_io :: "'a list \<Rightarrow> 's \<Rightarrow> ('a \<Rightarrow> 's \<Rightarrow> ('w, 's + 'b) io) \<Rightarrow> ('w, 's + 'b) io" where
  "for_io [] s body = ret (Inl s)"
| "for_io (x # xs) s body =
     bindE (body x s) (\<lambda>r. case r of Inl s' \<Rightarrow> for_io xs s' body | Inr y \<Rightarrow> ret (Inr y))"

lemma triple_for_io:
  assumes "\<And>x s. x \<in> set xs \<Longrightarrow> triple I P (body x s) (\<lambda>_. I)"
  shows "triple I P (for_io xs s body) (\<lambda>_. I)"
  using assms
proof (induction xs arbitrary: s)
  case Nil
  show ?case unfolding for_io.simps by (rule triple_ret)
next
  case (Cons x xs)
  have "triple I P (for_io xs s' body) (\<lambda>_. I)" for s' by (rule Cons) (rule Cons(2), simp)
  then show ?case
    unfolding for_io.simps using Cons.prems
    by (intro triple_bindE [where R = "\<lambda>_. I"]) (auto intro: triple_ret split: sum.split)
qed

lemma emits_for_io [emits_intros]:
  assumes "\<And>x s. x \<in> set xs \<Longrightarrow> emits P (body x s)"
  shows "emits P (for_io xs s body)"
  unfolding emits_def
  by (rule triple_for_io) (use assms in \<open>simp add: emits_def\<close>)

end
