(* ===== verification/Volume_ID.thy ===== *)
theory Volume_ID
  imports Go_Effects
begin

text \<open>
  The volume identifier of \<^verbatim>\<open>pkg/utils/volume/volume.go\<close>: the \<^verbatim>\<open>Volume\<close> struct, its textual form
  \<^verbatim>\<open>region/zone/storage/disk\<close>, the disk names Proxmox gives (\<^verbatim>\<open>vm-<vmid>-<name>\<close>, with a
  leading \<^verbatim>\<open><vmid>/\<close> on directory storages), and renaming a disk for another VM.
  The two regular expressions of the package are written as the parsers they denote.
\<close>

section \<open>The interface of a textual identifier\<close>

text \<open>Printing followed by parsing gives back the value; a stricter format also prints back
  to the very text it was parsed from.\<close>

locale printed_id =
  fixes enc :: "'a \<Rightarrow> string" and dec :: "string \<Rightarrow> goerr + 'a" and ok :: "'a \<Rightarrow> bool"
  assumes dec_enc: "ok x \<Longrightarrow> dec (enc x) = Inr x"
begin

lemma enc_injective: "ok x \<Longrightarrow> ok y \<Longrightarrow> enc x = enc y \<Longrightarrow> x = y"
  by (metis dec_enc sum.inject(2))

end

locale canonical_id = printed_id +
  assumes enc_dec: "dec s = Inr x \<Longrightarrow> ok x \<and> enc x = s"
begin

lemma dec_iff: "dec s = Inr x \<longleftrightarrow> ok x \<and> enc x = s"
  using dec_enc enc_dec by blast

lemma dec_injective: "dec s = Inr x \<Longrightarrow> dec t = Inr x \<Longrightarrow> s = t"
  using enc_dec by blast

end

section \<open>The struct and its textual form\<close>

record volume =
  vregion :: string
  vzone :: string
  vnode :: string
  vstorage :: string
  vdisk :: string

text \<open>\<^verbatim>\<open>NewVolume\<close> without a format, and with one (the empty format is no format).\<close>

definition NewVolumeF :: "string \<Rightarrow> string \<Rightarrow> string \<Rightarrow> string \<Rightarrow> string \<Rightarrow> volume" where
  "NewVolumeF region zone storage disk format =
     (let disk' = (if format \<noteq> []
                   then (let parts = SplitN 3 CHR ''-'' disk;
                             d = (if length parts = 3 then parts ! 1 @ ''/'' @ disk else disk)
                         in d @ ''.'' @ format)
                   else disk)
      in \<lparr>vregion = region, vzone = zone, vnode = zone, vstorage = storage, vdisk = disk'\<rparr>)"

definition NewVolume :: "string \<Rightarrow> string \<Rightarrow> string \<Rightarrow> string \<Rightarrow> volume" where
  "NewVolume region zone storage disk = NewVolumeF region zone storage disk []"

definition parseVolumeID :: "string \<Rightarrow> goerr + volume" where
  "parseVolumeID vol =
     (let parts = SplitN 4 CHR ''/'' vol
      in if length parts \<noteq> 4
         then Inl (Plain ''VolumeID must be in the format of region/zone/storageName/diskName'')
         else Inr \<lparr>vregion = parts ! 0, vzone = parts ! 1, vnode = parts ! 1,
                   vstorage = parts ! 2, vdisk = parts ! 3\<rparr>)"

abbreviation NewVolumeFromVolumeID :: "string \<Rightarrow> goerr + volume" where
  "NewVolumeFromVolumeID \<equiv> parseVolumeID"

definition VolumeID :: "volume \<Rightarrow> string" where
  "VolumeID v = vregion v @ ''/'' @ vzone v @ ''/'' @ vstorage v @ ''/'' @ vdisk v"

definition VolumeSharedID :: "volume \<Rightarrow> string" where
  "VolumeSharedID v = vregion v @ ''//'' @ vstorage v @ ''/'' @ vdisk v"

definition VolID :: "volume \<Rightarrow> string" where
  "VolID v = vstorage v @ '':'' @ vdisk v"

section \<open>Disk names\<close>

text \<open>The pattern \<^verbatim>\<open>[1-9][0-9]{2,8}\<close>.\<close>

definition is_vmid :: "string \<Rightarrow> bool" where
  "is_vmid s \<longleftrightarrow> 3 \<le> length s \<and> length s \<le> 9 \<and> list_all is_digit s \<and> hd s \<noteq> CHR ''0''"

text \<open>\<^verbatim>\<open>vmidre\<close>: the leftmost \<^verbatim>\<open>vm-<vmid>\<close> that starts the name or follows a \<^verbatim>\<open>-\<close> or a \<^verbatim>\<open>/\<close>, and
  is followed by a \<^verbatim>\<open>-\<close> or ends the name.  A digit run is matched whole or not at all, since
  neither alternative after it is a digit.\<close>

definition vmidre_at :: "string \<Rightarrow> string option" where
  "vmidre_at s =
     (if HasPrefix s ''vm-''
      then (let ds = takeWhile is_digit (drop 3 s); r = dropWhile is_digit (drop 3 s)
            in if is_vmid ds \<and> (r = [] \<or> hd r = CHR ''-'') then Some ds else None)
      else None)"

fun vmidre_scan :: "string \<Rightarrow> string option" where
  "vmidre_scan [] = None"
| "vmidre_scan (x # xs) =
     (if x = CHR ''-'' \<or> x = CHR ''/''
      then (case vmidre_at xs of Some v \<Rightarrow> Some v | None \<Rightarrow> vmidre_scan xs)
      else vmidre_scan xs)"

definition vmidre :: "string \<Rightarrow> string option" where
  "vmidre s = (case vmidre_at s of Some v \<Rightarrow> Some v | None \<Rightarrow> vmidre_scan s)"

text \<open>\<^verbatim>\<open>diskre\<close>: an optional \<^verbatim>\<open><vmid>/\<close>, then \<^verbatim>\<open>vm-<vmid>-\<close> and a non-empty rest on one line.  The
  result holds the three groups, the first one empty when the directory is absent.\<close>

definition diskre_vm :: "string \<Rightarrow> (string \<times> string) option" where
  "diskre_vm s =
     (if HasPrefix s ''vm-''
      then (case Cut CHR ''-'' (drop 3 s) of
              Some (v, t) \<Rightarrow> if is_vmid v \<and> t \<noteq> [] \<and> CHR 0x0A \<notin> set t then Some (v, t) else None
            | None \<Rightarrow> None)
      else None)"

definition diskre :: "string \<Rightarrow> (string \<times> string \<times> string) option" where
  "diskre s =
     (case Cut CHR ''/'' s of
        Some (d, r) \<Rightarrow>
          (if is_vmid d
           then (case diskre_vm r of Some (v, t) \<Rightarrow> Some (d, v, t) | None \<Rightarrow> None)
           else (case diskre_vm s of Some (v, t) \<Rightarrow> Some ([], v, t) | None \<Rightarrow> None))
      | None \<Rightarrow> (case diskre_vm s of Some (v, t) \<Rightarrow> Some ([], v, t) | None \<Rightarrow> None))"

definition VMID :: "volume \<Rightarrow> string" where
  "VMID v = (case vmidre (vdisk v) of None \<Rightarrow> [] | Some m \<Rightarrow> m)"

definition DiskName :: "volume \<Rightarrow> string" where
  "DiskName v = (case CutLast CHR ''/'' (vdisk v) of Some (_, n) \<Rightarrow> n | None \<Rightarrow> vdisk v)"

definition DiskSuffix :: "volume \<Rightarrow> string" where
  "DiskSuffix v = (case diskre (vdisk v) of None \<Rightarrow> [] | Some (_, _, t) \<Rightarrow> t)"

definition WithVMID :: "volume \<Rightarrow> int \<Rightarrow> volume option" where
  "WithVMID v vmid =
     (case diskre (vdisk v) of
        None \<Rightarrow> None
      | Some (d, _, t) \<Rightarrow>
          (let disk = ''vm-'' @ Itoa vmid @ ''-'' @ t
           in Some (v\<lparr>vdisk := (if d \<noteq> [] then Itoa vmid @ ''/'' @ disk else disk)\<rparr>)))"

definition CopyVolume :: "volume \<Rightarrow> string \<Rightarrow> volume" where
  "CopyVolume v name =
     v\<lparr>vdisk := (case CutLast CHR ''.'' (vdisk v) of
                    Some (_, ext) \<Rightarrow> VMID v @ ''/'' @ name @ ''.'' @ ext
                  | None \<Rightarrow> name)\<rparr>"

definition PV :: "volume \<Rightarrow> string" where
  "PV v = (let parts = SplitN 3 CHR ''-'' (vdisk v)
           in if length parts \<noteq> 3 then [] else SplitN 2 CHR ''.'' (parts ! 2) ! 0)"

section \<open>Setters\<close>

definition SetZone :: "string \<Rightarrow> volume \<Rightarrow> volume" where
  "SetZone z v = (let v1 = (if vnode v = vzone v \<or> vnode v = [] then v\<lparr>vnode := z\<rparr> else v)
                  in v1\<lparr>vzone := z\<rparr>)"

definition SetNode :: "string \<Rightarrow> volume \<Rightarrow> volume" where
  "SetNode n v = v\<lparr>vnode := n\<rparr>"

definition SetStorage :: "string \<Rightarrow> volume \<Rightarrow> volume" where
  "SetStorage s v = v\<lparr>vstorage := s\<rparr>"

definition SetDisk :: "string \<Rightarrow> volume \<Rightarrow> volume" where
  "SetDisk d v = v\<lparr>vdisk := d\<rparr>"

lemmas volume_setters [simp] = SetNode_def SetStorage_def SetDisk_def

lemma NewVolume_sel [simp]:
  "vregion (NewVolume r z s d) = r" "vzone (NewVolume r z s d) = z" "vnode (NewVolume r z s d) = z"
  "vstorage (NewVolume r z s d) = s" "vdisk (NewVolume r z s d) = d"
  by (simp_all add: NewVolume_def NewVolumeF_def)

lemma NewVolumeF_sel [simp]:
  "vregion (NewVolumeF r z s d f) = r" "vzone (NewVolumeF r z s d f) = z"
  "vnode (NewVolumeF r z s d f) = z" "vstorage (NewVolumeF r z s d f) = s"
  by (simp_all add: NewVolumeF_def Let_def)

section \<open>Parsing and printing\<close>

text \<open>The identifiers a parse can produce: no slash before the disk, and node equal to zone.\<close>

definition wf_volume :: "volume \<Rightarrow> bool" where
  "wf_volume v \<longleftrightarrow> CHR ''/'' \<notin> set (vregion v) \<and> CHR ''/'' \<notin> set (vzone v)
     \<and> CHR ''/'' \<notin> set (vstorage v) \<and> vnode v = vzone v"

lemma SplitN_4:
  "c \<notin> set a \<Longrightarrow> c \<notin> set b \<Longrightarrow> c \<notin> set d \<Longrightarrow> SplitN 4 c (a @ c # b @ c # d @ c # e) = [a, b, d, e]"
  by (simp add: eval_nat_numeral)

lemma SplitN_4_length:
  assumes "length (SplitN 4 c s) = 4"
  obtains a b d e where "s = a @ c # b @ c # d @ c # e" "c \<notin> set a" "c \<notin> set b" "c \<notin> set d"
proof -
  from assms obtain a r where 1: "Cut c s = Some (a, r)" "length (SplitN 3 c r) = 3"
    by (auto simp: eval_nat_numeral split: option.splits)
  from 1(2) obtain b r2 where 2: "Cut c r = Some (b, r2)" "length (SplitN 2 c r2) = 2"
    by (auto simp: eval_nat_numeral split: option.splits)
  from 2(2) obtain d e where 3: "Cut c r2 = Some (d, e)"
    by (auto simp: eval_nat_numeral split: option.splits)
  show ?thesis using that [of a b d e] 1(1) 2(1) 3 by (auto simp: Cut_Some)
qed

interpretation vid: canonical_id VolumeID parseVolumeID wf_volume
proof
  fix v assume "wf_volume v"
  then have s: "SplitN 4 CHR ''/'' (VolumeID v) = [vregion v, vzone v, vstorage v, vdisk v]"
    by (simp add: VolumeID_def wf_volume_def SplitN_4)
  show "parseVolumeID (VolumeID v) = Inr v"
    using \<open>wf_volume v\<close> unfolding parseVolumeID_def s by (simp add: wf_volume_def)
next
  fix s v assume p: "parseVolumeID s = Inr v"
  then have l: "length (SplitN 4 CHR ''/'' s) = 4"
    by (auto simp: parseVolumeID_def Let_def split: if_splits)
  then obtain a b d e where s: "s = a @ CHR ''/'' # b @ CHR ''/'' # d @ CHR ''/'' # e"
    and f: "CHR ''/'' \<notin> set a" "CHR ''/'' \<notin> set b" "CHR ''/'' \<notin> set d"
    by (rule SplitN_4_length)
  have "v = \<lparr>vregion = a, vzone = b, vnode = b, vstorage = d, vdisk = e\<rparr>"
    using p unfolding parseVolumeID_def s SplitN_4 [OF f] by simp
  then show "wf_volume v \<and> VolumeID v = s"
    using f s by (simp add: wf_volume_def VolumeID_def)
qed

lemma VolumeSharedID_eq: "VolumeSharedID v = VolumeID (v\<lparr>vzone := []\<rparr>)"
  by (simp add: VolumeSharedID_def VolumeID_def)

section \<open>The shape of disk names\<close>

lemma is_vmid_facts:
  "is_vmid s \<Longrightarrow> s \<noteq> []" "is_vmid s \<Longrightarrow> CHR ''/'' \<notin> set s" "is_vmid s \<Longrightarrow> CHR ''-'' \<notin> set s"
  by (auto simp: is_vmid_def list_all_iff is_digit_def)

lemma is_vmid_Itoa: "100 \<le> n \<Longrightarrow> n \<le> 999999999 \<Longrightarrow> is_vmid (Itoa n)"
  using dec_nat_length [of 9 "nat n"] dec_nat_length_ge [of 2 "nat n"] dec_nat_hd_nonzero [of "nat n"]
  by (simp add: is_vmid_def Itoa_def dec_nat_digits)

lemma is_vmid_not_vm: "\<not> is_vmid (CHR ''v'' # s)"
  by (simp add: is_vmid_def is_digit_def)

text \<open>The names \<^verbatim>\<open>vm-<v>-<t>\<close> and \<^verbatim>\<open><d>/vm-<v>-<t>\<close>.\<close>

definition disk_of :: "string \<Rightarrow> string \<Rightarrow> string \<Rightarrow> string" where
  "disk_of d v t = (if d = [] then ''vm-'' @ v @ ''-'' @ t else d @ ''/vm-'' @ v @ ''-'' @ t)"

definition disk_parts :: "string \<Rightarrow> string \<Rightarrow> string \<Rightarrow> bool" where
  "disk_parts d v t \<longleftrightarrow> (d = [] \<or> is_vmid d) \<and> is_vmid v \<and> t \<noteq> [] \<and> CHR 0x0A \<notin> set t"

lemma diskre_vm_iff:
  "diskre_vm s = Some (v, t) \<longleftrightarrow> s = ''vm-'' @ v @ ''-'' @ t \<and> is_vmid v \<and> t \<noteq> [] \<and> CHR 0x0A \<notin> set t"
proof
  assume "diskre_vm s = Some (v, t)"
  then obtain r where "s = ''vm-'' @ r" "Cut CHR ''-'' r = Some (v, t)" "is_vmid v" "t \<noteq> []"
    "CHR 0x0A \<notin> set t"
    by (auto simp: diskre_vm_def HasPrefix_iff split: if_splits option.splits)
  then show "s = ''vm-'' @ v @ ''-'' @ t \<and> is_vmid v \<and> t \<noteq> [] \<and> CHR 0x0A \<notin> set t"
    by (auto simp: Cut_Some)
next
  assume a: "s = ''vm-'' @ v @ ''-'' @ t \<and> is_vmid v \<and> t \<noteq> [] \<and> CHR 0x0A \<notin> set t"
  then have "Cut CHR ''-'' (drop 3 s) = Some (v, t)"
    by (simp add: is_vmid_facts)
  then show "diskre_vm s = Some (v, t)"
    using a by (simp add: diskre_vm_def HasPrefix_def)
qed

lemma diskre_vm_None_dir: "is_vmid d \<Longrightarrow> diskre_vm (d @ r) = None"
proof -
  assume "is_vmid d"
  then obtain c cs where "d = c # cs" "is_digit c"
    by (cases d) (auto simp: is_vmid_def)
  then show ?thesis by (auto simp: diskre_vm_def HasPrefix_def is_digit_def)
qed

lemma diskre_iff: "diskre s = Some (d, v, t) \<longleftrightarrow> s = disk_of d v t \<and> disk_parts d v t"
proof
  assume "diskre s = Some (d, v, t)"
  then consider "d = []" "diskre_vm s = Some (v, t)"
    | r where "is_vmid d" "s = d @ CHR ''/'' # r" "diskre_vm r = Some (v, t)"
    by (auto simp: diskre_def Cut_Some split: option.splits if_splits)
  then show "s = disk_of d v t \<and> disk_parts d v t"
    by cases (auto simp: diskre_vm_iff disk_of_def disk_parts_def dest: is_vmid_facts)
next
  assume a: "s = disk_of d v t \<and> disk_parts d v t"
  show "diskre s = Some (d, v, t)"
  proof (cases "d = []")
    case True
    then have m: "diskre_vm s = Some (v, t)"
      using a by (simp add: diskre_vm_iff disk_of_def disk_parts_def)
    have "\<not> is_vmid x" if "Cut CHR ''/'' s = Some (x, y)" for x y
    proof -
      have "s = x @ CHR ''/'' # y" using that by (simp add: Cut_Some)
      then show ?thesis using m diskre_vm_None_dir [of x "CHR ''/'' # y"] by auto
    qed
    then show ?thesis using m True by (auto simp: diskre_def split: option.splits)
  next
    case False
    then have d: "is_vmid d" using a by (simp add: disk_parts_def)
    have "s = d @ CHR ''/'' # (''vm-'' @ v @ ''-'' @ t)"
      using a False by (simp add: disk_of_def)
    then have "Cut CHR ''/'' s = Some (d, ''vm-'' @ v @ ''-'' @ t)"
      using d by (simp only: Cut_append is_vmid_facts not_False_eq_True)
    moreover have "diskre_vm (''vm-'' @ v @ ''-'' @ t) = Some (v, t)"
      using a by (subst diskre_vm_iff) (simp add: disk_parts_def)
    ultimately show ?thesis using d by (simp add: diskre_def)
  qed
qed

lemma takeWhile_digits: "is_vmid v \<Longrightarrow> takeWhile is_digit (v @ CHR ''-'' # t) = v"
  "is_vmid v \<Longrightarrow> dropWhile is_digit (v @ CHR ''-'' # t) = CHR ''-'' # t"
proof -
  have n: "\<not> is_digit CHR ''-''" by (simp add: is_digit_def)
  assume "is_vmid v"
  then have a: "\<And>x. x \<in> set v \<Longrightarrow> is_digit x" by (simp add: is_vmid_def list_all_iff)
  show "takeWhile is_digit (v @ CHR ''-'' # t) = v"
    using a n by (simp add: takeWhile_append2)
  show "dropWhile is_digit (v @ CHR ''-'' # t) = CHR ''-'' # t"
    using a n by (simp add: dropWhile_append2)
qed

lemma vmidre_at_vm: "is_vmid v \<Longrightarrow> vmidre_at (''vm-'' @ v @ ''-'' @ t) = Some v"
  by (simp add: vmidre_at_def HasPrefix_def takeWhile_digits)

lemma vmidre_scan_digits:
  "list_all is_digit d \<Longrightarrow> is_vmid v \<Longrightarrow> vmidre_scan (d @ CHR ''/'' # ''vm-'' @ v @ ''-'' @ t) = Some v"
proof (induction d)
  case Nil
  then show ?case using vmidre_at_vm [of v t] by simp
next
  case (Cons x d)
  then have "x \<noteq> CHR ''-'' \<and> x \<noteq> CHR ''/''" by (auto simp: is_digit_def)
  then show ?case using Cons by simp
qed

lemma vmidre_disk_of: "disk_parts d v t \<Longrightarrow> vmidre (disk_of d v t) = Some v"
proof (cases "d = []")
  case True
  assume "disk_parts d v t"
  then show ?thesis using True vmidre_at_vm [of v t]
    by (simp add: vmidre_def disk_of_def disk_parts_def)
next
  case False
  assume "disk_parts d v t"
  then have d: "is_vmid d" and v: "is_vmid v" using False by (auto simp: disk_parts_def)
  obtain c cs where c: "d = c # cs" "is_digit c" using d by (cases d) (auto simp: is_vmid_def)
  then have "vmidre_at (disk_of d v t) = None"
    by (auto simp: vmidre_at_def HasPrefix_def disk_of_def is_digit_def)
  moreover have "vmidre_scan (disk_of d v t) = Some v"
    using vmidre_scan_digits [of d v t] d v False by (simp add: disk_of_def is_vmid_def)
  ultimately show ?thesis by (simp add: vmidre_def)
qed

lemma DiskSuffix_iff: "DiskSuffix v = t \<and> t \<noteq> [] \<longleftrightarrow> (\<exists>d i. vdisk v = disk_of d i t \<and> disk_parts d i t)"
proof
  assume "DiskSuffix v = t \<and> t \<noteq> []"
  then show "\<exists>d i. vdisk v = disk_of d i t \<and> disk_parts d i t"
    by (auto simp: DiskSuffix_def diskre_iff split: option.splits prod.splits)
next
  assume "\<exists>d i. vdisk v = disk_of d i t \<and> disk_parts d i t"
  then obtain d i where "vdisk v = disk_of d i t" "disk_parts d i t" by blast
  then have "diskre (vdisk v) = Some (d, i, t)" by (simp add: diskre_iff)
  then show "DiskSuffix v = t \<and> t \<noteq> []"
    using \<open>disk_parts d i t\<close> by (simp add: DiskSuffix_def disk_parts_def)
qed

section \<open>Renaming a disk for another VM\<close>

text \<open>The directory part a rename writes: none, or the VM's own.\<close>

definition dir_for :: "string \<Rightarrow> int \<Rightarrow> string" where
  "dir_for d n = (if d = [] then [] else Itoa n)"

lemma WithVMID_eq:
  "WithVMID v n = (case diskre (vdisk v) of None \<Rightarrow> None
     | Some (d, i, t) \<Rightarrow> Some (v\<lparr>vdisk := disk_of (dir_for d n) (Itoa n) t\<rparr>))"
  by (auto simp: WithVMID_def disk_of_def dir_for_def Let_def split: option.split)

lemma disk_parts_for:
  "disk_parts d i t \<Longrightarrow> 100 \<le> n \<Longrightarrow> n \<le> 999999999 \<Longrightarrow> disk_parts (dir_for d n) (Itoa n) t"
  by (auto simp: disk_parts_def dir_for_def is_vmid_Itoa)

lemma WithVMID_None: "WithVMID v n = None \<longleftrightarrow> DiskSuffix v = []"
proof -
  have "t \<noteq> []" if "diskre (vdisk v) = Some (d, i, t)" for d i t
    using that by (simp add: diskre_iff disk_parts_def)
  then show ?thesis by (auto simp: WithVMID_eq DiskSuffix_def split: option.splits prod.splits)
qed

lemma WithVMID_parts:
  assumes "WithVMID v n = Some v'" "100 \<le> n" "n \<le> 999999999"
  obtains d i t where "vdisk v = disk_of d i t" "disk_parts d i t"
    "v' = v\<lparr>vdisk := disk_of (dir_for d n) (Itoa n) t\<rparr>" "disk_parts (dir_for d n) (Itoa n) t"
  using assms that
  by (auto simp: WithVMID_eq diskre_iff disk_parts_for split: option.splits prod.splits)

lemma WithVMID_suffix:
  assumes "WithVMID v n = Some v'" "100 \<le> n" "n \<le> 999999999"
  shows "DiskSuffix v' = DiskSuffix v" "VMID v' = Itoa n" "v'\<lparr>vdisk := vdisk v\<rparr> = v"
proof -
  obtain d i t where p: "vdisk v = disk_of d i t" "disk_parts d i t"
    "v' = v\<lparr>vdisk := disk_of (dir_for d n) (Itoa n) t\<rparr>" "disk_parts (dir_for d n) (Itoa n) t"
    using WithVMID_parts [OF assms] by blast
  have "diskre (vdisk v) = Some (d, i, t)" "diskre (vdisk v') = Some (dir_for d n, Itoa n, t)"
    using p by (simp_all add: diskre_iff)
  then show "DiskSuffix v' = DiskSuffix v" by (simp add: DiskSuffix_def)
  show "VMID v' = Itoa n" using p vmidre_disk_of [OF p(4)] by (simp add: VMID_def)
  show "v'\<lparr>vdisk := vdisk v\<rparr> = v" using p by simp
qed

lemma WithVMID_again:
  assumes "WithVMID v n = Some v'" "100 \<le> n" "n \<le> 999999999"
  shows "WithVMID v' m = WithVMID v m"
proof -
  obtain d i t where p: "vdisk v = disk_of d i t" "disk_parts d i t"
    "v' = v\<lparr>vdisk := disk_of (dir_for d n) (Itoa n) t\<rparr>" "disk_parts (dir_for d n) (Itoa n) t"
    using WithVMID_parts [OF assms] by blast
  have "diskre (vdisk v) = Some (d, i, t)" "diskre (vdisk v') = Some (dir_for d n, Itoa n, t)"
    using p by (simp_all add: diskre_iff)
  moreover have "dir_for (dir_for d n) m = dir_for d m" by (simp add: dir_for_def)
  ultimately show ?thesis using p(3) by (simp add: WithVMID_eq)
qed

lemma WithVMID_same:
  assumes "vdisk v = disk_of d (Itoa n) t" "disk_parts d (Itoa n) t" "d = [] \<or> d = Itoa n"
  shows "WithVMID v n = Some v"
proof -
  have "diskre (vdisk v) = Some (d, Itoa n, t)" using assms by (simp add: diskre_iff)
  moreover have "dir_for d n = d" using assms(3) by (auto simp: dir_for_def)
  ultimately show ?thesis using assms(1) by (simp add: WithVMID_eq)
qed

section \<open>The names a new volume gets\<close>

text \<open>\<^verbatim>\<open>fmt.Sprintf("vm-%d-%s", id, name)\<close>, the disk name every component builds.\<close>

definition vm_disk :: "int \<Rightarrow> string \<Rightarrow> string" where
  "vm_disk n name = ''vm-'' @ Itoa n @ ''-'' @ name"

lemma NewVolumeF_disk:
  assumes "0 \<le> n"
  shows "vdisk (NewVolumeF r z s (vm_disk n pvc) f)
           = (if f = [] then disk_of [] (Itoa n) pvc else disk_of (Itoa n) (Itoa n) (pvc @ ''.'' @ f))"
proof -
  have "SplitN 3 CHR ''-'' (vm_disk n pvc) = [''vm'', Itoa n, pvc]"
    using assms by (simp add: eval_nat_numeral vm_disk_def)
  then show ?thesis by (simp add: NewVolumeF_def disk_of_def vm_disk_def)
qed

lemma NewVolumeF_parts:
  assumes "100 \<le> n" "n \<le> 999999999" "pvc \<noteq> []" "CHR 0x0A \<notin> set pvc" "CHR 0x0A \<notin> set f"
    and v_def: "v = NewVolumeF r z s (vm_disk n pvc) f"
  shows "VMID v = Itoa n" "DiskSuffix v = pvc @ (if f = [] then [] else ''.'' @ f)"
    "WithVMID v n = Some v"
proof -
  define d where "d = (if f = [] then [] else Itoa n)"
  define t where "t = pvc @ (if f = [] then [] else ''.'' @ f)"
  have k: "vdisk v = disk_of d (Itoa n) t"
    using assms(1) by (simp add: v_def NewVolumeF_disk d_def t_def)
  have q: "disk_parts d (Itoa n) t"
    using assms(1-5) by (auto simp: disk_parts_def is_vmid_Itoa d_def t_def)
  show "VMID v = Itoa n" using vmidre_disk_of [OF q] by (simp add: VMID_def k)
  have "diskre (vdisk v) = Some (d, Itoa n, t)" using k q by (simp add: diskre_iff)
  then show "DiskSuffix v = pvc @ (if f = [] then [] else ''.'' @ f)"
    by (simp add: DiskSuffix_def t_def)
  show "WithVMID v n = Some v"
    by (rule WithVMID_same [OF k q]) (simp add: d_def)
qed

lemma SplitN_3_disk_of:
  assumes "CHR ''-'' \<notin> set d" "CHR ''-'' \<notin> set v"
  shows "SplitN 3 CHR ''-'' (disk_of d v t) = [(if d = [] then [] else d @ ''/'') @ ''vm'', v, t]"
proof -
  define a where "a = (if d = [] then [] else d @ ''/'') @ ''vm''"
  have "disk_of d v t = a @ CHR ''-'' # v @ CHR ''-'' # t" by (simp add: disk_of_def a_def)
  moreover have "CHR ''-'' \<notin> set a" using assms by (simp add: a_def)
  ultimately have "SplitN 3 CHR ''-'' (disk_of d v t) = [a, v, t]"
    using assms(2) by (simp add: eval_nat_numeral)
  then show ?thesis by (simp add: a_def)
qed

lemma NewVolumeF_PV:
  assumes "0 \<le> n" "CHR ''.'' \<notin> set pvc"
  shows "PV (NewVolumeF r z s (vm_disk n pvc) f) = pvc"
proof -
  have "SplitN 2 CHR ''.'' (pvc @ ''.'' @ f) = [pvc, f]" "SplitN 2 CHR ''.'' pvc = [pvc]"
    using assms(2) by (simp_all add: eval_nat_numeral)
  then show ?thesis
    using assms(1) by (simp add: PV_def NewVolumeF_disk SplitN_3_disk_of)
qed

section \<open>Properties\<close>

text \<open>C23: A text parses as a volume id exactly when it is the printed form of a well-formed volume,
  so printing and parsing are inverse to each other on volume ids.\<close>

theorem volume_id_roundtrip: "NewVolumeFromVolumeID s = Inr v \<longleftrightarrow> wf_volume v \<and> VolumeID v = s"
  by (rule vid.dec_iff)

text \<open>Renaming a disk for a VM.  A name without the shape of a VM disk is refused; otherwise the
  renamed volume has the same suffix, belongs to the new VM, differs in nothing but the disk name,
  and forgets the VM it was renamed from.\<close>

theorem WithVMID_rename:
  assumes "100 \<le> n" "n \<le> 999999999"
  shows "case WithVMID v n of
           None \<Rightarrow> DiskSuffix v = []
         | Some v' \<Rightarrow> DiskSuffix v \<noteq> [] \<and> DiskSuffix v' = DiskSuffix v \<and> VMID v' = Itoa n \<and>
             v'\<lparr>vdisk := vdisk v\<rparr> = v \<and> WithVMID v' m = WithVMID v m"
proof (cases "WithVMID v n")
  case None
  then show ?thesis using WithVMID_None [of v n] by simp
next
  case (Some v')
  moreover have "DiskSuffix v \<noteq> []" using Some WithVMID_None [of v n] by auto
  ultimately show ?thesis
    using WithVMID_suffix [OF Some assms] WithVMID_again [OF Some assms] by simp
qed

theorem WithVMID_rename_witness:
  "(case WithVMID (NewVolume ''r'' ''z'' ''local'' ''9999/vm-9999-pvc-1.raw'') 101 of
      None \<Rightarrow> False | Some v' \<Rightarrow> vdisk v' = ''101/vm-101-pvc-1.raw'' \<and> VMID v' = Itoa 101)"
proof -
  have "map_option vdisk (WithVMID (NewVolume ''r'' ''z'' ''local'' ''9999/vm-9999-pvc-1.raw'') 101)
          = Some ''101/vm-101-pvc-1.raw''"
    by code_simp
  then show ?thesis
    using WithVMID_rename [of 101 "NewVolume ''r'' ''z'' ''local'' ''9999/vm-9999-pvc-1.raw''" 9999]
    by (auto split: option.splits)
qed

text \<open>C24: A volume created for the placeholder VM \<open>n\<close> can be recognised and given back.  Its name
  carries the placeholder id and the claim name; after it was renamed for another VM, renaming it
  for the placeholder restores the very volume, so the volume id stored in Kubernetes is valid
  again after a detach.\<close>

theorem new_volume_attach_detach:
  assumes "100 \<le> n" "n \<le> 999999999" "100 \<le> m" "m \<le> 999999999"
    and "pvc \<noteq> []" "CHR ''.'' \<notin> set pvc" "CHR 0x0A \<notin> set pvc" "CHR 0x0A \<notin> set f"
    and v: "v = NewVolumeF r z s (vm_disk n pvc) f"
  shows "VMID v = Itoa n \<and> PV v = pvc \<and>
         (\<exists>v'. WithVMID v m = Some v' \<and> VMID v' = Itoa m \<and> WithVMID v' n = Some v)"
proof -
  note p = NewVolumeF_parts [OF assms(1,2,5,7,8) v]
  have "DiskSuffix v \<noteq> []" using p(2) assms(5) by simp
  then obtain v' where v': "WithVMID v m = Some v'" using WithVMID_None [of v m] by auto
  have "VMID v' = Itoa m" "WithVMID v' n = Some v"
    using WithVMID_suffix(2) [OF v' assms(3,4)] WithVMID_again [OF v' assms(3,4)] p(3) by simp_all
  then show ?thesis using p(1) v' NewVolumeF_PV [of n pvc] assms(1,6) v by simp
qed

theorem new_volume_attach_detach_witness:
  "\<exists>v'. WithVMID (NewVolumeF ''r'' ''z'' ''nfs'' (vm_disk 9999 ''pvc-1'') ''raw'') 101 = Some v' \<and>
     VMID v' = Itoa 101 \<and>
     WithVMID v' 9999 = Some (NewVolumeF ''r'' ''z'' ''nfs'' (vm_disk 9999 ''pvc-1'') ''raw'')"
  using new_volume_attach_detach [of 9999 101 "''pvc-1''" "''raw''" _ "''r''" "''z''" "''nfs''", OF _ _ _ _ _ _ _ _ refl]
  by simp

end
