(* ===== verification/Node_ID.thy ===== *)
theory Node_ID
  imports Volume_ID
begin

text \<open>
  How a Kubernetes node is tied to a Proxmox VM: the provider id of
  \<^verbatim>\<open>pkg/utils/provider/provider.go\<close>, the CSI node id of \<^verbatim>\<open>pkg/utils/node/node.go\<close> with the SMBIOS
  serial it can be read from (\<^verbatim>\<open>smbios.go\<close>), and \<^verbatim>\<open>ProxmoxVMIDbyNode\<close> of \<^verbatim>\<open>pkg/csi/helper.go\<close>.
\<close>

section \<open>Provider ids\<close>

definition ProviderName :: string where
  "ProviderName = ''proxmox''"

definition GetProviderID :: "string \<Rightarrow> int \<Rightarrow> string" where
  "GetProviderID region vmid = ProviderName @ ''://'' @ region @ ''/'' @ Itoa vmid"

definition GetProviderIDFromUUID :: "string \<Rightarrow> string" where
  "GetProviderIDFromUUID uuid = ProviderName @ ''://'' @ uuid"

text \<open>The groups of \<^verbatim>\<open>^proxmox://([^/]*)/([^/]+)$\<close>.\<close>

definition providerIDRegexp :: "string \<Rightarrow> (string \<times> string) option" where
  "providerIDRegexp s =
     (if HasPrefix s (ProviderName @ ''://'')
      then (case Cut CHR ''/'' (drop 10 s) of
              Some (r, i) \<Rightarrow> if i \<noteq> [] \<and> CHR ''/'' \<notin> set i then Some (r, i) else None
            | None \<Rightarrow> None)
      else None)"

definition ParseProviderID :: "string \<Rightarrow> goerr + int \<times> string" where
  "ParseProviderID p =
     (if \<not> HasPrefix p ProviderName then Inl (Plain (''foreign providerID or empty '' @ p))
      else case providerIDRegexp p of
             None \<Rightarrow> Inl (Plain (''providerID '' @ p @ '' didn't match expected format''))
           | Some (r, i) \<Rightarrow>
               (case Atoi i of
                  None \<Rightarrow> Inl (Plain (''InstanceID have to be a number, but got '' @ i))
                | Some n \<Rightarrow> Inr (n, r)))"

definition GetVMID :: "string \<Rightarrow> goerr + int" where
  "GetVMID p =
     (if \<not> HasPrefix p ProviderName then Inl (Plain (''foreign providerID or empty '' @ p))
      else case providerIDRegexp p of
             None \<Rightarrow> Inl (Plain (''providerID '' @ p @ '' didn't match expected format''))
           | Some (r, i) \<Rightarrow>
               (case Atoi i of
                  None \<Rightarrow> Inl (Plain (''InstanceID have to be a number, but got '' @ i))
                | Some n \<Rightarrow> Inr n))"

section \<open>Node ids\<close>

record node_id =
  nid_id :: int
  nid_node :: string

definition nodeIDFormat :: goerr where
  "nodeIDFormat = Plain ''NodeID must be in format <nodeName>/<vmID> or <nodeName>''"

definition ParseNodeID :: "string \<Rightarrow> goerr + node_id" where
  "ParseNodeID nodeID =
     (if nodeID = [] then Inl nodeIDFormat
      else let parts = SplitN 2 CHR ''/'' nodeID
           in if parts ! 0 = [] then Inl nodeIDFormat
              else if length parts = 2
                   then (case Atoi (parts ! 1) of
                           None \<Rightarrow> Inl nodeIDFormat
                         | Some n \<Rightarrow> Inr \<lparr>nid_id = n, nid_node = parts ! 0\<rparr>)
                   else Inr \<lparr>nid_id = 0, nid_node = parts ! 0\<rparr>)"

definition NodeGetVMID :: "node_id \<Rightarrow> goerr + int" where
  "NodeGetVMID n = (if nid_id n \<noteq> 0 then Inr (nid_id n) else Inl (Plain ''NodeID does not have VM ID''))"

definition NodeString :: "node_id \<Rightarrow> string" where
  "NodeString n = (if nid_id n \<noteq> 0 then nid_node n @ ''/'' @ Itoa (nid_id n) else nid_node n)"

text \<open>\<^verbatim>\<open>smbios.Structure\<close> of the library, reduced to the fields read, with the decoded table or the
  error of opening it as the outcome of the library call.\<close>

record smbios_structure =
  sm_type :: nat
  sm_formatted :: "nat list"
  sm_strings :: "string list"

text \<open>\<^verbatim>\<open>strings.ToLower\<close> on one-byte letters.\<close>

definition ToLower :: "string \<Rightarrow> string" where
  "ToLower s = map (\<lambda>c. let n = (of_char c :: nat) in if 65 \<le> n \<and> n \<le> 90 then char_of (n + 32) else c) s"

definition getByte :: "smbios_structure \<Rightarrow> nat \<Rightarrow> nat" where
  "getByte s offset = (let index = offset - 4
                       in if index \<ge> length (sm_formatted s) then 0 else sm_formatted s ! index)"

definition getStringOrEmpty :: "smbios_structure \<Rightarrow> nat \<Rightarrow> string" where
  "getStringOrEmpty s offset =
     (let index = getByte s offset
      in if index = 0 \<or> index > length (sm_strings s) then []
         else let trimmed = ToLower (TrimSpace (sm_strings s ! (index - 1)))
              in if trimmed \<in> set [''to be filled by o.e.m.'', ''default string'', ''system product name'',
                                  ''system serial number'', ''not specified''] then [] else trimmed)"

record system_information =
  si_manufacturer :: string
  si_productName :: string
  si_version :: string
  si_serialNumber :: string
  si_skuNumber :: string
  si_family :: string

definition noSystem :: system_information where
  "noSystem = \<lparr>si_manufacturer = [], si_productName = [], si_version = [], si_serialNumber = [],
               si_skuNumber = [], si_family = []\<rparr>"

fun firstSystem :: "smbios_structure list \<Rightarrow> system_information" where
  "firstSystem [] = noSystem"
| "firstSystem (s # ss) =
     (if sm_type s = 1
      then \<lparr>si_manufacturer = getStringOrEmpty s 0x04, si_productName = getStringOrEmpty s 0x05,
            si_version = getStringOrEmpty s 0x06, si_serialNumber = getStringOrEmpty s 0x07,
            si_skuNumber = getStringOrEmpty s 0x19, si_family = getStringOrEmpty s 0x1A\<rparr>
      else firstSystem ss)"

text \<open>The argument is what the library returns: the error of opening the table, the error of decoding
  it, or its structures.\<close>

type_synonym smbios_outcome = "goerr + goerr + smbios_structure list"

definition GetSMBIOSInfo :: "smbios_outcome \<Rightarrow> goerr + system_information" where
  "GetSMBIOSInfo stream =
     (case stream of
        Inl e \<Rightarrow> Inl (Plain (''failed to access smbios: '' @ Error e))
      | Inr (Inl e) \<Rightarrow> Inl (Plain (''failed to decode smbios: '' @ Error e))
      | Inr (Inr ss) \<Rightarrow> Inr (firstSystem ss))"

text \<open>The loop over the \<^verbatim>\<open>;\<close>-separated options: \<open>None\<close> when an \<^verbatim>\<open>i=\<close> option is not a number.\<close>

fun serialVMID :: "string list \<Rightarrow> int \<Rightarrow> int option" where
  "serialVMID [] vmID = Some vmID"
| "serialVMID (opt # opts) vmID =
     (let parts = SplitN 2 CHR ''='' opt
      in if length parts = 2 \<and> parts ! 0 = ''i''
         then (case Atoi (parts ! 1) of None \<Rightarrow> None | Some n \<Rightarrow> serialVMID opts n)
         else serialVMID opts vmID)"

definition GetNodeID :: "smbios_outcome \<Rightarrow> string \<Rightarrow> goerr + node_id" where
  "GetNodeID stream nodeName =
     (case GetSMBIOSInfo stream of
        Inl e \<Rightarrow> ParseNodeID nodeName
      | Inr info \<Rightarrow> let serial = si_serialNumber info in
          (case (if serial \<noteq> [] then serialVMID (Split CHR '';'' serial) 0 else Some 0) of
             None \<Rightarrow> ParseNodeID nodeName
           | Some vmID \<Rightarrow> Inr \<lparr>nid_id = vmID, nid_node = nodeName\<rparr>))"

section \<open>The VM of a Kubernetes node\<close>

record k8s_node =
  kn_name :: string
  kn_providerID :: string
  kn_annotations :: gomap
  kn_labels :: gomap
  kn_systemUUID :: string

definition Group :: string where
  "Group = ''proxmox.crunchymonkies.com''"

definition GroupLegacy :: string where
  "GroupLegacy = ''proxmox.sinextra.dev''"

definition AnnotationProxmoxInstanceID :: string where
  "AnnotationProxmoxInstanceID = Group @ ''/instance-id''"

definition AnnotationProxmoxInstanceIDLegacy :: string where
  "AnnotationProxmoxInstanceIDLegacy = GroupLegacy @ ''/instance-id''"

definition ProxmoxVMIDbyNode :: "k8s_node \<Rightarrow> goerr + int" where
  "ProxmoxVMIDbyNode node =
     (case GetVMID (kn_providerID node) of
        Inr n \<Rightarrow> Inr n
      | Inl e \<Rightarrow>
          (case List.map_filter (\<lambda>key. Atoi (mget (kn_annotations node) key))
                  [AnnotationProxmoxInstanceID, AnnotationProxmoxInstanceIDLegacy] of
             n # _ \<Rightarrow> Inr n
           | [] \<Rightarrow> Inl e))"

section \<open>Round trips\<close>

definition wf_provider :: "int \<times> string \<Rightarrow> bool" where
  "wf_provider p \<longleftrightarrow> CHR ''/'' \<notin> set (snd p) \<and> in_int 64 (fst p)"

lemma providerIDRegexp_enc:
  "CHR ''/'' \<notin> set r \<Longrightarrow> providerIDRegexp (GetProviderID r n) = Some (r, Itoa n)"
proof -
  assume r: "CHR ''/'' \<notin> set r"
  have "drop 10 (GetProviderID r n) = r @ CHR ''/'' # Itoa n"
    by (simp add: GetProviderID_def ProviderName_def)
  moreover have "HasPrefix (GetProviderID r n) (ProviderName @ ''://'')"
    by (simp add: GetProviderID_def HasPrefix_def)
  ultimately show ?thesis using r by (simp add: providerIDRegexp_def)
qed

lemma GetProviderID_prefix [simp]: "HasPrefix (GetProviderID r n) ProviderName"
  by (simp add: GetProviderID_def)

interpretation pid: printed_id "\<lambda>(n, r). GetProviderID r n" ParseProviderID wf_provider
  by unfold_locales
    (auto simp: wf_provider_def ParseProviderID_def providerIDRegexp_enc split: prod.splits)

lemma GetVMID_ParseProviderID:
  "GetVMID p = (case ParseProviderID p of Inl e \<Rightarrow> Inl e | Inr (n, r) \<Rightarrow> Inr n)"
  by (auto simp: GetVMID_def ParseProviderID_def split: option.split)

definition wf_node_id :: "node_id \<Rightarrow> bool" where
  "wf_node_id n \<longleftrightarrow> CHR ''/'' \<notin> set (nid_node n) \<and> nid_node n \<noteq> [] \<and> in_int 64 (nid_id n)"

lemma SplitN_2: "c \<notin> set a \<Longrightarrow> SplitN 2 c (a @ c # b) = [a, b]" "c \<notin> set a \<Longrightarrow> SplitN 2 c a = [a]"
  by (simp_all add: eval_nat_numeral)

interpretation nid: printed_id NodeString ParseNodeID wf_node_id
proof
  fix n assume w: "wf_node_id n"
  then show "ParseNodeID (NodeString n) = Inr n"
    by (cases "nid_id n = 0") (auto simp: NodeString_def ParseNodeID_def wf_node_id_def SplitN_2)
qed

text \<open>The provider id of a node wins over its annotations, and the canonical annotation over
  the legacy one.\<close>

lemma ProxmoxVMIDbyNode_provider: "GetVMID (kn_providerID node) = Inr n \<Longrightarrow> ProxmoxVMIDbyNode node = Inr n"
  by (simp add: ProxmoxVMIDbyNode_def)

lemma ProxmoxVMIDbyNode_annotation:
  assumes "GetVMID (kn_providerID node) = Inl e"
    and "Atoi (mget (kn_annotations node) AnnotationProxmoxInstanceID) = Some n"
  shows "ProxmoxVMIDbyNode node = Inr n"
  using assms by (simp add: ProxmoxVMIDbyNode_def List.map_filter_simps)

section \<open>Properties\<close>

text \<open>C27: Provider ids and node ids survive printing and parsing, for every region without a slash
  and every node name that is not empty and has no slash.\<close>

theorem node_identity_roundtrip:
  assumes "wf_provider (vmid, region)" "wf_node_id node"
  shows "ParseProviderID (GetProviderID region vmid) = Inr (vmid, region) \<and>
         GetVMID (GetProviderID region vmid) = Inr vmid \<and>
         ParseNodeID (NodeString node) = Inr node"
  using pid.dec_enc [OF assms(1)] nid.dec_enc [OF assms(2)] by (simp add: GetVMID_ParseProviderID)

theorem node_identity_roundtrip_witness:
  "ParseProviderID (GetProviderID ''cluster-1'' 100) = Inr (100, ''cluster-1'') \<and>
   ParseNodeID (NodeString \<lparr>nid_id = 100, nid_node = ''worker-1''\<rparr>) = Inr \<lparr>nid_id = 100, nid_node = ''worker-1''\<rparr>"
  using node_identity_roundtrip [of 100 "''cluster-1''" "\<lparr>nid_id = 100, nid_node = ''worker-1''\<rparr>"]
  by (simp add: wf_provider_def wf_node_id_def in_int_def)

text \<open>The VM id of a Kubernetes node is taken from its provider id when that is a Proxmox one,
  else from the instance-id annotation, else from the legacy annotation, and it is an error
  exactly when none of the three is a number.\<close>

theorem ProxmoxVMIDbyNode_priority:
  "ProxmoxVMIDbyNode node =
     (case ParseProviderID (kn_providerID node) of
        Inr (n, _) \<Rightarrow> Inr n
      | Inl e \<Rightarrow>
          (case Atoi (mget (kn_annotations node) AnnotationProxmoxInstanceID) of
             Some n \<Rightarrow> Inr n
           | None \<Rightarrow>
               (case Atoi (mget (kn_annotations node) AnnotationProxmoxInstanceIDLegacy) of
                  Some n \<Rightarrow> Inr n
                | None \<Rightarrow> Inl e)))"
  by (auto simp: ProxmoxVMIDbyNode_def GetVMID_ParseProviderID List.map_filter_simps
      split: sum.split option.split)

end
