(* ===== verification/Csi_Helper.thy ===== *)
theory Csi_Helper
  imports Node_ID
begin

text \<open>
  The pure helpers of \<^verbatim>\<open>pkg/csi/helper.go\<close> and the constants of \<^verbatim>\<open>pkg/csi/driver.go\<close>: topology
  labels, the location a topology requirement asks for, and rounding a size up to the
  allocation unit in 64-bit arithmetic.
\<close>

section \<open>Sizes\<close>

text \<open>Two's complement wrap-around of \<^verbatim>\<open>int64\<close>, and Go's division, which truncates.\<close>

definition wrap64 :: "int \<Rightarrow> int" where
  "wrap64 x = (x + 2 ^ 63) mod 2 ^ 64 - 2 ^ 63"

definition quot :: "int \<Rightarrow> int \<Rightarrow> int" where
  "quot a b = sgn a * sgn b * (\<bar>a\<bar> div \<bar>b\<bar>)"

definition KiB :: int where "KiB = 1024"
definition MiB :: int where "MiB = 1024 * KiB"
definition GiB :: int where "GiB = 1024 * MiB"

definition DefaultVolumeSizeBytes :: int where
  "DefaultVolumeSizeBytes = 10 * GiB"

definition MinChunkSizeBytes :: int where
  "MinChunkSizeBytes = 512 * MiB"

definition DriverName :: string where
  "DriverName = ''csi.proxmox.sinextra.dev''"

definition RoundUpSizeBytes :: "int \<Rightarrow> int \<Rightarrow> int" where
  "RoundUpSizeBytes volumeSizeBytes allocationUnitBytes =
     (if volumeSizeBytes = 0 then allocationUnitBytes
      else wrap64 (allocationUnitBytes *
             quot (wrap64 (wrap64 (volumeSizeBytes + allocationUnitBytes) - 1)) allocationUnitBytes))"

lemma wrap64_id [simp]: "in_int 64 x \<Longrightarrow> wrap64 x = x"
  by (simp add: wrap64_def in_int_def)

lemma wrap64_range [simp]: "in_int 64 (wrap64 x)"
proof -
  have "0 \<le> (x + 2 ^ 63) mod 2 ^ 64" "(x + 2 ^ 63) mod 2 ^ 64 < (2 ^ 64 :: int)" by simp_all
  then show ?thesis by (simp add: wrap64_def in_int_def)
qed

lemma quot_nonneg: "0 \<le> a \<Longrightarrow> 0 < b \<Longrightarrow> quot a b = a div b"
  by (auto simp: quot_def sgn_if)

lemma round_up_bounds:
  assumes "0 < v" "0 < (a :: int)"
  shows "v \<le> a * ((v + a - 1) div a)" "a * ((v + a - 1) div a) < v + a"
proof -
  have m: "a * ((v + a - 1) div a) = v + a - 1 - (v + a - 1) mod a"
    by (simp add: minus_mod_eq_mult_div)
  have "0 \<le> (v + a - 1) mod a" "(v + a - 1) mod a < a" using assms by simp_all
  then show "v \<le> a * ((v + a - 1) div a)" "a * ((v + a - 1) div a) < v + a"
    unfolding m by linarith+
qed

lemma round_up_eq:
  assumes "0 < v" "0 < a" "v + a < 2 ^ 63"
  shows "RoundUpSizeBytes v a = a * ((v + a - 1) div a)"
proof -
  have "a * ((v + a - 1) div a) < v + a" using assms round_up_bounds by blast
  moreover have "0 \<le> a * ((v + a - 1) div a)"
    using assms by (simp add: pos_imp_zdiv_nonneg_iff)
  ultimately have "in_int 64 (a * ((v + a - 1) div a))"
    using assms by (simp add: in_int_def)
  moreover have "in_int 64 (v + a)" "in_int 64 (v + a - 1)" using assms by (simp_all add: in_int_def)
  ultimately show ?thesis
    using assms by (simp add: RoundUpSizeBytes_def quot_nonneg)
qed

section \<open>Topology\<close>

definition ProxmoxTopology :: string where
  "ProxmoxTopology = ''topology.proxmox.crunchymonkies.com''"

definition ProxmoxCCMTopology :: string where
  "ProxmoxCCMTopology = ''topology.proxmox.sinextra.dev''"

definition ProxmoxRegion :: string where "ProxmoxRegion = ProxmoxTopology @ ''/region''"
definition ProxmoxNode :: string where "ProxmoxNode = ProxmoxTopology @ ''/node''"
definition ProxmoxRegionLegacy :: string where "ProxmoxRegionLegacy = ProxmoxCCMTopology @ ''/region''"
definition ProxmoxNodeLegacy :: string where "ProxmoxNodeLegacy = ProxmoxCCMTopology @ ''/node''"
definition LabelTopologyRegion :: string where "LabelTopologyRegion = ''topology.kubernetes.io/region''"
definition LabelTopologyZone :: string where "LabelTopologyZone = ''topology.kubernetes.io/zone''"

lemmas topology_labels = ProxmoxTopology_def ProxmoxCCMTopology_def ProxmoxRegion_def ProxmoxNode_def
  ProxmoxRegionLegacy_def ProxmoxNodeLegacy_def LabelTopologyRegion_def LabelTopologyZone_def

fun firstLabel :: "gomap \<Rightarrow> string list \<Rightarrow> string" where
  "firstLabel labels [] = []"
| "firstLabel labels (key # keys) =
     (if mget labels key \<noteq> [] then mget labels key else firstLabel labels keys)"

definition GetNodeTopology :: "gomap \<Rightarrow> string \<times> string" where
  "GetNodeTopology labels =
     (firstLabel labels [ProxmoxRegion, ProxmoxRegionLegacy, LabelTopologyRegion],
      firstLabel labels [ProxmoxNode, ProxmoxNodeLegacy, LabelTopologyZone])"

record topology_requirement =
  tr_preferred :: "gomap list"
  tr_requisite :: "gomap list"

text \<open>One of the two loops: \<open>Inr\<close> when a segment names region and zone, else the region so far.\<close>

fun locationLoop :: "gomap list \<Rightarrow> string \<Rightarrow> string + string \<times> string" where
  "locationLoop [] region = Inl region"
| "locationLoop (seg # segs) region =
     (let (tsr, tsz) = GetNodeTopology seg
      in if tsr \<noteq> [] \<and> tsz \<noteq> [] then Inr (tsr, tsz)
         else locationLoop segs (if tsr \<noteq> [] \<and> region = [] then tsr else region))"

definition locationFromTopologyRequirement :: "topology_requirement option \<Rightarrow> string \<times> string" where
  "locationFromTopologyRequirement tr =
     (case tr of
        None \<Rightarrow> ([], [])
      | Some t \<Rightarrow>
          (case locationLoop (tr_preferred t) [] of
             Inr loc \<Rightarrow> loc
           | Inl region \<Rightarrow>
               (case locationLoop (tr_requisite t) region of
                  Inr loc \<Rightarrow> loc
                | Inl region' \<Rightarrow> (region', []))))"

lemma filter_hdD: "filter P xs = y # ys \<Longrightarrow> P y"
  by (auto simp: filter_eq_Cons_iff)

lemma locationLoop_eq:
  "locationLoop segs r =
      (case filter (\<lambda>l. fst l \<noteq> [] \<and> snd l \<noteq> []) (map GetNodeTopology segs) of
         l # _ \<Rightarrow> Inr l
       | [] \<Rightarrow> Inl (if r \<noteq> [] then r else
                (case filter (\<lambda>l. fst l \<noteq> []) (map GetNodeTopology segs) of l # _ \<Rightarrow> fst l | [] \<Rightarrow> [])))"
  by (induction segs arbitrary: r) (auto simp: split_beta Let_def split: list.split)

section \<open>Properties\<close>

text \<open>C26: Rounding a requested size up to the allocation unit gives the least multiple of the unit
  that is at least the size, as long as size plus unit fits in 64 bits.\<close>

theorem RoundUpSizeBytes_least:
  assumes "0 < v" "0 < a" "v + a < 2 ^ 63"
  shows "v \<le> RoundUpSizeBytes v a \<and> a dvd RoundUpSizeBytes v a \<and>
         (\<forall>s. v \<le> s \<longrightarrow> a dvd s \<longrightarrow> RoundUpSizeBytes v a \<le> s)"
proof -
  let ?q = "(v + a - 1) div a"
  have eq: "RoundUpSizeBytes v a = a * ?q" using assms by (rule round_up_eq)
  have b: "v \<le> a * ?q" "a * ?q < v + a" using assms round_up_bounds by blast+
  have "a * ?q \<le> s" if s: "v \<le> s" and d: "a dvd s" for s
  proof -
    obtain k where k: "s = a * k" using d by (auto simp: dvd_def)
    have "a * ?q < a * (k + 1)" using s b(2) k by (simp add: distrib_left)
    then show ?thesis using assms(2) k by (simp add: mult_less_cancel_left)
  qed
  then show ?thesis using b eq by simp
qed

theorem RoundUpSizeBytes_least_witness:
  "0 < (1 :: int) \<and> 0 < MinChunkSizeBytes \<and> 1 \<le> RoundUpSizeBytes 1 MinChunkSizeBytes \<and>
   MinChunkSizeBytes dvd RoundUpSizeBytes 1 MinChunkSizeBytes"
  using RoundUpSizeBytes_least [of 1 MinChunkSizeBytes]
  by (simp add: MinChunkSizeBytes_def MiB_def KiB_def)

text \<open>The location asked for by a topology requirement.  The first preferred segment that names
  both region and zone is taken; without one, the first such requisite segment; without one, the
  first region named by any segment, with no zone.\<close>

theorem location_preference:
  "locationFromTopologyRequirement (Some t) =
     (let complete = (\<lambda>l. fst l \<noteq> [] \<and> snd l \<noteq> []);
          locs = map GetNodeTopology (tr_preferred t @ tr_requisite t)
      in case filter complete locs of
           l # _ \<Rightarrow> l
         | [] \<Rightarrow> (case filter (\<lambda>l. fst l \<noteq> []) locs of l # _ \<Rightarrow> (fst l, []) | [] \<Rightarrow> ([], [])))"
  by (auto simp: locationFromTopologyRequirement_def locationLoop_eq Let_def
      split: list.split dest: filter_hdD)

end
