(* ===== verification/Parameters.thy ===== *)
theory Parameters
  imports Csi_Helper
begin

text \<open>
  StorageClass and VolumeAttributesClass parameters (\<^verbatim>\<open>pkg/csi/parameters.go\<close>).  The package
  walks its structs by reflection, so a struct is the list of its fields, each with its
  Go name, its two tags as written in the source, and its value; \<open>unmarshalTag\<close> and \<open>mapByTag\<close>
  are loops over that list, as in the code.
\<close>

section \<open>Fields\<close>

text \<open>A value by its kind: plain and pointer fields of type string, bool and int (or int64).\<close>

datatype fval =
    FStr string | FBool bool | FInt int
  | FPStr "string option" | FPBool "bool option" | FPInt "int option"

datatype tagkind = Json | Cfg

record sfield =
  f_name :: string
  f_json :: string
  f_cfg :: string
  f_val :: fval

type_synonym params = "sfield list"

fun ftag :: "tagkind \<Rightarrow> sfield \<Rightarrow> string" where
  "ftag Json f = f_json f"
| "ftag Cfg f = f_cfg f"

definition tagged :: "tagkind \<Rightarrow> sfield \<Rightarrow> bool" where
  "tagged k f \<longleftrightarrow> ftag k f \<noteq> [] \<and> ftag k f \<noteq> ''-''"

definition tagName :: "tagkind \<Rightarrow> sfield \<Rightarrow> string" where
  "tagName k f = hd (Split CHR '','' (ftag k f))"

text \<open>\<^verbatim>\<open>strconv.ParseBool\<close>, whose error the code drops for \<^verbatim>\<open>false\<close>.\<close>

definition ParseBool :: "string \<Rightarrow> bool" where
  "ParseBool s \<longleftrightarrow> s \<in> set [''1'', ''t'', ''T'', ''TRUE'', ''true'', ''True'']"

text \<open>What \<open>mapByTag\<close> writes for a value; the empty text is a field it leaves out.\<close>

fun showVal :: "fval \<Rightarrow> string" where
  "showVal (FStr v) = v"
| "showVal (FPStr (Some v)) = v"
| "showVal (FInt i) = (if Itoa i = ''0'' then [] else Itoa i)"
| "showVal (FPInt (Some i)) = (if Itoa i = ''0'' then [] else Itoa i)"
| "showVal (FBool b) = (if b then ''1'' else ''0'')"
| "showVal (FPBool (Some b)) = (if b then ''1'' else ''0'')"
| "showVal _ = []"

text \<open>What \<open>unmarshalTag\<close> stores for a non-empty text, by the kind of the field; \<open>None\<close> is a text
  that is not a number.\<close>

fun readVal :: "fval \<Rightarrow> string \<Rightarrow> fval option" where
  "readVal (FStr _) v = Some (FStr v)"
| "readVal (FPStr _) v = Some (FPStr (Some v))"
| "readVal (FBool _) v = Some (FBool (ParseBool v))"
| "readVal (FPBool _) v = Some (FPBool (Some (ParseBool v)))"
| "readVal (FInt _) v = map_option FInt (ParseInt v 64)"
| "readVal (FPInt _) v = map_option (\<lambda>i. FPInt (Some i)) (ParseInt v 64)"

fun mapByTag :: "params \<Rightarrow> gomap \<Rightarrow> tagkind \<Rightarrow> gomap" where
  "mapByTag [] m k = m"
| "mapByTag (f # fs) m k =
     (if tagged k f \<and> showVal (f_val f) \<noteq> []
      then mapByTag fs (mset_key m (tagName k f) (showVal (f_val f))) k
      else mapByTag fs m k)"

fun unmarshalTag :: "gomap \<Rightarrow> params \<Rightarrow> tagkind \<Rightarrow> goerr + params" where
  "unmarshalTag m [] k = Inr []"
| "unmarshalTag m (f # fs) k =
     (if \<not> tagged k f \<or> mget m (tagName k f) = []
      then (case unmarshalTag m fs k of Inl e \<Rightarrow> Inl e | Inr fs' \<Rightarrow> Inr (f # fs'))
      else (case readVal (f_val f) (mget m (tagName k f)) of
              None \<Rightarrow> Inl (Plain (''parameters '' @ tagName k f @ '' must be a number''))
            | Some v \<Rightarrow> (case unmarshalTag m fs k of
                Inl e \<Rightarrow> Inl e | Inr fs' \<Rightarrow> Inr (f\<lparr>f_val := v\<rparr> # fs'))))"

text \<open>Selecting and assigning a field by its Go name.\<close>

fun getField :: "params \<Rightarrow> string \<Rightarrow> fval" where
  "getField [] n = FStr []"
| "getField (f # fs) n = (if f_name f = n then f_val f else getField fs n)"

fun setField :: "params \<Rightarrow> string \<Rightarrow> fval \<Rightarrow> params" where
  "setField [] n v = []"
| "setField (f # fs) n v = (if f_name f = n then f\<lparr>f_val := v\<rparr> # fs else f # setField fs n v)"

fun strOf :: "fval \<Rightarrow> string" where "strOf (FStr s) = s" | "strOf _ = []"
fun boolOf :: "fval \<Rightarrow> bool" where "boolOf (FBool b) = b" | "boolOf _ = False"
fun intOf :: "fval \<Rightarrow> int" where "intOf (FInt i) = i" | "intOf _ = 0"
fun pboolOf :: "fval \<Rightarrow> bool option" where "pboolOf (FPBool b) = b" | "pboolOf _ = None"
fun pintOf :: "fval \<Rightarrow> int option" where "pintOf (FPInt i) = i" | "pintOf _ = None"

section \<open>The two parameter structs\<close>

abbreviation fld :: "string \<Rightarrow> string \<Rightarrow> string \<Rightarrow> fval \<Rightarrow> sfield" where
  "fld n j c v \<equiv> \<lparr>f_name = n, f_json = j, f_cfg = c, f_val = v\<rparr>"

definition StorageParameters :: params where
  "StorageParameters =
    [fld ''StorageID'' ''storage'' [] (FStr []),
     fld ''StorageFormat'' ''storageFormat'' [] (FStr []),
     fld ''AIO'' ''aio,omitempty'' ''aio'' (FStr []),
     fld ''Backup'' ''backup,omitempty'' ''backup'' (FPBool None),
     fld ''Cache'' ''cache,omitempty'' ''cache'' (FStr []),
     fld ''Discard'' ''discard,omitempty'' ''discard,omitempty'' (FStr []),
     fld ''IOThread'' ''iothread'' ''iothread,omitempty'' (FBool False),
     fld ''IopsRead'' ''-'' ''iops_rd,omitempty'' (FPInt None),
     fld ''IopsWrite'' ''-'' ''iops_wr,omitempty'' (FPInt None),
     fld ''ReadSpeedMbps'' ''-'' ''mbps_rd,omitempty'' (FPInt None),
     fld ''WriteSpeedMbps'' ''-'' ''mbps_wr,omitempty'' (FPInt None),
     fld ''SSD'' ''ssd,omitempty'' ''ssd,omitempty'' (FPBool None),
     fld ''ReadOnly'' ''-'' ''ro,omitempty'' (FPBool None),
     fld ''Iops'' ''diskIOPS'' [] (FPInt None),
     fld ''SpeedMbps'' ''diskMBps'' [] (FPInt None),
     fld ''BlockSize'' ''blockSize'' [] (FPInt None),
     fld ''InodeSize'' ''inodeSize'' [] (FPInt None),
     fld ''RootDirPermissions'' ''rootDirPermissions,omitempty'' [] (FStr []),
     fld ''EncryptionAllowDiscards'' ''encryptionAllowDiscards,omitempty'' [] (FPBool None),
     fld ''KataDirectVolume'' ''kataDirectVolume,omitempty'' [] (FPBool None),
     fld ''Replicate'' ''replicate,omitempty'' ''replicate'' (FBool False),
     fld ''ReplicateSchedule'' ''replicateSchedule,omitempty'' [] (FStr []),
     fld ''ReplicateZones'' ''replicateZones,omitempty'' [] (FStr []),
     fld ''ResizeRequired'' ''resizeRequired,omitempty'' [] (FPBool None),
     fld ''ResizeSizeBytes'' ''resizeSizeBytes,omitempty'' [] (FInt 0)]"

definition ModifyVolumeParameters :: params where
  "ModifyVolumeParameters =
    [fld ''Backup'' ''backup,omitempty'' ''backup'' (FPBool None),
     fld ''Discard'' ''discard,omitempty'' ''discard,omitempty'' (FPStr None),
     fld ''IopsRead'' ''-'' ''iops_rd,omitempty'' (FPInt None),
     fld ''IopsWrite'' ''-'' ''iops_wr,omitempty'' (FPInt None),
     fld ''ReadSpeedMbps'' ''-'' ''mbps_rd,omitempty'' (FPInt None),
     fld ''WriteSpeedMbps'' ''-'' ''mbps_wr,omitempty'' (FPInt None),
     fld ''Iops'' ''diskIOPS,omitempty'' [] (FPInt None),
     fld ''SpeedMbps'' ''diskMBps,omitempty'' [] (FPInt None),
     fld ''ReplicateSchedule'' ''replicateSchedule,omitempty'' [] (FStr [])]"

text \<open>Spreading a positive \<^verbatim>\<open>diskIOPS\<close> or \<^verbatim>\<open>diskMBps\<close> over the read and write limits, a step both
  extraction functions end with.\<close>

definition spreadLimits :: "params \<Rightarrow> params" where
  "spreadLimits p =
     (let p1 = (case pintOf (getField p ''Iops'') of
                  Some i \<Rightarrow> if i > 0 then setField (setField p ''IopsRead'' (FPInt (Some i))) ''IopsWrite'' (FPInt (Some i)) else p
                | None \<Rightarrow> p)
      in case pintOf (getField p1 ''SpeedMbps'') of
           Some i \<Rightarrow> if i > 0 then setField (setField p1 ''ReadSpeedMbps'' (FPInt (Some i))) ''WriteSpeedMbps'' (FPInt (Some i)) else p1
         | None \<Rightarrow> p1)"

definition defaultDiscard :: "params \<Rightarrow> params" where
  "defaultDiscard p =
     (if strOf (getField p ''Discard'') = [] \<and> pboolOf (getField p ''SSD'') = Some True
      then setField p ''Discard'' (FStr ''on'') else p)"

definition extractDefaults :: params where
  "extractDefaults =
     setField (setField (setField StorageParameters ''Backup'' (FPBool (Some False)))
       ''Replicate'' (FBool False)) ''IOThread'' (FBool True)"

definition ExtractParameters :: "gomap \<Rightarrow> goerr + params" where
  "ExtractParameters parameters =
     (case unmarshalTag parameters extractDefaults Json of
        Inl e \<Rightarrow> Inl e
      | Inr p \<Rightarrow> Inr (spreadLimits (defaultDiscard p)))"

definition ExtractModifyVolumeParameters :: "gomap \<Rightarrow> goerr + params" where
  "ExtractModifyVolumeParameters parameters =
     (case unmarshalTag parameters ModifyVolumeParameters Json of
        Inl e \<Rightarrow> Inl e
      | Inr p \<Rightarrow> Inr (spreadLimits p))"

definition ToMap :: "params \<Rightarrow> gomap" where
  "ToMap p = mapByTag p [] Json"

definition ToCFG :: "params \<Rightarrow> gomap" where
  "ToCFG p = mapByTag p [] Cfg"

fun mergeLoop :: "gomap \<Rightarrow> gomap \<Rightarrow> gomap" where
  "mergeLoop m [] = m"
| "mergeLoop m ((key, v) # orig) =
     (if mget m key \<noteq> [] then mergeLoop m orig else mergeLoop (mset_key m key v) orig)"

definition MergeMap :: "params \<Rightarrow> gomap \<Rightarrow> gomap" where
  "MergeMap p orig = mergeLoop (mapByTag p [] Cfg) orig"

definition VolumeContext :: "gomap \<Rightarrow> gomap \<Rightarrow> goerr + gomap" where
  "VolumeContext parameters mutableParameters =
     (case ExtractParameters parameters of
        Inl e \<Rightarrow> Inl e
      | Inr ps \<Rightarrow> (case ExtractModifyVolumeParameters mutableParameters of
          Inl e \<Rightarrow> Inl e
        | Inr vac \<Rightarrow> Inr (MergeMap vac (ToMap ps))))"

section \<open>Merging\<close>

lemma wf_mapByTag [simp, intro]: "wf_map m \<Longrightarrow> wf_map (mapByTag fs m k)"
  by (induction fs m k rule: mapByTag.induct) auto

lemma mergeLoop_get:
  "wf_map orig \<Longrightarrow> mget (mergeLoop m orig) k = (if mget m k \<noteq> [] then mget m k else mget orig k)"
proof (induction m orig rule: mergeLoop.induct)
  case (2 m key v orig)
  have "mget orig key = []"
    using 2(3) by (force simp: wf_map_def mget_def split: option.split dest: map_of_SomeD)
  moreover have "mget ((key, v) # orig) k = (if k = key then v else mget orig k)"
    by (simp add: mget_def)
  ultimately show ?case using 2 by (auto simp: wf_map_def)
qed simp

lemma MergeMap_get:
  "wf_map orig \<Longrightarrow> mget (MergeMap p orig) k = (if mget (ToCFG p) k \<noteq> [] then mget (ToCFG p) k else mget orig k)"
  by (simp add: MergeMap_def ToCFG_def mergeLoop_get)

section \<open>Reading back what was written\<close>

text \<open>\<open>unmarshalTag\<close> and \<open>mapByTag\<close> work field by field when the tag names are distinct.\<close>

definition readField :: "gomap \<Rightarrow> tagkind \<Rightarrow> sfield \<Rightarrow> fval option" where
  "readField m k f = (if \<not> tagged k f \<or> mget m (tagName k f) = [] then Some (f_val f)
                      else readVal (f_val f) (mget m (tagName k f)))"

lemma unmarshalTag_Inr:
  "unmarshalTag m fs k = Inr p \<longleftrightarrow>
     length p = length fs \<and> (\<forall>i < length fs. \<exists>v. readField m k (fs ! i) = Some v \<and> p ! i = (fs ! i)\<lparr>f_val := v\<rparr>)"
proof (induction fs arbitrary: p)
  case (Cons f fs)
  show ?case
  proof (cases p)
    case (Cons g gs)
    have "unmarshalTag m (f # fs) k = Inr (g # gs) \<longleftrightarrow>
        (\<exists>v. readField m k f = Some v \<and> g = f\<lparr>f_val := v\<rparr>) \<and> unmarshalTag m fs k = Inr gs"
      by (auto simp: readField_def split: sum.split option.split)
    then show ?thesis using Cons.IH [of gs] Cons
      by (simp only: list.size add_Suc_right add_0_right nat.inject All_less_Suc2 nth_Cons_0 nth_Cons_Suc
          conj_ac Cons)
  qed (auto split: sum.split option.split)
qed auto

lemma mapByTag_other:
  "n \<notin> tagName k ` {f \<in> set fs. tagged k f} \<Longrightarrow> mget (mapByTag fs m k) n = mget m n"
proof (induction fs m k rule: mapByTag.induct)
  case (2 f fs m k)
  have "tagged k f \<Longrightarrow> n \<noteq> tagName k f" and "n \<notin> tagName k ` {f \<in> set fs. tagged k f}"
    using 2(3) by auto
  then show ?case using 2(1,2) by simp
qed simp

lemma mapByTag_get:
  assumes "distinct (map (tagName k) (filter (tagged k) fs))" "f \<in> set fs" "tagged k f"
    and "\<And>g. g \<in> set fs \<Longrightarrow> tagged k g \<Longrightarrow> mget m (tagName k g) = []"
  shows "mget (mapByTag fs m k) (tagName k f) = showVal (f_val f)"
  using assms
proof (induction fs m k rule: mapByTag.induct)
  case (2 g fs m k)
  show ?case
  proof (cases "f = g \<and> f \<notin> set fs")
    case True
    then have nf: "tagName k f \<notin> tagName k ` {h \<in> set fs. tagged k h}"
      using 2(3,5) by (auto simp: image_iff)
    show ?thesis using True 2(5,6) mapByTag_other [OF nf] by simp
  next
    case False
    then have f: "f \<in> set fs" using 2(4) by auto
    have d: "distinct (map (tagName k) (filter (tagged k) fs))"
      using 2(3) by (simp split: if_splits)
    have ne2: "tagged k g \<Longrightarrow> h \<in> set fs \<Longrightarrow> tagged k h \<Longrightarrow> tagName k g \<noteq> tagName k h" for h
      using 2(3) by (auto simp: image_iff)
    show ?thesis
    proof (cases "tagged k g \<and> showVal (f_val g) \<noteq> []")
      case True
      have "mget (mset_key m (tagName k g) (showVal (f_val g))) (tagName k h) = []"
        if "h \<in> set fs" "tagged k h" for h
        using ne2 [OF _ that] True 2(6) [of h] that by auto
      then have "mget (mapByTag fs (mset_key m (tagName k g) (showVal (f_val g))) k) (tagName k f) = showVal (f_val f)"
        using 2(1) [OF True d f 2(5)] by blast
      then show ?thesis using True by simp
    next
      case False
      then have "mget (mapByTag fs m k) (tagName k f) = showVal (f_val f)"
        using 2(2) [OF False d f 2(5)] 2(6) by (meson list.set_intros(2))
      then show ?thesis unfolding mapByTag.simps if_not_P [OF False] .
    qed
  qed
qed simp

text \<open>Two values that print alike and have the same kind; two structs that agree up to this.\<close>

fun sameKind :: "fval \<Rightarrow> fval \<Rightarrow> bool" where
  "sameKind (FStr _) (FStr _) = True"
| "sameKind (FBool _) (FBool _) = True"
| "sameKind (FInt _) (FInt _) = True"
| "sameKind (FPStr _) (FPStr _) = True"
| "sameKind (FPBool _) (FPBool _) = True"
| "sameKind (FPInt _) (FPInt _) = True"
| "sameKind _ _ = False"

definition vequiv :: "fval \<Rightarrow> fval \<Rightarrow> bool" where
  "vequiv a b \<longleftrightarrow> sameKind a b \<and> showVal a = showVal b"

definition fequiv :: "sfield \<Rightarrow> sfield \<Rightarrow> bool" where
  "fequiv f g \<longleftrightarrow> (\<exists>v. f = g\<lparr>f_val := v\<rparr> \<and> vequiv v (f_val g))"

lemma Itoa_0 [simp]: "Itoa 0 = ''0''"
  by code_simp

lemma Itoa_eq_iff [simp]: "Itoa i = Itoa j \<longleftrightarrow> i = j"
  using Itoa_inj by blast

lemma Itoa_zero_iff [simp]: "Itoa i = ''0'' \<longleftrightarrow> i = 0"
  using Itoa_eq_iff [of i 0] by simp

lemma vequiv_refl [simp]: "vequiv a a"
  by (cases a) (auto simp: vequiv_def)

lemma vequiv_strOf: "vequiv a b \<Longrightarrow> strOf a = strOf b"
  by (cases a; cases b) (simp_all add: vequiv_def)

lemma vequiv_pboolOf: "vequiv a b \<Longrightarrow> pboolOf a = pboolOf b"
proof (cases a; cases b)
  fix x y assume "vequiv a b" "a = FPBool x" "b = FPBool y"
  then show ?thesis by (cases x; cases y) (simp_all add: vequiv_def split: if_splits)
qed (simp_all add: vequiv_def)

lemma vequiv_pintOf:
  assumes "vequiv a b"
  shows "pintOf a = pintOf b \<or> pintOf a \<in> {None, Some 0} \<and> pintOf b \<in> {None, Some 0}"
proof (cases a; cases b)
  fix x y assume "a = FPInt x" "b = FPInt y"
  then show ?thesis using assms
    by (cases x; cases y) (auto simp: vequiv_def Itoa_ne [THEN not_sym] split: if_splits)
qed (use assms in \<open>simp_all add: vequiv_def\<close>)

lemma mapByTag_equiv: "list_all2 fequiv fs gs \<Longrightarrow> mapByTag fs m k = mapByTag gs m k"
proof (induction arbitrary: m rule: list_all2_induct)
  case (Cons f fs g gs)
  have "tagged k f = tagged k g" "tagName k f = tagName k g" "showVal (f_val f) = showVal (f_val g)"
    using Cons(1) by (cases k; auto simp: fequiv_def vequiv_def tagged_def tagName_def)+
  then show ?case using Cons(3) by simp
qed simp

lemma getField_equiv: "list_all2 fequiv fs gs \<Longrightarrow> vequiv (getField fs n) (getField gs n)"
proof (induction rule: list_all2_induct)
  case (Cons f fs g gs)
  then have "f_name f = f_name g" "vequiv (f_val f) (f_val g)" by (auto simp: fequiv_def)
  then show ?case using Cons by simp
qed simp

lemma setField_equiv: "list_all2 fequiv fs gs \<Longrightarrow> list_all2 fequiv (setField fs n v) (setField gs n v)"
proof (induction rule: list_all2_induct)
  case (Cons f fs g gs)
  then have "f\<lparr>f_val := v\<rparr> = g\<lparr>f_val := v\<rparr>" "f_name f = f_name g" by (auto simp: fequiv_def)
  moreover have "fequiv (g\<lparr>f_val := v\<rparr>) (g\<lparr>f_val := v\<rparr>)"
    by (auto simp: fequiv_def intro: exI [of _ v])
  ultimately show ?case using Cons by simp
qed simp

lemma defaultDiscard_equiv:
  assumes "list_all2 fequiv fs gs"
  shows "list_all2 fequiv (defaultDiscard fs) (defaultDiscard gs)"
  using assms vequiv_strOf [OF getField_equiv [OF assms, of "''Discard''"]]
    vequiv_pboolOf [OF getField_equiv [OF assms, of "''SSD''"]]
  by (simp add: defaultDiscard_def setField_equiv)

text \<open>One of the two halves of \<open>spreadLimits\<close>.\<close>

definition spread :: "string \<Rightarrow> string \<Rightarrow> string \<Rightarrow> params \<Rightarrow> params" where
  "spread src r w p = (case pintOf (getField p src) of
      Some i \<Rightarrow> if i > 0 then setField (setField p r (FPInt (Some i))) w (FPInt (Some i)) else p
    | None \<Rightarrow> p)"

lemma spreadLimits_eq:
  "spreadLimits p = spread ''SpeedMbps'' ''ReadSpeedMbps'' ''WriteSpeedMbps''
     (spread ''Iops'' ''IopsRead'' ''IopsWrite'' p)"
  by (simp add: spreadLimits_def spread_def Let_def)

lemma spread_equiv:
  assumes "list_all2 fequiv fs gs"
  shows "list_all2 fequiv (spread s r w fs) (spread s r w gs)"
proof (cases "pintOf (getField fs s) = pintOf (getField gs s)")
  case True
  then show ?thesis using assms by (simp add: spread_def setField_equiv split: option.split)
next
  case False
  then have "pintOf (getField fs s) \<in> {None, Some 0}" "pintOf (getField gs s) \<in> {None, Some 0}"
    using vequiv_pintOf [OF getField_equiv [OF assms, of s]] by blast+
  then show ?thesis using assms by (auto simp: spread_def)
qed

lemma getField_setField:
  "n \<in> f_name ` set fs \<Longrightarrow> getField (setField fs n v) n = v"
  "n \<noteq> n' \<Longrightarrow> getField (setField fs n' v) n = getField fs n"
  by (induction fs) auto

lemma mapByTag_setField:
  "(\<And>f. f \<in> set fs \<Longrightarrow> f_name f = n \<Longrightarrow> \<not> tagged k f) \<Longrightarrow>
   mapByTag (setField fs n v) m k = mapByTag fs m k"
proof (induction fs arbitrary: m)
  case (Cons f fs)
  have "mapByTag (setField fs n v) m' k = mapByTag fs m' k" for m'
    by (rule Cons(1)) (rule Cons(2), simp_all)
  moreover have "tagged k (f\<lparr>f_val := v\<rparr>) = tagged k f" by (cases k) (simp_all add: tagged_def)
  ultimately show ?case using Cons(2) [of f] by simp
qed simp

text \<open>A value \<open>v\<close> survives being printed and read over the default \<open>d\<close>.  Every value read over a
  default whose kind is boolean, or which is not printed, does.\<close>

definition stable :: "fval \<Rightarrow> fval \<Rightarrow> bool" where
  "stable d v \<longleftrightarrow> (\<exists>y. (if showVal v = [] then y = d else readVal d (showVal v) = Some y) \<and> vequiv y v)"

fun plainDefault :: "fval \<Rightarrow> bool" where
  "plainDefault (FStr s) = (s = [])"
| "plainDefault (FInt i) = (i = 0)"
| "plainDefault (FPStr v) = (v = None)"
| "plainDefault (FPInt v) = (v = None)"
| "plainDefault _ = True"

lemma ParseInt_Some_range: "ParseInt s bits = Some i \<Longrightarrow> in_int bits i"
  by (auto simp: ParseInt_def Let_def in_int_def split: if_splits list.splits)

lemma stable_default: "plainDefault d \<Longrightarrow> stable d d"
proof (cases d)
  case (FPBool b)
  then show ?thesis by (cases b) (auto simp: stable_def ParseBool_def)
qed (auto simp: stable_def ParseBool_def)

lemma stable_int: "in_int 64 i \<Longrightarrow> stable (FInt 0) (FInt i) \<and> stable (FPInt None) (FPInt (Some i))"
  by (auto simp: stable_def vequiv_def ParseInt_Itoa)

lemma stable_read:
  assumes "plainDefault d" "readVal d s = Some v"
  shows "stable d v"
proof (cases d)
  case (FPBool b)
  then show ?thesis using assms by (auto simp: stable_def ParseBool_def)
next
  case (FPStr x)
  then show ?thesis using assms by (cases "s = []") (auto simp: stable_def vequiv_def)
next
  case (FInt i)
  then show ?thesis using assms stable_int by (auto dest: ParseInt_Some_range)
next
  case (FPInt i)
  then show ?thesis using assms stable_int by (auto dest: ParseInt_Some_range)
qed (use assms in \<open>auto simp: stable_def ParseBool_def\<close>)

text \<open>The structs that \<open>unmarshalTag\<close> can produce from the defaults \<open>ds\<close>.\<close>

definition filled :: "sfield \<Rightarrow> sfield \<Rightarrow> bool" where
  "filled d f \<longleftrightarrow> (\<exists>v. f = d\<lparr>f_val := v\<rparr> \<and> (if tagged Json d then stable (f_val d) v else v = f_val d))"

lemma unmarshal_filled:
  assumes "unmarshalTag m ds Json = Inr p" "\<forall>d \<in> set ds. plainDefault (f_val d)"
  shows "list_all2 filled ds p"
proof (rule list_all2_all_nthI)
  show "length ds = length p" using assms by (simp add: unmarshalTag_Inr)
next
  fix i assume "i < length ds"
  moreover from this obtain v where "readField m Json (ds ! i) = Some v" "p ! i = (ds ! i)\<lparr>f_val := v\<rparr>"
    using assms by (auto simp: unmarshalTag_Inr)
  ultimately show "filled (ds ! i) (p ! i)" using assms(2) stable_default stable_read
    by (auto simp: filled_def readField_def split: if_splits)
qed

lemma setField_filled:
  assumes "list_all2 filled ds p"
    and "\<And>d. d \<in> set ds \<Longrightarrow> f_name d = n \<Longrightarrow> tagged Json d \<and> stable (f_val d) v"
  shows "list_all2 filled ds (setField p n v)"
  using assms
proof (induction rule: list_all2_induct)
  case (Cons d ds f p)
  have nm: "f_name f = f_name d" and up: "f\<lparr>f_val := v\<rparr> = d\<lparr>f_val := v\<rparr>"
    using Cons(1) by (auto simp: filled_def)
  have "filled d (d\<lparr>f_val := v\<rparr>)" if "f_name d = n"
    using Cons(4) [of d] that by (auto simp: filled_def)
  moreover have "list_all2 filled ds (setField p n v)"
    by (rule Cons(3)) (rule Cons(4), simp_all)
  ultimately show ?case using Cons(1,2) nm up by simp
qed simp

lemma filled_tags:
  assumes "list_all2 filled ds p"
  shows "map (tagName k) (filter (tagged k) p) = map (tagName k) (filter (tagged k) ds)"
  using assms
proof (induction rule: list_all2_induct)
  case (Cons d ds f p)
  have "tagged k f = tagged k d" "tagName k f = tagName k d"
    using Cons(1) by (cases k; auto simp: filled_def tagged_def tagName_def)+
  then show ?case using Cons by simp
qed simp

text \<open>Reading over the defaults what \<open>mapByTag\<close> wrote gives the struct back.\<close>

lemma unmarshal_mapByTag:
  assumes fl: "list_all2 filled ds p" and "distinct (map (tagName Json) (filter (tagged Json) ds))"
  shows "\<exists>q. unmarshalTag (mapByTag p [] Json) ds Json = Inr q \<and> list_all2 fequiv q p"
proof -
  let ?m = "mapByTag p [] Json"
  have dp: "distinct (map (tagName Json) (filter (tagged Json) p))"
    using assms by (simp add: filled_tags)
  have len: "length p = length ds" using fl by (simp add: list_all2_lengthD)
  have *: "\<exists>v. readField ?m Json (ds ! i) = Some v \<and> fequiv ((ds ! i)\<lparr>f_val := v\<rparr>) (p ! i)"
    if i: "i < length ds" for i
  proof -
    obtain v where v: "p ! i = (ds ! i)\<lparr>f_val := v\<rparr>"
      "if tagged Json (ds ! i) then stable (f_val (ds ! i)) v else v = f_val (ds ! i)"
      using list_all2_nthD [OF fl, of i] i by (auto simp: filled_def)
    have t: "tagged Json (p ! i) = tagged Json (ds ! i)" "tagName Json (p ! i) = tagName Json (ds ! i)"
      using v(1) by (simp_all add: tagged_def tagName_def)
    have "tagged Json (ds ! i) \<Longrightarrow> mget ?m (tagName Json (ds ! i)) = showVal v"
      using mapByTag_get [OF dp nth_mem [of i p], of "[]"] v(1) i t len by simp
    then obtain y where "readField ?m Json (ds ! i) = Some y" "vequiv y v"
      using v(2) by (auto simp: readField_def stable_def split: if_splits)
    then show ?thesis using v(1) by (auto simp: fequiv_def)
  qed
  define q where "q = map (\<lambda>d. d\<lparr>f_val := the (readField ?m Json d)\<rparr>) ds"
  have "unmarshalTag ?m ds Json = Inr q"
    using * by (fastforce simp: unmarshalTag_Inr q_def)
  moreover have "list_all2 fequiv q p"
  proof (rule list_all2_all_nthI)
    fix i assume "i < length q"
    then have "i < length ds" by (simp add: q_def)
    with * [OF this] show "fequiv (q ! i) (p ! i)" by (auto simp: q_def)
  qed (simp add: q_def len)
  ultimately show ?thesis by blast
qed

section \<open>The volume context\<close>

lemma extractDefaults_ok:
  "\<forall>d \<in> set extractDefaults. plainDefault (f_val d)"
  "distinct (map (tagName Json) (filter (tagged Json) extractDefaults))"
  by code_simp+

definition limitFields :: "string list" where
  "limitFields = [''IopsRead'', ''IopsWrite'', ''ReadSpeedMbps'', ''WriteSpeedMbps'']"

lemma extractDefaults_names:
  "\<forall>d \<in> set extractDefaults. f_name d = ''Discard'' \<longrightarrow> tagged Json d \<and> f_val d = FStr []"
  "\<forall>d \<in> set extractDefaults. f_name d \<in> set limitFields \<longrightarrow> \<not> tagged Json d"
  "''Discard'' \<in> f_name ` set extractDefaults"
  by code_simp+

lemma filled_hidden:
  assumes "list_all2 filled ds p" "\<forall>d \<in> set ds. f_name d = n \<longrightarrow> \<not> tagged Json d"
  shows "\<forall>f \<in> set p. f_name f = n \<longrightarrow> \<not> tagged Json f"
  using assms by (induction rule: list_all2_induct) (auto simp: filled_def tagged_def)

lemma setField_hidden:
  "\<forall>f \<in> set p. f_name f = n \<longrightarrow> \<not> tagged k f \<Longrightarrow> \<forall>f \<in> set (setField p n' v). f_name f = n \<longrightarrow> \<not> tagged k f"
  by (induction p; cases k) (auto simp: tagged_def)

lemma spread_hidden:
  assumes "\<forall>f \<in> set p. f_name f = n \<longrightarrow> \<not> tagged k f"
  shows "\<forall>f \<in> set (spread s r w p). f_name f = n \<longrightarrow> \<not> tagged k f"
  using setField_hidden [OF setField_hidden [OF assms]] assms by (auto simp: spread_def split: option.split)

lemma mapByTag_spread:
  assumes "\<forall>f \<in> set p. f_name f = r \<longrightarrow> \<not> tagged k f" "\<forall>f \<in> set p. f_name f = w \<longrightarrow> \<not> tagged k f"
  shows "mapByTag (spread s r w p) m k = mapByTag p m k"
  using assms setField_hidden [OF assms(2), of r]
  by (auto simp: spread_def mapByTag_setField split: option.split)

lemma ToMap_spreadLimits:
  assumes "list_all2 filled extractDefaults p"
  shows "ToMap (spreadLimits p) = ToMap p"
proof -
  have h: "\<forall>f \<in> set p. f_name f = n \<longrightarrow> \<not> tagged Json f"
    if n: "n \<in> set limitFields" for n
    by (rule filled_hidden [OF assms]) (use extractDefaults_names(2) n in blast)
  let ?p = "spread ''Iops'' ''IopsRead'' ''IopsWrite'' p"
  have "mapByTag (spreadLimits p) [] Json = mapByTag ?p [] Json"
    unfolding spreadLimits_eq by (rule mapByTag_spread; rule spread_hidden; rule h; simp add: limitFields_def)
  also have "\<dots> = mapByTag p [] Json"
    by (rule mapByTag_spread; rule h; simp add: limitFields_def)
  finally show ?thesis by (simp add: ToMap_def)
qed

lemma defaultDiscard_filled:
  "list_all2 filled extractDefaults p \<Longrightarrow> list_all2 filled extractDefaults (defaultDiscard p)"
  unfolding defaultDiscard_def using extractDefaults_names(1)
  by (auto intro!: setField_filled simp: stable_def)

lemma defaultDiscard_idem:
  assumes "list_all2 filled extractDefaults p"
  shows "defaultDiscard (defaultDiscard p) = defaultDiscard p"
proof -
  have "map f_name p = map f_name extractDefaults"
    using assms by (induction rule: list_all2_induct) (auto simp: filled_def)
  then have "''Discard'' \<in> f_name ` set p"
    using extractDefaults_names(3) by (metis list.set_map)
  then show ?thesis by (simp add: defaultDiscard_def getField_setField)
qed

lemma ExtractParameters_ToMap:
  assumes "ExtractParameters m = Inr p"
  shows "\<exists>q. ExtractParameters (ToMap p) = Inr q \<and> list_all2 fequiv q p"
proof -
  obtain p0 where p0: "unmarshalTag m extractDefaults Json = Inr p0" "p = spreadLimits (defaultDiscard p0)"
    using assms by (auto simp: ExtractParameters_def split: sum.splits)
  have fl: "list_all2 filled extractDefaults p0"
    using unmarshal_filled [OF p0(1) extractDefaults_ok(1)] .
  let ?r = "defaultDiscard p0"
  have flr: "list_all2 filled extractDefaults ?r" using fl by (rule defaultDiscard_filled)
  obtain q0 where q0: "unmarshalTag (ToMap ?r) extractDefaults Json = Inr q0" "list_all2 fequiv q0 ?r"
    using unmarshal_mapByTag [OF flr extractDefaults_ok(2)] by (auto simp: ToMap_def)
  have "list_all2 fequiv (defaultDiscard q0) ?r"
    using defaultDiscard_equiv [OF q0(2)] by (simp add: defaultDiscard_idem [OF fl])
  then have "list_all2 fequiv (spreadLimits (defaultDiscard q0)) p"
    unfolding p0(2) spreadLimits_eq by (intro spread_equiv)
  moreover have "ExtractParameters (ToMap p) = Inr (spreadLimits (defaultDiscard q0))"
    using q0(1) by (simp add: ExtractParameters_def p0(2) ToMap_spreadLimits [OF flr])
  ultimately show ?thesis by blast
qed

text \<open>Only the values under the tag names count.\<close>

lemma unmarshalTag_cong: "(\<And>n. mget m n = mget m' n) \<Longrightarrow> unmarshalTag m fs k = unmarshalTag m' fs k"
  by (induction fs) (simp_all split: option.split)

lemma ModifyVolumeParameters_empty:
  "ExtractModifyVolumeParameters [] = Inr ModifyVolumeParameters" "ToCFG ModifyVolumeParameters = []"
  by code_simp+

lemma wf_ToMap [simp]: "wf_map (ToMap p)"
  using wf_mapByTag [of "[]" p Json] by (simp add: ToMap_def wf_map_def)

section \<open>Properties\<close>



text \<open>A key of the VolumeAttributesClass wins over the same key of the StorageClass context, and
  every other key of the context is kept.\<close>

theorem MergeMap_priority:
  assumes "wf_map orig"
  shows "mget (MergeMap vac orig) k = (if mget (ToCFG vac) k \<noteq> [] then mget (ToCFG vac) k else mget orig k)"
  using assms by (rule MergeMap_get)

theorem MergeMap_priority_witness:
  "\<exists>vac. ExtractModifyVolumeParameters [(''backup'', ''1'')] = Inr vac \<and>
     mget (MergeMap vac [(''backup'', ''0''), (''cache'', ''none'')]) ''backup'' = ''1'' \<and>
     mget (MergeMap vac [(''backup'', ''0''), (''cache'', ''none'')]) ''cache'' = ''none''"
proof -
  let ?o = "[(''backup'', ''0''), (''cache'', ''none'')]"
  have "case ExtractModifyVolumeParameters [(''backup'', ''1'')] of
      Inr v \<Rightarrow> mget (ToCFG v) ''backup'' = ''1'' \<and> mget (ToCFG v) ''cache'' = [] | Inl _ \<Rightarrow> False"
    by code_simp
  moreover have "wf_map ?o" "mget ?o ''cache'' = ''none''" by (simp_all add: wf_map_def mget_def)
  ultimately show ?thesis using MergeMap_priority [of ?o] by (auto split: sum.splits)
qed

end
