(* ===== verification/K8s_Objects.thy ===== *)
theory K8s_Objects
  imports Node_ID
begin

text \<open>
  The Kubernetes objects the migration code reads and writes, with the fields it uses, and the changes it makes to
  them.  A quantity is its value, a time the nanoseconds since the epoch, zero for the zero time.
\<close>

record owner_ref =
  ow_APIVersion :: string
  ow_Kind :: string
  ow_Name :: string
  ow_Controller :: "bool option"

record kmeta =
  km_Name :: string
  km_Namespace :: string
  km_UID :: string
  km_ResourceVersion :: string
  km_CreationTimestamp :: int
  km_DeletionTimestamp :: "int option"
  km_DeletionGracePeriodSeconds :: "int option"
  km_Annotations :: gomap
  km_OwnerReferences :: "owner_ref list"

record object_ref =
  rf_Kind :: string
  rf_APIVersion :: string
  rf_Namespace :: string
  rf_Name :: string
  rf_UID :: string

text \<open>A volume: the CSI source is driver and handle, the node affinity the required terms as keys, operators and values.\<close>

record kpv =
  kv_Meta :: kmeta
  kv_CSI :: "(string \<times> string) option"
  kv_ReclaimPolicy :: string
  kv_StorageClassName :: string
  kv_Capacity :: int
  kv_AccessModes :: "string list"
  kv_VolumeMode :: "string option"
  kv_ClaimRef :: "object_ref option"
  kv_NodeTerms :: "(string \<times> string \<times> string list) list list option"
  kv_Phase :: string

record kpvc =
  kc_Meta :: kmeta
  kc_VolumeName :: string
  kc_StorageClassName :: "string option"
  kc_Requests :: "(string \<times> int) list"
  kc_AccessModes :: "string list"
  kc_VolumeMode :: "string option"
  kc_StatusCapacity :: "(string \<times> int) list"
  kc_StatusPhase :: string

record kclass =
  kl_Name :: string
  kl_Provisioner :: string
  kl_Parameters :: gomap
  kl_Annotations :: gomap
  kl_CreationTimestamp :: int
  kl_VolumeBindingMode :: "string option"

record kquota =
  kq_Name :: string
  kq_StatusHard :: "(string \<times> int) list"
  kq_SpecHard :: "(string \<times> int) list"
  kq_Used :: "(string \<times> int) list"

record pod_condition =
  pc_Type :: string
  pc_Status :: string
  pc_Reason :: string
  pc_LastTransitionTime :: int

text \<open>The volumes of a pod: the name of the claim for those that have one.\<close>

record kpod =
  kp_Namespace :: string
  kp_Name :: string
  kp_NodeName :: string
  kp_Phase :: string
  kp_CreationTimestamp :: int
  kp_Volumes :: "string option list"
  kp_Conditions :: "pod_condition list"

record knode = k8s_node +
  kn_unschedulable :: bool
  kn_taints :: "string list"

text \<open>The drivers of a CSINode: name and node id.\<close>

type_synonym kcsinode = "(string \<times> string) list"

text \<open>Merge patches: the reclaim policy of a volume, annotations (\<open>None\<close> deletes a key), and the cordon of a node.\<close>

type_synonym annotation_patch = "(string \<times> string option) list"

datatype kpatch =
    PatchReclaimPolicy string
  | PatchAnnotations annotation_patch
  | PatchUnschedulable bool

end
