(* ===== verification/Proxmox_Api.thy ===== *)
theory Proxmox_Api
  imports Parameters K8s_Objects
begin

text \<open>
  The libraries the storage code talks to Proxmox through: \<^verbatim>\<open>goproxmox.APIClient\<close> (with the
  \<^verbatim>\<open>proxmox.Client\<close> it embeds) and the retry helper.  They are not part of the program, so they are
  a parameter: a record of functions over an arbitrary outside state.  Each call of the program
  goes through a wrapper below that records the request it sends.  Hypotheses about the
  libraries are predicates over this record, stated where they are used.
\<close>

section \<open>Data the API exchanges\<close>

record cluster_resource =
  rs_type :: string
  rs_vmid :: int
  rs_node :: string
  rs_name :: string
  rs_status :: string
  rs_pluginType :: string
  rs_shared :: int

text \<open>The parts of a VM config the program reads: the merged \<^verbatim>\<open>scsi<n>\<close> and \<^verbatim>\<open>unused<n>\<close> maps, and what
  \<^verbatim>\<open>goproxmox.GetVMUUID\<close> reads off it.\<close>

record vm_config =
  vc_scsis :: gomap
  vc_unuseds :: gomap
  vc_uuid :: string

record vm =
  vm_node :: string
  vm_vmid :: int
  vm_cfg :: vm_config

record storage_status =
  ss_avail :: int
  ss_total :: int
  ss_used :: int

record storage_content =
  ct_volid :: string
  ct_size :: int
  ct_format :: string
  ct_vmid :: int
  ct_ctime :: int

record storage_conf =
  sc_nodes :: string
  sc_type :: string
  sc_shared :: int

record ha_group =
  ha_type :: string
  ha_nodes :: string
  ha_group_name :: string

record task =
  tk_failed :: bool
  tk_exit :: string

text \<open>\<^verbatim>\<open>map[string]interface{}\<close> with the string and int values the program puts into it.\<close>

datatype jval = JStr string | JInt int

type_synonym params_map = "(string \<times> jval) list"

fun showJ :: "jval \<Rightarrow> string" where
  "showJ (JStr s) = s"
| "showJ (JInt i) = Itoa i"

text \<open>\<^verbatim>\<open>%+v\<close> of such a map; \<^verbatim>\<open>fmt\<close> prints maps in key order, which for strings is the order of
  their bytes.\<close>

fun bytesLess :: "string \<Rightarrow> string \<Rightarrow> bool" where
  "bytesLess xs [] = False"
| "bytesLess [] (y # ys) = True"
| "bytesLess (x # xs) (y # ys) = ((of_char x :: int) < of_char y \<or> x = y \<and> bytesLess xs ys)"

fun insertKey :: "string \<times> 'a \<Rightarrow> (string \<times> 'a) list \<Rightarrow> (string \<times> 'a) list" where
  "insertKey x [] = [x]"
| "insertKey x (y # ys) = (if bytesLess (fst y) (fst x) then y # insertKey x ys else x # y # ys)"

definition showParams :: "params_map \<Rightarrow> string" where
  "showParams ps = ''map['' @ Join '' '' (map (\<lambda>(k, v). k @ '':'' @ showJ v) (foldr insertKey ps [])) @ '']''"

section \<open>Requests\<close>

datatype pxreq =
    RGet string
  | RWait
  | RConfig int string string
  | RUnlink int string bool
  | RCreateDisk int string string string int
  | RDeleteDisk string string string
  | RResize int string string string
  | RCreateVM string params_map
  | RDeleteVM string int
  | RMigrateVM int string
  | RPost string params_map
  | RPut string params_map
  | RDelete string

datatype k8sreq =
    KGet string string
  | KList string
  | KLocal string
  | KPatchNode string string
  | KEvent string string string string
  | KCreatePV kpv
  | KCreatePVC kpvc
  | KDelete string string
  | KPatch string string kpatch

text \<open>Besides the two APIs, the locks the program takes and releases and the local cache it uses are
  recorded, so that the order of events is visible.\<close>

datatype req = Px string pxreq | K8s k8sreq | Lock string | Unlock string | Cache string

text \<open>Requests that can change the state of the cluster.\<close>

fun px_write :: "pxreq \<Rightarrow> bool" where
  "px_write (RGet _) = False"
| "px_write RWait = False"
| "px_write _ = True"

fun is_write :: "req \<Rightarrow> bool" where
  "is_write (Px _ r) = px_write r"
| "is_write (K8s (KGet _ _)) = False"
| "is_write (K8s (KList _)) = False"
| "is_write (K8s (KLocal _)) = False"
| "is_write (K8s _) = True"
| "is_write _ = False"

fun px_only :: "(pxreq \<Rightarrow> bool) \<Rightarrow> req \<Rightarrow> bool" where
  "px_only P (Px _ r) = P r"
| "px_only P _ = True"

type_synonym 'e pworld = "('e, req) world"

section \<open>The client\<close>

text \<open>\<open>GetVMByFilter\<close> and \<open>Retry\<close> take functions of the program as arguments.  A function they are
  given may assign to a captured integer variable, which is passed through explicitly; a retried
  function ends with \<^verbatim>\<open>nil\<close> (\<open>None\<close>), with \<^verbatim>\<open>retry.ExpectedError\<close> (\<open>Some\<close>), or fails.\<close>

record 'e client =
  c_name :: string
  c_vmNotFoundText :: string
  c_vmUnreachableText :: string
  c_GetVMConfig :: "int \<Rightarrow> ('e, vm) api"
  c_GetNodesForStorage :: "string \<Rightarrow> ('e, string list) api"
  c_GetNodeList :: "('e, string list) api"
  c_GetStorageStatus :: "string \<Rightarrow> string \<Rightarrow> ('e, storage_status) api"
  c_GetStorageContent :: "string \<Rightarrow> string \<Rightarrow> ('e, storage_content list) api"
  c_GetClusterStorage :: "string \<Rightarrow> ('e, cluster_resource) api"
  c_ClusterStorage :: "string \<Rightarrow> ('e, storage_conf) api"
  c_GetVMByID :: "int \<Rightarrow> ('e, cluster_resource) api"
  c_Node :: "string \<Rightarrow> ('e, unit) api"
  c_VirtualMachine :: "string \<Rightarrow> int \<Rightarrow> ('e, vm) api"
  c_Version :: "('e, string) api"
  c_Cluster :: "('e, unit) api"
  c_VMResources :: "('e, cluster_resource list) api"
  c_GetHAGroupList :: "('e, ha_group list) api"
  c_GetNextID :: "int \<Rightarrow> ('e, int) api"
  c_Config :: "vm \<Rightarrow> string \<Rightarrow> string \<Rightarrow> ('e, task option) api"
  c_UnlinkDisk :: "vm \<Rightarrow> string \<Rightarrow> bool \<Rightarrow> ('e, task option) api"
  c_Migrate :: "vm \<Rightarrow> string \<Rightarrow> bool \<Rightarrow> ('e, task option) api"
  c_CreateVMDisk :: "int \<Rightarrow> string \<Rightarrow> string \<Rightarrow> string \<Rightarrow> int \<Rightarrow> ('e, string) api"
  c_DeleteVMDisk :: "string \<Rightarrow> string \<Rightarrow> string \<Rightarrow> ('e, unit) api"
  c_ResizeVMDisk :: "int \<Rightarrow> string \<Rightarrow> string \<Rightarrow> string \<Rightarrow> ('e, unit) api"
  c_CreateVM :: "string \<Rightarrow> params_map \<Rightarrow> ('e, unit) api"
  c_DeleteVMByID :: "string \<Rightarrow> int \<Rightarrow> ('e, unit) api"
  c_NewTask :: "string \<Rightarrow> task option"
  c_WaitFor :: "task \<Rightarrow> int \<Rightarrow> ('e, task) api"
  c_WaitForCompleteStatus :: "task \<Rightarrow> int \<Rightarrow> int \<Rightarrow> ('e, bool \<times> bool \<times> task) api"
  c_GetConfig :: "string \<Rightarrow> ('e, vm_config) api"
  c_GetContentList :: "string \<Rightarrow> ('e, (string \<times> int) list) api"
  c_GetResources :: "string \<Rightarrow> ('e, cluster_resource list) api"
  c_GetJobs :: "string \<Rightarrow> ('e, (string \<times> int) list) api"
  c_Post :: "string \<Rightarrow> params_map \<Rightarrow> ('e, string) api"
  c_Put :: "string \<Rightarrow> params_map \<Rightarrow> ('e, unit) api"
  c_Delete :: "string \<Rightarrow> ('e, string) api"
  c_GetVMByFilter :: "(cluster_resource \<Rightarrow> int \<Rightarrow> ('e pworld, bool \<times> int) io) \<Rightarrow> int \<Rightarrow>
                      ('e pworld, cluster_resource \<times> int) io"
  c_Retry :: "int \<Rightarrow> int \<Rightarrow> (int \<Rightarrow> ('e pworld, int \<times> goerr option) io) \<Rightarrow> int \<Rightarrow> ('e pworld, int) io"
  c_IsTimeout :: "goerr \<Rightarrow> bool"

definition ErrVMNotFound :: "'e client \<Rightarrow> goerr" where
  "ErrVMNotFound cl = Sentinel ErrVirtualMachineNotFound (c_vmNotFoundText cl)"

definition ErrVMUnreachable :: "'e client \<Rightarrow> goerr" where
  "ErrVMUnreachable cl = Sentinel ErrVirtualMachineUnreachable (c_vmUnreachableText cl)"

section \<open>Calls of the client\<close>

definition px :: "'e client \<Rightarrow> pxreq \<Rightarrow> ('e, 'a) api \<Rightarrow> ('e pworld, 'a) io" where
  "px cl r f = invoke (Px (c_name cl) r) f"

abbreviation GetVMConfig where "GetVMConfig cl i \<equiv> px cl (RGet (''vmconfig/'' @ Itoa i)) (c_GetVMConfig cl i)"
abbreviation GetNodesForStorage where
  "GetNodesForStorage cl s \<equiv> px cl (RGet (''storagenodes/'' @ s)) (c_GetNodesForStorage cl s)"
abbreviation GetNodeList where "GetNodeList cl \<equiv> px cl (RGet ''nodes'') (c_GetNodeList cl)"
abbreviation GetStorageStatus where
  "GetStorageStatus cl n s \<equiv> px cl (RGet (''status/'' @ n @ ''/'' @ s)) (c_GetStorageStatus cl n s)"
abbreviation GetStorageContents where
  "GetStorageContents cl n s \<equiv> px cl (RGet (''content/'' @ n @ ''/'' @ s)) (c_GetStorageContent cl n s)"
abbreviation GetClusterStorage where
  "GetClusterStorage cl s \<equiv> px cl (RGet (''clusterstorage/'' @ s)) (c_GetClusterStorage cl s)"
abbreviation ClusterStorage where
  "ClusterStorage cl s \<equiv> px cl (RGet (''storage/'' @ s)) (c_ClusterStorage cl s)"
abbreviation GetVMByID where "GetVMByID cl i \<equiv> px cl (RGet (''vm/'' @ Itoa i)) (c_GetVMByID cl i)"
abbreviation NodeByName where "NodeByName cl n \<equiv> px cl (RGet (''node/'' @ n)) (c_Node cl n)"
abbreviation VirtualMachine where
  "VirtualMachine cl n i \<equiv> px cl (RGet (''node/'' @ n @ ''/vm/'' @ Itoa i)) (c_VirtualMachine cl n i)"
abbreviation ApiVersion where "ApiVersion cl \<equiv> px cl (RGet ''version'') (c_Version cl)"
abbreviation ClusterInfo where "ClusterInfo cl \<equiv> px cl (RGet ''cluster'') (c_Cluster cl)"
abbreviation VMResources where "VMResources cl \<equiv> px cl (RGet ''resources/vm'') (c_VMResources cl)"
abbreviation GetHAGroupList where "GetHAGroupList cl \<equiv> px cl (RGet ''hagroups'') (c_GetHAGroupList cl)"
abbreviation GetNextID where "GetNextID cl i \<equiv> px cl (RGet ''nextid'') (c_GetNextID cl i)"
abbreviation VmConfig where
  "VmConfig cl v n x \<equiv> px cl (RConfig (vm_vmid v) n x) (c_Config cl v n x)"
abbreviation UnlinkDisk where
  "UnlinkDisk cl v d f \<equiv> px cl (RUnlink (vm_vmid v) d f) (c_UnlinkDisk cl v d f)"
abbreviation VmMigrate where
  "VmMigrate cl v t f \<equiv> px cl (RMigrateVM (vm_vmid v) t) (c_Migrate cl v t f)"
abbreviation CreateVMDisk where
  "CreateVMDisk cl i n s d b \<equiv> px cl (RCreateDisk i n s d b) (c_CreateVMDisk cl i n s d b)"
abbreviation DeleteVMDisk where
  "DeleteVMDisk cl n s d \<equiv> px cl (RDeleteDisk n s d) (c_DeleteVMDisk cl n s d)"
abbreviation ResizeVMDisk where
  "ResizeVMDisk cl i n d s \<equiv> px cl (RResize i n d s) (c_ResizeVMDisk cl i n d s)"
abbreviation CreateVM where "CreateVM cl n p \<equiv> px cl (RCreateVM n p) (c_CreateVM cl n p)"
abbreviation DeleteVMByID where "DeleteVMByID cl n i \<equiv> px cl (RDeleteVM n i) (c_DeleteVMByID cl n i)"
abbreviation WaitFor where "WaitFor cl t s \<equiv> px cl RWait (c_WaitFor cl t s)"
abbreviation WaitForCompleteStatus where
  "WaitForCompleteStatus cl t n s \<equiv> px cl RWait (c_WaitForCompleteStatus cl t n s)"
abbreviation GetConfigAt where "GetConfigAt cl p \<equiv> px cl (RGet p) (c_GetConfig cl p)"
abbreviation GetContentAt where "GetContentAt cl p \<equiv> px cl (RGet p) (c_GetContentList cl p)"
abbreviation GetResourcesAt where "GetResourcesAt cl p \<equiv> px cl (RGet p) (c_GetResources cl p)"
abbreviation GetJobsAt where "GetJobsAt cl p \<equiv> px cl (RGet p) (c_GetJobs cl p)"
abbreviation Post where "Post cl p b \<equiv> px cl (RPost p b) (c_Post cl p b)"
abbreviation Put where "Put cl p b \<equiv> px cl (RPut p b) (c_Put cl p b)"
abbreviation Delete where "Delete cl p \<equiv> px cl (RDelete p) (c_Delete cl p)"

lemma emits_px [emits_intros]: "P (Px (c_name cl) r) \<Longrightarrow> emits P (px cl r f)"
  by (simp add: px_def emits_invoke)

lemma triple_px [triple_intros]:
  "(\<And>e. I e \<Longrightarrow> P (e, Px (c_name cl) r) \<and> Q (fst (f e)) (snd (f e))) \<Longrightarrow> triple I P (px cl r f) Q"
  by (simp add: px_def triple_invoke)

section \<open>Documented behaviour of the higher-order library functions\<close>

text \<open>\<open>GetVMByFilter\<close> reads the list of VMs and runs the filter on them in order: it returns the first
  resource the filter accepts, fails with the filter's error, and otherwise reports that there is
  none, by an error or by a resource without an id.\<close>

inductive scanned :: "(cluster_resource \<Rightarrow> int \<Rightarrow> ('w, bool \<times> int) io) \<Rightarrow> int \<Rightarrow> cluster_resource list \<Rightarrow> 'w \<Rightarrow>
    goerr + cluster_resource \<times> int \<Rightarrow> 'w \<Rightarrow> bool" for f where
  scanned_found: "f rs s w = (Inr (True, s'), w') \<Longrightarrow> scanned f s (rs # rss) w (Inr (rs, s')) w'"
| scanned_error: "f rs s w = (Inl e, w') \<Longrightarrow> scanned f s (rs # rss) w (Inl e) w'"
| scanned_next: "f rs s w = (Inr (False, s'), w1) \<Longrightarrow> scanned f s' rss w1 r w' \<Longrightarrow> scanned f s (rs # rss) w r w'"
| scanned_none: "scanned f s [] w (Inl e) w"
| scanned_zero: "rs_vmid rs = 0 \<Longrightarrow> scanned f s [] w (Inr (rs, s)) w"

definition GetVMByFilter_spec :: "'e client \<Rightarrow> bool" where
  "GetVMByFilter_spec cl \<longleftrightarrow>
     (\<forall>f s w. \<exists>reads e1 rss.
        (\<forall>x \<in> set reads. \<exists>e p. x = (e, Px (c_name cl) (RGet p))) \<and>
        (let w1 = w\<lparr>env := e1, trace := trace w @ reads\<rparr> in
         (\<exists>err. c_GetVMByFilter cl f s w = (Inl err, w1)) \<or>
         scanned f s rss w1 (fst (c_GetVMByFilter cl f s w)) (snd (c_GetVMByFilter cl f s w))))"

text \<open>\<open>Retry\<close> runs the function, and runs it again after a pause as long as it ends with an expected error
  and the time is not up; the outside state may change during the pause.\<close>

inductive retried :: "(int \<Rightarrow> ('e pworld, int \<times> goerr option) io) \<Rightarrow> int \<Rightarrow> 'e pworld \<Rightarrow> goerr + int \<Rightarrow> 'e pworld \<Rightarrow> bool"
  for f where
  retried_done: "f s w = (Inr (s', None), w') \<Longrightarrow> retried f s w (Inr s') w'"
| retried_error: "f s w = (Inl e, w') \<Longrightarrow> retried f s w (Inl e) w'"
| retried_again: "f s w = (Inr (s', Some e), w1) \<Longrightarrow> retried f s' (w1\<lparr>env := e1\<rparr>) r w' \<Longrightarrow> retried f s w r w'"
| retried_timeout: "f s w = (Inr (s', Some e), w') \<Longrightarrow> retried f s w (Inl t) w'"

definition Retry_spec :: "'e client \<Rightarrow> bool" where
  "Retry_spec cl \<longleftrightarrow>
     (\<forall>t u f s w. retried f s w (fst (c_Retry cl t u f s w)) (snd (c_Retry cl t u f s w)))"

text \<open>What follows from the two specifications.\<close>

lemma scanned_accepts:
  "scanned f s rss w r w' \<Longrightarrow> r = Inr (rs, s') \<Longrightarrow> rs_vmid rs \<noteq> 0 \<Longrightarrow> \<exists>t v v'. f rs t v = (Inr (True, s'), v')"
  by (induction arbitrary: rs s' rule: scanned.induct) auto

lemma GetVMByFilter_accepts:
  assumes "GetVMByFilter_spec cl" "c_GetVMByFilter cl f s w = (Inr (rs, s'), w')" "rs_vmid rs \<noteq> 0"
  obtains t v v' where "f rs t v = (Inr (True, s'), v')"
proof -
  have "\<exists>w1 rss. scanned f s rss w1 (Inr (rs, s')) w'"
    using assms(1) unfolding GetVMByFilter_spec_def Let_def by (metis assms(2) fst_conv snd_conv prod.inject sum.distinct(1))
  then obtain w1 rss where "scanned f s rss w1 (Inr (rs, s')) w'" by blast
  from scanned_accepts [OF this refl assms(3)] show ?thesis using that by blast
qed

lemma emits_step:
  "emits P m \<Longrightarrow> m w = (r, w') \<Longrightarrow> \<exists>rs. trace w' = trace w @ rs \<and> list_all (\<lambda>(_, r). P r) rs"
  unfolding emits_def triple_def by (metis snd_conv)

lemma scanned_emits:
  assumes "scanned f s rss w r w'" "\<And>rs s. emits P (f rs s)"
  shows "\<exists>rs. trace w' = trace w @ rs \<and> list_all (\<lambda>(_, r). P r) rs"
  using assms
proof (induction rule: scanned.induct)
  case (scanned_next rs s w s' w1 rss r w')
  obtain xs where "trace w1 = trace w @ xs" "list_all (\<lambda>(_, r). P r) xs"
    using emits_step [OF scanned_next(4) scanned_next(1)] by blast
  moreover obtain ys where "trace w' = trace w1 @ ys" "list_all (\<lambda>(_, r). P r) ys"
    using scanned_next by blast
  ultimately show ?case by (intro exI [of _ "xs @ ys"]) simp
qed (auto dest: emits_step)

lemma emits_GetVMByFilter [emits_intros]:
  assumes "GetVMByFilter_spec cl" "\<And>p. P (Px (c_name cl) (RGet p))" "\<And>rs s. emits P (f rs s)"
  shows "emits P (c_GetVMByFilter cl f s)"
  unfolding emits_def triple_def
proof (intro allI impI conjI)
  fix w
  obtain reads e1 rss where reads: "\<forall>x \<in> set reads. \<exists>e p. x = (e, Px (c_name cl) (RGet p))"
    and run: "(\<exists>err. c_GetVMByFilter cl f s w = (Inl err, w\<lparr>env := e1, trace := trace w @ reads\<rparr>)) \<or>
       scanned f s rss (w\<lparr>env := e1, trace := trace w @ reads\<rparr>) (fst (c_GetVMByFilter cl f s w)) (snd (c_GetVMByFilter cl f s w))"
    using assms(1) unfolding GetVMByFilter_spec_def Let_def by blast
  have ok: "list_all (\<lambda>(_, r). P r) reads" using reads assms(2) by (fastforce simp: list_all_iff)
  from run show "\<exists>rs. trace (snd (c_GetVMByFilter cl f s w)) = trace w @ rs \<and> list_all (\<lambda>(_, r). P r) rs"
  proof
    assume "\<exists>err. c_GetVMByFilter cl f s w = (Inl err, w\<lparr>env := e1, trace := trace w @ reads\<rparr>)"
    then show ?thesis using ok by auto
  next
    assume "scanned f s rss (w\<lparr>env := e1, trace := trace w @ reads\<rparr>) (fst (c_GetVMByFilter cl f s w)) (snd (c_GetVMByFilter cl f s w))"
    from scanned_emits [OF this assms(3)] show ?thesis using ok by (auto intro: exI [of _ "reads @ _"])
  qed
qed simp

lemma retried_triple:
  assumes "retried f s w r w'" "\<And>s. triple (\<lambda>_. True) P (f s) (\<lambda>r e. \<forall>s'. r = Inr (s', None) \<longrightarrow> Q s' e)"
  shows "(\<exists>rs. trace w' = trace w @ rs \<and> list_all P rs) \<and> (\<forall>s'. r = Inr s' \<longrightarrow> Q s' (env w'))"
  using assms
proof (induction rule: retried.induct)
  case (retried_again s w s' e w1 e1 r w')
  obtain xs where "trace w1 = trace w @ xs" "list_all P xs"
    using retried_again(4) [of s] retried_again(1) unfolding triple_def by (metis snd_conv)
  moreover obtain ys where "trace w' = trace w1 @ ys" "list_all P ys"
    using retried_again by auto
  moreover have "\<forall>s'. r = Inr s' \<longrightarrow> Q s' (env w')" using retried_again by blast
  ultimately show ?case by (auto intro: exI [of _ "xs @ ys"])
next
  case (retried_done s w s' w')
  then show ?case unfolding triple_def by (metis fst_conv snd_conv sum.inject(2))
next
  case (retried_error s w e w')
  then show ?case unfolding triple_def by (metis snd_conv sum.distinct(1))
next
  case (retried_timeout s w s' e w' t)
  then show ?case unfolding triple_def by (metis snd_conv sum.distinct(1))
qed

lemma triple_Retry:
  assumes "Retry_spec cl" "\<And>s. triple (\<lambda>_. True) P (f s) (\<lambda>r e. \<forall>s'. r = Inr (s', None) \<longrightarrow> Q s' e)"
  shows "triple I P (c_Retry cl t u f s) (\<lambda>r e. \<forall>s'. r = Inr s' \<longrightarrow> Q s' e)"
proof -
  have "retried f s w (fst (c_Retry cl t u f s w)) (snd (c_Retry cl t u f s w))" for w
    using assms(1) unfolding Retry_spec_def by blast
  from retried_triple [OF this, of P Q] assms(2) show ?thesis unfolding triple_def [of I] by blast
qed

lemma emits_Retry [emits_intros]: "Retry_spec cl \<Longrightarrow> (\<And>s. emits P (f s)) \<Longrightarrow> emits P (c_Retry cl t u f s)"
  unfolding emits_def
  by (rule triple_mono [OF triple_Retry [where Q = "\<lambda>_ _. True"]]) simp_all

section \<open>Paths\<close>

text \<open>\<^verbatim>\<open>url.PathEscape\<close>: every byte but the unreserved ones and \<^verbatim>\<open>$&+:=@\<close> is percent-encoded.\<close>

definition path_safe :: "char \<Rightarrow> bool" where
  "path_safe c \<longleftrightarrow> (let n = (of_char c :: nat) in
     (48 \<le> n \<and> n \<le> 57) \<or> (65 \<le> n \<and> n \<le> 90) \<or> (97 \<le> n \<and> n \<le> 122)) \<or> c \<in> set ''-_.~$&+:=@''"

definition hex_digit :: "nat \<Rightarrow> char" where
  "hex_digit n = (if n < 10 then char_of (48 + n) else char_of (55 + n))"

definition pctEncode :: "char \<Rightarrow> string" where
  "pctEncode c = (if path_safe c then [c]
     else [CHR ''%'', hex_digit (of_char c div 16), hex_digit (of_char c mod 16)])"

definition PathEscape :: "string \<Rightarrow> string" where
  "PathEscape s = concat (map pctEncode s)"

definition escapeVolumePath :: "string \<Rightarrow> string" where
  "escapeVolumePath s = Join ''/'' (map PathEscape (Split CHR ''/'' s))"

end
