(* ===== verification/Proxmox_Pool.thy ===== *)
theory Proxmox_Pool
  imports Proxmox_Api
begin

text \<open>
  The pool of Proxmox clusters (\<^verbatim>\<open>pkg/proxmoxpool\<close>: \<^verbatim>\<open>pool.go\<close>, \<^verbatim>\<open>vmconfig.go\<close>, \<^verbatim>\<open>secrets.go\<close>,
  \<^verbatim>\<open>errors.go\<close>): building it from the configuration, choosing the copy endpoint of a region,
  finding the VM behind a Kubernetes node, and resolving token references.  A Go map of clients
  is an association list in the order an iteration visits it.
\<close>

section \<open>Configuration of a cluster\<close>

record token_ref =
  tr_name :: string
  tr_namespace :: string
  tr_tokenIDKey :: string
  tr_tokenSecretKey :: string

record proxmox_cluster =
  pc_URL :: string
  pc_Insecure :: bool
  pc_TokenID :: string
  pc_TokenIDFile :: string
  pc_TokenSecret :: string
  pc_TokenSecretFile :: string
  pc_TokenRef :: "token_ref option"
  pc_Username :: string
  pc_Password :: string
  pc_Region :: string
  pc_TokenCopyEndpoint :: "bool option"
  pc_ProxmodEndpoint :: "bool option"
  pc_PrimaryStorage :: gomap

section \<open>Copy endpoints\<close>

datatype copy_endpoint = CopyEndpointBuiltin | CopyEndpointCSICopy | CopyEndpointProxmod

fun CopyEndpointString :: "copy_endpoint \<Rightarrow> string" where
  "CopyEndpointString CopyEndpointCSICopy = ''token-copy-endpoint''"
| "CopyEndpointString CopyEndpointProxmod = ''proxmod-endpoint''"
| "CopyEndpointString CopyEndpointBuiltin = ''builtin''"

definition resolveEndpointOverride :: "bool option \<Rightarrow> bool \<Rightarrow> bool" where
  "resolveEndpointOverride override fallback = (case override of Some b \<Rightarrow> b | None \<Rightarrow> fallback)"

definition resolveCopyEndpoint :: "bool option \<Rightarrow> bool option \<Rightarrow> bool \<Rightarrow> bool \<Rightarrow> copy_endpoint" where
  "resolveCopyEndpoint tokenCopy proxmod tokenCopyFallback proxmodFallback =
     (if resolveEndpointOverride proxmod proxmodFallback then CopyEndpointProxmod
      else if resolveEndpointOverride tokenCopy tokenCopyFallback then CopyEndpointCSICopy
      else CopyEndpointBuiltin)"

definition ClusterCopyEndpoint :: "proxmox_cluster \<Rightarrow> bool \<Rightarrow> bool \<Rightarrow> copy_endpoint" where
  "ClusterCopyEndpoint c = resolveCopyEndpoint (pc_TokenCopyEndpoint c) (pc_ProxmodEndpoint c)"

section \<open>The pool\<close>

record 'e pool =
  pl_clients :: "(string \<times> 'e client) list"
  pl_tokenCopyEndpoint :: "(string \<times> bool option) list"
  pl_proxmodEndpoint :: "(string \<times> bool option) list"

text \<open>A missing key of a \<^verbatim>\<open>map[string]*bool\<close> reads as \<^verbatim>\<open>nil\<close>.\<close>

definition pbget :: "(string \<times> bool option) list \<Rightarrow> string \<Rightarrow> bool option" where
  "pbget m k = (case map_of m k of Some v \<Rightarrow> v | None \<Rightarrow> None)"

definition TokenCopyEndpoint :: "'e pool \<Rightarrow> string \<Rightarrow> bool \<Rightarrow> bool" where
  "TokenCopyEndpoint p region fallback = resolveEndpointOverride (pbget (pl_tokenCopyEndpoint p) region) fallback"

definition ProxmodEndpoint :: "'e pool \<Rightarrow> string \<Rightarrow> bool \<Rightarrow> bool" where
  "ProxmodEndpoint p region fallback = resolveEndpointOverride (pbget (pl_proxmodEndpoint p) region) fallback"

definition CopyEndpoint :: "'e pool \<Rightarrow> string \<Rightarrow> bool \<Rightarrow> bool \<Rightarrow> copy_endpoint" where
  "CopyEndpoint p region tokenCopyFallback proxmodFallback =
     resolveCopyEndpoint (pbget (pl_tokenCopyEndpoint p) region) (pbget (pl_proxmodEndpoint p) region)
       tokenCopyFallback proxmodFallback"

definition GetRegions :: "'e pool \<Rightarrow> string list" where
  "GetRegions p = map fst (pl_clients p)"

definition GetProxmoxCluster :: "'e pool \<Rightarrow> string \<Rightarrow> goerr + 'e client" where
  "GetProxmoxCluster p region =
     (case map_of (pl_clients p) region of
        Some cl \<Rightarrow> Inr cl
      | None \<Rightarrow> Inl (Sentinel ErrRegionNotFound ''region not found''))"

text \<open>Building the pool.  \<^verbatim>\<open>os.ReadFile\<close> and \<^verbatim>\<open>goproxmox.NewAPIClient\<close> are parameters; the latter takes
  the options the program passes: TLS verification and the credentials.\<close>

datatype credentials = NoCredentials | UserCredentials string string | APIToken string string

definition readValueFromFile :: "(string \<Rightarrow> goerr + string) \<Rightarrow> string \<Rightarrow> goerr + string" where
  "readValueFromFile readFile path =
     (if path = [] then Inl (Plain ''path cannot be empty'')
      else case readFile path of
             Inl e \<Rightarrow> Inl (Wrap (''failed to read file '' @ [CHR 0x27] @ path @ [CHR 0x27] @ '': '' @ Error e) e)
           | Inr content \<Rightarrow> Inr (TrimSpace content))"

definition tokenValue :: "(string \<Rightarrow> goerr + string) \<Rightarrow> string \<Rightarrow> string \<Rightarrow> goerr + string" where
  "tokenValue readFile inline file =
     (if inline = [] \<and> file \<noteq> [] then readValueFromFile readFile file else Inr inline)"

definition clusterCredentials :: "proxmox_cluster \<Rightarrow> string \<Rightarrow> string \<Rightarrow> credentials" where
  "clusterCredentials c tokenID tokenSecret =
     (if pc_Username c \<noteq> [] \<and> pc_Password c \<noteq> [] then UserCredentials (pc_Username c) (pc_Password c)
      else if tokenID \<noteq> [] \<and> tokenSecret \<noteq> [] then APIToken tokenID tokenSecret
      else NoCredentials)"

definition emptyPool :: "'e pool" where
  "emptyPool = \<lparr>pl_clients = [], pl_tokenCopyEndpoint = [], pl_proxmodEndpoint = []\<rparr>"

fun poolLoop :: "(string \<Rightarrow> goerr + string) \<Rightarrow> (string \<Rightarrow> bool \<Rightarrow> credentials \<Rightarrow> goerr + 'e client) \<Rightarrow>
    proxmox_cluster list \<Rightarrow> 'e pool \<Rightarrow> goerr + 'e pool" where
  "poolLoop readFile newClient [] p = Inr p"
| "poolLoop readFile newClient (c # cs) p =
     (case tokenValue readFile (pc_TokenID c) (pc_TokenIDFile c) of
        Inl e \<Rightarrow> Inl e
      | Inr tokenID \<Rightarrow>
          (case tokenValue readFile (pc_TokenSecret c) (pc_TokenSecretFile c) of
             Inl e \<Rightarrow> Inl e
           | Inr tokenSecret \<Rightarrow>
               (case newClient (pc_URL c) (pc_Insecure c) (clusterCredentials c tokenID tokenSecret) of
                  Inl e \<Rightarrow> Inl e
                | Inr cl \<Rightarrow>
                    poolLoop readFile newClient cs
                      \<lparr>pl_clients = AList.update (pc_Region c) cl (pl_clients p),
                       pl_tokenCopyEndpoint = AList.update (pc_Region c) (pc_TokenCopyEndpoint c) (pl_tokenCopyEndpoint p),
                       pl_proxmodEndpoint = AList.update (pc_Region c) (pc_ProxmodEndpoint c) (pl_proxmodEndpoint p)\<rparr>)))"

definition NewProxmoxPool :: "(string \<Rightarrow> goerr + string) \<Rightarrow> (string \<Rightarrow> bool \<Rightarrow> credentials \<Rightarrow> goerr + 'e client) \<Rightarrow>
    proxmox_cluster list \<Rightarrow> goerr + 'e pool" where
  "NewProxmoxPool readFile newClient config =
     (if config = [] then Inl (Sentinel ErrClustersNotFound ''clusters not found'')
      else poolLoop readFile newClient config emptyPool)"

section \<open>Health and HA groups\<close>

fun CheckClustersIn :: "(string \<times> 'e client) list \<Rightarrow> ('e pworld, unit) io" where
  "CheckClustersIn [] = ret ()"
| "CheckClustersIn ((region, cl) # cls) =
     call (ApiVersion cl)
       (\<lambda>e. fail (Plain (''failed to initialized proxmox client in region '' @ region @ '', error: '' @ Error e)))
       (\<lambda>info. call (ClusterInfo cl)
          (\<lambda>e. fail (Plain (''failed to get cluster info in region '' @ region @ '', error: '' @ Error e)))
          (\<lambda>_. call (VMResources cl)
             (\<lambda>e. fail (Plain (''failed to get list of VMs in region '' @ region @ '', error: '' @ Error e)))
             (\<lambda>vms. CheckClustersIn cls)))"

definition CheckClusters :: "'e pool \<Rightarrow> ('e pworld, unit) io" where
  "CheckClusters p = CheckClustersIn (pl_clients p)"

definition groupHasNode :: "string \<Rightarrow> ha_group \<Rightarrow> bool" where
  "groupHasNode node g \<longleftrightarrow>
     ha_type g = ''group'' \<and> (\<exists>n \<in> set (Split CHR '','' (ha_nodes g)). node = hd (Split CHR '':'' n))"

definition GetNodeGroup :: "'e pool \<Rightarrow> string \<Rightarrow> string \<Rightarrow> ('e pworld, string) io" where
  "GetNodeGroup p region node =
     bindE (lift (GetProxmoxCluster p region)) (\<lambda>cl.
       call (GetHAGroupList cl)
         (\<lambda>e. fail (Plain (''error get ha-groups '' @ Error e)))
         (\<lambda>haGroups. case find (groupHasNode node) haGroups of
             Some g \<Rightarrow> ret (ha_group_name g)
           | None \<Rightarrow> fail (Sentinel ErrHAGroupNotFound ''ha-group not found'')))"

section \<open>Finding VMs\<close>

text \<open>\<^verbatim>\<open>strings.EqualFold\<close> on one-byte letters.\<close>

definition EqualFold :: "string \<Rightarrow> string \<Rightarrow> bool" where
  "EqualFold a b \<longleftrightarrow> ToLower a = ToLower b"

definition vmStatusUnknown :: string where
  "vmStatusUnknown = ''unknown''"

definition GetVMConfigByResource :: "'e client \<Rightarrow> cluster_resource \<Rightarrow> ('e pworld, vm) io" where
  "GetVMConfigByResource cl rs =
     (if rs_status rs = vmStatusUnknown then fail (ErrVMUnreachable cl)
      else bindE (GetConfigAt cl (''/nodes/'' @ PathEscape (rs_node rs) @ ''/qemu/'' @ Itoa (rs_vmid rs) @ ''/config''))
             (\<lambda>cfg. ret \<lparr>vm_node = rs_node rs, vm_vmid = rs_vmid rs, vm_cfg = cfg\<rparr>))"

definition nodeFilter :: "'e client \<Rightarrow> k8s_node \<Rightarrow> cluster_resource \<Rightarrow> int \<Rightarrow> ('e pworld, bool \<times> int) io" where
  "nodeFilter cl node rs s =
     (if rs_type rs \<noteq> ''qemu'' then ret (False, s)
      else if \<not> HasPrefix (rs_name rs) (kn_name node) then ret (False, s)
      else bindE (GetVMConfigByResource cl rs)
             (\<lambda>vm. ret (EqualFold (vc_uuid (vm_cfg vm)) (kn_systemUUID node), s)))"

definition uuidFilter :: "'e client \<Rightarrow> string \<Rightarrow> cluster_resource \<Rightarrow> int \<Rightarrow> ('e pworld, bool \<times> int) io" where
  "uuidFilter cl uuid rs s =
     (if rs_type rs \<noteq> ''qemu'' then ret (False, s)
      else bindE (GetVMConfigByResource cl rs)
             (\<lambda>vm. ret (EqualFold (vc_uuid (vm_cfg vm)) uuid, s)))"

definition instanceNotFound :: goerr where
  "instanceNotFound = Sentinel ErrInstanceNotFound ''instance not found''"

fun FindVMByNodeIn :: "(string \<times> 'e client) list \<Rightarrow> k8s_node \<Rightarrow> ('e pworld, int \<times> string) io" where
  "FindVMByNodeIn [] node = fail instanceNotFound"
| "FindVMByNodeIn ((region, cl) # cls) node =
     call (c_GetVMByFilter cl (nodeFilter cl node) 0)
       (\<lambda>e. if errEq e ErrVirtualMachineNotFound then FindVMByNodeIn cls node else fail e)
       (\<lambda>(vm, _). if rs_vmid vm = 0 then FindVMByNodeIn cls node else ret (rs_vmid vm, region))"

definition FindVMByNode :: "'e pool \<Rightarrow> k8s_node \<Rightarrow> ('e pworld, int \<times> string) io" where
  "FindVMByNode p node = FindVMByNodeIn (pl_clients p) node"

fun FindVMByUUIDIn :: "(string \<times> 'e client) list \<Rightarrow> string \<Rightarrow> ('e pworld, int \<times> string) io" where
  "FindVMByUUIDIn [] uuid = fail instanceNotFound"
| "FindVMByUUIDIn ((region, cl) # cls) uuid =
     call (c_GetVMByFilter cl (uuidFilter cl uuid) 0)
       (\<lambda>e. if errIs e ErrVirtualMachineNotFound then FindVMByUUIDIn cls uuid else fail instanceNotFound)
       (\<lambda>(vm, _). ret (rs_vmid vm, region))"

definition FindVMByUUID :: "'e pool \<Rightarrow> string \<Rightarrow> ('e pworld, int \<times> string) io" where
  "FindVMByUUID p uuid = FindVMByUUIDIn (pl_clients p) uuid"

section \<open>Token references\<close>

text \<open>\<^verbatim>\<open>%q\<close> on printable one-byte text.\<close>

definition Quote :: "string \<Rightarrow> string" where
  "Quote s = CHR 0x22 # concat (map (\<lambda>c. if c = CHR 0x22 \<or> c = CHR 0x5C then [CHR 0x5C, c] else [c]) s) @ [CHR 0x22]"

definition orDefault :: "string \<Rightarrow> string \<Rightarrow> string" where
  "orDefault s d = (if s = [] then d else s)"

text \<open>\<open>getSecret\<close> is the Kubernetes client's read of a Secret's data.\<close>

definition resolveTokenRef :: "(string \<Rightarrow> string \<Rightarrow> goerr + gomap) \<Rightarrow> string \<Rightarrow> proxmox_cluster \<Rightarrow> goerr + proxmox_cluster" where
  "resolveTokenRef getSecret defaultNamespace c =
     (case pc_TokenRef c of
        None \<Rightarrow> Inr c
      | Some ref \<Rightarrow>
          let namespace = orDefault (tr_namespace ref) defaultNamespace;
              tokenIDKey = orDefault (tr_tokenIDKey ref) ''token_id'';
              tokenSecretKey = orDefault (tr_tokenSecretKey ref) ''token_secret'';
              pre = ''token_ref for cluster '' @ Quote (pc_Region c) @ '': '';
              secretName = namespace @ ''/'' @ tr_name ref
          in if namespace = []
             then Inl (Plain (pre @ ''namespace is required (set token_ref.namespace explicitly)''))
             else case getSecret namespace (tr_name ref) of
                    Inl e \<Rightarrow> Inl (Wrap (pre @ ''failed to get secret '' @ secretName @ '': '' @ Error e) e)
                  | Inr data \<Rightarrow>
                      (case map_of data tokenIDKey of
                         None \<Rightarrow> Inl (Plain (pre @ ''secret '' @ secretName @ '' has no key '' @ Quote tokenIDKey))
                       | Some tokenID \<Rightarrow>
                           (case map_of data tokenSecretKey of
                              None \<Rightarrow> Inl (Plain (pre @ ''secret '' @ secretName @ '' has no key '' @ Quote tokenSecretKey))
                            | Some tokenSecret \<Rightarrow>
                                Inr (c\<lparr>pc_TokenID := TrimSpace tokenID, pc_TokenSecret := TrimSpace tokenSecret\<rparr>))))"

fun ResolveTokenRefs :: "(string \<Rightarrow> string \<Rightarrow> goerr + gomap) \<Rightarrow> string \<Rightarrow> proxmox_cluster list \<Rightarrow>
    goerr + proxmox_cluster list" where
  "ResolveTokenRefs getSecret defaultNamespace [] = Inr []"
| "ResolveTokenRefs getSecret defaultNamespace (c # cs) =
     (case resolveTokenRef getSecret defaultNamespace c of
        Inl e \<Rightarrow> Inl e
      | Inr c' \<Rightarrow> (case ResolveTokenRefs getSecret defaultNamespace cs of Inl e \<Rightarrow> Inl e | Inr cs' \<Rightarrow> Inr (c' # cs')))"

section \<open>Lemmas\<close>

lemma pbget_update: "pbget (AList.update k v m) k' = (if k' = k then v else pbget m k')"
  by (simp add: pbget_def update_conv')

lemma poolLoop_client:
  assumes "poolLoop readFile newClient cs p = Inr q"
  shows "map_of (pl_clients q) r \<noteq> None \<longleftrightarrow> map_of (pl_clients p) r \<noteq> None \<or> r \<in> pc_Region ` set cs"
  using assms
proof (induction cs arbitrary: p)
  case (Cons c cs)
  then show ?case by (auto simp: update_conv' split: sum.splits if_splits)
qed simp

lemma poolLoop_ConsD:
  assumes "poolLoop readFile newClient (a # cs) p = Inr q"
  shows "\<exists>cl. poolLoop readFile newClient cs \<lparr>pl_clients = AList.update (pc_Region a) cl (pl_clients p),
     pl_tokenCopyEndpoint = AList.update (pc_Region a) (pc_TokenCopyEndpoint a) (pl_tokenCopyEndpoint p),
     pl_proxmodEndpoint = AList.update (pc_Region a) (pc_ProxmodEndpoint a) (pl_proxmodEndpoint p)\<rparr> = Inr q"
  using assms by (auto split: sum.splits)

lemma poolLoop_endpoints:
  assumes "poolLoop readFile newClient cs p = Inr q" "distinct (map pc_Region cs)"
  shows "c \<in> set cs \<Longrightarrow> pbget (pl_tokenCopyEndpoint q) (pc_Region c) = pc_TokenCopyEndpoint c \<and>
           pbget (pl_proxmodEndpoint q) (pc_Region c) = pc_ProxmodEndpoint c"
    and "r \<notin> pc_Region ` set cs \<Longrightarrow> pbget (pl_tokenCopyEndpoint q) r = pbget (pl_tokenCopyEndpoint p) r \<and>
           pbget (pl_proxmodEndpoint q) r = pbget (pl_proxmodEndpoint p) r"
  using assms
proof (induction cs arbitrary: p r c)
  case (Cons a cs)
  {
    case 1
    then obtain cl where l: "poolLoop readFile newClient cs \<lparr>pl_clients = AList.update (pc_Region a) cl (pl_clients p),
        pl_tokenCopyEndpoint = AList.update (pc_Region a) (pc_TokenCopyEndpoint a) (pl_tokenCopyEndpoint p),
        pl_proxmodEndpoint = AList.update (pc_Region a) (pc_ProxmodEndpoint a) (pl_proxmodEndpoint p)\<rparr> = Inr q"
      using poolLoop_ConsD by blast
    show ?case
    proof (cases "c \<in> set cs")
      case True
      then show ?thesis using Cons.IH(1) [OF _ l] 1(3) by simp
    next
      case False
      then have "c = a" "pc_Region a \<notin> pc_Region ` set cs" using 1 by auto
      then show ?thesis using Cons.IH(2) [where r = "pc_Region a", OF _ l] 1(3) by (simp add: pbget_update)
    qed
  next
    case 2
    then obtain cl where l: "poolLoop readFile newClient cs \<lparr>pl_clients = AList.update (pc_Region a) cl (pl_clients p),
        pl_tokenCopyEndpoint = AList.update (pc_Region a) (pc_TokenCopyEndpoint a) (pl_tokenCopyEndpoint p),
        pl_proxmodEndpoint = AList.update (pc_Region a) (pc_ProxmodEndpoint a) (pl_proxmodEndpoint p)\<rparr> = Inr q"
      using poolLoop_ConsD by blast
    then show ?case using Cons.IH(2) [where r = r, OF _ l] 2 by (auto simp: pbget_update)
  }
qed simp_all

lemma emits_GetVMConfigByResource [emits_intros]:
  "(\<And>p. P (Px (c_name cl) (RGet p))) \<Longrightarrow> emits P (GetVMConfigByResource cl rs)"
  unfolding GetVMConfigByResource_def by (intro emits_intros)

lemma emits_nodeFilter [emits_intros]:
  "(\<And>p. P (Px (c_name cl) (RGet p))) \<Longrightarrow> emits P (nodeFilter cl node rs s)"
  unfolding nodeFilter_def by (intro emits_intros)

lemma emits_uuidFilter [emits_intros]:
  "(\<And>p. P (Px (c_name cl) (RGet p))) \<Longrightarrow> emits P (uuidFilter cl uuid rs s)"
  unfolding uuidFilter_def by (intro emits_intros)

lemma emits_FindVMByNodeIn:
  assumes "\<And>cl. cl \<in> snd ` set cls \<Longrightarrow> GetVMByFilter_spec cl" "\<And>n p. P (Px n (RGet p))"
  shows "emits P (FindVMByNodeIn cls node)"
  using assms
proof (induction cls)
  case (Cons x cls)
  obtain region cl where x: "x = (region, cl)" by fastforce
  have "emits P (FindVMByNodeIn cls node)" by (rule Cons(1)) (use Cons(2,3) in auto)
  moreover have "GetVMByFilter_spec cl" using Cons(2) [of cl] x by simp
  ultimately show ?case unfolding x FindVMByNodeIn.simps using Cons(3)
    by (intro emits_intros) simp_all
qed (simp add: emits_fail)

lemma emits_FindVMByUUIDIn:
  assumes "\<And>cl. cl \<in> snd ` set cls \<Longrightarrow> GetVMByFilter_spec cl" "\<And>n p. P (Px n (RGet p))"
  shows "emits P (FindVMByUUIDIn cls uuid)"
  using assms
proof (induction cls)
  case (Cons x cls)
  obtain region cl where x: "x = (region, cl)" by fastforce
  have "emits P (FindVMByUUIDIn cls uuid)" by (rule Cons(1)) (use Cons(2,3) in auto)
  moreover have "GetVMByFilter_spec cl" using Cons(2) [of cl] x by simp
  ultimately show ?case unfolding x FindVMByUUIDIn.simps using Cons(3)
    by (intro emits_intros) simp_all
qed (simp add: emits_fail)

end
