(* ===== verification/Sample_Cluster.thy ===== *)
theory Sample_Cluster
  imports Proxmox_Api
begin

text \<open>
  A small executable cluster that answers every call of the client interface, with VMs, storages
  and disks.  It shows that the hypotheses the theorems make about the libraries can hold, and is
  the concrete client on which the properties are instantiated.  It stands for no code of the
  repository.
\<close>

record sim =
  s_nodes :: "string list"
  s_storages :: "(string \<times> cluster_resource) list"
  s_vms :: "(string \<times> vm) list"
  s_disks :: "(string \<times> string \<times> string \<times> int) list"

definition simNotFound :: goerr where
  "simNotFound = Sentinel ErrVirtualMachineNotFound ''virtual machine not found''"

definition simVM :: "int \<Rightarrow> (sim, vm) api" where
  "simVM i s = ((case find (\<lambda>(_, v). vm_vmid v = i) (s_vms s) of Some (_, v) \<Rightarrow> Inr v | None \<Rightarrow> Inl simNotFound), s)"

definition simResource :: "string \<times> vm \<Rightarrow> cluster_resource" where
  "simResource = (\<lambda>(n, v). \<lparr>rs_type = ''qemu'', rs_vmid = vm_vmid v, rs_node = vm_node v, rs_name = n,
      rs_status = ''running'', rs_pluginType = [], rs_shared = 0\<rparr>)"

definition simVMResource :: "int \<Rightarrow> (sim, cluster_resource) api" where
  "simVMResource i s = ((case find (\<lambda>(_, v). vm_vmid v = i) (s_vms s) of
      Some x \<Rightarrow> Inr (simResource x) | None \<Rightarrow> Inl simNotFound), s)"

definition simConfigAt :: "string \<Rightarrow> (sim, vm_config) api" where
  "simConfigAt p s = ((case find (\<lambda>(_, v). p = ''/nodes/'' @ vm_node v @ ''/qemu/'' @ Itoa (vm_vmid v) @ ''/config'') (s_vms s) of
      Some (_, v) \<Rightarrow> Inr (vm_cfg v) | None \<Rightarrow> Inl (Plain ''no such VM'')), s)"

definition simStorage :: "string \<Rightarrow> (sim, cluster_resource) api" where
  "simStorage st s = ((case map_of (s_storages s) st of Some r \<Rightarrow> Inr r | None \<Rightarrow> Inl (Plain ''No such storage'')), s)"

definition simStatus :: "string \<Rightarrow> string \<Rightarrow> (sim, storage_status) api" where
  "simStatus n st s = ((if map_of (s_storages s) st \<noteq> None
      then Inr \<lparr>ss_avail = 1000, ss_total = 2000, ss_used = 1000\<rparr> else Inl (Plain ''No such storage'')), s)"

definition simContent :: "string \<Rightarrow> string \<Rightarrow> sim \<Rightarrow> (string \<times> int) list" where
  "simContent n st s = map (\<lambda>(_, _, v, z). (v, z)) (filter (\<lambda>(n', st', _, _). n' = n \<and> st' = st) (s_disks s))"

definition simContents :: "string \<Rightarrow> string \<Rightarrow> (sim, storage_content list) api" where
  "simContents n st s = (Inr (map (\<lambda>(v, z). \<lparr>ct_volid = v, ct_size = z, ct_format = ''raw'', ct_vmid = 0, ct_ctime = 0\<rparr>)
      (simContent n st s)), s)"

definition simContentAt :: "string \<Rightarrow> (sim, (string \<times> int) list) api" where
  "simContentAt p s = (Inr (map (\<lambda>(_, _, v, z). (v, z))
      (filter (\<lambda>(n, st, _, _). p = ''/nodes/'' @ n @ ''/storage/'' @ st @ ''/content'') (s_disks s))), s)"

definition simUpdateVM :: "int \<Rightarrow> (vm_config \<Rightarrow> vm_config) \<Rightarrow> sim \<Rightarrow> sim" where
  "simUpdateVM i f s = s\<lparr>s_vms := map (\<lambda>(n, v). (n, if vm_vmid v = i then v\<lparr>vm_cfg := f (vm_cfg v)\<rparr> else v)) (s_vms s)\<rparr>"

text \<open>Setting a \<^verbatim>\<open>scsi<n>\<close> key attaches a disk; deleting an \<^verbatim>\<open>unused<n>\<close> key deallocates its volume.\<close>

definition simConfig :: "vm \<Rightarrow> string \<Rightarrow> string \<Rightarrow> (sim, task option) api" where
  "simConfig v name val s =
     (Inr (Some \<lparr>tk_failed = False, tk_exit = ''OK''\<rparr>),
      if name = ''delete''
      then (let gone = mget (vc_unuseds (vm_cfg v)) val
            in (simUpdateVM (vm_vmid v) (\<lambda>c. c\<lparr>vc_unuseds := filter (\<lambda>(k, _). k \<noteq> val) (vc_unuseds c)\<rparr>) s)
                 \<lparr>s_disks := filter (\<lambda>(_, _, d, _). d \<noteq> gone) (s_disks s)\<rparr>)
      else simUpdateVM (vm_vmid v) (\<lambda>c. c\<lparr>vc_scsis := mset_key (vc_scsis c) name val\<rparr>) s)"

definition simUnlink :: "vm \<Rightarrow> string \<Rightarrow> bool \<Rightarrow> (sim, task option) api" where
  "simUnlink v dev force s =
     (Inr None,
      simUpdateVM (vm_vmid v) (\<lambda>c. c\<lparr>vc_scsis := filter (\<lambda>(k, _). k \<noteq> dev) (vc_scsis c),
        vc_unuseds := (''unused0'', hd (Split CHR '','' (mget (vc_scsis c) dev))) # vc_unuseds c\<rparr>) s)"

fun simScan :: "(string \<times> vm) list \<Rightarrow> (cluster_resource \<Rightarrow> int \<Rightarrow> (sim pworld, bool \<times> int) io) \<Rightarrow> int \<Rightarrow>
    (sim pworld, cluster_resource \<times> int) io" where
  "simScan [] f s = fail simNotFound"
| "simScan (x # xs) f s =
     bindE (f (simResource x) s) (\<lambda>(ok, s'). if ok then ret (simResource x, s') else simScan xs f s')"

definition simByFilter :: "(cluster_resource \<Rightarrow> int \<Rightarrow> (sim pworld, bool \<times> int) io) \<Rightarrow> int \<Rightarrow>
    (sim pworld, cluster_resource \<times> int) io" where
  "simByFilter f s = bindE (invoke (Px ''sim'' (RGet ''resources'')) (\<lambda>e. (Inr (s_vms e), e))) (\<lambda>vms. simScan vms f s)"

fun simRetry :: "nat \<Rightarrow> (int \<Rightarrow> (sim pworld, int \<times> goerr option) io) \<Rightarrow> int \<Rightarrow> (sim pworld, int) io" where
  "simRetry 0 f s = bindE (f s) (\<lambda>(s', r). case r of None \<Rightarrow> ret s' | Some _ \<Rightarrow> fail (Plain ''timeout''))"
| "simRetry (Suc n) f s =
     bindE (f s) (\<lambda>(s', r). case r of None \<Rightarrow> ret s' | Some _ \<Rightarrow> simRetry n f s')"

text \<open>The rename endpoint moves the volume to its new name; every other post answers with an empty
  task id.\<close>

definition jget :: "params_map \<Rightarrow> string \<Rightarrow> string" where
  "jget ps k = (case map_of ps k of Some v \<Rightarrow> showJ v | None \<Rightarrow> [])"

definition simPost :: "string \<Rightarrow> params_map \<Rightarrow> (sim, string) api" where
  "simPost p ps s =
     (if HasSuffix p ''/rename''
      then (let old = jget ps ''storage'' @ '':'' @ jget ps ''volume'';
                new = jget ps ''storage'' @ '':'' @ jget ps ''target_volname''
            in (Inr new, s\<lparr>s_disks := map (\<lambda>(n, st, v, z). (n, st, if v = old then new else v, z)) (s_disks s)\<rparr>))
      else (Inr [], s))"

definition simClient :: "sim client" where
  "simClient =
     \<lparr>c_name = ''sim'', c_vmNotFoundText = ''virtual machine not found'', c_vmUnreachableText = ''virtual machine unreachable'',
      c_GetVMConfig = simVM,
      c_GetNodesForStorage = (\<lambda>st s. (Inr (s_nodes s), s)),
      c_GetNodeList = (\<lambda>s. (Inr (s_nodes s), s)),
      c_GetStorageStatus = simStatus,
      c_GetStorageContent = simContents,
      c_GetClusterStorage = simStorage,
      c_ClusterStorage = (\<lambda>st s. (case fst (simStorage st s) of Inl e \<Rightarrow> Inl e
          | Inr r \<Rightarrow> Inr \<lparr>sc_nodes = [], sc_type = rs_pluginType r, sc_shared = rs_shared r\<rparr>, s)),
      c_GetVMByID = simVMResource,
      c_Node = (\<lambda>n s. (Inr (), s)),
      c_VirtualMachine = (\<lambda>n i. simVM i),
      c_Version = (\<lambda>s. (Inr ''8'', s)), c_Cluster = (\<lambda>s. (Inr (), s)),
      c_VMResources = (\<lambda>s. (Inr (map simResource (s_vms s)), s)),
      c_GetHAGroupList = (\<lambda>s. (Inr [], s)),
      c_GetNextID = (\<lambda>i s. (Inr i, s)),
      c_Config = simConfig, c_UnlinkDisk = simUnlink,
      c_Migrate = (\<lambda>v t f s. (Inr None, s)),
      c_CreateVMDisk = (\<lambda>i n st d b s. (Inr (st @ '':'' @ d), s\<lparr>s_disks := (n, st, st @ '':'' @ d, b) # s_disks s\<rparr>)),
      c_DeleteVMDisk = (\<lambda>n st d s. (Inr (), s\<lparr>s_disks := filter (\<lambda>(_, _, v, _). v \<noteq> st @ '':'' @ d) (s_disks s)\<rparr>)),
      c_ResizeVMDisk = (\<lambda>i n d z s. (Inr (), s)),
      c_CreateVM = (\<lambda>n p s. (Inr (), s)),
      c_DeleteVMByID = (\<lambda>n i s. (Inr (), s\<lparr>s_vms := filter (\<lambda>(_, v). vm_vmid v \<noteq> i) (s_vms s)\<rparr>)),
      c_NewTask = (\<lambda>u. if u = [] then None else Some \<lparr>tk_failed = False, tk_exit = ''OK''\<rparr>),
      c_WaitFor = (\<lambda>t n s. (Inr t, s)),
      c_WaitForCompleteStatus = (\<lambda>t n i s. (Inr (True, True, t), s)),
      c_GetConfig = simConfigAt, c_GetContentList = simContentAt,
      c_GetResources = (\<lambda>p s. (Inr (map simResource (s_vms s)), s)),
      c_GetJobs = (\<lambda>p s. (Inr [], s)),
      c_Post = simPost, c_Put = (\<lambda>p b s. (Inr (), s)), c_Delete = (\<lambda>p s. (Inr [], s)),
      c_GetVMByFilter = simByFilter,
      c_Retry = (\<lambda>t u. simRetry 6), c_IsTimeout = (\<lambda>e. e = Plain ''timeout'')\<rparr>"

lemma simClient_sel [simp]:
  "c_name simClient = ''sim''" "c_GetVMConfig simClient = simVM" "c_GetStorageStatus simClient = simStatus"
  "c_GetStorageContent simClient = simContents" "c_GetVMByFilter simClient = simByFilter"
  "c_Retry simClient t u = simRetry 6" "c_Config simClient = simConfig" "c_UnlinkDisk simClient = simUnlink"
  "c_GetContentList simClient = simContentAt" "c_GetConfig simClient = simConfigAt" "c_Post simClient = simPost"
  by (simp_all add: simClient_def)

section \<open>The sample cluster satisfies the hypotheses on the libraries\<close>

lemma simScan_scanned: "scanned f s (map simResource xs) w (fst (simScan xs f s w)) (snd (simScan xs f s w))"
proof (induction xs arbitrary: s w)
  case Nil
  show ?case by (simp add: fail_def scanned_none)
next
  case (Cons x xs)
  show ?case
  proof (cases "f (simResource x) s w")
    case (Pair r w1)
    show ?thesis
    proof (cases r)
      case (Inl e)
      then show ?thesis using Pair by (simp add: bindE_def call_def fail_def scanned_error)
    next
      case (Inr p)
      obtain ok s1 where p: "p = (ok, s1)" by fastforce
      show ?thesis
      proof (cases ok)
        case True
        then show ?thesis using Pair Inr p by (simp add: bindE_def call_def ret_def scanned_found)
      next
        case False
        then show ?thesis using Pair Inr p Cons.IH [of s1 w1] by (simp add: bindE_def call_def scanned_next)
      qed
    qed
  qed
qed

lemma simClient_filter [simp]: "GetVMByFilter_spec simClient"
  unfolding GetVMByFilter_spec_def
proof (intro allI)
  fix f s and w :: "sim pworld"
  show "\<exists>reads e1 rss. (\<forall>x \<in> set reads. \<exists>e p. x = (e, Px (c_name simClient) (RGet p))) \<and>
     (let w1 = w\<lparr>env := e1, trace := trace w @ reads\<rparr> in
      (\<exists>err. c_GetVMByFilter simClient f s w = (Inl err, w1)) \<or>
      scanned f s rss w1 (fst (c_GetVMByFilter simClient f s w)) (snd (c_GetVMByFilter simClient f s w)))"
    by (rule exI [of _ "[(env w, Px ''sim'' (RGet ''resources''))]"], rule exI [of _ "env w"],
        rule exI [of _ "map simResource (s_vms (env w))"])
      (simp add: simByFilter_def bindE_def call_def invoke_def simScan_scanned)
qed

lemma simRetry_retried: "retried f s w (fst (simRetry n f s w)) (snd (simRetry n f s w))"
proof (induction n arbitrary: s w)
  case 0
  obtain r w1 where r: "f s w = (r, w1)" by fastforce
  then show ?case
    by (cases r) (auto simp: bindE_def call_def fail_def ret_def split: option.split
        intro: retried_error retried_done retried_timeout)
next
  case (Suc n)
  obtain r w1 where r: "f s w = (r, w1)" by fastforce
  have "w1\<lparr>env := env w1\<rparr> = w1" by simp
  then show ?case using r Suc.IH retried_again [of f s w _ _ w1 "env w1"]
    by (cases r) (auto simp: bindE_def call_def fail_def ret_def split: option.split
        intro: retried_error retried_done)
qed

lemma simClient_retry [simp]: "Retry_spec simClient"
  by (simp add: Retry_spec_def simRetry_retried)

end
