(* ===== verification/Volume_Ops.thy ===== *)
theory Volume_Ops
  imports Proxmox_Pool Sample_Cluster
begin

text \<open>
  Operations on volumes as storage content and on the helper VM of a format conversion
  (\<^verbatim>\<open>pkg/tools/proxmox/volume.go\<close> and \<^verbatim>\<open>vm.go\<close>): waiting for a detach, finding, deleting, copying
  and renaming a disk, and the conversion to raw.
\<close>

section \<open>Waiting and listing\<close>

text \<open>The loop ends when the disk is gone, on an error, or when the context ends.  \<open>ticks\<close> is the
  number of ticks of the 5-second ticker that arrive before the context does, and \<open>done\<close> the
  error of the ended context.\<close>

fun waitDetachLoop :: "nat \<Rightarrow> goerr \<Rightarrow> 'e client \<Rightarrow> int \<Rightarrow> string \<Rightarrow> ('e pworld, unit) io" where
  "waitDetachLoop ticks done cl vmID pvc =
     call (GetVMConfig cl vmID)
       (\<lambda>e. if errIs e ErrVirtualMachineNotFound then ret ()
            else fail (Plain (''failed to get vm config for VMID '' @ Itoa vmID @ '': '' @ Error e)))
       (\<lambda>vm. if \<not> list_ex (\<lambda>(_, disk). Contains disk pvc) (vc_scsis (vm_cfg vm)) then ret ()
             else case ticks of 0 \<Rightarrow> fail done | Suc n \<Rightarrow> waitDetachLoop n done cl vmID pvc)"

declare waitDetachLoop.simps [simp del]

definition WaitForVolumeDetach :: "nat \<Rightarrow> goerr \<Rightarrow> 'e client \<Rightarrow> int \<Rightarrow> string \<Rightarrow> ('e pworld, unit) io" where
  "WaitForVolumeDetach ticks done cl vmID pvc =
     (if vmID = 0 then ret () else waitDetachLoop ticks done cl vmID pvc)"

definition contentPath :: "string \<Rightarrow> string \<Rightarrow> string" where
  "contentPath node storage = ''/nodes/'' @ PathEscape node @ ''/storage/'' @ PathEscape storage @ ''/content''"

definition DiskOnNode :: "'e client \<Rightarrow> volume \<Rightarrow> string \<Rightarrow> ('e pworld, bool \<times> int) io" where
  "DiskOnNode cl vol node =
     call (GetContentAt cl (contentPath node (vstorage vol)))
       (\<lambda>e. fail (Plain (''failed to list storage content on node '' @ node @ '': '' @ Error e)))
       (\<lambda>content. ret (case find (\<lambda>(volid, _). volid = VolID vol \<or> HasSuffix volid (''/'' @ vdisk vol)) content of
            Some (_, sz) \<Rightarrow> (True, sz)
          | None \<Rightarrow> (False, 0)))"

section \<open>Tasks\<close>

definition DeleteDisk :: "'e client \<Rightarrow> volume \<Rightarrow> string \<Rightarrow> int \<Rightarrow> ('e pworld, unit) io" where
  "DeleteDisk cl vol node taskTimeout =
     call (Delete cl (contentPath node (vstorage vol) @ ''/'' @ escapeVolumePath (vdisk vol)))
       (\<lambda>e. fail (Plain (''failed to delete disk '' @ vdisk vol @ '' on node '' @ node @ '': '' @ Error e)))
       (\<lambda>upid. case c_NewTask cl upid of
          None \<Rightarrow> ret ()
        | Some task \<Rightarrow>
            call (WaitForCompleteStatus cl task (quot taskTimeout 5) 5)
              (\<lambda>e. fail (Wrap (''failed to wait for disk delete task: '' @ Error e) e))
              (\<lambda>(status, completed, task').
                 if \<not> completed \<or> \<not> status
                 then fail (Plain (''disk delete task failed, exit status: '' @ tk_exit task'))
                 else ret ()))"

text \<open>The request of each copy implementation: path and body.\<close>

fun copyRequest :: "copy_endpoint \<Rightarrow> volume \<Rightarrow> string \<Rightarrow> volume \<Rightarrow> string \<times> params_map" where
  "copyRequest CopyEndpointProxmod vol node targetVol =
     (''/nodes/'' @ PathEscape (vnode vol) @ ''/proxmod/csi-storage/copy'',
      [(''storage'', JStr (vstorage vol)), (''target'', JStr (VolID targetVol)),
       (''target_node'', JStr node), (''volume'', JStr (vdisk vol))])"
| "copyRequest CopyEndpointCSICopy vol node targetVol =
     (''/nodes/'' @ PathEscape (vnode vol) @ ''/storage/'' @ PathEscape (vstorage vol) @ ''/csi-copy'',
      [(''target'', JStr (VolID targetVol)), (''target_node'', JStr node), (''volume'', JStr (vdisk vol))])"
| "copyRequest CopyEndpointBuiltin vol node targetVol =
     (''/nodes/'' @ PathEscape (vnode vol) @ ''/storage/'' @ PathEscape (vstorage vol) @ ''/content/'' @
        escapeVolumePath (vdisk vol),
      [(''node'', JStr (vnode vol)), (''target'', JStr (VolID targetVol)),
       (''target_node'', JStr node), (''volume'', JStr (vdisk vol))])"

definition MoveQemuDisk :: "'e client \<Rightarrow> volume \<Rightarrow> string \<Rightarrow> volume \<Rightarrow> int \<Rightarrow> copy_endpoint \<Rightarrow> ('e pworld, unit) io" where
  "MoveQemuDisk cl vol node targetVol taskTimeout endpoint =
     (let (path, params) = copyRequest endpoint vol node targetVol in
      call (Post cl path params)
        (\<lambda>e. fail (Plain (''failed to copy pvc: '' @ Error e @ '', params='' @ showParams params)))
        (\<lambda>upid. case c_NewTask cl upid of
           None \<Rightarrow> ret ()
         | Some task \<Rightarrow>
             call (WaitForCompleteStatus cl task (quot taskTimeout 15) 15)
               (\<lambda>e. fail (Wrap (''failed to wait for disk move task: '' @ Error e) e))
               (\<lambda>(status, completed, task').
                  if \<not> completed
                  then fail (Plain (''disk move task did not complete within '' @ Itoa taskTimeout @ '' seconds''))
                  else if \<not> status
                  then fail (Plain (''disk move task failed, exit status: '' @ tk_exit task'))
                  else ret ())))"

section \<open>Renaming\<close>

definition renameParams :: "volume \<Rightarrow> int \<Rightarrow> volume \<Rightarrow> params_map" where
  "renameParams vol targetVMID target =
     [(''storage'', JStr (vstorage vol)), (''volume'', JStr (vdisk vol)),
      (''target_vmid'', JInt targetVMID), (''target_volname'', JStr (DiskName target))]"

definition renamePath :: "volume \<Rightarrow> string" where
  "renamePath vol = ''/nodes/'' @ PathEscape (vnode vol) @ ''/proxmod/csi-storage/rename''"

text \<open>The name Proxmox reports wins over the computed one.\<close>

definition renamedTo :: "volume \<Rightarrow> volume \<Rightarrow> string \<Rightarrow> volume" where
  "renamedTo vol target volid =
     (case Cut CHR '':'' volid of
        Some (storage, disk) \<Rightarrow> if storage = vstorage vol \<and> disk \<noteq> [] then SetDisk disk target else target
      | None \<Rightarrow> target)"

definition RenameVolume :: "'e client \<Rightarrow> volume \<Rightarrow> int \<Rightarrow> ('e pworld, volume) io" where
  "RenameVolume cl vol targetVMID =
     (case WithVMID vol targetVMID of
        None \<Rightarrow> fail (Plain (''failed to rename volume: '' @ VolumeID vol @ '' is not in the vm-<vmid>-<name> form''))
      | Some target \<Rightarrow>
          (let params = renameParams vol targetVMID target in
           call (Post cl (renamePath vol) params)
             (\<lambda>e. fail (Plain (''failed to rename volume: '' @ Error e @ '', params='' @ showParams params)))
             (\<lambda>volid. ret (renamedTo vol target volid))))"

text \<open>The pattern \<^verbatim>\<open>^(?:<vmid>/)?vm-<vmid>-<suffix>$\<close> with the suffix quoted.  The suffix is a
  non-empty text without a newline, so it is the one group \<open>diskre\<close> leaves open.  Compiling the
  pattern cannot fail, as the suffix is quoted.\<close>

definition suffixMatch :: "string \<Rightarrow> string \<Rightarrow> bool" where
  "suffixMatch sfx disk = (case diskre disk of Some (_, _, t) \<Rightarrow> t = sfx | None \<Rightarrow> False)"

definition suffixItem :: "volume \<Rightarrow> string \<times> int \<Rightarrow> string option" where
  "suffixItem vol item =
     (case Cut CHR '':'' (fst item) of
        Some (storage, disk) \<Rightarrow> if storage = vstorage vol \<and> suffixMatch (DiskSuffix vol) disk then Some disk else None
      | None \<Rightarrow> None)"

definition FindVolumeBySuffix :: "'e client \<Rightarrow> volume \<Rightarrow> ('e pworld, volume option) io" where
  "FindVolumeBySuffix cl vol =
     (if DiskSuffix vol = []
      then fail (Plain (''failed to find volume: '' @ VolumeID vol @ '' is not in the vm-<vmid>-<name> form''))
      else call (GetContentAt cl (contentPath (vnode vol) (vstorage vol)))
        (\<lambda>e. fail (Plain (''failed to list storage content on node '' @ vnode vol @ '': '' @ Error e)))
        (\<lambda>content. ret (case List.map_filter (suffixItem vol) content of
             disk # _ \<Rightarrow> Some (SetNode (vnode vol) (NewVolume (vregion vol) (vzone vol) (vstorage vol) disk))
           | [] \<Rightarrow> None)))"

section \<open>The conversion helper VM\<close>

definition HelperVMName :: string where
  "HelperVMName = ''csi-migration-helper''"

definition helperDiskSlot :: string where
  "helperDiskSlot = ''scsi0''"

definition waitTask :: "'e client \<Rightarrow> string \<Rightarrow> int \<Rightarrow> string \<Rightarrow> ('e pworld, unit) io" where
  "waitTask cl upid taskTimeout what =
     (case c_NewTask cl upid of
        None \<Rightarrow> ret ()
      | Some task \<Rightarrow>
          (let interval = (if taskTimeout > 300 then 15 else 5) in
           call (WaitForCompleteStatus cl task (quot taskTimeout interval) interval)
             (\<lambda>e. fail (Wrap (''failed to wait for '' @ what @ '' task: '' @ Error e) e))
             (\<lambda>(status, completed, task').
                if \<not> completed
                then fail (Plain (what @ '' task did not complete within '' @ Itoa taskTimeout @ '' seconds''))
                else if \<not> status
                then fail (Plain (what @ '' task failed, exit status: '' @ tk_exit task'))
                else ret ())))"

definition FindVMNode :: "'e client \<Rightarrow> int \<Rightarrow> ('e pworld, string \<times> string \<times> bool) io" where
  "FindVMNode cl vmid =
     call (GetResourcesAt cl ''/cluster/resources?type=vm'')
       (\<lambda>e. fail (Plain (''failed to list cluster resources: '' @ Error e)))
       (\<lambda>resources. ret (case find (\<lambda>r. rs_type r = ''qemu'' \<and> rs_vmid r = vmid) resources of
            Some r \<Rightarrow> (rs_node r, rs_name r, True)
          | None \<Rightarrow> ([], [], False)))"

definition CreateHelperVM :: "'e client \<Rightarrow> string \<Rightarrow> int \<Rightarrow> ('e pworld, unit) io" where
  "CreateHelperVM cl node vmid =
     call (Post cl (''/nodes/'' @ node @ ''/qemu'')
             [(''vmid'', JInt vmid), (''name'', JStr HelperVMName), (''memory'', JInt 32),
              (''cores'', JInt 1), (''start'', JInt 0)])
       (\<lambda>e. fail (Plain (''failed to create helper VM '' @ Itoa vmid @ '' on '' @ node @ '': '' @ Error e)))
       (\<lambda>upid. waitTask cl upid 60 ''create helper VM'')"

definition DeleteVM :: "'e client \<Rightarrow> string \<Rightarrow> int \<Rightarrow> ('e pworld, unit) io" where
  "DeleteVM cl node vmid =
     call (Delete cl (''/nodes/'' @ node @ ''/qemu/'' @ Itoa vmid))
       (\<lambda>e. fail (Plain (''failed to delete VM '' @ Itoa vmid @ '' on '' @ node @ '': '' @ Error e)))
       (\<lambda>upid. waitTask cl upid 60 ''delete VM'')"

definition AttachDisk :: "'e client \<Rightarrow> string \<Rightarrow> int \<Rightarrow> string \<Rightarrow> ('e pworld, unit) io" where
  "AttachDisk cl node vmid volid =
     call (Put cl (''/nodes/'' @ node @ ''/qemu/'' @ Itoa vmid @ ''/config'') [(helperDiskSlot, JStr volid)])
       (\<lambda>e. fail (Plain (''failed to attach '' @ volid @ '' to VM '' @ Itoa vmid @ '' on '' @ node @ '': '' @ Error e)))
       (\<lambda>_. ret ())"

definition ConvertDiskToRaw :: "'e client \<Rightarrow> string \<Rightarrow> int \<Rightarrow> string \<Rightarrow> int \<Rightarrow> ('e pworld, string) io" where
  "ConvertDiskToRaw cl node vmid storage taskTimeout =
     call (Post cl (''/nodes/'' @ node @ ''/qemu/'' @ Itoa vmid @ ''/move_disk'')
             [(''disk'', JStr helperDiskSlot), (''storage'', JStr storage), (''format'', JStr ''raw''), (''delete'', JInt 0)])
       (\<lambda>e. fail (Plain (''failed to start disk conversion on VM '' @ Itoa vmid @ '': '' @ Error e)))
       (\<lambda>upid. bindE (waitTask cl upid taskTimeout ''convert disk'') (\<lambda>_.
          call (GetConfigAt cl (''/nodes/'' @ node @ ''/qemu/'' @ Itoa vmid @ ''/config''))
            (\<lambda>e. fail (Plain (''failed to read VM '' @ Itoa vmid @ '' config after conversion: '' @ Error e)))
            (\<lambda>config. let volid = SplitN 2 CHR '','' (mget (vc_scsis config) helperDiskSlot) ! 0 in
               if volid = [] then fail (Plain (''no disk found on VM '' @ Itoa vmid @ '' after conversion''))
               else ret volid)))"

section \<open>Paths cannot be injected into\<close>

lemma hex_digit_safe: "n < 16 \<Longrightarrow> path_safe (hex_digit n)"
  by (simp add: path_safe_def hex_digit_def Let_def)

lemma pctEncode_chars: "c \<in> set (pctEncode d) \<Longrightarrow> path_safe c \<or> c = CHR ''%''"
proof -
  have "of_char d div 16 < (16 :: nat)"
    using nat_of_char_less_256 [of d] by (simp add: less_mult_imp_div_less)
  then have "path_safe (hex_digit (of_char d div 16))" "path_safe (hex_digit (of_char d mod 16))"
    by (rule hex_digit_safe) (simp add: hex_digit_safe)
  moreover assume "c \<in> set (pctEncode d)"
  ultimately show ?thesis by (auto simp: pctEncode_def split: if_splits)
qed

lemma PathEscape_chars: "c \<in> set (PathEscape s) \<Longrightarrow> path_safe c \<or> c = CHR ''%''"
  using pctEncode_chars by (auto simp: PathEscape_def)

lemma path_safe_not: "\<not> path_safe CHR ''/''" "\<not> path_safe CHR ''?''" "\<not> path_safe CHR ''%''"
  by code_simp+

lemma PathEscape_free: "CHR ''/'' \<notin> set (PathEscape s)" "CHR ''?'' \<notin> set (PathEscape s)"
  using PathEscape_chars [of "CHR ''/''" s] PathEscape_chars [of "CHR ''?''" s] path_safe_not by auto

lemma PathEscape_id: "list_all path_safe s \<Longrightarrow> PathEscape s = s"
  by (induction s) (auto simp: PathEscape_def pctEncode_def)

lemma Split_Join: "xs \<noteq> [] \<Longrightarrow> \<forall>x \<in> set xs. c \<notin> set x \<Longrightarrow> Split c (Join [c] xs) = xs"
proof (induction xs)
  case (Cons x xs)
  then show ?case by (cases xs) simp_all
qed simp

lemma Split_escape: "Split CHR ''/'' (escapeVolumePath s) = map PathEscape (Split CHR ''/'' s)"
  unfolding escapeVolumePath_def by (rule Split_Join) (auto simp: PathEscape_free)

section \<open>Finding a volume by its suffix\<close>

lemma suffixMatch_iff: "suffixMatch t disk \<longleftrightarrow> (\<exists>d v. disk = disk_of d v t \<and> disk_parts d v t)"
proof
  assume "suffixMatch t disk"
  then obtain d v where "diskre disk = Some (d, v, t)"
    by (auto simp: suffixMatch_def split: option.splits)
  then show "\<exists>d v. disk = disk_of d v t \<and> disk_parts d v t" using diskre_iff by blast
next
  assume "\<exists>d v. disk = disk_of d v t \<and> disk_parts d v t"
  then obtain d v where "diskre disk = Some (d, v, t)" using diskre_iff by blast
  then show "suffixMatch t disk" by (simp add: suffixMatch_def)
qed

lemma map_filter_Cons:
  assumes "List.map_filter f xs = y # ys"
  shows "\<exists>pre x post. xs = pre @ x # post \<and> f x = Some y \<and> (\<forall>z \<in> set pre. f z = None)"
  using assms
proof (induction xs)
  case (Cons x xs)
  show ?case
  proof (cases "f x")
    case None
    then obtain pre z post where "xs = pre @ z # post" "f z = Some y" "\<forall>u \<in> set pre. f u = None"
      using Cons by (auto simp: List.map_filter_simps)
    then show ?thesis using None by (intro exI [of _ "x # pre"] exI [of _ z] exI [of _ post]) simp
  next
    case (Some u)
    then show ?thesis using Cons by (intro exI [of _ "[]"] exI [of _ x] exI [of _ xs]) (simp add: List.map_filter_simps)
  qed
qed (simp add: List.map_filter_simps)

lemma map_filter_Nil: "List.map_filter f xs = [] \<longleftrightarrow> (\<forall>x \<in> set xs. f x = None)"
  by (induction xs) (auto simp: List.map_filter_simps split: option.splits)

lemma suffixItem_Some:
  assumes "suffixItem vol item = Some disk"
  shows "fst item = vstorage vol @ '':'' @ disk" "suffixMatch (DiskSuffix vol) disk"
  using assms by (auto simp: suffixItem_def Cut_Some split: option.splits if_splits)

lemma suffixItem_None:
  assumes "suffixItem vol item = None" "CHR '':'' \<notin> set (vstorage vol)" "disk_parts d v (DiskSuffix vol)"
  shows "fst item \<noteq> vstorage vol @ '':'' @ disk_of d v (DiskSuffix vol)"
proof
  assume "fst item = vstorage vol @ '':'' @ disk_of d v (DiskSuffix vol)"
  then have "Cut CHR '':'' (fst item) = Some (vstorage vol, disk_of d v (DiskSuffix vol))"
    using assms(2) by simp
  moreover have "suffixMatch (DiskSuffix vol) (disk_of d v (DiskSuffix vol))"
    using assms(3) suffixMatch_iff by blast
  ultimately show False using assms(1) by (simp add: suffixItem_def)
qed

lemma suffix_found:
  assumes "List.map_filter (suffixItem vol) content = disk # rest"
    and v_def: "v = SetNode (vnode vol) (NewVolume (vregion vol) (vzone vol) (vstorage vol) disk)"
  shows "DiskSuffix v = DiskSuffix vol" "VolID v \<in> fst ` set content" "v\<lparr>vdisk := vdisk vol\<rparr> = vol"
proof -
  obtain item where item: "item \<in> set content" "suffixItem vol item = Some disk"
    using map_filter_Cons [OF assms(1)] by (metis in_set_conv_decomp)
  note i = suffixItem_Some [OF item(2)]
  obtain d u where "disk = disk_of d u (DiskSuffix vol)" "disk_parts d u (DiskSuffix vol)"
    using i(2) suffixMatch_iff by blast
  then show "DiskSuffix v = DiskSuffix vol" using DiskSuffix_iff [of v "DiskSuffix vol"] by (auto simp: v_def)
  show "VolID v \<in> fst ` set content" using i(1) item(1) by (auto simp: VolID_def v_def intro: rev_image_eqI)
  show "v\<lparr>vdisk := vdisk vol\<rparr> = vol" by (simp add: v_def)
qed

lemma FindVolumeBySuffix_run:
  assumes "DiskSuffix vol \<noteq> []"
  shows "fst (FindVolumeBySuffix cl vol w) =
     (case fst (c_GetContentList cl (contentPath (vnode vol) (vstorage vol)) (env w)) of
        Inl e \<Rightarrow> Inl (Plain (''failed to list storage content on node '' @ vnode vol @ '': '' @ Error e))
      | Inr content \<Rightarrow> Inr (case List.map_filter (suffixItem vol) content of
             disk # _ \<Rightarrow> Some (SetNode (vnode vol) (NewVolume (vregion vol) (vzone vol) (vstorage vol) disk))
           | [] \<Rightarrow> None))"
  using assms
  by (auto simp: FindVolumeBySuffix_def call_def px_def invoke_def ret_def fail_def split: prod.split sum.split)

lemma renamedTo_expected:
  assumes "CHR '':'' \<notin> set (vstorage target)" "vstorage target = vstorage vol"
  shows "renamedTo vol target (VolID target) = target"
  using assms by (simp add: renamedTo_def VolID_def)

section \<open>Properties\<close>



text \<open>C33: Searching a volume by its suffix.  What is found is the volume itself under a name some VM
  owns: same region, zone, storage, node and suffix, and its full name is in the listing.  When
  nothing is found, the listing has no name any VM could give the volume.  In particular a
  snapshot, whose name only extends the suffix, is never taken for the volume.\<close>

theorem FindVolumeBySuffix_exact:
  assumes "DiskSuffix vol \<noteq> []" "CHR '':'' \<notin> set (vstorage vol)"
    and "fst (c_GetContentList cl (contentPath (vnode vol) (vstorage vol)) (env w)) = Inr content"
  shows "case fst (FindVolumeBySuffix cl vol w) of
           Inl _ \<Rightarrow> False
         | Inr (Some v) \<Rightarrow> DiskSuffix v = DiskSuffix vol \<and> VolID v \<in> fst ` set content \<and>
             v\<lparr>vdisk := vdisk vol\<rparr> = vol
         | Inr None \<Rightarrow> (\<forall>d i. disk_parts d i (DiskSuffix vol) \<longrightarrow>
             vstorage vol @ '':'' @ disk_of d i (DiskSuffix vol) \<notin> fst ` set content)"
proof (cases "List.map_filter (suffixItem vol) content")
  case Nil
  have "vstorage vol @ '':'' @ disk_of d i (DiskSuffix vol) \<notin> fst ` set content"
    if "disk_parts d i (DiskSuffix vol)" for d i
  proof
    assume "vstorage vol @ '':'' @ disk_of d i (DiskSuffix vol) \<in> fst ` set content"
    then obtain item where "item \<in> set content" "fst item = vstorage vol @ '':'' @ disk_of d i (DiskSuffix vol)"
      by (metis imageE)
    then show False using suffixItem_None [OF _ assms(2) that] Nil by (auto simp: map_filter_Nil)
  qed
  then show ?thesis using FindVolumeBySuffix_run [OF assms(1), of cl w] assms(3) Nil by simp
next
  case (Cons disk rest)
  define v where "v = SetNode (vnode vol) (NewVolume (vregion vol) (vzone vol) (vstorage vol) disk)"
  note suffix_found [OF Cons v_def]
  moreover have "fst (FindVolumeBySuffix cl vol w) = Inr (Some v)"
    using FindVolumeBySuffix_run [OF assms(1), of cl w] assms(3) Cons by (simp add: v_def)
  ultimately show ?thesis by simp
qed

definition sampleState :: sim where
  "sampleState =
     \<lparr>s_nodes = [''pve-1''],
      s_storages = [(''lvm'', \<lparr>rs_type = ''storage'', rs_vmid = 0, rs_node = ''pve-1'', rs_name = ''lvm'',
         rs_status = ''available'', rs_pluginType = ''lvm'', rs_shared = 0\<rparr>)],
      s_vms = [(''worker-1'', \<lparr>vm_node = ''pve-1'', vm_vmid = 101,
         vm_cfg = \<lparr>vc_scsis = [(''scsi0'', ''lvm:vm-101-disk-0'')], vc_unuseds = [], vc_uuid = ''u''\<rparr>\<rparr>)],
      s_disks = [(''pve-1'', ''lvm'', ''lvm:vm-9999-pvc-1-snap'', 1), (''pve-1'', ''lvm'', ''lvm:vm-101-pvc-1'', 1073741824)]\<rparr>"

definition sampleVolume :: volume where
  "sampleVolume = NewVolume ''r'' ''pve-1'' ''lvm'' ''vm-9999-pvc-1''"

definition sampleWorld :: "sim pworld" where
  "sampleWorld = \<lparr>env = sampleState, trace = []\<rparr>"

theorem FindVolumeBySuffix_exact_witness:
  "\<exists>v. fst (FindVolumeBySuffix simClient sampleVolume sampleWorld) = Inr (Some v) \<and>
       DiskSuffix v = DiskSuffix sampleVolume \<and> VolID v = ''lvm:vm-101-pvc-1''"
proof -
  let ?c = "[(''lvm:vm-9999-pvc-1-snap'', 1 :: int), (''lvm:vm-101-pvc-1'', 1073741824)]"
  have r: "map_sum Error (map_option vdisk) (fst (FindVolumeBySuffix simClient sampleVolume sampleWorld)) = Inr (Some ''vm-101-pvc-1'')"
    by code_simp
  then obtain v where v: "fst (FindVolumeBySuffix simClient sampleVolume sampleWorld) = Inr (Some v)" "vdisk v = ''vm-101-pvc-1''"
    by (auto simp: map_sum_def split: sum.splits)
  have "DiskSuffix sampleVolume \<noteq> []" "CHR '':'' \<notin> set (vstorage sampleVolume)"
    "fst (c_GetContentList simClient (contentPath (vnode sampleVolume) (vstorage sampleVolume)) (env sampleWorld)) = Inr ?c"
    by code_simp+
  from FindVolumeBySuffix_exact [OF this] show ?thesis
    using v by (auto simp: VolID_def sampleVolume_def dest: arg_cong [of _ _ vstorage])
qed

text \<open>Renaming a volume in Proxmox sends exactly one request, the rename of that disk to the VM's
  own name for it, or none when the disk is not a VM disk; and when Proxmox confirms the name
  asked for, the result is the volume under that name.\<close>

theorem RenameVolume_request:
  "case WithVMID vol n of
     None \<Rightarrow> sent (RenameVolume cl vol n) w = [] \<and> (\<exists>e. fst (RenameVolume cl vol n w) = Inl e)
   | Some target \<Rightarrow>
       map snd (sent (RenameVolume cl vol n) w) = [Px (c_name cl) (RPost (renamePath vol) (renameParams vol n target))] \<and>
       (fst (c_Post cl (renamePath vol) (renameParams vol n target) (env w)) = Inr (VolID target) \<longrightarrow>
        CHR '':'' \<notin> set (vstorage vol) \<longrightarrow> fst (RenameVolume cl vol n w) = Inr target)"
proof (cases "WithVMID vol n")
  case None
  then show ?thesis by (simp add: RenameVolume_def sent_def fail_def)
next
  case (Some target)
  then have "vstorage target = vstorage vol" by (auto simp: WithVMID_eq split: option.splits)
  then show ?thesis using Some renamedTo_expected [of target vol]
    by (auto simp: RenameVolume_def Let_def sent_def call_def px_def invoke_def ret_def fail_def
        split: prod.split sum.split)
qed

theorem RenameVolume_request_witness:
  "\<exists>t. fst (RenameVolume simClient sampleVolume 101 sampleWorld) = Inr t \<and> vdisk t = ''vm-101-pvc-1''"
proof -
  have "map_option vdisk (WithVMID sampleVolume 101) = Some ''vm-101-pvc-1''" by code_simp
  then obtain t where t: "WithVMID sampleVolume 101 = Some t" "vdisk t = ''vm-101-pvc-1''" by auto
  have "fst (c_Post simClient (renamePath sampleVolume) (renameParams sampleVolume 101 (sampleVolume\<lparr>vdisk := ''vm-101-pvc-1''\<rparr>))
      (env sampleWorld)) = Inr ''lvm:vm-101-pvc-1''" by code_simp
  moreover have "t = sampleVolume\<lparr>vdisk := ''vm-101-pvc-1''\<rparr>"
    using t by (auto simp: WithVMID_eq split: option.splits)
  moreover from this have "VolID t = ''lvm:vm-101-pvc-1''" by (simp add: VolID_def sampleVolume_def)
  moreover have "CHR '':'' \<notin> set (vstorage sampleVolume)" by code_simp
  ultimately show ?thesis using RenameVolume_request [where vol = sampleVolume and n = 101 and cl = simClient and w = sampleWorld] t by auto
qed

end
