(* ===== verification/Disk_Ops.thy ===== *)
theory Disk_Ops
  imports Volume_Ops
begin

text \<open>
  The disk operations shared by the CSI controller and the operator
  (\<^verbatim>\<open>pkg/tools/proxmox/csi_helpers.go\<close>): looking a volume up, attaching and detaching it, clearing
  the key a detach leaves behind, updating disk options, copying, and replication.  A function
  that assigns to its \<^verbatim>\<open>*Volume\<close> argument returns the updated volume.
\<close>

text \<open>Message texts are left as they are written.\<close>

declare append_Cons [simp del]

section \<open>Constants and formats\<close>

definition DeviceNamePrefix :: string where "DeviceNamePrefix = ''scsi''"
definition TaskStatusCheckInterval :: int where "TaskStatusCheckInterval = 5"
definition TaskTimeout :: int where "TaskTimeout = 30"
definition CopyTaskTimeout :: int where "CopyTaskTimeout = 3600"
definition ErrorNotFound :: string where "ErrorNotFound = ''not found''"

definition storageAbsent :: goerr where
  "storageAbsent = Sentinel ErrStorageAbsent ErrorNotFound"

definition StorageLevel :: "string \<Rightarrow> string" where
  "StorageLevel pluginType =
     (if pluginType \<in> set [''dir'', ''nfs'', ''cifs'', ''cephfs'', ''btrfs''] then ''file'' else ''block'')"

definition GetStorageLevel :: "cluster_resource \<Rightarrow> string" where
  "GetStorageLevel storage = StorageLevel (rs_pluginType storage)"

definition DiskFormat :: "string \<Rightarrow> string \<Rightarrow> string" where
  "DiskFormat pluginType requestedFormat =
     (if pluginType = ''lvm'' \<and> requestedFormat = ''qcow2'' then ''qcow2''
      else if StorageLevel pluginType = ''file''
           then (if requestedFormat = ''qcow2'' then ''qcow2'' else ''raw'')
           else [])"

section \<open>Looking a volume up\<close>

definition GetNodeForVolume :: "'e client \<Rightarrow> volume \<Rightarrow> ('e pworld, string) io" where
  "GetNodeForVolume cl vol =
     (if vnode vol = []
      then call (GetNodesForStorage cl (vstorage vol))
             (\<lambda>e. fail (Plain (''failed to find zones for storage '' @ vstorage vol @ '': '' @ Error e)))
             (\<lambda>nodes. case nodes of
                [] \<Rightarrow> fail (Plain (''failed to find best zone for storage '' @ vstorage vol))
              | n # _ \<Rightarrow> ret n)
      else ret (vnode vol))"

definition VolumeMatch :: "volume \<Rightarrow> string" where
  "VolumeMatch vol = (if DiskSuffix vol \<noteq> [] then DiskSuffix vol else vdisk vol)"

definition lunOf :: "string \<Rightarrow> int option" where
  "lunOf lun = Atoi (TrimPrefix (hd (Split CHR '':'' lun)) DeviceNamePrefix)"

fun attachedLoop :: "gomap \<Rightarrow> string \<Rightarrow> int \<times> bool" where
  "attachedLoop [] pvc = (0, False)"
| "attachedLoop ((lun, disk) # disks) pvc =
     (if Contains disk pvc
      then (case lunOf lun of None \<Rightarrow> (0, False) | Some i \<Rightarrow> (i, True))
      else attachedLoop disks pvc)"

definition IsVolumeAttached :: "vm_config \<Rightarrow> string \<Rightarrow> int \<times> bool" where
  "IsVolumeAttached vm pvc = (if pvc = [] then (0, False) else attachedLoop (vc_scsis vm) pvc)"

definition attachedFilter :: "'e client \<Rightarrow> volume \<Rightarrow> int \<Rightarrow> string list \<Rightarrow> cluster_resource \<Rightarrow> int \<Rightarrow>
    ('e pworld, bool \<times> int) io" where
  "attachedFilter cl vol skipVMID nodes rs lun =
     (if rs_type rs \<noteq> ''qemu'' then ret (False, lun)
      else if skipVMID \<noteq> 0 \<and> rs_vmid rs = skipVMID then ret (False, lun)
      else if rs_node rs \<notin> set nodes then ret (False, lun)
      else bindE (GetVMConfigByResource cl rs) (\<lambda>vm.
             let (l, exist) = IsVolumeAttached (vm_cfg vm) (VolumeMatch vol)
             in ret (if exist then (True, l) else (False, lun))))"

text \<open>The VM, the lun and the volume, whose node is set when it was unknown.\<close>

definition GetVMByAttachedVolume :: "'e client \<Rightarrow> volume \<Rightarrow> int \<Rightarrow> ('e pworld, int \<times> int \<times> volume) io" where
  "GetVMByAttachedVolume cl vol skipVMID =
     call (if vnode vol \<noteq> [] then ret [vnode vol] else GetNodesForStorage cl (vstorage vol))
       (\<lambda>e. fail (Plain (''failed to find zones for storage '' @ vstorage vol @ '': '' @ Error e)))
       (\<lambda>nodes.
          if nodes = []
          then fail (Plain (''failed to find best zone: no nodes with the storage '' @ vstorage vol))
          else bindE (c_GetVMByFilter cl (attachedFilter cl vol skipVMID nodes) 0)
                 (\<lambda>(vm, lun).
                    if rs_vmid vm \<noteq> 0
                    then ret (rs_vmid vm, lun, if vnode vol = [] then SetNode (rs_node vm) vol else vol)
                    else fail (ErrVMNotFound cl)))"

definition GetStorageContent :: "'e client \<Rightarrow> volume \<Rightarrow> ('e pworld, storage_content option) io" where
  "GetStorageContent cl vol =
     (if vnode vol = [] then fail (Plain ''node is required'')
      else call (GetStorageStatus cl (vnode vol) (vstorage vol))
             (\<lambda>e. if Contains (Error e) ''No such storage'' then fail storageAbsent else fail e)
             (\<lambda>_. bindE (GetStorageContents cl (vnode vol) (vstorage vol)) (\<lambda>contents.
                ret (find (\<lambda>content. ct_volid content = VolID vol) contents))))"

definition GetVolumeSize :: "'e client \<Rightarrow> volume \<Rightarrow> ('e pworld, int) io" where
  "GetVolumeSize cl vol =
     bindE (GetStorageContent cl vol) (\<lambda>st.
       case st of None \<Rightarrow> fail (Plain ErrorNotFound) | Some content \<Rightarrow> ret (wrap64 (ct_size content)))"

definition ResolveVolume :: "'e client \<Rightarrow> volume \<Rightarrow> bool \<Rightarrow> ('e pworld, volume \<times> int) io" where
  "ResolveVolume cl vol reassign =
     call (GetVolumeSize cl vol)
       (\<lambda>e. if \<not> reassign \<or> Error e \<noteq> ErrorNotFound \<or> errIs e ErrStorageAbsent \<or> DiskSuffix vol = []
            then fail e
            else bindE (FindVolumeBySuffix cl vol) (\<lambda>found.
                   case found of
                     None \<Rightarrow> fail (Plain ErrorNotFound)
                   | Some v \<Rightarrow> bindE (GetVolumeSize cl v) (\<lambda>sz. ret (v, sz))))
       (\<lambda>sz. ret (vol, sz))"

section \<open>Creating\<close>

definition ToolsCreateVolume :: "'e client \<Rightarrow> volume \<Rightarrow> int \<Rightarrow> ('e pworld, volume) io" where
  "ToolsCreateVolume cl vol sizeBytes =
     (if vnode vol = [] then fail (Plain ''node is required'')
      else case Atoi (VMID vol) of
             None \<Rightarrow> fail (Plain (''failed to parse volume vm id: '' @
                       ''strconv.Atoi: parsing '' @ Quote (VMID vol) @ '': invalid syntax''))
           | Some i \<Rightarrow>
               call (CreateVMDisk cl i (vnode vol) (vstorage vol) (last (Split CHR ''/'' (vdisk vol))) sizeBytes)
                 (\<lambda>e. fail (Plain (''failed to create vm disk: '' @ Error e)))
                 (\<lambda>disk. let diskName = Split CHR '':'' disk
                          in ret (if length diskName > 1 then SetDisk (diskName ! 1) vol else vol)))"

section \<open>Attaching and detaching\<close>

text \<open>\<^verbatim>\<open>hex.EncodeToString\<close>, and the serial \<^verbatim>\<open>PVC-ID%02d\<close> of a lun.\<close>

definition hexLower :: "nat \<Rightarrow> char" where
  "hexLower n = (if n < 10 then char_of (48 + n) else char_of (87 + n))"

definition EncodeToString :: "string \<Rightarrow> string" where
  "EncodeToString s = concat (map (\<lambda>c. [hexLower (of_char c div 16), hexLower (of_char c mod 16)]) s)"

definition wwnOf :: "int \<Rightarrow> string" where
  "wwnOf lun = EncodeToString (''PVC-ID'' @ (if 0 \<le> lun \<and> lun < 10 then CHR ''0'' # Itoa lun else Itoa lun))"

definition deviceOf :: "int \<Rightarrow> string" where
  "deviceOf lun = DeviceNamePrefix @ Itoa lun"

definition renderOptions :: "gomap \<Rightarrow> string" where
  "renderOptions options = Join '','' (map (\<lambda>(k, v). k @ ''='' @ v) options)"

text \<open>\<^verbatim>\<open>%+v\<close> of a \<^verbatim>\<open>proxmox.VirtualMachineOption\<close>.\<close>

definition showOption :: "string \<Rightarrow> string \<Rightarrow> string" where
  "showOption name val = ''{Name:'' @ name @ '' Value:'' @ val @ ''}''"

text \<open>Waiting for a task that may be \<^verbatim>\<open>nil\<close>, with the error texts the callers share.\<close>

definition awaitTask :: "'e client \<Rightarrow> task option \<Rightarrow> string \<Rightarrow> ('e pworld, unit) io" where
  "awaitTask cl task what =
     (case task of
        None \<Rightarrow> ret ()
      | Some t \<Rightarrow>
          call (WaitFor cl t 300)
            (\<lambda>e. fail (Wrap (what @ '': '' @ Error e) e))
            (\<lambda>t'. if tk_failed t' then fail (Plain (what @ '': '' @ tk_exit t')) else ret ()))"

definition WaitAttachVolume :: "'e client \<Rightarrow> int \<Rightarrow> volume \<Rightarrow> ('e pworld, unit) io" where
  "WaitAttachVolume cl i vol =
     (let msg = Plain (''volume '' @ VolumeID vol @ '' is not attached to VM '' @ Itoa i) in
      call (c_Retry cl TaskTimeout TaskStatusCheckInterval
              (\<lambda>s. call (GetVMConfig cl i)
                 (\<lambda>e. fail (Plain (''failed to get vm config: '' @ Error e)))
                 (\<lambda>vm. ret (s, if snd (IsVolumeAttached (vm_cfg vm) (VolumeMatch vol)) then None else Some msg))) 0)
        (\<lambda>e. if c_IsTimeout cl e then fail msg else fail e)
        (\<lambda>_. ret ()))"

definition WaitDetachVolume :: "'e client \<Rightarrow> int \<Rightarrow> volume \<Rightarrow> ('e pworld, unit) io" where
  "WaitDetachVolume cl i vol =
     (let msg = Plain (''volume '' @ VolumeID vol @ '' still attached to VM '' @ Itoa i) in
      call (c_Retry cl TaskTimeout TaskStatusCheckInterval
              (\<lambda>s. call (GetVMConfig cl i)
                 (\<lambda>e. if errIs e ErrVirtualMachineNotFound then ret (s, None)
                      else fail (Plain (''failed to get vm config: '' @ Error e)))
                 (\<lambda>vm. ret (s, if snd (IsVolumeAttached (vm_cfg vm) (VolumeMatch vol)) then Some msg else None))) 0)
        (\<lambda>e. if c_IsTimeout cl e then fail msg else fail e)
        (\<lambda>_. ret ()))"

text \<open>The first of the slots 1 to 29 that the config leaves empty.\<close>

definition freeLun :: "gomap \<Rightarrow> int option" where
  "freeLun disks = find (\<lambda>lun. mget disks (deviceOf lun) = []) (map int [1..<30])"

definition publishInfo :: "int \<Rightarrow> gomap" where
  "publishInfo lun = [(''DevicePath'', ''/dev/disk/by-id/wwn-0x'' @ wwnOf lun), (''lun'', Itoa lun)]"

definition attachValue :: "volume \<Rightarrow> gomap \<Rightarrow> int \<Rightarrow> string" where
  "attachValue vol options lun =
     vstorage vol @ '':'' @ vdisk vol @ '','' @ renderOptions (mset_key options ''wwn'' (''0x'' @ wwnOf lun))"

definition AttachVolume :: "'e client \<Rightarrow> int \<Rightarrow> volume \<Rightarrow> gomap \<Rightarrow> ('e pworld, gomap) io" where
  "AttachVolume cl i vol options =
     call (GetVMConfig cl i)
       (\<lambda>e. fail (Plain (''failed to get vm config: '' @ Error e)))
       (\<lambda>vm. let (lun, exist) = IsVolumeAttached (vm_cfg vm) (VolumeMatch vol) in
          if exist then ret (publishInfo lun)
          else case freeLun (vc_scsis (vm_cfg vm)) of
                 None \<Rightarrow> fail (Plain ''no free lun found'')
               | Some lun \<Rightarrow>
                   (let val = attachValue vol options lun in
                    call (VmConfig cl vm (deviceOf lun) val)
                      (\<lambda>e. fail (Plain (''unable to attach disk: '' @ Error e @ '', options='' @ showOption (deviceOf lun) val)))
                      (\<lambda>task. bindE (awaitTask cl task ''unable to attach virtual machine disk'') (\<lambda>_.
                         bindE (WaitAttachVolume cl i vol) (\<lambda>_. ret (publishInfo lun))))))"

definition isHotUnplugTimeout :: "goerr \<Rightarrow> bool" where
  "isHotUnplugTimeout err \<longleftrightarrow> Contains (Error err) ''still busy in guest''"

definition DetachVolume :: "'e client \<Rightarrow> int \<Rightarrow> volume \<Rightarrow> ('e pworld, unit) io" where
  "DetachVolume cl i vol =
     call (GetVMConfig cl i)
       (\<lambda>e. if errIs e ErrVirtualMachineNotFound then ret ()
            else fail (Plain (''failed to get vm config: '' @ Error e)))
       (\<lambda>vm. let (lun, ok) = IsVolumeAttached (vm_cfg vm) (VolumeMatch vol) in
          if ok
          then (let device = deviceOf lun;
                    unlink = UnlinkDisk cl vm device False
                in call (call unlink (\<lambda>e. if isHotUnplugTimeout e then unlink else fail e) ret)
                     (\<lambda>e. fail (Plain (''failed to unlink disk: '' @ Error e)))
                     (\<lambda>task. awaitTask cl task ''unable to detach virtual machine disk''))
          else ret ())"

section \<open>The key a detach leaves behind\<close>

definition unusedVolume :: "volume \<Rightarrow> string \<Rightarrow> string \<Rightarrow> volume" where
  "unusedVolume vol storage name = SetNode (vnode vol) (NewVolume (vregion vol) (vzone vol) storage name)"

text \<open>One round of the loop over the \<^verbatim>\<open>unused<n>\<close> keys.\<close>

definition clearUnusedKey :: "'e client \<Rightarrow> vm \<Rightarrow> volume \<Rightarrow> string \<times> string \<Rightarrow> ('e pworld, unit) io" where
  "clearUnusedKey cl vm vol = (\<lambda>(key, disk).
     let volid = hd (Split CHR '','' disk) in
     if \<not> Contains volid (VolumeMatch vol) then ret ()
     else case Cut CHR '':'' volid of
            None \<Rightarrow> ret ()
          | Some (storage, name) \<Rightarrow>
              call (GetVolumeSize cl (unusedVolume vol storage name))
                (\<lambda>e. if Error e \<noteq> ErrorNotFound
                     then fail (Plain (''failed to check whether '' @ volid @ '' still exists: '' @ Error e))
                     else call (VmConfig cl vm ''delete'' key)
                            (\<lambda>e. fail (Plain (''failed to delete '' @ key @ '': '' @ Error e)))
                            (\<lambda>task. case task of
                               None \<Rightarrow> ret ()
                             | Some t \<Rightarrow> call (WaitFor cl t 300)
                                 (\<lambda>e. fail (Wrap (''failed to wait for '' @ key @ '' removal: '' @ Error e) e))
                                 (\<lambda>_. ret ())))
                (\<lambda>_. fail (Plain (''refusing to delete '' @ key @ '': volume '' @ volid @
                         '' still exists, deleting the key would deallocate it''))))"

fun clearUnusedKeys :: "'e client \<Rightarrow> vm \<Rightarrow> volume \<Rightarrow> gomap \<Rightarrow> ('e pworld, unit) io" where
  "clearUnusedKeys cl vm vol [] = ret ()"
| "clearUnusedKeys cl vm vol (k # ks) = bindE (clearUnusedKey cl vm vol k) (\<lambda>_. clearUnusedKeys cl vm vol ks)"

definition ClearUnusedDisk :: "'e client \<Rightarrow> int \<Rightarrow> volume \<Rightarrow> ('e pworld, unit) io" where
  "ClearUnusedDisk cl i vol =
     call (GetVMConfig cl i)
       (\<lambda>e. if errIs e ErrVirtualMachineNotFound then ret ()
            else fail (Plain (''failed to get vm config: '' @ Error e)))
       (\<lambda>vm. clearUnusedKeys cl vm vol (vc_unuseds (vm_cfg vm)))"

section \<open>Updating disk options\<close>

text \<open>The loop over the options a disk entry carries: an option not set in the request is kept.\<close>

fun keepOptions :: "string list \<Rightarrow> gomap \<Rightarrow> gomap" where
  "keepOptions [] options = options"
| "keepOptions (param # params) options =
     (let kv = Split CHR ''='' param in
      keepOptions params
        (if length kv = 2 \<and> mget options (kv ! 0) = [] then mset_key options (kv ! 0) (kv ! 1) else options))"

definition updateValue :: "volume \<Rightarrow> string \<Rightarrow> gomap \<Rightarrow> string" where
  "updateValue vol disk options =
     (let (volid, options') =
            (if disk \<noteq> [] then (hd (Split CHR '','' disk), keepOptions (tl (Split CHR '','' disk)) options)
             else (vstorage vol @ '':'' @ vdisk vol, options))
      in volid @ '','' @ renderOptions options')"

definition UpdateVolume :: "'e client \<Rightarrow> int \<Rightarrow> volume \<Rightarrow> gomap \<Rightarrow> ('e pworld, unit) io" where
  "UpdateVolume cl i vol options =
     call (GetVMConfig cl i)
       (\<lambda>e. fail (Plain (''failed to get vm config: '' @ Error e)))
       (\<lambda>vm. let (lun, ok) = IsVolumeAttached (vm_cfg vm) (VolumeMatch vol) in
          if ok
          then (let val = updateValue vol (mget (vc_scsis (vm_cfg vm)) (deviceOf lun)) options in
                call (VmConfig cl vm (deviceOf lun) val)
                  (\<lambda>e. fail (Plain (''unable to update disk: '' @ Error e @ '', options='' @ showOption (deviceOf lun) val)))
                  (\<lambda>task. case task of
                     None \<Rightarrow> fail nilDereference
                   | Some t \<Rightarrow> call (WaitFor cl t 300)
                       (\<lambda>e. fail (Wrap (''unable to update virtual machine disk: '' @ Error e) e))
                       (\<lambda>_. ret ())))
          else fail (Plain (''volume is not attached to VM '' @ Itoa i)))"

section \<open>Copying\<close>

definition ToolsCopyVolume :: "'e client \<Rightarrow> volume \<Rightarrow> volume \<Rightarrow> copy_endpoint \<Rightarrow> ('e pworld, unit) io" where
  "ToolsCopyVolume cl srcVol destVol endpoint =
     (if vnode srcVol = [] then fail (Plain ''node is required'')
      else if Contains (vdisk destVol) ''.qcow2'' then fail (Plain ''volume disk must not be qcow2 format'')
      else MoveQemuDisk cl srcVol (if vnode destVol \<noteq> [] then vnode destVol else vnode srcVol) destVol
             CopyTaskTimeout endpoint)"

section \<open>Replication\<close>

definition DefaultVMConfig :: params_map where
  "DefaultVMConfig =
     [(''boot'', JStr ''order=scsi0''), (''agent'', JStr ''0''), (''machine'', JStr ''pc''),
      (''cores'', JStr ''1''), (''memory'', JStr ''512''), (''scsihw'', JStr ''virtio-scsi-single'')]"

definition createReplicationVM :: "'e client \<Rightarrow> string \<Rightarrow> string \<Rightarrow> int \<Rightarrow> ('e pworld, int) io" where
  "createReplicationVM cl node name vmID =
     bindE (GetNextID cl (vmID + 1)) (\<lambda>i.
       bindE (CreateVM cl node (DefaultVMConfig @ [(''name'', JStr name), (''vmid'', JInt i)])) (\<lambda>_. ret i))"

definition PrepareReplication :: "'e client \<Rightarrow> string \<Rightarrow> string \<Rightarrow> int \<Rightarrow> ('e pworld, int) io" where
  "PrepareReplication cl node name vmID =
     call (c_GetVMByFilter cl (\<lambda>r s. ret (rs_name r = name, s)) 0)
       (\<lambda>e. createReplicationVM cl node name vmID)
       (\<lambda>(vmr, _). if rs_vmid vmr = 0 then createReplicationVM cl node name vmID else ret (rs_vmid vmr))"

definition replicationJob :: "int \<Rightarrow> nat \<Rightarrow> string \<Rightarrow> string \<Rightarrow> params_map" where
  "replicationJob i n z sched =
     [(''id'', JStr (Itoa i @ ''-'' @ Itoa (int n))), (''type'', JStr ''local''), (''disable'', JStr ''0''),
      (''target'', JStr z), (''schedule'', JStr sched), (''comment'', JStr ''CSI Replication for Persistent Volume'')]"

fun replicateTo :: "'e client \<Rightarrow> int \<Rightarrow> string \<Rightarrow> string \<Rightarrow> nat \<Rightarrow> string list \<Rightarrow> ('e pworld, unit) io" where
  "replicateTo cl i node sched n [] = ret ()"
| "replicateTo cl i node sched n (z # zs) =
     (if z = node then replicateTo cl i node sched (Suc n) zs
      else (let job = replicationJob i n z sched in
            call (Post cl ''/cluster/replication'' job)
              (\<lambda>e. fail (Plain (''failed to create replication: '' @ Error e @ '', repParams='' @ showParams job)))
              (\<lambda>_. replicateTo cl i node sched (Suc n) zs)))"

definition CreateReplication :: "'e client \<Rightarrow> int \<Rightarrow> volume \<Rightarrow> string \<Rightarrow> string \<Rightarrow> ('e pworld, unit) io" where
  "CreateReplication cl i vol schedule replicateZones =
     bindE (AttachVolume cl i vol [(''replicate'', ''1''), (''backup'', ''1'')]) (\<lambda>_.
       replicateTo cl i (vnode vol) (if schedule \<noteq> [] then schedule else ''*/15'') 0 (Split CHR '','' replicateZones))"

text \<open>The error of \<^verbatim>\<open>strconv.Atoi\<close> on a VM id: the id is empty when it is not a number.\<close>

definition volumeIDError :: "volume \<Rightarrow> goerr" where
  "volumeIDError vol = Plain (''failed to parse volumeID '' @ VolumeID vol @ '': strconv.Atoi: parsing '' @
     Quote (VMID vol) @ '': invalid syntax'')"

definition MigrateReplication :: "'e client \<Rightarrow> int \<Rightarrow> volume \<Rightarrow> int \<Rightarrow> ('e pworld, unit) io" where
  "MigrateReplication cl target vol vmID =
     (case Atoi (VMID vol) of
        None \<Rightarrow> fail (volumeIDError vol)
      | Some volid \<Rightarrow>
          if volid = vmID then ret ()
          else call (GetVMByID cl volid)
            (\<lambda>e. fail (Plain (''failed to find vm by id '' @ Itoa volid @ '': '' @ Error e)))
            (\<lambda>sourceVM. call (GetVMByID cl target)
              (\<lambda>e. fail (Plain (''failed to find vm by id '' @ Itoa target @ '': '' @ Error e)))
              (\<lambda>targetVM.
                 if rs_node sourceVM = rs_node targetVM then ret ()
                 else call (NodeByName cl (rs_node sourceVM))
                   (\<lambda>e. fail (Wrap (''unable to find node with name '' @ rs_node sourceVM @ '': '' @ Error e) e))
                   (\<lambda>_. call (VirtualMachine cl (rs_node sourceVM) volid)
                     (\<lambda>e. fail (Wrap (''unable to find vm with id '' @ Itoa volid @ '': '' @ Error e) e))
                     (\<lambda>vm. call (VmMigrate cl vm (rs_node targetVM) False)
                       (\<lambda>e. fail (Plain (''failed to migrate vm config: '' @ Error e)))
                       (\<lambda>task. awaitTask cl task ''unable to migrate virtual machine''))))))"

fun deleteJobs :: "'e client \<Rightarrow> (string \<times> int) list \<Rightarrow> ('e pworld, unit) io" where
  "deleteJobs cl [] = ret ()"
| "deleteJobs cl ((job, guest) # jobs) =
     call (Delete cl (''/cluster/replication/'' @ job))
       (\<lambda>e. if \<not> Contains (Error e) ''no such job''
            then fail (Plain (''failed to delete replication schedule: '' @ Error e))
            else deleteJobs cl jobs)
       (\<lambda>_. deleteJobs cl jobs)"

definition DeleteReplication :: "'e client \<Rightarrow> volume \<Rightarrow> int \<Rightarrow> ('e pworld, unit) io" where
  "DeleteReplication cl vol vmID =
     (case Atoi (VMID vol) of
        None \<Rightarrow> fail (volumeIDError vol)
      | Some i \<Rightarrow>
          if i = vmID then ret ()
          else bindE (c_GetVMByFilter cl (\<lambda>r s. ret (rs_vmid r = i \<and> rs_name r = PV vol, s)) 0) (\<lambda>(vmr, _).
            call (GetJobsAt cl (''/nodes/'' @ rs_node vmr @ ''/replication?guest='' @ Itoa (rs_vmid vmr)))
              (\<lambda>e. fail (Wrap (''could not get replication list: '' @ Error e) e))
              (\<lambda>jobs. bindE (deleteJobs cl jobs) (\<lambda>_.
                 call (DeleteVMByID cl (rs_node vmr) (rs_vmid vmr))
                   (\<lambda>e. fail (Plain (''failed to delete replication vm: '' @ Error e)))
                   (\<lambda>_. ret ())))))"

end
