(* ===== verification/Disk_Safety.thy ===== *)
theory Disk_Safety
  imports Disk_Ops
begin

text \<open>
  What the disk operations may send, and when.  Statements about a request mention the outside
  state it is sent in; the hypothesis \<open>reads_pure\<close> says that reading a VM config or a storage
  listing does not change that state, which is what links the check of a function to the request
  it then sends.
\<close>

definition reads_pure :: "'e client \<Rightarrow> bool" where
  "reads_pure cl \<longleftrightarrow>
     (\<forall>i e. snd (c_GetVMConfig cl i e) = e) \<and>
     (\<forall>n s e. snd (c_GetStorageStatus cl n s e) = e) \<and>
     (\<forall>n s e. snd (c_GetStorageContent cl n s e) = e) \<and>
     (\<forall>p e. snd (c_GetContentList cl p e) = e) \<and>
     (\<forall>s e. snd (c_GetNodesForStorage cl s e) = e)"

lemma simClient_reads_pure [simp]: "reads_pure simClient"
  by (simp add: reads_pure_def simVM_def simStatus_def simContents_def simContentAt_def) (simp add: simClient_def)

text \<open>Answers of reads in a given outside state.\<close>

definition vmAt :: "'e client \<Rightarrow> int \<Rightarrow> 'e \<Rightarrow> vm option" where
  "vmAt cl i e = (case fst (c_GetVMConfig cl i e) of Inr vm \<Rightarrow> Some vm | Inl _ \<Rightarrow> None)"

definition storedAt :: "'e client \<Rightarrow> volume \<Rightarrow> 'e \<Rightarrow> bool" where
  "storedAt cl vol e \<longleftrightarrow>
     (case fst (c_GetStorageContent cl (vnode vol) (vstorage vol) e) of
        Inr cs \<Rightarrow> VolID vol \<in> ct_volid ` set cs | Inl _ \<Rightarrow> False)"

lemma triple_GetVMConfig:
  assumes "reads_pure cl" "\<And>e. I e \<Longrightarrow> P (e, Px (c_name cl) (RGet (''vmconfig/'' @ Itoa i)))"
  shows "triple I P (GetVMConfig cl i) (\<lambda>r e. I e \<and> (case r of Inr vm \<Rightarrow> vmAt cl i e = Some vm | Inl _ \<Rightarrow> True))"
  using assms by (intro triple_px) (auto simp: reads_pure_def vmAt_def split: sum.split)

lemma triple_vacuous: "(\<And>e. \<not> I e) \<Longrightarrow> triple I P m Q"
  by (simp add: triple_def)

lemma triple_emits: "emits (\<lambda>r. \<forall>e. P (e, r)) m \<Longrightarrow> triple I P m (\<lambda>_ _. True)"
  unfolding emits_def triple_def list_all_iff by fastforce

section \<open>Requests of the helper operations\<close>

lemma emits_awaitTask [emits_intros]: "P (Px (c_name cl) RWait) \<Longrightarrow> emits P (awaitTask cl task what)"
  unfolding awaitTask_def by (intro emits_intros)

lemma emits_WaitAttachVolume [emits_intros]:
  "Retry_spec cl \<Longrightarrow> (\<And>p. P (Px (c_name cl) (RGet p))) \<Longrightarrow> emits P (WaitAttachVolume cl i vol)"
  unfolding WaitAttachVolume_def Let_def by (intro emits_intros)

lemma emits_WaitDetachVolume [emits_intros]:
  "Retry_spec cl \<Longrightarrow> (\<And>p. P (Px (c_name cl) (RGet p))) \<Longrightarrow> emits P (WaitDetachVolume cl i vol)"
  unfolding WaitDetachVolume_def Let_def by (intro emits_intros)

lemma emits_GetStorageContent [emits_intros]:
  "(\<And>p. P (Px (c_name cl) (RGet p))) \<Longrightarrow> emits P (GetStorageContent cl vol)"
  unfolding GetStorageContent_def by (intro emits_intros)

lemma emits_GetVolumeSize [emits_intros]:
  "(\<And>p. P (Px (c_name cl) (RGet p))) \<Longrightarrow> emits P (GetVolumeSize cl vol)"
  unfolding GetVolumeSize_def by (intro emits_intros)

lemma emits_FindVolumeBySuffix [emits_intros]:
  "(\<And>p. P (Px (c_name cl) (RGet p))) \<Longrightarrow> emits P (FindVolumeBySuffix cl vol)"
  unfolding FindVolumeBySuffix_def by (intro emits_intros)

lemma emits_ResolveVolume [emits_intros]:
  "(\<And>p. P (Px (c_name cl) (RGet p))) \<Longrightarrow> emits P (ResolveVolume cl vol reassign)"
  unfolding ResolveVolume_def by (intro emits_intros)

lemma emits_GetNodeForVolume [emits_intros]:
  "(\<And>p. P (Px (c_name cl) (RGet p))) \<Longrightarrow> emits P (GetNodeForVolume cl vol)"
  unfolding GetNodeForVolume_def by (auto intro!: emits_intros split: list.split)

lemma emits_attachedFilter [emits_intros]:
  "(\<And>p. P (Px (c_name cl) (RGet p))) \<Longrightarrow> emits P (attachedFilter cl vol skip nodes rs lun)"
  unfolding attachedFilter_def Let_def by (intro emits_intros)

lemma emits_GetVMByAttachedVolume [emits_intros]:
  "GetVMByFilter_spec cl \<Longrightarrow> (\<And>p. P (Px (c_name cl) (RGet p))) \<Longrightarrow> emits P (GetVMByAttachedVolume cl vol skip)"
  unfolding GetVMByAttachedVolume_def by (intro emits_intros)

section \<open>Attaching\<close>

lemma freeLun_Some:
  assumes "freeLun disks = Some lun"
  shows "1 \<le> lun" "lun < 30" "mget disks (deviceOf lun) = []"
  using assms by (auto simp: freeLun_def find_Some_iff)

lemma freeLun_None:
  assumes "freeLun disks = None" "1 \<le> lun" "lun < 30"
  shows "mget disks (deviceOf lun) \<noteq> []"
proof -
  have "lun \<in> set (map int [1..<30])" using assms(2,3) by (auto simp: image_iff intro!: bexI [of _ "nat lun"])
  then show ?thesis using assms(1) by (auto simp: freeLun_def find_None_iff)
qed

text \<open>What \<open>AttachVolume\<close> may send for VM \<open>i\<close>: reads, waits, and a config write that puts the volume into
  an empty slot between 1 and 29 of a VM it is not attached to.\<close>

definition attach_ok :: "'e client \<Rightarrow> int \<Rightarrow> volume \<Rightarrow> gomap \<Rightarrow> 'e \<times> req \<Rightarrow> bool" where
  "attach_ok cl i vol options = (\<lambda>(e, r).
     case r of
       Px _ (RConfig v name val) \<Rightarrow>
         (\<exists>vm lun. vmAt cl i e = Some vm \<and> v = vm_vmid vm \<and> 1 \<le> lun \<and> lun < 30 \<and> name = deviceOf lun \<and>
            mget (vc_scsis (vm_cfg vm)) name = [] \<and> \<not> snd (IsVolumeAttached (vm_cfg vm) (VolumeMatch vol)) \<and>
            val = attachValue vol options lun)
     | Px _ r' \<Rightarrow> \<not> px_write r'
     | _ \<Rightarrow> False)"

lemma attach_ok_reads:
  "attach_ok cl i vol options (e, Px n (RGet p))" "attach_ok cl i vol options (e, Px n RWait)"
  by (simp_all add: attach_ok_def)

lemma triple_attach_write:
  assumes "freeLun (vc_scsis (vm_cfg vm)) = Some lun" "\<not> snd (IsVolumeAttached (vm_cfg vm) (VolumeMatch vol))"
  shows "triple (\<lambda>e. vmAt cl i e = Some vm) (attach_ok cl i vol options)
     (VmConfig cl vm (deviceOf lun) (attachValue vol options lun)) (\<lambda>_ _. True)"
  using freeLun_Some [OF assms(1)] assms(2)
  by (intro triple_px) (auto simp: attach_ok_def intro!: exI [of _ vm] exI [of _ lun])

lemma triple_AttachVolume:
  assumes "reads_pure cl" "Retry_spec cl"
  shows "triple (\<lambda>_. True) (attach_ok cl i vol options) (AttachVolume cl i vol options) (\<lambda>_ _. True)"
proof -
  have rest: "triple (\<lambda>_. True) (attach_ok cl i vol options)
      (bindE (awaitTask cl task what) (\<lambda>_. bindE (WaitAttachVolume cl i vol) (\<lambda>_. ret (publishInfo lun)))) (\<lambda>_ _. True)"
    for task what lun
    by (rule triple_emits) (intro emits_intros assms(2) allI attach_ok_reads)
  show ?thesis
    unfolding AttachVolume_def
    apply (rule triple_call [OF triple_GetVMConfig [OF assms(1)]])
      apply (rule attach_ok_reads)
     apply (rule triple_fail, simp)
    subgoal for vm
      by (auto simp: Let_def split: prod.split option.split
          intro!: triple_ret triple_fail triple_call [where R = "\<lambda>_ _. True"] rest triple_attach_write)
    done
qed

section \<open>Detaching\<close>

text \<open>The only write a detach may send, given the config read for the VM: an unforced unlink of the slot
  that holds the volume.\<close>

definition detach_ok :: "volume \<Rightarrow> vm option \<Rightarrow> req \<Rightarrow> bool" where
  "detach_ok vol cfg r \<longleftrightarrow>
     (is_write r \<longrightarrow> (\<exists>vm lun n. cfg = Some vm \<and> IsVolumeAttached (vm_cfg vm) (VolumeMatch vol) = (lun, True) \<and>
        r = Px n (RUnlink (vm_vmid vm) (deviceOf lun) False)))"

lemma detach_ok_reads: "detach_ok vol cfg (Px n (RGet p))" "detach_ok vol cfg (Px n RWait)"
  by (simp_all add: detach_ok_def)

lemma triple_DetachVolume:
  assumes "reads_pure cl"
  shows "triple (\<lambda>e. vmAt cl i e = cfg) (\<lambda>(_, r). detach_ok vol cfg r) (DetachVolume cl i vol) (\<lambda>_ _. True)"
proof -
  have unlink: "triple (\<lambda>_. True) (\<lambda>(_, r). detach_ok vol (Some vm) r)
      (call (call (UnlinkDisk cl vm (deviceOf lun) False)
               (\<lambda>e. if isHotUnplugTimeout e then UnlinkDisk cl vm (deviceOf lun) False else fail e) ret)
         (\<lambda>e. fail (Plain (''failed to unlink disk: '' @ Error e)))
         (\<lambda>task. awaitTask cl task what)) (\<lambda>_ _. True)"
    if "IsVolumeAttached (vm_cfg vm) (VolumeMatch vol) = (lun, True)" for vm lun what
    by (rule triple_emits) (auto intro!: emits_intros detach_ok_reads simp: detach_ok_def that)
  show ?thesis
    unfolding DetachVolume_def
    apply (rule triple_call [OF triple_GetVMConfig [OF assms]])
      apply (simp add: detach_ok_reads)
     apply (rule triple_if; (rule triple_ret triple_fail; simp))
    subgoal for vm
    proof (cases "cfg = Some vm")
      case True
      obtain lun ok where a: "IsVolumeAttached (vm_cfg vm) (VolumeMatch vol) = (lun, ok)" by fastforce
      show ?thesis
      proof (cases ok)
        case ok: True
        show ?thesis using a ok True by (simp add: Let_def) (rule triple_pre [OF unlink], simp_all)
      next
        case False
        then show ?thesis using a by (simp add: triple_ret)
      qed
    next
      case False
      then show ?thesis by (intro triple_vacuous) auto
    qed
    done
qed

section \<open>Success of the waits\<close>

definition attachedAt :: "'e client \<Rightarrow> int \<Rightarrow> volume \<Rightarrow> 'e \<Rightarrow> bool" where
  "attachedAt cl i vol e \<longleftrightarrow>
     (case vmAt cl i e of Some vm \<Rightarrow> snd (IsVolumeAttached (vm_cfg vm) (VolumeMatch vol)) | None \<Rightarrow> False)"

lemma attachedAt_I:
  "vmAt cl i e = Some vm \<Longrightarrow> IsVolumeAttached (vm_cfg vm) (VolumeMatch vol) = (lun, True) \<Longrightarrow> attachedAt cl i vol e"
  by (simp add: attachedAt_def)

lemma triple_WaitAttachVolume:
  assumes "reads_pure cl" "Retry_spec cl" "\<And>e p. P (e, Px (c_name cl) (RGet p))"
  shows "triple I P (WaitAttachVolume cl i vol) (\<lambda>r e. r = Inr () \<longrightarrow> attachedAt cl i vol e)"
  unfolding WaitAttachVolume_def Let_def
  apply (rule triple_call [OF triple_Retry [OF assms(2), where Q = "\<lambda>_. attachedAt cl i vol"]])
    apply (rule triple_call [OF triple_GetVMConfig [OF assms(1)]])
      apply (rule assms(3))
     apply (rule triple_fail, simp)
    apply (rule triple_ret, simp add: attachedAt_def)
   apply (rule triple_if; (rule triple_fail; simp))
  apply (rule triple_ret, simp)
  done

lemma triple_WaitDetachVolume:
  assumes "reads_pure cl" "Retry_spec cl" "\<And>e p. P (e, Px (c_name cl) (RGet p))"
  shows "triple I P (WaitDetachVolume cl i vol) (\<lambda>r e. r = Inr () \<longrightarrow> \<not> attachedAt cl i vol e)"
  unfolding WaitDetachVolume_def Let_def
  apply (rule triple_call [OF triple_Retry [OF assms(2), where Q = "\<lambda>_ e. \<not> attachedAt cl i vol e"]])
    apply (rule triple_call [where R = "\<lambda>r e. vmAt cl i e = (case r of Inr vm \<Rightarrow> Some vm | Inl _ \<Rightarrow> None)"])
      apply (rule triple_px)
      apply (use assms(1,3) in \<open>auto simp: reads_pure_def vmAt_def split: sum.split\<close>)[1]
     apply (rule triple_if; (rule triple_fail triple_ret; simp add: attachedAt_def))
    apply (rule triple_ret, simp add: attachedAt_def)
   apply (rule triple_if; (rule triple_fail; simp))
  apply (rule triple_ret, simp)
  done

text \<open>A successful attach leaves the volume attached, and reports a lun by its serial.\<close>

lemma triple_attach_success:
  assumes "reads_pure cl" "Retry_spec cl"
  shows "triple (\<lambda>_. True) (\<lambda>_. True) (AttachVolume cl i vol options)
    (\<lambda>r e. \<forall>info. r = Inr info \<longrightarrow> attachedAt cl i vol e \<and> (\<exists>lun. info = publishInfo lun))"
proof -
  let ?Q = "\<lambda>r e. \<forall>info. r = Inr info \<longrightarrow> attachedAt cl i vol e \<and> (\<exists>lun. info = publishInfo lun)"
  have rest: "triple (\<lambda>_. True) (\<lambda>_. True)
      (bindE (awaitTask cl task what) (\<lambda>_. bindE (WaitAttachVolume cl i vol) (\<lambda>_. ret (publishInfo lun)))) ?Q"
    for task what lun
    by (rule triple_bindE [OF triple_emits [OF emits_awaitTask]], simp, simp,
        rule triple_bindE [OF triple_WaitAttachVolume [OF assms]], simp, simp, rule triple_ret, auto)
  show ?thesis
    unfolding AttachVolume_def
    apply (rule triple_call [OF triple_GetVMConfig [OF assms(1)]])
      apply simp
     apply (rule triple_fail, simp)
    subgoal for vm
      by (auto simp: Let_def split: prod.split option.split
          intro!: triple_ret triple_fail triple_call [where R = "\<lambda>_ _. True"] rest triple_px
          intro: attachedAt_I)
    done
qed

section \<open>Clearing the unused key\<close>

text \<open>Errors of the two reads are never the bare text the program uses for a missing volume.\<close>

definition errors_distinct :: "'e client \<Rightarrow> bool" where
  "errors_distinct cl \<longleftrightarrow>
     (\<forall>n s e err. fst (c_GetStorageStatus cl n s e) = Inl err \<longrightarrow> Error err \<noteq> ErrorNotFound) \<and>
     (\<forall>n s e err. fst (c_GetStorageContent cl n s e) = Inl err \<longrightarrow> Error err \<noteq> ErrorNotFound)"

text \<open>The volume is not stored: its storage does not exist on the node, or the listing of the storage
  does not have it.\<close>

definition absentAt :: "'e client \<Rightarrow> volume \<Rightarrow> 'e \<Rightarrow> bool" where
  "absentAt cl vol e \<longleftrightarrow>
     (case fst (c_GetStorageStatus cl (vnode vol) (vstorage vol) e) of
        Inl err \<Rightarrow> Contains (Error err) ''No such storage''
      | Inr _ \<Rightarrow> (case fst (c_GetStorageContent cl (vnode vol) (vstorage vol) e) of
          Inr cs \<Rightarrow> VolID vol \<notin> ct_volid ` set cs | Inl _ \<Rightarrow> False))"

lemma find_volid:
  "case find (\<lambda>c. ct_volid c = v) cs of Some _ \<Rightarrow> v \<in> ct_volid ` set cs | None \<Rightarrow> v \<notin> ct_volid ` set cs"
  by (induction cs) (auto split: option.split)

lemma triple_GetStorageContent:
  assumes "reads_pure cl" "errors_distinct cl" "\<And>e p. I e \<Longrightarrow> P (e, Px (c_name cl) (RGet p))"
  shows "triple I P (GetStorageContent cl vol) (\<lambda>r e. I e \<and> (case r of
      Inr (Some c) \<Rightarrow> storedAt cl vol e
    | Inr None \<Rightarrow> absentAt cl vol e
    | Inl err \<Rightarrow> Error err = ErrorNotFound \<longrightarrow> absentAt cl vol e))"
proof -
  let ?st = "c_GetStorageStatus cl (vnode vol) (vstorage vol)"
  let ?ct = "c_GetStorageContent cl (vnode vol) (vstorage vol)"
  have node: "''node is required'' \<noteq> ErrorNotFound" by (simp add: ErrorNotFound_def)
  have pure: "snd (?st e) = e" "snd (?ct e) = e" for e using assms(1) by (simp_all add: reads_pure_def)
  have dist: "fst (?st e) = Inl err \<Longrightarrow> Error err \<noteq> ErrorNotFound"
    "fst (?ct e) = Inl err \<Longrightarrow> Error err \<noteq> ErrorNotFound" for e err
    using assms(2) by (simp_all add: errors_distinct_def)
  show ?thesis
    unfolding GetStorageContent_def
    apply (rule triple_if)
     apply (rule triple_fail, simp add: node)
    apply (rule triple_call [where R = "\<lambda>r e. I e \<and> fst (?st e) = r"])
      apply (rule triple_px, simp add: assms(3) pure)
     apply (rule triple_if; rule triple_fail; use dist(1) in \<open>force simp: storageAbsent_def absentAt_def\<close>)
    apply (rule triple_bindE [where R = "\<lambda>r e. I e \<and> (\<exists>x. fst (?st e) = Inr x) \<and> fst (?ct e) = r"])
      apply (rule triple_px, auto simp: assms(3) pure)[1]
     apply (use dist(2) in force)
    apply (rule triple_ret)
    subgoal for x cs e
      using find_volid [of "VolID vol" cs] by (auto simp: storedAt_def absentAt_def split: option.splits)
    done
qed

lemma triple_GetVolumeSize:
  assumes "reads_pure cl" "errors_distinct cl" "\<And>e p. I e \<Longrightarrow> P (e, Px (c_name cl) (RGet p))"
  shows "triple I P (GetVolumeSize cl vol) (\<lambda>r e. I e \<and> (case r of
      Inr sz \<Rightarrow> storedAt cl vol e
    | Inl err \<Rightarrow> Error err = ErrorNotFound \<longrightarrow> absentAt cl vol e))"
  unfolding GetVolumeSize_def
  apply (rule triple_bindE [OF triple_GetStorageContent [OF assms(1,2), where I = I]])
    apply (erule assms(3))
   apply simp
  subgoal for st
    by (cases st) (auto intro!: triple_fail triple_ret)
  done

text \<open>What clearing may send, given the VM's config: reads, waits, and the deletion of an unused key whose
  volume is absent in the state the deletion is sent in.\<close>

definition clear_ok :: "'e client \<Rightarrow> vm \<Rightarrow> volume \<Rightarrow> 'e \<times> req \<Rightarrow> bool" where
  "clear_ok cl vm vol = (\<lambda>(e, r). is_write r \<longrightarrow>
     (\<exists>n key disk storage name. r = Px n (RConfig (vm_vmid vm) ''delete'' key) \<and>
        (key, disk) \<in> set (vc_unuseds (vm_cfg vm)) \<and>
        hd (Split CHR '','' disk) = storage @ '':'' @ name \<and> Contains (hd (Split CHR '','' disk)) (VolumeMatch vol) \<and>
        absentAt cl (unusedVolume vol storage name) e))"

lemma clear_ok_reads: "clear_ok cl vm vol (e, Px n (RGet p))" "clear_ok cl vm vol (e, Px n RWait)"
  by (simp_all add: clear_ok_def)

lemma triple_clearUnusedKey:
  assumes "reads_pure cl" "errors_distinct cl" "k \<in> set (vc_unuseds (vm_cfg vm))"
  shows "triple (\<lambda>_. True) (clear_ok cl vm vol) (clearUnusedKey cl vm vol k) (\<lambda>_ _. True)"
proof -
  obtain key disk where k: "k = (key, disk)" by fastforce
  let ?volid = "hd (Split CHR '','' disk)"
  have remove: "triple (\<lambda>e. absentAt cl (unusedVolume vol storage name) e) (clear_ok cl vm vol)
      (call (VmConfig cl vm ''delete'' key)
          (\<lambda>e. fail (Plain (''failed to delete '' @ key @ '': '' @ Error e)))
          (\<lambda>task. case task of
             None \<Rightarrow> ret ()
           | Some t \<Rightarrow> call (WaitFor cl t 300)
               (\<lambda>e. fail (Wrap (''failed to wait for '' @ key @ '' removal: '' @ Error e) e))
               (\<lambda>_. ret ()))) (\<lambda>_ _. True)"
    if "?volid = storage @ '':'' @ name" "Contains ?volid (VolumeMatch vol)" for storage name
    apply (rule triple_call [where R = "\<lambda>_ _. True"])
      apply (rule triple_px, use that assms(3) k in \<open>force simp: clear_ok_def\<close>)
     apply (rule triple_fail, simp)
    apply (rule triple_emits)
    apply (intro emits_intros allI clear_ok_reads)
    done
  show ?thesis
  proof (cases "Contains ?volid (VolumeMatch vol)")
    case False
    then show ?thesis by (simp add: clearUnusedKey_def k Let_def triple_ret)
  next
    case has: True
    show ?thesis
    proof (cases "Cut CHR '':'' ?volid")
      case None
      then show ?thesis using has by (simp add: clearUnusedKey_def k Let_def triple_ret)
    next
      case (Some sn)
      then obtain storage name where sn: "Cut CHR '':'' ?volid = Some (storage, name)" by (cases sn) auto
      then have v: "?volid = storage @ '':'' @ name" by (simp add: Cut_Some append_Cons)
      show ?thesis
        unfolding clearUnusedKey_def k Let_def prod.case
        apply (simp only: has sn not_True_eq_False if_False option.case prod.case)
        apply (rule triple_call [OF triple_GetVolumeSize [OF assms(1,2), where I = "\<lambda>_. True"]])
          apply (rule clear_ok_reads)
         apply (rule triple_if)
          apply (rule triple_fail, simp)
         apply (rule triple_pre [OF remove [OF v has]], simp)
        apply (rule triple_fail, simp)
        done
    qed
  qed
qed

lemma triple_clearUnusedKeys:
  assumes "reads_pure cl" "errors_distinct cl" "set ks \<subseteq> set (vc_unuseds (vm_cfg vm))"
  shows "triple (\<lambda>_. True) (clear_ok cl vm vol) (clearUnusedKeys cl vm vol ks) (\<lambda>_ _. True)"
  using assms(3)
proof (induction ks)
  case (Cons k ks)
  then show ?case
    by (auto intro!: triple_bindE [OF triple_clearUnusedKey [OF assms(1,2)]])
qed (simp add: triple_ret)

lemma triple_ClearUnusedDisk:
  assumes "reads_pure cl" "errors_distinct cl"
  shows "triple (\<lambda>e. vmAt cl i e = cfg)
     (\<lambda>(e, r). is_write r \<longrightarrow> (\<exists>vm. cfg = Some vm \<and> clear_ok cl vm vol (e, r))) (ClearUnusedDisk cl i vol) (\<lambda>_ _. True)"
  unfolding ClearUnusedDisk_def
  apply (rule triple_call [OF triple_GetVMConfig [OF assms(1)]])
    apply simp
   apply (rule triple_if; (rule triple_fail triple_ret; simp))
  subgoal for vm
  proof (cases "cfg = Some vm")
    case True
    show ?thesis
      by (rule triple_pre [OF triple_mono [OF triple_clearUnusedKeys [OF assms subset_refl]]]) (auto simp: True)
  next
    case False
    then show ?thesis by (intro triple_vacuous) auto
  qed
  done

section \<open>Resolving the current name of a volume\<close>

lemma triple_FindVolumeBySuffix:
  assumes "reads_pure cl" "\<And>e p. I e \<Longrightarrow> P (e, Px (c_name cl) (RGet p))"
  shows "triple I P (FindVolumeBySuffix cl vol) (\<lambda>r e. I e \<and>
     (\<forall>v. r = Inr (Some v) \<longrightarrow> DiskSuffix v = DiskSuffix vol \<and> v\<lparr>vdisk := vdisk vol\<rparr> = vol))"
proof -
  have pure: "snd (c_GetContentList cl p e) = e" for p e using assms(1) by (simp add: reads_pure_def)
  show ?thesis
    unfolding FindVolumeBySuffix_def
    apply (rule triple_if)
     apply (rule triple_fail, simp)
    apply (rule triple_call [where R = "\<lambda>_. I"])
      apply (rule triple_px, simp add: assms(2) pure)
     apply (rule triple_fail, simp)
    apply (rule triple_ret)
    apply (auto split: list.splits dest: suffix_found(1,3) [OF _ refl])
    done
qed

text \<open>A resolved volume is stored, and differs from the one asked for at most in the VM its disk name
  carries, and only when reassignment is on.\<close>

definition renamed_from :: "volume \<Rightarrow> volume \<Rightarrow> bool" where
  "renamed_from vol v \<longleftrightarrow> v\<lparr>vdisk := vdisk vol\<rparr> = vol \<and> DiskSuffix v = DiskSuffix vol"

lemma triple_ResolveVolume:
  assumes "reads_pure cl" "errors_distinct cl" "\<And>e p. I e \<Longrightarrow> P (e, Px (c_name cl) (RGet p))"
  shows "triple I P (ResolveVolume cl vol reassign) (\<lambda>r e. I e \<and> (case r of
      Inr (v, sz) \<Rightarrow> storedAt cl v e \<and> renamed_from vol v \<and> (\<not> reassign \<longrightarrow> v = vol)
    | Inl err \<Rightarrow> True))"
proof -
  have found: "triple I P (GetVolumeSize cl v) (\<lambda>r e. I e \<and> (case r of Inr sz \<Rightarrow> storedAt cl v e | Inl err \<Rightarrow> True))" for v
    by (rule triple_mono [OF triple_GetVolumeSize [OF assms(1,2), where I = I]]) (auto simp: assms(3) split: sum.splits)
  show ?thesis
    unfolding ResolveVolume_def
    apply (rule triple_call [OF found])
     apply (rule triple_if)
      apply (rule triple_fail, simp)
     apply (rule triple_pre [where I = I])
      apply (rule triple_bindE [OF triple_FindVolumeBySuffix [OF assms(1), where I = I]])
        apply (erule assms(3))
       apply simp
    subgoal premises prems for e v
    proof (cases v)
      case (Some a)
      have "triple (\<lambda>e. I e \<and> (DiskSuffix a = DiskSuffix vol \<and> a\<lparr>vdisk := vdisk vol\<rparr> = vol)) P
          (bindE (GetVolumeSize cl a) (\<lambda>sz. ret (a, sz))) (\<lambda>r e. I e \<and> (case r of
            Inr (v, sz) \<Rightarrow> storedAt cl v e \<and> renamed_from vol v \<and> (\<not> reassign \<longrightarrow> v = vol) | Inl err \<Rightarrow> True))"
        using prems
        by (intro triple_const triple_bindE [OF found]) (auto simp: renamed_from_def intro!: triple_ret)
      then show ?thesis using Some by simp
    qed (simp add: triple_fail)
     apply simp
    apply (rule triple_ret)
    apply (simp add: renamed_from_def)
    done
qed

section \<open>The VM a volume is attached to\<close>

definition vmConfigPath :: "string \<Rightarrow> int \<Rightarrow> string" where
  "vmConfigPath node i = ''/nodes/'' @ PathEscape node @ ''/qemu/'' @ Itoa i @ ''/config''"

definition holdsAt :: "'e client \<Rightarrow> string \<Rightarrow> int \<Rightarrow> volume \<Rightarrow> int \<Rightarrow> bool" where
  "holdsAt cl node i vol lun \<longleftrightarrow>
     (\<exists>e cfg. fst (c_GetConfig cl (vmConfigPath node i) e) = Inr cfg \<and> IsVolumeAttached cfg (VolumeMatch vol) = (lun, True))"

lemma attachedFilter_accepts:
  assumes "attachedFilter cl vol skip nodes rs t v = (Inr (True, lun), v')"
  shows "rs_type rs = ''qemu''" "skip = 0 \<or> rs_vmid rs \<noteq> skip" "rs_node rs \<in> set nodes"
    "\<exists>e cfg. fst (c_GetConfig cl (vmConfigPath (rs_node rs) (rs_vmid rs)) e) = Inr cfg \<and>
       IsVolumeAttached cfg (VolumeMatch vol) = (lun, True)"
proof -
  have c: "rs_type rs = ''qemu'' \<and> (skip = 0 \<or> rs_vmid rs \<noteq> skip) \<and> rs_node rs \<in> set nodes"
    using assms by (auto simp: attachedFilter_def ret_def split: if_splits)
  then have "bindE (GetVMConfigByResource cl rs) (\<lambda>vm.
       let (l, exist) = IsVolumeAttached (vm_cfg vm) (VolumeMatch vol) in ret (if exist then (True, l) else (False, t))) v
     = (Inr (True, lun), v')"
    using assms by (simp add: attachedFilter_def split: if_splits)
  then obtain vm :: vm and v2 where vm: "GetVMConfigByResource cl rs v = (Inr vm, v2)"
    "IsVolumeAttached (vm_cfg vm) (VolumeMatch vol) = (lun, True)"
    by (auto elim!: bindE_InrD simp: ret_def split: prod.splits if_splits)
  then have "fst (c_GetConfig cl (vmConfigPath (rs_node rs) (rs_vmid rs)) (env v)) = Inr (vm_cfg vm)"
    by (auto simp: GetVMConfigByResource_def vmConfigPath_def bindE_def call_def px_def invoke_def ret_def fail_def
        split: prod.splits sum.splits if_splits)
  then show "\<exists>e cfg. fst (c_GetConfig cl (vmConfigPath (rs_node rs) (rs_vmid rs)) e) = Inr cfg \<and>
       IsVolumeAttached cfg (VolumeMatch vol) = (lun, True)" using vm(2) by blast
  show "rs_type rs = ''qemu''" "skip = 0 \<or> rs_vmid rs \<noteq> skip" "rs_node rs \<in> set nodes" using c by simp_all
qed

lemma GetVMByAttachedVolume_result:
  assumes "GetVMByAttachedVolume cl vol skip w = (Inr (i, lun, vol'), w')" "GetVMByFilter_spec cl"
  shows "i \<noteq> 0" "i \<noteq> skip" "vol'\<lparr>vnode := vnode vol\<rparr> = vol" "vnode vol \<noteq> [] \<longrightarrow> vol' = vol"
    "holdsAt cl (vnode vol') i vol lun"
proof -
  obtain nodes w1 where n: "nodes \<noteq> []" "vnode vol \<noteq> [] \<longrightarrow> nodes = [vnode vol]"
    "bindE (c_GetVMByFilter cl (attachedFilter cl vol skip nodes) 0)
        (\<lambda>(vm, lun).
           if rs_vmid vm \<noteq> 0
           then ret (rs_vmid vm, lun, if vnode vol = [] then SetNode (rs_node vm) vol else vol)
           else fail (ErrVMNotFound cl)) w1 = (Inr (i, lun, vol'), w')"
    using assms(1) unfolding GetVMByAttachedVolume_def
    by (elim call_fail_InrD) (auto simp: fail_def ret_def split: if_splits)
  obtain rs l w2 where "c_GetVMByFilter cl (attachedFilter cl vol skip nodes) 0 w1 = (Inr (rs, l), w2)"
    and r: "rs_vmid rs \<noteq> 0" "i = rs_vmid rs" "lun = l"
      "vol' = (if vnode vol = [] then SetNode (rs_node rs) vol else vol)"
    using n(3) by (elim bindE_InrD) (auto simp: ret_def fail_def split: if_splits prod.splits)
  then obtain t v v' where f: "attachedFilter cl vol skip nodes rs t v = (Inr (True, l), v')"
    using GetVMByFilter_accepts [OF assms(2)] by metis
  show "i \<noteq> 0" "vol'\<lparr>vnode := vnode vol\<rparr> = vol" "vnode vol \<noteq> [] \<longrightarrow> vol' = vol" using r by auto
  show "i \<noteq> skip" using attachedFilter_accepts(2) [OF f] r by auto
  have "vnode vol' = rs_node rs" using attachedFilter_accepts(3) [OF f] n(2) r(4) by auto
  then show "holdsAt cl (vnode vol') i vol lun" using attachedFilter_accepts(4) [OF f] r by (simp add: holdsAt_def)
qed

section \<open>Options of an attached disk\<close>

text \<open>The value of option \<open>k\<close> in the parameters of a disk entry: its first non-empty assignment.\<close>

definition currentOption :: "string list \<Rightarrow> string \<Rightarrow> string" where
  "currentOption params k =
     (case List.map_filter (\<lambda>p. let kv = Split CHR ''='' p in
             if length kv = 2 \<and> kv ! 0 = k \<and> kv ! 1 \<noteq> [] then Some (kv ! 1) else None) params of
        v # _ \<Rightarrow> v
      | [] \<Rightarrow> [])"

lemma keepOptions_get:
  "mget (keepOptions params options) k = (if mget options k \<noteq> [] then mget options k else currentOption params k)"
proof (induction params arbitrary: options)
  case (Cons p params)
  show ?case
    unfolding keepOptions.simps Let_def Cons.IH
    by (auto simp: currentOption_def List.map_filter_simps Let_def)
qed (simp add: currentOption_def List.map_filter_simps)

section \<open>Properties\<close>

text \<open>C28: Attaching never disturbs another disk.  The only write an attach sends puts this volume into a
  slot between 1 and 29 that the config leaves empty, of a VM the volume is not attached to yet; and
  when the attach succeeds, the volume is attached and the device path reported is the one of a lun.\<close>

theorem AttachVolume_free_slot:
  assumes "reads_pure cl" "Retry_spec cl"
  shows "(\<forall>x \<in> set (sent (AttachVolume cl i vol options) w). attach_ok cl i vol options x) \<and>
         (\<forall>info. fst (AttachVolume cl i vol options w) = Inr info \<longrightarrow>
            attachedAt cl i vol (env (snd (AttachVolume cl i vol options w))) \<and> (\<exists>lun. info = publishInfo lun))"
  using triple_sent [OF triple_AttachVolume [OF assms]] triple_result [OF triple_attach_success [OF assms]]
  by blast

theorem AttachVolume_free_slot_witness:
  "reads_pure simClient \<and> Retry_spec simClient \<and>
   fst (AttachVolume simClient 101 sampleVolume [(''backup'', ''0'')] sampleWorld) = Inr (publishInfo 1) \<and>
   attachedAt simClient 101 sampleVolume (env (snd (AttachVolume simClient 101 sampleVolume [(''backup'', ''0'')] sampleWorld)))"
proof -
  have "fst (AttachVolume simClient 101 sampleVolume [(''backup'', ''0'')] sampleWorld) = Inr (publishInfo 1)"
    by code_simp
  then show ?thesis
    using AttachVolume_free_slot [of simClient 101 sampleVolume "[(''backup'', ''0'')]" sampleWorld] by simp
qed

text \<open>C29: Detaching removes nothing but the slot that holds the volume, never by force (which would
  deallocate the disk), and writes nothing when the VM is gone or the volume is not attached.\<close>

theorem DetachVolume_only_slot:
  assumes "reads_pure cl"
  shows "\<forall>x \<in> set (sent (DetachVolume cl i vol) w). detach_ok vol (vmAt cl i (env w)) (snd x)"
  using triple_sent [OF triple_DetachVolume [OF assms, of i "vmAt cl i (env w)" vol]] by fastforce

definition busyState :: sim where
  "busyState = sampleState\<lparr>s_vms := [(''worker-1'', \<lparr>vm_node = ''pve-1'', vm_vmid = 101,
     vm_cfg = \<lparr>vc_scsis = [(''scsi0'', ''lvm:vm-101-disk-0''), (''scsi1'', ''lvm:vm-101-pvc-1,backup=0'')],
       vc_unuseds = [(''unused0'', ''lvm:vm-101-pvc-2'')], vc_uuid = ''u''\<rparr>\<rparr>)]\<rparr>"

definition busyWorld :: "sim pworld" where
  "busyWorld = \<lparr>env = busyState, trace = []\<rparr>"

theorem DetachVolume_only_slot_witness:
  "reads_pure simClient \<and>
   map snd (sent (DetachVolume simClient 101 sampleVolume) busyWorld) =
     [Px ''sim'' (RGet ''vmconfig/101''), Px ''sim'' (RUnlink 101 ''scsi1'' False)] \<and>
   detach_ok sampleVolume (vmAt simClient 101 (env busyWorld)) (Px ''sim'' (RUnlink 101 ''scsi1'' False))"
proof -
  have "map snd (sent (DetachVolume simClient 101 sampleVolume) busyWorld) =
     [Px ''sim'' (RGet ''vmconfig/101''), Px ''sim'' (RUnlink 101 ''scsi1'' False)]" by code_simp
  moreover from this have "Px ''sim'' (RUnlink 101 ''scsi1'' False) \<in> snd ` set (sent (DetachVolume simClient 101 sampleVolume) busyWorld)"
    by (simp flip: set_map)
  ultimately show ?thesis using DetachVolume_only_slot [of simClient 101 sampleVolume busyWorld] by auto
qed

text \<open>C30: An unused key is deleted only when its volume is gone.  Deleting such a key makes Proxmox
  deallocate the volume it names, so every deletion sent names a key of the VM's config whose volume
  is, in the state the deletion is sent in, absent from its storage.\<close>

theorem ClearUnusedDisk_never_deallocates:
  assumes "reads_pure cl" "errors_distinct cl"
  shows "\<forall>x \<in> set (sent (ClearUnusedDisk cl i vol) w). is_write (snd x) \<longrightarrow>
           (\<exists>vm. vmAt cl i (env w) = Some vm \<and> clear_ok cl vm vol x)"
  using triple_sent [OF triple_ClearUnusedDisk [OF assms, of i "vmAt cl i (env w)" vol]] by fastforce

lemma simClient_errors_distinct [simp]: "errors_distinct simClient"
  by (auto simp: errors_distinct_def simStatus_def simContents_def ErrorNotFound_def split: if_splits)

theorem ClearUnusedDisk_never_deallocates_witness:
  "reads_pure simClient \<and> errors_distinct simClient \<and>
   map snd (sent (ClearUnusedDisk simClient 101 (SetDisk ''vm-9999-pvc-2'' sampleVolume)) busyWorld) =
     [Px ''sim'' (RGet ''vmconfig/101''), Px ''sim'' (RGet ''status/pve-1/lvm''), Px ''sim'' (RGet ''content/pve-1/lvm''),
      Px ''sim'' (RConfig 101 ''delete'' ''unused0''), Px ''sim'' RWait] \<and>
   (\<exists>vm e. vmAt simClient 101 (env busyWorld) = Some vm \<and>
      clear_ok simClient vm (SetDisk ''vm-9999-pvc-2'' sampleVolume) (e, Px ''sim'' (RConfig 101 ''delete'' ''unused0'')))"
proof -
  have "map snd (sent (ClearUnusedDisk simClient 101 (SetDisk ''vm-9999-pvc-2'' sampleVolume)) busyWorld) =
     [Px ''sim'' (RGet ''vmconfig/101''), Px ''sim'' (RGet ''status/pve-1/lvm''), Px ''sim'' (RGet ''content/pve-1/lvm''),
      Px ''sim'' (RConfig 101 ''delete'' ''unused0''), Px ''sim'' RWait]" by code_simp
  moreover from this have "Px ''sim'' (RConfig 101 ''delete'' ''unused0'') \<in>
      snd ` set (sent (ClearUnusedDisk simClient 101 (SetDisk ''vm-9999-pvc-2'' sampleVolume)) busyWorld)"
    by (simp flip: set_map del: volume_setters)
  then obtain e where "(e, Px ''sim'' (RConfig 101 ''delete'' ''unused0'')) \<in>
      set (sent (ClearUnusedDisk simClient 101 (SetDisk ''vm-9999-pvc-2'' sampleVolume)) busyWorld)" by force
  ultimately show ?thesis
    using ClearUnusedDisk_never_deallocates [of simClient 101 "SetDisk ''vm-9999-pvc-2'' sampleVolume" busyWorld]
    by (fastforce simp del: volume_setters)
qed

text \<open>C31: Resolving a volume finds the volume itself.  A resolved volume is stored, has the region,
  zone, node and storage of the one asked for, and the same name up to the VM id; without
  reassignment it is the volume asked for.\<close>

theorem ResolveVolume_same_volume:
  assumes "reads_pure cl" "errors_distinct cl" "fst (ResolveVolume cl vol reassign w) = Inr (v, sz)"
  shows "storedAt cl v (env w) \<and> renamed_from vol v \<and> (\<not> reassign \<longrightarrow> v = vol)"
proof -
  have "triple (\<lambda>e. e = env w) (\<lambda>_. True) (ResolveVolume cl vol reassign) (\<lambda>r e. e = env w \<and> (case r of
      Inr (v, sz) \<Rightarrow> storedAt cl v e \<and> renamed_from vol v \<and> (\<not> reassign \<longrightarrow> v = vol) | Inl err \<Rightarrow> True))"
    by (rule triple_ResolveVolume [OF assms(1,2)]) simp
  from triple_result [OF this refl] show ?thesis using assms(3) by auto
qed

theorem ResolveVolume_same_volume_witness:
  "\<exists>v sz. fst (ResolveVolume simClient sampleVolume True sampleWorld) = Inr (v, sz) \<and>
     storedAt simClient v (env sampleWorld) \<and> renamed_from sampleVolume v \<and> vdisk v = ''vm-101-pvc-1''"
proof -
  have "map_sum Error (vdisk \<circ> fst) (fst (ResolveVolume simClient sampleVolume True sampleWorld)) = Inr ''vm-101-pvc-1''"
    by code_simp
  then obtain v sz where "fst (ResolveVolume simClient sampleVolume True sampleWorld) = Inr (v, sz)" "vdisk v = ''vm-101-pvc-1''"
    by (auto simp: map_sum_def split: sum.splits)
  then show ?thesis using ResolveVolume_same_volume [of simClient sampleVolume True sampleWorld v sz] by simp
qed



text \<open>Updating the options of an attached disk.  The entry written keeps the volume the config
  names, every option of the request has the requested value, and every other option keeps the value
  it has in the config.\<close>

theorem updateValue_keeps:
  assumes "disk \<noteq> []"
  shows "\<exists>options'. updateValue vol disk options = hd (Split CHR '','' disk) @ '','' @ renderOptions options' \<and>
     (\<forall>k. mget options' k = (if mget options k \<noteq> [] then mget options k
                               else currentOption (tl (Split CHR '','' disk)) k))"
  using assms by (auto simp: updateValue_def Let_def keepOptions_get split: prod.splits)

theorem updateValue_keeps_witness:
  "\<exists>options'. updateValue sampleVolume ''lvm:vm-101-pvc-1,backup=0,ssd=1'' [(''backup'', ''1'')] =
       ''lvm:vm-101-pvc-1'' @ '','' @ renderOptions options' \<and> mget options' ''backup'' = ''1'' \<and> mget options' ''ssd'' = ''1''"
proof -
  have "hd (Split CHR '','' ''lvm:vm-101-pvc-1,backup=0,ssd=1'') = ''lvm:vm-101-pvc-1''"
    "currentOption (tl (Split CHR '','' ''lvm:vm-101-pvc-1,backup=0,ssd=1'')) ''ssd'' = ''1''"
    "mget [(''backup'', ''1'')] ''backup'' = ''1''" "mget [(''backup'', ''1'')] ''ssd'' = []"
    by code_simp+
  then show ?thesis
    using updateValue_keeps [of "''lvm:vm-101-pvc-1,backup=0,ssd=1''" sampleVolume "[(''backup'', ''1'')]"] by fastforce
qed

end
