(* ===== verification/Csi_Controller.thy ===== *)
theory Csi_Controller
  imports Disk_Safety
begin

text \<open>
  The CSI controller service (\<^verbatim>\<open>pkg/csi/controller.go\<close>, over the wrappers of \<^verbatim>\<open>pkg/csi/utils.go\<close>):
  every RPC handler and the helpers they share.  The Kubernetes client and the capacity cache are
  parameters like the Proxmox client; metrics and log lines are left out, as they do not feed back
  into the handlers.
\<close>

section \<open>Kubernetes objects and the service\<close>

record k8s_pv =
  pv_csiDriver :: "string option"
  pv_claimRef :: "(string \<times> string) option"

record k8s_pvc =
  pvc_namespace :: string
  pvc_name :: string
  pvc_vacName :: "string option"

record k8s_vac =
  vac_driver :: string
  vac_parameters :: "gomap option"

record 'e kclient =
  k_GetNode :: "string \<Rightarrow> ('e, k8s_node) api"
  k_PatchNode :: "string \<Rightarrow> string \<Rightarrow> ('e, unit) api"
  k_GetPV :: "string \<Rightarrow> ('e, k8s_pv) api"
  k_GetPVC :: "string \<Rightarrow> string \<Rightarrow> ('e, k8s_pvc) api"
  k_GetVAC :: "string \<Rightarrow> ('e, k8s_vac) api"
  k_GetVACBeta :: "string \<Rightarrow> ('e, k8s_vac) api"
  k_Event :: "k8s_pvc \<Rightarrow> string \<Rightarrow> string \<Rightarrow> string \<Rightarrow> ('e, unit) api"
  k_CacheGet :: "string \<Rightarrow> ('e, int option) api"
  k_CacheSet :: "string \<Rightarrow> int \<Rightarrow> ('e, unit) api"

record 'e controller =
  d_pool :: "'e pool"
  d_kclient :: "'e kclient"
  d_provider :: string
  d_vmID :: int
  d_reassign :: bool
  d_annotate :: bool
  d_recorder :: bool
  d_unsafeMount :: bool

definition ProviderCapmox :: string where
  "ProviderCapmox = ''capmox''"

abbreviation GetNode where "GetNode d n \<equiv> invoke (K8s (KGet ''nodes'' n)) (k_GetNode (d_kclient d) n)"
abbreviation PatchNode where "PatchNode d n p \<equiv> invoke (K8s (KPatchNode n p)) (k_PatchNode (d_kclient d) n p)"
abbreviation GetPV where "GetPV d n \<equiv> invoke (K8s (KGet ''persistentvolumes'' n)) (k_GetPV (d_kclient d) n)"
abbreviation GetPVC where
  "GetPVC d ns n \<equiv> invoke (K8s (KGet ''persistentvolumeclaims'' (ns @ ''/'' @ n))) (k_GetPVC (d_kclient d) ns n)"
abbreviation GetVAC where "GetVAC d n \<equiv> invoke (K8s (KGet ''volumeattributesclasses'' n)) (k_GetVAC (d_kclient d) n)"
abbreviation GetVACBeta where
  "GetVACBeta d n \<equiv> invoke (K8s (KGet ''volumeattributesclasses/v1beta1'' n)) (k_GetVACBeta (d_kclient d) n)"

text \<open>\<^verbatim>\<open>errors.IsNotFound\<close> of the Kubernetes API machinery.\<close>

abbreviation IsNotFound :: "goerr \<Rightarrow> bool" where
  "IsNotFound e \<equiv> errIs e K8sNotFound"

text \<open>\<^verbatim>\<open>return nil, status.Error(codes.Internal, err.Error())\<close>, the commonest answer to an error.\<close>

definition internal :: "goerr \<Rightarrow> ('w, 'a) io" where
  "internal e = fail (Status Internal (Error e))"

definition invalid :: "goerr \<Rightarrow> ('w, 'a) io" where
  "invalid e = fail (Status InvalidArgument (Error e))"

text \<open>\<^verbatim>\<open>vmLocks.Lock(name); defer vmLocks.Unlock(name)\<close> around the rest of a function.\<close>

definition withLock :: "string \<Rightarrow> ('e pworld, 'a) io \<Rightarrow> ('e pworld, 'a) io" where
  "withLock name m =
     bindE (invoke (Lock name) (\<lambda>e. (Inr (), e))) (\<lambda>_.
       call m
         (\<lambda>err. bindE (invoke (Unlock name) (\<lambda>e. (Inr (), e))) (\<lambda>_. fail err))
         (\<lambda>x. bindE (invoke (Unlock name) (\<lambda>e. (Inr (), e))) (\<lambda>_. ret x)))"

section \<open>Claims, classes and nodes\<close>

definition claimForVolume :: "'e controller \<Rightarrow> volume \<Rightarrow> ('e pworld, k8s_pvc option) io" where
  "claimForVolume d vol =
     (if PV vol = [] then ret None
      else call (GetPV d (PV vol))
             (\<lambda>e. if IsNotFound e then ret None else fail e)
             (\<lambda>pv. if pv_csiDriver pv \<noteq> Some DriverName then ret None
                   else case pv_claimRef pv of
                          None \<Rightarrow> ret None
                        | Some (ns, name) \<Rightarrow>
                            if ns = [] \<or> name = [] then ret None
                            else call (GetPVC d ns name)
                                   (\<lambda>e. if IsNotFound e then ret None else fail e)
                                   (\<lambda>pvc. ret (Some pvc))))"

definition eventOnClaim :: "'e controller \<Rightarrow> volume \<Rightarrow> string \<Rightarrow> string \<Rightarrow> string \<Rightarrow> ('e pworld, unit) io" where
  "eventOnClaim d vol eventtype reason message =
     (if \<not> d_recorder d then ret ()
      else call (claimForVolume d vol) (\<lambda>_. ret ())
             (\<lambda>pvc. case pvc of
                None \<Rightarrow> ret ()
              | Some c \<Rightarrow> call (invoke (K8s (KEvent (pvc_namespace c @ ''/'' @ pvc_name c) eventtype reason message))
                                   (k_Event (d_kclient d) c eventtype reason message))
                              (\<lambda>_. ret ()) (\<lambda>_. ret ())))"

definition volumeAttributesClassParameters :: "'e controller \<Rightarrow> string \<Rightarrow> ('e pworld, gomap option) io" where
  "volumeAttributesClassParameters d name =
     call (GetVAC d name)
       (\<lambda>e. if \<not> IsNotFound e then fail e
            else call (GetVACBeta d name)
                   (\<lambda>eb. if IsNotFound eb then ret None else fail e)
                   (\<lambda>vac. if vac_driver vac \<noteq> DriverName then ret None else ret (vac_parameters vac)))
       (\<lambda>vac. if vac_driver vac \<noteq> DriverName then ret None else ret (vac_parameters vac))"

definition effectiveModifyVolumeParameters :: "'e controller \<Rightarrow> volume \<Rightarrow> ('e pworld, params option) io" where
  "effectiveModifyVolumeParameters d vol =
     bindE (claimForVolume d vol) (\<lambda>pvc.
       case pvc of
         None \<Rightarrow> ret None
       | Some c \<Rightarrow>
           (case pvc_vacName c of
              None \<Rightarrow> ret None
            | Some name \<Rightarrow>
                if name = [] then ret None
                else bindE (volumeAttributesClassParameters d name) (\<lambda>parameters.
                       case parameters of
                         None \<Rightarrow> ret None
                       | Some m \<Rightarrow> bindE (lift (ExtractModifyVolumeParameters m)) (\<lambda>p. ret (Some p)))))"

text \<open>The merge patch \<^verbatim>\<open>{"metadata":{"annotations":{"<key>":"<value>"}}}\<close>.\<close>

definition instancePatch :: "string \<Rightarrow> string" where
  "instancePatch val = ''{'' @ Quote ''metadata'' @ '':{'' @ Quote ''annotations'' @ '':{'' @
     Quote AnnotationProxmoxInstanceID @ '':'' @ Quote val @ ''}}}''"

definition recordNodeInstanceID :: "'e controller \<Rightarrow> k8s_node \<Rightarrow> int \<Rightarrow> ('e pworld, unit) io" where
  "recordNodeInstanceID d node vmID =
     (if \<not> d_annotate d \<or> vmID = 0 then ret ()
      else if mget (kn_annotations node) AnnotationProxmoxInstanceID = Itoa vmID then ret ()
      else call (PatchNode d (kn_name node) (instancePatch (Itoa vmID))) (\<lambda>_. ret ()) (\<lambda>_. ret ()))"

definition getVMIDbyNode :: "'e controller \<Rightarrow> string \<Rightarrow> ('e pworld, int \<times> string) io" where
  "getVMIDbyNode d nodeName =
     bindE (GetNode d nodeName) (\<lambda>node.
       case ProxmoxVMIDbyNode node of
         Inr i \<Rightarrow> ret (i, [])
       | Inl _ \<Rightarrow>
           call (if d_provider d = ProviderCapmox then FindVMByUUID (d_pool d) (kn_systemUUID node)
                 else FindVMByNode (d_pool d) node)
             internal
             (\<lambda>(i, region). bindE (recordNodeInstanceID d node i) (\<lambda>_. ret (i, region))))"

definition nodeVMID :: "'e controller \<Rightarrow> node_id \<Rightarrow> ('e pworld, int) io" where
  "nodeVMID d n =
     (case NodeGetVMID n of
        Inr i \<Rightarrow> if i = 0 then bindE (getVMIDbyNode d (nid_node n)) (\<lambda>(i, _). ret i) else ret i
      | Inl _ \<Rightarrow> bindE (getVMIDbyNode d (nid_node n)) (\<lambda>(i, _). ret i))"

section \<open>Checking a volume\<close>

text \<open>The loop over the nodes that serve a shared storage.\<close>

fun probeNodes :: "'e client \<Rightarrow> bool \<Rightarrow> volume \<Rightarrow> volume \<Rightarrow> string list \<Rightarrow> ('e pworld, volume \<times> int) io" where
  "probeNodes cl reassign vol probe [] =
     fail (Status NotFound (''volume '' @ VolumeID vol @ '' not found in any node for storage '' @ vstorage vol))"
| "probeNodes cl reassign vol probe (n # ns) =
     call (ResolveVolume cl (SetNode n probe) reassign)
       (\<lambda>e. if Error e = ErrorNotFound then probeNodes cl reassign vol probe ns else internal e)
       (\<lambda>(resolved, sz). ret (SetDisk (vdisk resolved) vol, sz))"

text \<open>The volume under the name Proxmox stores it as, and its size.\<close>

definition checkVolume :: "'e controller \<Rightarrow> volume \<Rightarrow> ('e pworld, volume \<times> int) io" where
  "checkVolume d vol =
     call (lift (GetProxmoxCluster (d_pool d) (vregion vol))) internal (\<lambda>cl.
       bindE (if vzone vol \<noteq> []
              then call (GetNodeList cl) internal (\<lambda>nodes.
                     if vzone vol \<notin> set nodes
                     then fail (Status NotFound (''zone '' @ vzone vol @ '' not found in cluster '' @ vregion vol))
                     else ret ())
              else ret ())
         (\<lambda>_. if vnode vol = []
              then call (lift (NewVolumeFromVolumeID (VolumeID vol))) internal (\<lambda>probe.
                     call (GetNodesForStorage cl (vstorage probe)) internal (\<lambda>nodes.
                       probeNodes cl (d_reassign d) vol probe nodes))
              else call (ResolveVolume cl vol (d_reassign d))
                     (\<lambda>e. if Error e = ErrorNotFound
                          then fail (Status NotFound (''volume '' @ VolumeID vol @ '' not found''))
                          else internal e)
                     (\<lambda>(resolved, sz). ret (SetDisk (vdisk resolved) vol, sz))))"

section \<open>Creating a volume\<close>

text \<open>The oneof of the content source, which may be unset.\<close>

datatype content_source = SourceVolume string | SourceSnapshot string | SourceUnset

record create_request =
  cr_name :: string
  cr_capabilities :: "string list option"
  cr_parameters :: gomap
  cr_mutableParameters :: gomap
  cr_capacityRange :: "(int \<times> int) option"
  cr_topology :: "topology_requirement option"
  cr_source :: "content_source option"

record csi_volume =
  cv_id :: string
  cv_context :: gomap
  cv_source :: "content_source option"
  cv_capacity :: int
  cv_topology :: "gomap list"

definition segment :: "string \<Rightarrow> string \<Rightarrow> gomap" where
  "segment region zone = [(LabelTopologyRegion, region), (LabelTopologyZone, zone)]"

text \<open>The checks on the request before anything is sent.\<close>

record create_plan =
  cp_params :: params
  cp_vac :: params
  cp_size :: int
  cp_region :: string
  cp_zone :: string

definition createCheck :: "create_request \<Rightarrow> goerr + create_plan" where
  "createCheck request =
     (if cr_name request = [] then Inl (Status InvalidArgument ''VolumeName must be provided'')
      else if cr_capabilities request = None then Inl (Status InvalidArgument ''VolumeCapabilities must be provided'')
      else case ExtractParameters (cr_parameters request) of
        Inl e \<Rightarrow> Inl (Status InvalidArgument (Error e))
      | Inr ps \<Rightarrow> (case ExtractModifyVolumeParameters (cr_mutableParameters request) of
          Inl e \<Rightarrow> Inl (Status InvalidArgument (Error e))
        | Inr vac \<Rightarrow>
            if strOf (getField ps ''StorageID'') = []
            then Inl (Status InvalidArgument ''parameter storage must be provided'')
            else (let sz = (case cr_capacityRange request of
                              Some (required, _) \<Rightarrow> RoundUpSizeBytes required MinChunkSizeBytes
                            | None \<Rightarrow> DefaultVolumeSizeBytes);
                      (region, zone) = locationFromTopologyRequirement (cr_topology request)
                  in if region = [] then Inl (Status Internal ''cannot find best region'')
                     else Inr \<lparr>cp_params = ps, cp_vac = vac, cp_size = sz, cp_region = region, cp_zone = zone\<rparr>)))"

definition parseSource :: "string \<Rightarrow> goerr + volume option" where
  "parseSource i =
     (case NewVolumeFromVolumeID i of
        Inl e \<Rightarrow> Inl (Status InvalidArgument (Error e))
      | Inr v \<Rightarrow> Inr (Some v))"

definition sourceVolume :: "create_request \<Rightarrow> goerr + volume option" where
  "sourceVolume request =
     (case cr_source request of
        None \<Rightarrow> Inr None
      | Some SourceUnset \<Rightarrow> Inr None
      | Some (SourceVolume i) \<Rightarrow> parseSource i
      | Some (SourceSnapshot i) \<Rightarrow> parseSource i)"

text \<open>The source must be in the requested region and exist; it is returned under its current name.\<close>

definition checkSource :: "'e controller \<Rightarrow> string \<Rightarrow> volume option \<Rightarrow> ('e pworld, volume option) io" where
  "checkSource d region src =
     (case src of
        None \<Rightarrow> ret None
      | Some v \<Rightarrow>
          if vregion v \<noteq> region
          then fail (Status InvalidArgument ''source snapshot region does not match the requested region'')
          else bindE (checkVolume d v) (\<lambda>(v', _). ret (Some v')))"

definition pickZone :: "'e client \<Rightarrow> string \<Rightarrow> string \<Rightarrow> ('e pworld, string) io" where
  "pickZone cl storageID zone =
     (if zone \<noteq> [] then ret zone
      else call (GetNodesForStorage cl storageID)
        (\<lambda>e. fail (Status Internal (''failed to get zones with storage '' @ storageID @ '': '' @ Error e)))
        (\<lambda>zones. case zones of
           [] \<Rightarrow> fail (Status Internal (''failed to find best zone: no nodes with the storage '' @ storageID))
         | z # _ \<Rightarrow> ret z))"

definition storageTopology :: "'e client \<Rightarrow> cluster_resource \<Rightarrow> string \<Rightarrow> string \<Rightarrow> string \<Rightarrow> ('e pworld, gomap list) io" where
  "storageTopology cl storageConfig region zone storageID =
     (if rs_shared storageConfig = 1
      then if rs_pluginType storageConfig \<in> set [''cifs'', ''pbs'']
           then fail (Status Internal ''error: shared storage type cifs, pbs are not supported'')
           else call (ClusterStorage cl storageID)
             (\<lambda>e. fail (Status Internal (''failed to get proxmox storage config: '' @ Error e)))
             (\<lambda>config. let ts = map (segment region) (filter (\<lambda>n. n \<noteq> []) (Split CHR '','' (sc_nodes config)))
                in ret (if ts = [] then [[(LabelTopologyRegion, region)]] else ts))
      else ret [segment region zone])"

text \<open>Replication puts the volume into a VM of its own and replaces the topology.\<close>

definition replicationVM :: "'e client \<Rightarrow> cluster_resource \<Rightarrow> params \<Rightarrow> string \<Rightarrow> string \<Rightarrow> string \<Rightarrow> int \<Rightarrow> gomap list \<Rightarrow>
    ('e pworld, int \<times> gomap list) io" where
  "replicationVM cl storageConfig ps region zone pvc vmID topology =
     (if boolOf (getField ps ''Replicate'')
      then if rs_pluginType storageConfig \<noteq> ''zfspool''
           then fail (Status Internal ''error: storage type is not zfs in replication mode'')
           else call (PrepareReplication cl zone pvc vmID) internal
             (\<lambda>i. ret (i, map (segment region) (Split CHR '','' (strOf (getField ps ''ReplicateZones'')))))
      else ret (vmID, topology))"

text \<open>Copying the source or creating an empty disk, once the volume was not found.\<close>

definition createDisk :: "'e controller \<Rightarrow> 'e client \<Rightarrow> string \<Rightarrow> volume option \<Rightarrow> volume \<Rightarrow> int \<Rightarrow> ('e pworld, volume) io" where
  "createDisk d cl region src vol sz =
     (case src of
        Some s \<Rightarrow>
          call (GetVolumeSize cl s)
            (\<lambda>e. if Error e \<noteq> ErrorNotFound then internal e
                 else fail (Status NotFound (''snapshot '' @ VolumeID s @ '' is not found'')))
            (\<lambda>srcSize.
               if srcSize = 0 then fail (Status Unavailable (''snapshot '' @ VolumeID s @ '' is not yet available''))
               else if vstorage vol \<noteq> vstorage s
               then fail (Status InvalidArgument (''storage mismatch: requested storage '' @ vstorage vol @
                      '' does not match snapshot storage '' @ vstorage s))
               else call (ToolsCopyVolume cl s vol (CopyEndpoint (d_pool d) region False False)) internal (\<lambda>_. ret vol))
      | None \<Rightarrow> call (ToolsCreateVolume cl vol sz) internal ret)"

definition awaitCreated :: "'e client \<Rightarrow> volume \<Rightarrow> ('e pworld, int) io" where
  "awaitCreated cl vol =
     call (c_Retry cl TaskTimeout TaskStatusCheckInterval
             (\<lambda>s. call (GetVolumeSize cl vol)
                (\<lambda>e. if Error e = ErrorNotFound then ret (s, Some e)
                     else fail (Plain (''failed to get volume size: '' @ Error e)))
                (\<lambda>sz. ret (sz, None))) 0)
       (\<lambda>e. fail (Status Internal (''failed to get volume size after creation: '' @ VolumeID vol @ '' '' @ VolID vol @ '' '' @ Error e)))
       ret"

text \<open>An existing disk is taken as it is; a missing one is created and waited for.\<close>

definition ensureDisk :: "'e controller \<Rightarrow> 'e client \<Rightarrow> string \<Rightarrow> volume option \<Rightarrow> volume \<Rightarrow> int \<Rightarrow> ('e pworld, volume \<times> int) io" where
  "ensureDisk d cl region src vol sz =
     call (GetVolumeSize cl vol)
       (\<lambda>e. if Error e \<noteq> ErrorNotFound then fail (Status Internal (''failed to check volume: '' @ Error e))
            else bindE (createDisk d cl region src vol sz) (\<lambda>vol'.
                   bindE (awaitCreated cl vol') (\<lambda>sz'. ret (vol', sz'))))
       (\<lambda>cur. ret (vol, cur))"

definition resizeParams :: "volume option \<Rightarrow> int \<Rightarrow> int \<Rightarrow> params \<Rightarrow> goerr + params" where
  "resizeParams src cur sz ps =
     (case src of
        Some s \<Rightarrow>
          if cur < sz
          then (if cur = 0 then Inl (Status Unavailable (''volume '' @ VolumeID s @ '' is not yet available''))
                else Inr (setField (setField ps ''ResizeRequired'' (FPBool (Some True))) ''ResizeSizeBytes'' (FInt sz)))
          else Inr ps
      | None \<Rightarrow> Inr ps)"

definition CreateVolume :: "'e controller \<Rightarrow> create_request \<Rightarrow> ('e pworld, csi_volume) io" where
  "CreateVolume d request =
     bindE (lift (createCheck request)) (\<lambda>plan.
       let ps = cp_params plan; region = cp_region plan; storageID = strOf (getField ps ''StorageID'');
           sz = cp_size plan; pvc = cr_name request in
     bindE (lift (sourceVolume request)) (\<lambda>src0.
     bindE (checkSource d region src0) (\<lambda>src.
     call (lift (GetProxmoxCluster (d_pool d) region)) internal (\<lambda>cl.
     bindE (pickZone cl storageID (cp_zone plan)) (\<lambda>zone.
     call (GetClusterStorage cl storageID)
       (\<lambda>e. fail (Status Internal (''failed to get proxmox storage config: '' @ Error e))) (\<lambda>storageConfig.
     bindE (storageTopology cl storageConfig region zone storageID) (\<lambda>topology0.
     bindE (replicationVM cl storageConfig ps region zone pvc (d_vmID d) topology0) (\<lambda>(i, topology).
       let vol0 = NewVolumeF region zone storageID (vm_disk i pvc)
                    (DiskFormat (rs_pluginType storageConfig) (strOf (getField ps ''StorageFormat''))) in
     bindE (ensureDisk d cl region src vol0 sz) (\<lambda>(vol, cur).
     bindE (lift (resizeParams src cur sz ps)) (\<lambda>ps'.
     bindE (if boolOf (getField ps ''Replicate'')
            then call (CreateReplication cl i vol (strOf (getField ps ''ReplicateSchedule'')) (strOf (getField ps ''ReplicateZones'')))
                   internal (\<lambda>_. ret ())
            else ret ()) (\<lambda>_.
     ret \<lparr>cv_id = (if rs_shared storageConfig = 1 \<or> boolOf (getField ps ''Replicate'') then VolumeSharedID vol else VolumeID vol),
          cv_context = MergeMap (cp_vac plan) (ToMap ps'), cv_source = cr_source request, cv_capacity = sz,
          cv_topology = topology\<rparr>)))))))))))"

section \<open>Deleting\<close>

definition deleteStored :: "'e client \<Rightarrow> volume \<Rightarrow> (goerr \<Rightarrow> string) \<Rightarrow> ('e pworld, unit) io" where
  "deleteStored cl vol msg =
     call (if vnode vol = [] then GetNodeForVolume cl vol else ret (vnode vol))
       (\<lambda>e. fail (Status Internal (''failed to get node for volume: '' @ VolumeID vol @ '', '' @ Error e)))
       (\<lambda>node. call (DeleteVMDisk cl node (vstorage vol) (vdisk vol))
          (\<lambda>e. fail (Status Internal (msg e)))
          (\<lambda>_. ret ()))"

definition DeleteVolume :: "'e controller \<Rightarrow> string \<Rightarrow> ('e pworld, unit) io" where
  "DeleteVolume d volumeId =
     call (lift (NewVolumeFromVolumeID volumeId)) invalid (\<lambda>vol.
     call (lift (GetProxmoxCluster (d_pool d) (vregion vol))) internal (\<lambda>cl.
     call (DeleteReplication cl vol (d_vmID d))
       (\<lambda>e. fail (Status Internal (''failed to delete replication: '' @ VolumeID vol @ '', '' @ Error e))) (\<lambda>_.
     call (checkVolume d vol)
       (\<lambda>e. if statusCode e = NotFound then ret () else fail e)
       (\<lambda>(vol', _). deleteStored cl vol' (\<lambda>e. ''failed to delete volume: '' @ VolumeID vol' @ '', '' @ Error e)))))"

definition DeleteSnapshot :: "'e controller \<Rightarrow> string \<Rightarrow> ('e pworld, unit) io" where
  "DeleteSnapshot d snapshotId =
     call (lift (NewVolumeFromVolumeID snapshotId)) invalid (\<lambda>vol.
     call (lift (GetProxmoxCluster (d_pool d) (vregion vol))) internal (\<lambda>cl.
     call (checkVolume d vol)
       (\<lambda>e. if statusCode e = NotFound then ret () else fail e)
       (\<lambda>(vol', _). deleteStored cl vol' (\<lambda>e. ''failed to delete volume: '' @ vdisk vol'))))"

section \<open>Publishing\<close>

record publish_request =
  pr_nodeId :: string
  pr_volumeId :: string
  pr_capability :: "string option"
  pr_context :: gomap
  pr_readonly :: bool

definition publishParams :: "'e controller \<Rightarrow> publish_request \<Rightarrow> params \<Rightarrow> params" where
  "publishParams d request ps =
     (let p1 = (if d_unsafeMount d then setField ps ''Backup'' (FPBool None) else ps)
      in if pr_readonly request then setField p1 ''ReadOnly'' (FPBool (Some True)) else p1)"

text \<open>Renaming the volume for the VM before it is attached; a failure is reported as an event and the
  volume keeps its name.\<close>

definition reassignVolume :: "'e controller \<Rightarrow> 'e client \<Rightarrow> volume \<Rightarrow> int \<Rightarrow> ('e pworld, volume) io" where
  "reassignVolume d cl vol i =
     (if d_reassign d \<and> vnode vol \<noteq> [] \<and> VMID vol \<noteq> Itoa i
      then call (RenameVolume cl vol i)
        (\<lambda>e. bindE (eventOnClaim d vol ''Warning'' ''ReassignVolumeFailed''
               (''Failed to reassign '' @ VolumeID vol @ '' to VM '' @ Itoa i @
                ''; attaching under its current name. The volume is usable, but its Proxmox owner stays '' @
                VMID vol @ '': '' @ Error e)) (\<lambda>_. ret vol))
        ret
      else ret vol)"

text \<open>The disk options: those of the volume context, overridden by the class the claim asks for.\<close>

definition publishOptions :: "'e controller \<Rightarrow> volume \<Rightarrow> params \<Rightarrow> ('e pworld, gomap) io" where
  "publishOptions d vol ps =
     call (effectiveModifyVolumeParameters d vol)
       (\<lambda>_. ret (ToCFG ps))
       (\<lambda>vac. ret (case vac of Some v \<Rightarrow> MergeMap v (ToCFG ps) | None \<Rightarrow> ToCFG ps))"

definition resizeOnAttach :: "'e client \<Rightarrow> int \<Rightarrow> volume \<Rightarrow> int \<Rightarrow> int \<Rightarrow> gomap \<Rightarrow> ('e pworld, gomap) io" where
  "resizeOnAttach cl i vol cur wanted pvInfo =
     (if cur < wanted
      then call (ResizeVMDisk cl i (vnode vol) (DeviceNamePrefix @ mget pvInfo ''lun'') (Itoa (quot wanted MiB) @ ''M''))
             internal
             (\<lambda>_. ret (mset_key pvInfo ''resizeRequired'' ''true''))
      else ret pvInfo)"

definition publishLocked :: "'e controller \<Rightarrow> 'e client \<Rightarrow> int \<Rightarrow> volume \<Rightarrow> int \<Rightarrow> params \<Rightarrow> ('e pworld, gomap) io" where
  "publishLocked d cl i vol cur ps =
     bindE (if boolOf (getField ps ''Replicate'')
            then call (MigrateReplication cl i vol (d_vmID d)) internal (\<lambda>_. ret ())
            else ret ()) (\<lambda>_.
     bindE (reassignVolume d cl vol i) (\<lambda>vol'.
     bindE (publishOptions d vol' ps) (\<lambda>cfg.
     call (AttachVolume cl i vol' cfg) internal (\<lambda>pvInfo.
     resizeOnAttach cl i vol' cur (intOf (getField ps ''ResizeSizeBytes'')) pvInfo))))"

definition ControllerPublishVolume :: "'e controller \<Rightarrow> publish_request \<Rightarrow> ('e pworld, gomap) io" where
  "ControllerPublishVolume d request =
     call (lift (ParseNodeID (pr_nodeId request))) invalid (\<lambda>n.
     if pr_capability request = None then fail (Status InvalidArgument ''VolumeCapability must be provided'')
     else
     call (lift (ExtractParameters (pr_context request))) invalid (\<lambda>ps0.
     call (lift (NewVolumeFromVolumeID (pr_volumeId request))) invalid (\<lambda>vol.
     call (lift (GetProxmoxCluster (d_pool d) (vregion vol))) internal (\<lambda>cl.
       let ps = publishParams d request ps0 in
     bindE (nodeVMID d n) (\<lambda>i.
     bindE (checkVolume d vol) (\<lambda>(vol', cur).
     withLock (nid_node n) (publishLocked d cl i vol' cur ps)))))))"

section \<open>Unpublishing\<close>

text \<open>Restoring the name of the volume handle, and clearing the unused key only after that.\<close>

definition restoreName :: "'e controller \<Rightarrow> 'e client \<Rightarrow> int \<Rightarrow> volume \<Rightarrow> ('e pworld, unit) io" where
  "restoreName d cl i vol =
     (case Atoi (VMID vol) of
        None \<Rightarrow> ret ()
      | Some curVMID \<Rightarrow>
          if d_reassign d \<and> vnode vol \<noteq> [] \<and> curVMID \<noteq> d_vmID d
          then call (RenameVolume cl vol (d_vmID d))
            (\<lambda>e. eventOnClaim d vol ''Warning'' ''ReassignVolumeBackFailed''
               (''Failed to rename '' @ VolumeID vol @ '' back to VM '' @ Itoa (d_vmID d) @ '' after detaching from VM '' @
                Itoa i @ ''; it remains owned by VM '' @ VMID vol @ '' and will be adopted on its next attach: '' @ Error e))
            (\<lambda>renamed. call (ClearUnusedDisk cl i renamed) (\<lambda>_. ret ()) ret)
          else ret ())"

definition unpublishLocked :: "'e controller \<Rightarrow> 'e client \<Rightarrow> int \<Rightarrow> volume \<Rightarrow> ('e pworld, unit) io" where
  "unpublishLocked d cl i vol =
     call (DetachVolume cl i vol) internal (\<lambda>_.
     call (WaitDetachVolume cl i vol) internal (\<lambda>_.
     restoreName d cl i vol))"

definition ControllerUnpublishVolume :: "'e controller \<Rightarrow> string \<Rightarrow> string \<Rightarrow> ('e pworld, unit) io" where
  "ControllerUnpublishVolume d nodeId volumeId =
     call (lift (ParseNodeID nodeId)) invalid (\<lambda>n.
     call (lift (NewVolumeFromVolumeID volumeId)) invalid (\<lambda>vol.
     call (lift (GetProxmoxCluster (d_pool d) (vregion vol))) internal (\<lambda>cl.
     call (checkVolume d vol)
       (\<lambda>e. if statusCode e = NotFound then ret () else fail e)
       (\<lambda>(vol', _). call (nodeVMID d n)
          (\<lambda>e. if IsNotFound e then ret () else fail e)
          (\<lambda>i. withLock (nid_node n) (unpublishLocked d cl i vol'))))))"

section \<open>Capacity\<close>

definition capacityOf :: "'e controller \<Rightarrow> 'e client \<Rightarrow> string \<Rightarrow> string \<Rightarrow> string \<Rightarrow> ('e pworld, int) io" where
  "capacityOf d cl region zone storageID =
     (let key = Join ''/'' [region, zone, storageID] in
      bindE (call (invoke (Cache key) (k_CacheGet (d_kclient d) key)) (\<lambda>_. ret None) ret) (\<lambda>cached.
        let cap = (case cached of Some c \<Rightarrow> c | None \<Rightarrow> 0) in
        if cap = 0
        then call (GetStorageStatus cl zone storageID)
               (\<lambda>e. if \<not> Contains (Error e) ''Parameter verification failed'' then internal e else ret 0)
               (\<lambda>st. call (invoke (Cache key) (k_CacheSet (d_kclient d) key (wrap64 (ss_avail st))))
                        (\<lambda>_. ret (wrap64 (ss_avail st))) (\<lambda>_. ret (wrap64 (ss_avail st))))
        else ret cap))"

definition GetCapacity :: "'e controller \<Rightarrow> gomap option \<Rightarrow> gomap \<Rightarrow> ('e pworld, int) io" where
  "GetCapacity d topology parameters =
     (case topology of
        None \<Rightarrow> fail (Status InvalidArgument ''no topology specified'')
      | Some segs \<Rightarrow>
          (let (region, zone) = GetNodeTopology segs; storageID = mget parameters ''storage'' in
           if region = [] \<or> storageID = [] then fail (Status InvalidArgument ''region and storage must be provided'')
           else call (lift (GetProxmoxCluster (d_pool d) region)) internal (\<lambda>cl.
             call (GetClusterStorage cl storageID) internal (\<lambda>storageConfig.
               bindE (if zone = [] \<and> rs_shared storageConfig = 0
                      then fail (Status InvalidArgument ''zone must be provided'')
                      else pickZone cl storageID zone)
                 (\<lambda>z. capacityOf d cl region z storageID)))))"

section \<open>Snapshots\<close>

record csi_snapshot =
  sn_id :: string
  sn_source :: string
  sn_size :: int
  sn_ready :: bool

definition snapshotAllowed :: "storage_conf \<Rightarrow> goerr + unit" where
  "snapshotAllowed conf =
     (if sc_type conf \<in> set [''cifs'', ''pbs''] then Inl (Status Internal ''storage type cifs, pbs do not support snapshot'')
      else if sc_type conf = ''rbd'' then Inl (Status Internal ''storage type rbd(ceph) does not support snapshot'')
      else if sc_shared conf = 1 then Inl (Status Internal ''shared storage does not support snapshot'')
      else Inr ())"

definition snapshotTarget :: "'e controller \<Rightarrow> storage_conf \<Rightarrow> volume \<Rightarrow> string \<Rightarrow> string \<Rightarrow> goerr + volume" where
  "snapshotTarget d conf vol name zone =
     (let snap = CopyVolume vol (vm_disk (d_vmID d) name) in
      if zone \<noteq> []
      then if sc_nodes conf \<noteq> [] \<and> zone \<notin> set (Split CHR '','' (sc_nodes conf))
           then Inl (Status InvalidArgument ''zone specified in parameters is not valid for the storage'')
           else Inr (SetZone zone snap)
      else Inr snap)"

definition CreateSnapshot :: "'e controller \<Rightarrow> string \<Rightarrow> string \<Rightarrow> gomap \<Rightarrow> ('e pworld, csi_snapshot) io" where
  "CreateSnapshot d sourceVolumeId name params =
     call (lift (NewVolumeFromVolumeID sourceVolumeId)) invalid (\<lambda>vol0.
     if name = [] then fail (Status InvalidArgument ''Name must be provided'')
     else
     call (lift (GetProxmoxCluster (d_pool d) (vregion vol0))) internal (\<lambda>cl.
     call (ClusterStorage cl (vstorage vol0)) internal (\<lambda>conf.
     bindE (lift (snapshotAllowed conf)) (\<lambda>_.
     bindE (checkVolume d vol0) (\<lambda>(vol1, _).
     bindE (if vnode vol1 = []
            then call (GetNodeForVolume cl vol1)
                   (\<lambda>e. fail (Status Internal (''failed to get node for volume: '' @ VolumeID vol1 @ '', '' @ Error e)))
                   (\<lambda>node. ret (SetNode node vol1))
            else ret vol1) (\<lambda>vol.
     bindE (lift (snapshotTarget d conf vol name (mget params ''zone''))) (\<lambda>snap.
     bindE (call (GetVolumeSize cl snap)
              (\<lambda>e. if Error e \<noteq> ErrorNotFound then internal e
                   else call (ToolsCopyVolume cl vol snap (CopyEndpoint (d_pool d) (vregion vol) False False)) internal (\<lambda>_.
                          call (GetVolumeSize cl snap) internal ret))
              ret) (\<lambda>sz.
     ret \<lparr>sn_id = VolumeID snap, sn_source = VolumeID vol, sn_size = sz, sn_ready = (sz > 0)\<rparr>))))))))"

section \<open>Expanding and modifying\<close>

definition ControllerExpandVolume :: "'e controller \<Rightarrow> string \<Rightarrow> (int \<times> int) option \<Rightarrow> ('e pworld, int \<times> bool) io" where
  "ControllerExpandVolume d volumeId capacityRange =
     (case capacityRange of
        None \<Rightarrow> fail (Status InvalidArgument ''CapacityRange must be provided'')
      | Some (required, limit) \<Rightarrow>
          (let sz = RoundUpSizeBytes required MinChunkSizeBytes in
           if limit > 0 \<and> limit < sz
           then fail (Status OutOfRange ''after round-up, volume size exceeds the limit specified'')
           else
           call (lift (NewVolumeFromVolumeID volumeId)) invalid (\<lambda>vol.
           call (lift (GetProxmoxCluster (d_pool d) (vregion vol))) internal (\<lambda>cl.
           bindE (checkVolume d vol) (\<lambda>(vol', _).
           call (GetVMByAttachedVolume cl vol' (d_vmID d))
             (\<lambda>e. if errEq e ErrVirtualMachineNotFound then fail (Status Internal ''cannot resize unpublished'') else internal e)
             (\<lambda>(i, lun, vol''). call (ResizeVMDisk cl i (vnode vol'') (deviceOf lun) (Itoa (quot sz MiB) @ ''M''))
                internal
                (\<lambda>_. ret (sz, True))))))))"

definition ControllerModifyVolume :: "'e controller \<Rightarrow> string \<Rightarrow> gomap \<Rightarrow> ('e pworld, unit) io" where
  "ControllerModifyVolume d volumeId mutableParameters =
     (if volumeId = [] then fail (Status InvalidArgument ''VolumeID must be provided'')
      else
      call (lift (ExtractModifyVolumeParameters mutableParameters)) invalid (\<lambda>ps.
      call (lift (NewVolumeFromVolumeID volumeId)) invalid (\<lambda>vol.
      call (lift (GetProxmoxCluster (d_pool d) (vregion vol))) internal (\<lambda>cl.
      bindE (checkVolume d vol) (\<lambda>(vol', _).
      call (GetVMByAttachedVolume cl vol' (d_vmID d))
        (\<lambda>e. if errEq e ErrVirtualMachineNotFound then ret () else internal e)
        (\<lambda>(i, _, vol''). call (UpdateVolume cl i vol'' (ToCFG ps)) internal ret))))))"

section \<open>The remaining handlers\<close>

definition controllerCaps :: "string list" where
  "controllerCaps =
     [''CREATE_DELETE_VOLUME'', ''PUBLISH_UNPUBLISH_VOLUME'', ''GET_CAPACITY'', ''CREATE_DELETE_SNAPSHOT'',
      ''CLONE_VOLUME'', ''EXPAND_VOLUME'', ''GET_VOLUME'', ''SINGLE_NODE_MULTI_WRITER'', ''MODIFY_VOLUME'']"

definition ControllerGetCapabilities :: "('w, string list) io" where
  "ControllerGetCapabilities = ret controllerCaps"

definition ValidateVolumeCapabilities :: "('w, unit) io" where
  "ValidateVolumeCapabilities = fail (Status Unimplemented [])"

definition ListVolumes :: "('w, unit) io" where
  "ListVolumes = fail (Status Unimplemented [])"

definition ListSnapshots :: "('w, unit) io" where
  "ListSnapshots = fail (Status Unimplemented [])"

definition ControllerGetVolume :: "('w, unit) io" where
  "ControllerGetVolume = fail (Status Unimplemented [])"

end
