(* ===== verification/Csi_Safety.thy ===== *)
theory Csi_Safety
  imports Csi_Controller
begin

text \<open>
  What the RPC handlers of the CSI controller may send, and in which order.  Each helper gets a
  composition rule for the requests it sends; the handlers' properties follow from them.
\<close>

section \<open>Requests of the helpers\<close>

lemma emits_internal [emits_intros]: "emits P (internal e)"
  by (simp add: internal_def emits_fail)

lemma emits_invalid [emits_intros]: "emits P (invalid e)"
  by (simp add: invalid_def emits_fail)

lemma emits_claimForVolume [emits_intros]:
  "(\<And>k n. P (K8s (KGet k n))) \<Longrightarrow> emits P (claimForVolume d vol)"
  unfolding claimForVolume_def by (intro emits_intros)

lemma emits_eventOnClaim [emits_intros]:
  "(\<And>k n. P (K8s (KGet k n))) \<Longrightarrow> (\<And>c t r m. P (K8s (KEvent c t r m))) \<Longrightarrow> emits P (eventOnClaim d vol et re me)"
  unfolding eventOnClaim_def by (intro emits_intros)

lemma emits_volumeAttributesClassParameters [emits_intros]:
  "(\<And>k n. P (K8s (KGet k n))) \<Longrightarrow> emits P (volumeAttributesClassParameters d name)"
  unfolding volumeAttributesClassParameters_def by (intro emits_intros)

lemma emits_effective [emits_intros]:
  "(\<And>k n. P (K8s (KGet k n))) \<Longrightarrow> emits P (effectiveModifyVolumeParameters d vol)"
  unfolding effectiveModifyVolumeParameters_def by (intro emits_intros)

lemma emits_recordNodeInstanceID [emits_intros]:
  "(\<And>n p. P (K8s (KPatchNode n p))) \<Longrightarrow> emits P (recordNodeInstanceID d node i)"
  unfolding recordNodeInstanceID_def by (intro emits_intros)

definition pool_spec :: "'e pool \<Rightarrow> bool" where
  "pool_spec p \<longleftrightarrow> (\<forall>cl \<in> snd ` set (pl_clients p). GetVMByFilter_spec cl \<and> Retry_spec cl)"

definition pool_pure :: "'e pool \<Rightarrow> bool" where
  "pool_pure p \<longleftrightarrow> (\<forall>cl \<in> snd ` set (pl_clients p). reads_pure cl \<and> errors_distinct cl)"

lemma GetProxmoxCluster_mem: "GetProxmoxCluster p r = Inr cl \<Longrightarrow> cl \<in> snd ` set (pl_clients p)"
  by (auto simp: GetProxmoxCluster_def split: option.splits dest!: map_of_SomeD intro: rev_image_eqI)

lemma pool_spec_cluster:
  assumes "pool_spec p" "GetProxmoxCluster p r = Inr cl"
  shows "GetVMByFilter_spec cl" "Retry_spec cl"
  using assms(1) GetProxmoxCluster_mem [OF assms(2)] unfolding pool_spec_def by blast+

lemma pool_pure_cluster:
  assumes "pool_pure p" "GetProxmoxCluster p r = Inr cl"
  shows "reads_pure cl" "errors_distinct cl"
  using assms(1) GetProxmoxCluster_mem [OF assms(2)] unfolding pool_pure_def by blast+

lemma emits_cluster [emits_intros]:
  assumes "\<And>e. emits P (h e)" "\<And>cl. GetProxmoxCluster p r = Inr cl \<Longrightarrow> emits P (k cl)"
  shows "emits P (call (lift (GetProxmoxCluster p r)) h k)"
  using assms by (cases "GetProxmoxCluster p r") simp_all

lemma emits_getVMIDbyNode [emits_intros]:
  assumes "pool_spec (d_pool d)" "\<And>k n. P (K8s (KGet k n))" "\<And>n p. P (K8s (KPatchNode n p))" "\<And>n p. P (Px n (RGet p))"
  shows "emits P (getVMIDbyNode d n)"
proof -
  have "GetVMByFilter_spec cl" if "cl \<in> snd ` set (pl_clients (d_pool d))" for cl
    using assms(1) that by (auto simp: pool_spec_def)
  then have "emits P (FindVMByNode (d_pool d) node)" "emits P (FindVMByUUID (d_pool d) uuid)" for node uuid
    unfolding FindVMByNode_def FindVMByUUID_def using assms(4)
    by (auto intro!: emits_FindVMByNodeIn emits_FindVMByUUIDIn)
  then show ?thesis unfolding getVMIDbyNode_def by (intro emits_intros assms)
qed

lemma emits_nodeVMID [emits_intros]:
  assumes "pool_spec (d_pool d)" "\<And>k n. P (K8s (KGet k n))" "\<And>n p. P (K8s (KPatchNode n p))" "\<And>n p. P (Px n (RGet p))"
  shows "emits P (nodeVMID d n)"
  unfolding nodeVMID_def by (intro emits_intros assms)

lemma emits_probeNodes [emits_intros]:
  "(\<And>p. P (Px (c_name cl) (RGet p))) \<Longrightarrow> emits P (probeNodes cl reassign vol probe ns)"
proof (induction ns)
  case (Cons n ns)
  then show ?case by (auto intro!: emits_intros)
qed (simp add: emits_fail)

lemma emits_checkVolume [emits_intros]: "(\<And>n p. P (Px n (RGet p))) \<Longrightarrow> emits P (checkVolume d vol)"
  unfolding checkVolume_def by (intro emits_intros)

section \<open>A failed rename never fails the attach\<close>

lemma eventOnClaim_ok: "\<exists>w'. eventOnClaim d vol et re me w = (Inr (), w')"
  unfolding eventOnClaim_def
  by (auto simp: call_def ret_def split: prod.split sum.split option.split)

lemma bindE_eventOnClaim:
  "bindE (eventOnClaim d vol et re me) k w = k () (snd (eventOnClaim d vol et re me w))"
  using eventOnClaim_ok [of d vol et re me w] by (auto simp: bindE_def call_def)

lemma reassignVolume_ok: "\<exists>v w'. reassignVolume d cl vol i w = (Inr v, w')"
proof (cases "d_reassign d \<and> vnode vol \<noteq> [] \<and> VMID vol \<noteq> Itoa i")
  case True
  show ?thesis
    unfolding reassignVolume_def if_P [OF True]
    by (rule call_split [THEN iffD2]) (auto simp: bindE_eventOnClaim ret_def)
next
  case False
  show ?thesis unfolding reassignVolume_def if_not_P [OF False] by (simp add: ret_def)
qed

lemma publishOptions_ok: "\<exists>cfg w'. publishOptions d vol ps w = (Inr cfg, w')"
  unfolding publishOptions_def by (auto simp: call_def ret_def split: prod.split sum.split)

section \<open>The volume a check returns\<close>

lemma returns_internal [returns_intros]: "returns B (internal e)"
  by (simp add: internal_def returns_fail)

lemma returns_invalid [returns_intros]: "returns B (invalid e)"
  by (simp add: invalid_def returns_fail)

lemma returns_probeNodes: "returns (\<lambda>(v, _). \<exists>disk. v = SetDisk disk vol) (probeNodes cl reassign vol probe ns)"
  by (induction ns) (auto intro!: returns_intros)

lemma returns_checkVolume: "returns (\<lambda>(v, _). \<exists>disk. v = SetDisk disk vol) (checkVolume d vol)"
  unfolding checkVolume_def by (auto intro!: returns_intros returns_probeNodes [unfolded volume_setters])

lemma renamed_from_SetDisk: "renamed_from vol v \<Longrightarrow> SetDisk (vdisk v) vol = v"
proof -
  assume "renamed_from vol v"
  then have "vol = v\<lparr>vdisk := vdisk vol\<rparr>" by (simp add: renamed_from_def)
  then have "vol\<lparr>vdisk := vdisk v\<rparr> = v\<lparr>vdisk := vdisk vol, vdisk := vdisk v\<rparr>" by metis
  then show ?thesis by simp
qed

lemma triple_checkVolume:
  assumes "pool_pure (d_pool d)" "GetProxmoxCluster (d_pool d) (vregion vol) = Inr cl" "vnode vol \<noteq> []"
    and get: "\<And>e n p. P (e, Px n (RGet p))"
  shows "triple (\<lambda>_. True) P (checkVolume d vol)
     (\<lambda>r e. \<forall>v sz. r = Inr (v, sz) \<longrightarrow> storedAt cl v e \<and> renamed_from vol v)"
proof -
  have zone: "triple (\<lambda>_. True) P
      (if vzone vol \<noteq> []
       then call (GetNodeList cl) internal (\<lambda>nodes.
              if vzone vol \<notin> set nodes
              then fail (Status NotFound (''zone '' @ vzone vol @ '' not found in cluster '' @ vregion vol))
              else ret ())
       else ret ()) (\<lambda>_ _. True)"
    by (rule triple_emits) (intro emits_intros allI get)
  show ?thesis
    unfolding checkVolume_def assms(2) call_lift if_not_P [OF assms(3)]
    apply (rule triple_bindE [OF zone])
     apply simp
    apply (rule triple_call [OF triple_ResolveVolume [OF pool_pure_cluster [OF assms(1,2)], where I = "\<lambda>_. True"]])
      apply (rule get)
     apply (auto simp: internal_def intro!: triple_fail triple_ret split: prod.splits simp del: volume_setters
        simp: renamed_from_SetDisk)
    done
qed

section \<open>Unpublishing\<close>

lemma returns_RenameVolume: "returns (\<lambda>v. \<exists>disk. v = SetDisk disk vol) (RenameVolume cl vol i)"
proof -
  have "\<exists>disk. renamedTo vol target volid = SetDisk disk vol" if "WithVMID vol i = Some target" for target volid
    using that by (auto simp: WithVMID_eq renamedTo_def split: option.splits)
  then show ?thesis
    unfolding RenameVolume_def Let_def
    by (cases "WithVMID vol i") (auto intro!: returns_intros)
qed

lemma emits_RenameVolume [emits_intros]:
  "(\<And>b. P (Px (c_name cl) (RPost (renamePath vol) b))) \<Longrightarrow> emits P (RenameVolume cl vol i)"
  unfolding RenameVolume_def Let_def by (intro emits_intros)

text \<open>What unpublishing a volume may send: unforced unlinks, the rename of this volume, events, and the
  deletion of an unused key whose volume is absent.\<close>

definition unpublish_ok :: "'e client \<Rightarrow> volume \<Rightarrow> 'e \<times> req \<Rightarrow> bool" where
  "unpublish_ok cl vol = (\<lambda>(e, r).
     case r of
       Px _ (RUnlink i dev force) \<Rightarrow> \<not> force
     | Px _ (RPost p b) \<Rightarrow> p = renamePath vol
     | Px _ (RConfig i opt key) \<Rightarrow> opt = ''delete'' \<and>
         (\<exists>(vm :: vm) disk storage name. (key, disk) \<in> set (vc_unuseds (vm_cfg vm)) \<and> vm_vmid vm = i \<and>
            hd (Split CHR '','' disk) = storage @ '':'' @ name \<and> absentAt cl (unusedVolume vol storage name) e)
     | Px _ r' \<Rightarrow> \<not> px_write r'
     | _ \<Rightarrow> True)"

lemma unpublish_ok_simps [simp]:
  "unpublish_ok cl vol (e, Px n (RGet p))" "unpublish_ok cl vol (e, Px n RWait)"
  "unpublish_ok cl vol (e, K8s k)" "unpublish_ok cl vol (e, Lock m)" "unpublish_ok cl vol (e, Unlock m)"
  "unpublish_ok cl vol (e, Px n (RUnlink i dev False))" "unpublish_ok cl vol (e, Px n (RPost (renamePath vol) b))"
  by (simp_all add: unpublish_ok_def)

lemma unusedVolume_SetDisk: "unusedVolume (SetDisk disk vol) s n = unusedVolume vol s n"
  "renamePath (SetDisk disk vol) = renamePath vol"
  by (simp_all add: unusedVolume_def renamePath_def)

lemma detach_ok_unpublish: "detach_ok v cfg r \<Longrightarrow> unpublish_ok cl vol (e, r)"
  by (cases r rule: is_write.cases) (auto simp: detach_ok_def unpublish_ok_def split: pxreq.splits)

lemma clear_ok_unpublish:
  assumes "is_write r \<longrightarrow> clear_ok cl vm (SetDisk disk vol) (e, r)"
  shows "unpublish_ok cl vol (e, r)"
proof (cases "is_write r")
  case True
  then obtain n key d st nm where r: "r = Px n (RConfig (vm_vmid vm) ''delete'' key)"
    and m: "(key, d) \<in> set (vc_unuseds (vm_cfg vm))" "hd (Split CHR '','' d) = st @ '':'' @ nm"
      "absentAt cl (unusedVolume vol st nm) e"
    using assms unfolding clear_ok_def prod.case unusedVolume_SetDisk by blast
  show ?thesis
    unfolding unpublish_ok_def r prod.case req.case pxreq.case
    by (intro conjI refl exI [of _ vm] exI [of _ d] exI [of _ st] exI [of _ nm] m)
next
  case False
  then show ?thesis by (cases r rule: is_write.cases) (auto simp: unpublish_ok_def split: pxreq.splits)
qed

lemma triple_split: "(\<And>c. triple (\<lambda>e. f e = c) P m Q) \<Longrightarrow> triple (\<lambda>_. True) P m Q"
  by (simp add: triple_def)

lemma triple_unpublish_detach:
  "reads_pure cl \<Longrightarrow> triple (\<lambda>_. True) (unpublish_ok cl vol) (DetachVolume cl i v) (\<lambda>_ _. True)"
  by (rule triple_split [where f = "vmAt cl i"])
    (rule triple_mono [OF triple_DetachVolume], auto intro: detach_ok_unpublish)

lemma triple_unpublish_clear:
  assumes "reads_pure cl" "errors_distinct cl"
  shows "triple (\<lambda>_. True) (unpublish_ok cl vol) (ClearUnusedDisk cl i (SetDisk disk vol)) (\<lambda>_ _. True)"
proof (rule triple_split [where f = "vmAt cl i"])
  fix c
  show "triple (\<lambda>e. vmAt cl i e = c) (unpublish_ok cl vol) (ClearUnusedDisk cl i (SetDisk disk vol)) (\<lambda>_ _. True)"
  proof (rule triple_mono [OF triple_ClearUnusedDisk [OF assms]], goal_cases)
    case (1 x)
    obtain e r where "x = (e, r)" by fastforce
    then show ?case using 1 by (auto intro: clear_ok_unpublish)
  qed simp
qed

lemma triple_restoreName:
  assumes "reads_pure cl" "errors_distinct cl"
  shows "triple (\<lambda>_. True) (unpublish_ok cl vol) (restoreName d cl i (SetDisk disk vol)) (\<lambda>_ _. True)"
proof -
  have event: "triple I (unpublish_ok cl vol) (eventOnClaim d v et re me) (\<lambda>_ _. True)" for I v et re me
    by (rule triple_emits) (intro emits_intros allI unpublish_ok_simps)
  have rename: "triple (\<lambda>_. True) (unpublish_ok cl vol) (RenameVolume cl (SetDisk disk vol) (d_vmID d)) (\<lambda>_ _. True)"
    by (rule triple_emits) (intro emits_intros allI, simp only: unusedVolume_SetDisk unpublish_ok_simps)
  have clear: "triple (\<lambda>_. True) (unpublish_ok cl vol)
      (call (ClearUnusedDisk cl i v) (\<lambda>_. ret ()) ret) (\<lambda>_ _. True)" if "\<exists>disk'. v = SetDisk disk' (SetDisk disk vol)" for v
    using that by (auto intro!: triple_call [OF triple_unpublish_clear [OF assms, unfolded volume_setters]] triple_ret)
  show ?thesis
    unfolding restoreName_def
    by (auto split: option.split intro!: triple_ret triple_if triple_callR [OF returns_RenameVolume rename] event clear
        simp del: volume_setters)
qed

lemma triple_unpublishLocked:
  assumes "reads_pure cl" "errors_distinct cl" "Retry_spec cl"
  shows "triple (\<lambda>_. True) (unpublish_ok cl vol) (unpublishLocked d cl i (SetDisk disk vol)) (\<lambda>_ _. True)"
proof -
  have wait: "triple (\<lambda>_. True) (unpublish_ok cl vol) (WaitDetachVolume cl i (SetDisk disk vol)) (\<lambda>_ _. True)"
    by (rule triple_mono [OF triple_WaitDetachVolume [OF assms(1,3)]]) simp_all
  show ?thesis
    unfolding unpublishLocked_def internal_def
    by (intro triple_call [OF triple_unpublish_detach [OF assms(1)]] triple_call [OF wait] triple_fail TrueI
        triple_restoreName [OF assms(1,2)])
qed

lemma triple_withLock:
  assumes "triple I P m (\<lambda>_ _. True)" "\<And>e. P (e, Lock n)" "\<And>e. P (e, Unlock n)"
  shows "triple I P (withLock n m) (\<lambda>_ _. True)"
proof -
  have u: "triple (\<lambda>_. True) P (bindE (invoke (Unlock n) (\<lambda>e. (Inr (), e))) (\<lambda>_. k)) (\<lambda>_ _. True)"
    if "triple (\<lambda>_. True) P k (\<lambda>_ _. True)" for k :: "('a pworld, 'b) io"
    by (rule triple_bindE [OF triple_invoke [where Q = "\<lambda>_ _. True"]]) (simp_all add: assms that)
  show ?thesis
    unfolding withLock_def
    by (rule triple_bindE [OF triple_invoke [where Q = "\<lambda>_. I"]])
      (auto simp: assms intro!: triple_call [OF assms(1)] u triple_fail triple_ret)
qed

lemma emits_withLock [emits_intros]:
  "emits P m \<Longrightarrow> P (Lock n) \<Longrightarrow> P (Unlock n) \<Longrightarrow> emits P (withLock n m)"
  unfolding emits_def by (erule triple_withLock) auto

lemma triple_unpublish:
  assumes "pool_spec (d_pool d)" "pool_pure (d_pool d)"
    and "NewVolumeFromVolumeID volumeId = Inr vol" "GetProxmoxCluster (d_pool d) (vregion vol) = Inr cl"
  shows "triple (\<lambda>_. True) (unpublish_ok cl vol) (ControllerUnpublishVolume d nodeId volumeId) (\<lambda>_ _. True)"
proof -
  note locked = triple_withLock [OF triple_unpublishLocked [OF pool_pure_cluster [OF assms(2,4)] pool_spec_cluster(2) [OF assms(1,4)]]]
  have check: "triple I (unpublish_ok cl vol) (checkVolume d vol) (\<lambda>_ _. True)" for I
    by (rule triple_emits) (intro emits_intros allI unpublish_ok_simps)
  have node: "triple I (unpublish_ok cl vol) (nodeVMID d n) (\<lambda>_ _. True)" for I n
    by (rule triple_emits) (intro emits_intros allI unpublish_ok_simps assms(1))
  have rest: "triple (\<lambda>_. True) (unpublish_ok cl vol)
      (call (nodeVMID d n) (\<lambda>e. if IsNotFound e then ret () else fail e)
        (\<lambda>i. withLock (nid_node n) (unpublishLocked d cl i (SetDisk disk vol)))) (\<lambda>_ _. True)" for n disk
    by (intro triple_call [OF node] triple_if triple_ret triple_fail TrueI locked unpublish_ok_simps)
  show ?thesis
    unfolding ControllerUnpublishVolume_def assms(3,4) call_lift
    apply (cases "ParseNodeID nodeId"; simp only: call_lift invalid_def)
     apply (rule triple_fail, simp)
    apply (rule triple_callR [OF returns_checkVolume check])
     apply (intro triple_if triple_ret triple_fail TrueI)
    using rest by auto
qed

section \<open>The lock of a node\<close>

text \<open>A handler is disciplined when it writes to the cluster only while it holds the lock of the node: its
  requests are quiet ones, or quiet ones followed by the lock, requests that leave the locks alone,
  and the unlock.\<close>

fun lock_req :: "req \<Rightarrow> bool" where
  "lock_req (Lock _) = True"
| "lock_req (Unlock _) = True"
| "lock_req _ = False"

fun quiet :: "req \<Rightarrow> bool" where
  "quiet (Px _ r) = (\<not> px_write r)"
| "quiet r = (\<not> lock_req r)"

definition disciplined :: "string \<Rightarrow> req list \<Rightarrow> bool" where
  "disciplined n rs =
     (case dropWhile quiet rs of
        [] \<Rightarrow> True
      | r # rest \<Rightarrow> r = Lock n \<and> rest \<noteq> [] \<and> last rest = Unlock n \<and> list_all (\<lambda>r. \<not> lock_req r) (butlast rest))"

lemma disciplined_quiet: "list_all quiet rs \<Longrightarrow> disciplined n rs"
  by (simp add: disciplined_def list_all_iff dropWhile_eq_Nil_conv [THEN iffD2])

lemma disciplined_append: "list_all quiet rs \<Longrightarrow> disciplined n (rs @ ss) = disciplined n ss"
  by (simp add: disciplined_def list_all_iff)

lemma disciplined_locked: "list_all (\<lambda>r. \<not> lock_req r) rs \<Longrightarrow> disciplined n (Lock n # rs @ [Unlock n])"
  by (simp add: disciplined_def)

text \<open>Programs all of whose runs are disciplined.\<close>

definition locks :: "string \<Rightarrow> ('e pworld, 'a) io \<Rightarrow> bool" where
  "locks n m \<longleftrightarrow> (\<forall>w. \<exists>rs. trace (snd (m w)) = trace w @ rs \<and> disciplined n (map snd rs))"

named_theorems locks_intros \<open>composition rules for lock discipline\<close>

lemma locks_emits: "emits quiet m \<Longrightarrow> locks n m"
  unfolding emits_def triple_def locks_def
  by (fastforce intro: disciplined_quiet simp: list.pred_map comp_def case_prod_unfold)

lemma locks_ret [locks_intros]: "locks n (ret x)"
  by (rule locks_emits) (rule emits_ret)

lemma locks_fail [locks_intros]: "locks n (fail e)"
  by (rule locks_emits) (rule emits_fail)

lemma locks_call [locks_intros]:
  assumes "emits quiet m" "\<And>e. locks n (h e)" "\<And>x. locks n (k x)"
  shows "locks n (call m h k)"
  unfolding locks_def
proof
  fix w
  obtain r w1 where m: "m w = (r, w1)" by fastforce
  obtain rs where rs: "trace w1 = trace w @ rs" "list_all quiet (map snd rs)"
    using assms(1) m unfolding emits_def triple_def
    by (fastforce simp: list.pred_map comp_def case_prod_unfold dest: spec [of _ w])
  define p where "p = (case r of Inl e \<Rightarrow> h e | Inr x \<Rightarrow> k x)"
  have "locks n p" using assms(2,3) by (auto simp: p_def split: sum.split)
  then obtain ss where "trace (snd (p w1)) = trace w1 @ ss" "disciplined n (map snd ss)"
    unfolding locks_def by blast
  moreover have "call m h k w = p w1" using m by (auto simp: call_def p_def split: sum.split)
  ultimately show "\<exists>rs. trace (snd (call m h k w)) = trace w @ rs \<and> disciplined n (map snd rs)"
    using rs by (intro exI [of _ "rs @ ss"]) (simp add: disciplined_append)
qed

lemma locks_bindE [locks_intros]: "emits quiet m \<Longrightarrow> (\<And>x. locks n (k x)) \<Longrightarrow> locks n (bindE m k)"
  unfolding bindE_def by (intro locks_intros)

lemma locks_if [locks_intros]: "(b \<Longrightarrow> locks n p) \<Longrightarrow> (\<not> b \<Longrightarrow> locks n q) \<Longrightarrow> locks n (if b then p else q)"
  by simp

lemma locks_prod [locks_intros]: "(\<And>x y. locks n (f x y)) \<Longrightarrow> locks n (case s of (x, y) \<Rightarrow> f x y)"
  by (simp split: prod.split)

lemma locks_withLock:
  assumes "emits (\<lambda>r. \<not> lock_req r) m"
  shows "locks n (withLock n m)"
  unfolding locks_def
proof
  fix w :: "'a pworld"
  define w0 where "w0 = w\<lparr>trace := trace w @ [(env w, Lock n)]\<rparr>"
  obtain rs where rs: "trace (snd (m w0)) = trace w0 @ rs" "list_all (\<lambda>r. \<not> lock_req r) (map snd rs)"
    using assms unfolding emits_def triple_def
    by (fastforce simp: list.pred_map comp_def case_prod_unfold dest: spec [of _ w0])
  have "trace (snd (withLock n m w)) = trace (snd (m w0)) @ [(env (snd (m w0)), Unlock n)]"
    by (auto simp: withLock_def bindE_def call_def invoke_def ret_def fail_def w0_def split: prod.split sum.split)
  then show "\<exists>rs. trace (snd (withLock n m w)) = trace w @ rs \<and> disciplined n (map snd rs)"
    using rs by (intro exI [of _ "(env w, Lock n) # rs @ [(env (snd (m w0)), Unlock n)]"])
      (simp add: w0_def disciplined_locked append_Cons)
qed

lemma locks_sent: "locks n m \<Longrightarrow> disciplined n (map snd (sent m w))"
  unfolding locks_def sent_def by (metis append_eq_conv_conj)

lemma emits_AttachVolume [emits_intros]:
  "Retry_spec cl \<Longrightarrow> (\<And>n r. P (Px n r)) \<Longrightarrow> emits P (AttachVolume cl i vol options)"
  unfolding AttachVolume_def Let_def by (intro emits_intros)

lemma emits_DetachVolume [emits_intros]: "(\<And>n r. P (Px n r)) \<Longrightarrow> emits P (DetachVolume cl i vol)"
  unfolding DetachVolume_def Let_def by (intro emits_intros)

lemma emits_clearUnusedKeys: "(\<And>n r. P (Px n r)) \<Longrightarrow> emits P (clearUnusedKeys cl vm vol ks)"
  by (induction ks) (auto simp: clearUnusedKey_def Let_def intro!: emits_intros)

lemma emits_ClearUnusedDisk [emits_intros]: "(\<And>n r. P (Px n r)) \<Longrightarrow> emits P (ClearUnusedDisk cl i vol)"
  unfolding ClearUnusedDisk_def by (intro emits_intros emits_clearUnusedKeys)

lemma emits_MigrateReplication [emits_intros]: "(\<And>n r. P (Px n r)) \<Longrightarrow> emits P (MigrateReplication cl t vol i)"
  unfolding MigrateReplication_def by (intro emits_intros)

lemma emits_reassignVolume [emits_intros]:
  "(\<And>n r. P (Px n r)) \<Longrightarrow> (\<And>k. P (K8s k)) \<Longrightarrow> emits P (reassignVolume d cl vol i)"
  unfolding reassignVolume_def by (intro emits_intros)

lemma emits_publishLocked [emits_intros]:
  "Retry_spec cl \<Longrightarrow> (\<And>n r. P (Px n r)) \<Longrightarrow> (\<And>k. P (K8s k)) \<Longrightarrow> emits P (publishLocked d cl i vol cur ps)"
  unfolding publishLocked_def publishOptions_def resizeOnAttach_def by (intro emits_intros)

lemma emits_unpublishLocked [emits_intros]:
  "Retry_spec cl \<Longrightarrow> (\<And>n r. P (Px n r)) \<Longrightarrow> (\<And>k. P (K8s k)) \<Longrightarrow> emits P (unpublishLocked d cl i vol)"
  unfolding unpublishLocked_def restoreName_def by (intro emits_intros)

lemma locks_lift [locks_intros]: "(\<And>e. locks n (h e)) \<Longrightarrow> (\<And>x. r = Inr x \<Longrightarrow> locks n (k x)) \<Longrightarrow> locks n (call (lift r) h k)"
  by (cases r) simp_all

lemma emits_quiet_check: "emits quiet (checkVolume d vol)"
  by (intro emits_intros) simp

lemma emits_quiet_node: "pool_spec (d_pool d) \<Longrightarrow> emits quiet (nodeVMID d n)"
  by (intro emits_intros) simp_all

lemma locks_publish:
  assumes "pool_spec (d_pool d)" "ParseNodeID (pr_nodeId request) = Inr n"
  shows "locks (nid_node n) (ControllerPublishVolume d request)"
  unfolding ControllerPublishVolume_def assms(2) call_lift invalid_def internal_def Let_def
  by (rule locks_lift locks_ret locks_fail locks_if locks_prod locks_withLock locks_bindE locks_call emits_quiet_check
      emits_quiet_node [OF assms(1)] emits_publishLocked pool_spec_cluster(2) [OF assms(1)] | assumption | simp)+

lemma locks_unpublish:
  assumes "pool_spec (d_pool d)" "ParseNodeID nodeId = Inr n"
  shows "locks (nid_node n) (ControllerUnpublishVolume d nodeId volumeId)"
  unfolding ControllerUnpublishVolume_def assms(2) call_lift invalid_def internal_def
  by (rule locks_lift locks_ret locks_fail locks_if locks_prod locks_withLock locks_bindE locks_call emits_quiet_check
      emits_quiet_node [OF assms(1)] emits_unpublishLocked pool_spec_cluster(2) [OF assms(1)] | assumption | simp)+

section \<open>The volume a check finds, on any node\<close>

lemma renamed_from_probe:
  assumes "renamed_from (SetNode n probe) r" "probe\<lparr>vnode := vnode vol\<rparr> = vol"
  shows "SetNode n (SetDisk (vdisk r) vol) = r" "renamed_from vol (SetDisk (vdisk r) vol)"
  using assms by (cases probe; cases vol; cases r; simp add: renamed_from_def DiskSuffix_def)+

lemma probe_found:
  "storedAt cl r e \<Longrightarrow> renamed_from (SetNode n probe) r \<Longrightarrow> probe\<lparr>vnode := vnode vol\<rparr> = vol \<Longrightarrow>
   (\<exists>n. storedAt cl (SetNode n (SetDisk (vdisk r) vol)) e) \<and> renamed_from vol (SetDisk (vdisk r) vol)"
  using renamed_from_probe [of n probe r vol] by metis

lemma triple_probeNodes:
  assumes "reads_pure cl" "errors_distinct cl" "\<And>e p. P (e, Px (c_name cl) (RGet p))" "probe\<lparr>vnode := vnode vol\<rparr> = vol"
  shows "triple (\<lambda>_. True) P (probeNodes cl reassign vol probe ns)
     (\<lambda>r e. \<forall>v sz. r = Inr (v, sz) \<longrightarrow> (\<exists>n. storedAt cl (SetNode n v) e) \<and> renamed_from vol v)"
proof (induction ns)
  case Nil
  show ?case by (simp add: triple_fail)
next
  case (Cons n ns)
  show ?case
    unfolding probeNodes.simps
    apply (rule triple_call [OF triple_ResolveVolume [OF assms(1,2), where I = "\<lambda>_. True"]])
      apply (rule assms(3))
     apply (rule triple_if)
      apply (rule triple_pre [OF Cons], simp)
     apply (simp add: internal_def triple_fail)
    apply (clarsimp simp del: volume_setters)
    apply (rule triple_ret)
    using probe_found [of cl, OF _ _ assms(4)] by (auto simp del: volume_setters)
qed

text \<open>A check succeeds only for a volume that is stored on a node, under its name up to the VM id.\<close>

lemma triple_checkVolume_any:
  assumes "pool_pure (d_pool d)" "GetProxmoxCluster (d_pool d) (vregion vol) = Inr cl" "wf_volume vol"
    and get: "\<And>e n p. P (e, Px n (RGet p))"
  shows "triple (\<lambda>_. True) P (checkVolume d vol)
     (\<lambda>r e. \<forall>v sz. r = Inr (v, sz) \<longrightarrow> (\<exists>n. storedAt cl (SetNode n v) e) \<and> renamed_from vol v)"
proof (cases "vnode vol = []")
  case True
  have parse: "NewVolumeFromVolumeID (VolumeID vol) = Inr vol" using assms(3) by (rule vid.dec_enc)
  have zone: "vzone vol = []" using True assms(3) by (simp add: wf_volume_def)
  show ?thesis
    unfolding checkVolume_def assms(2) call_lift if_P [OF True] parse zone
    apply (simp only: simp_thms if_False bindE_ret call_lift)
    apply (rule triple_call [OF triple_px [where Q = "\<lambda>_ _. True"]])
      apply (simp add: get)
     apply (simp add: internal_def triple_fail)
    apply (rule triple_probeNodes [OF pool_pure_cluster [OF assms(1,2)]])
     apply (rule get)
    apply simp
    done
next
  case False
  have "SetNode (vnode v) v = v" for v by simp
  then have st: "storedAt cl v e \<Longrightarrow> \<exists>n. storedAt cl (SetNode n v) e" for v e by metis
  show ?thesis
    by (rule triple_mono [OF triple_checkVolume [where P = P, OF assms(1,2) False get]]) (use st in blast)+
qed

section \<open>Deleting\<close>

text \<open>What deleting a volume may send: the deletion of the disk, which is stored at that moment under the
  name of the volume up to the VM id, and for a replicated volume the deletion of its replication
  jobs and of the VM that carries it, never of the VM of the controller.\<close>

definition delete_ok :: "'e client \<Rightarrow> int \<Rightarrow> volume \<Rightarrow> 'e \<times> req \<Rightarrow> bool" where
  "delete_ok cl own vol = (\<lambda>(e, r).
     case r of
       Px _ (RDeleteDisk n st disk) \<Rightarrow> st = vstorage vol \<and> renamed_from vol (SetDisk disk vol) \<and>
         (\<exists>n'. storedAt cl (SetNode n' (SetDisk disk vol)) e) \<and> (vnode vol \<noteq> [] \<longrightarrow> n = vnode vol)
     | Px _ (RDeleteVM n i) \<Rightarrow> Atoi (VMID vol) \<noteq> Some own \<and> (i = 0 \<or> Atoi (VMID vol) = Some i)
     | Px _ (RDelete p) \<Rightarrow> Atoi (VMID vol) \<noteq> Some own \<and> take 21 p = ''/cluster/replication/''
     | Px _ r' \<Rightarrow> \<not> px_write r'
     | _ \<Rightarrow> True)"

lemma delete_ok_simps [simp]:
  "delete_ok cl own vol (e, Px n (RGet p))" "delete_ok cl own vol (e, Px n RWait)" "delete_ok cl own vol (e, K8s k)"
  "Atoi (VMID vol) \<noteq> Some own \<Longrightarrow> delete_ok cl own vol (e, Px n (RDelete (''/cluster/replication/'' @ job)))"
  "delete_ok cl own vol (e, Px n (RDeleteVM m i)) \<longleftrightarrow> Atoi (VMID vol) \<noteq> Some own \<and> (i = 0 \<or> Atoi (VMID vol) = Some i)"
  by (simp_all add: delete_ok_def append_Cons)

lemma returns_filter:
  assumes "GetVMByFilter_spec cl"
  shows "returns (\<lambda>(rs, _). rs_vmid rs = 0 \<or> B rs) (c_GetVMByFilter cl (\<lambda>r s. ret (B r, s)) s)"
  unfolding returns_def
proof (intro allI impI)
  fix w x w' assume "c_GetVMByFilter cl (\<lambda>r s. ret (B r, s)) s w = (Inr x, w')"
  then show "case x of (rs, _) \<Rightarrow> rs_vmid rs = 0 \<or> B rs"
    using GetVMByFilter_accepts [OF assms] by (cases x) (fastforce simp: ret_def)
qed

lemma emits_deleteJobs [emits_intros]:
  "(\<And>job. P (Px (c_name cl) (RDelete (''/cluster/replication/'' @ job)))) \<Longrightarrow> emits P (deleteJobs cl jobs)"
proof (induction jobs)
  case (Cons job jobs)
  then show ?case by (cases job) (auto intro!: emits_intros)
qed (simp add: emits_ret)

lemma emits_DeleteReplication:
  assumes "GetVMByFilter_spec cl" "\<And>p. P (Px (c_name cl) (RGet p))"
    and "\<And>job. Atoi (VMID vol) \<noteq> Some own \<Longrightarrow> P (Px (c_name cl) (RDelete (''/cluster/replication/'' @ job)))"
    and "\<And>n i. Atoi (VMID vol) \<noteq> Some own \<Longrightarrow> i = 0 \<or> Atoi (VMID vol) = Some i \<Longrightarrow> P (Px (c_name cl) (RDeleteVM n i))"
  shows "emits P (DeleteReplication cl vol own)"
proof (cases "Atoi (VMID vol)")
  case None
  then show ?thesis by (simp add: DeleteReplication_def emits_fail)
next
  case (Some i)
  show ?thesis
    unfolding DeleteReplication_def Some option.case
    using assms(3,4)
    by (intro emits_if emits_ret emits_bindR [OF returns_filter [OF assms(1)]] emits_GetVMByFilter assms(1,2))
      (auto simp: Some intro!: emits_intros assms(2))
qed

lemma triple_deleteStored:
  assumes "reads_pure cl" "\<And>e p. P (e, Px (c_name cl) (RGet p))"
    and "\<And>e n. I e \<Longrightarrow> vnode vol \<noteq> [] \<longrightarrow> n = vnode vol \<Longrightarrow> P (e, Px (c_name cl) (RDeleteDisk n (vstorage vol) (vdisk vol)))"
  shows "triple I P (deleteStored cl vol msg) (\<lambda>_ _. True)"
proof -
  have node: "triple I P (if vnode vol = [] then GetNodeForVolume cl vol else ret (vnode vol))
      (\<lambda>r e. I e \<and> (\<forall>n. r = Inr n \<longrightarrow> vnode vol \<noteq> [] \<longrightarrow> n = vnode vol))"
    unfolding GetNodeForVolume_def
    by (intro triple_if triple_ret triple_call [OF triple_px [where Q = "\<lambda>_. I"]])
      (use assms(1,2) in \<open>auto simp: reads_pure_def intro!: triple_fail triple_ret split: list.split\<close>)
  show ?thesis
    unfolding deleteStored_def
    by (rule triple_call [OF node])
      (auto intro!: triple_fail triple_call [OF triple_px [where Q = "\<lambda>_ _. True"]] triple_ret assms(3))
qed

lemma renamed_from_stored:
  assumes "renamed_from vol v"
  shows "vstorage v = vstorage vol" "vnode v = vnode vol" "SetDisk (vdisk v) vol = v"
  using assms by (cases v; cases vol; simp add: renamed_from_def)+

lemma triple_delete_checked:
  assumes "pool_pure (d_pool d)" "GetProxmoxCluster (d_pool d) (vregion vol) = Inr cl" "wf_volume vol"
  shows "triple (\<lambda>_. True) (delete_ok cl own vol)
     (call (checkVolume d vol) (\<lambda>e. if statusCode e = NotFound then ret () else fail e)
        (\<lambda>(v, _). deleteStored cl v (msg v))) (\<lambda>_ _. True)"
proof -
  have del: "triple (\<lambda>e. (\<exists>n. storedAt cl (SetNode n v) e) \<and> renamed_from vol v) (delete_ok cl own vol)
      (deleteStored cl v (msg v)) (\<lambda>_ _. True)" for v
  proof (rule triple_deleteStored [OF pool_pure_cluster(1) [OF assms(1,2)]])
    fix e n assume "(\<exists>n. storedAt cl (SetNode n v) e) \<and> renamed_from vol v" "vnode v \<noteq> [] \<longrightarrow> n = vnode v"
    then show "delete_ok cl own vol (e, Px (c_name cl) (RDeleteDisk n (vstorage v) (vdisk v)))"
      using renamed_from_stored [of vol v] by (simp add: delete_ok_def del: volume_setters)
  qed simp
  show ?thesis
    by (rule triple_call [OF triple_checkVolume_any [OF assms]])
      (auto intro!: triple_if triple_ret triple_fail triple_pre [OF del])
qed

lemma triple_DeleteVolume:
  assumes "pool_spec (d_pool d)" "pool_pure (d_pool d)"
    and "NewVolumeFromVolumeID volumeId = Inr vol" "GetProxmoxCluster (d_pool d) (vregion vol) = Inr cl"
  shows "triple (\<lambda>_. True) (delete_ok cl (d_vmID d) vol) (DeleteVolume d volumeId) (\<lambda>_ _. True)"
proof -
  have wf: "wf_volume vol" using vid.enc_dec [OF assms(3)] by simp
  have rep: "triple (\<lambda>_. True) (delete_ok cl (d_vmID d) vol) (DeleteReplication cl vol (d_vmID d)) (\<lambda>_ _. True)"
    by (rule triple_emits, rule emits_DeleteReplication [OF pool_spec_cluster(1) [OF assms(1,4)]]) simp_all
  show ?thesis
    unfolding DeleteVolume_def assms(3,4) call_lift
    by (intro triple_call [OF rep] triple_fail TrueI triple_delete_checked [OF assms(2,4) wf])
qed

lemma triple_DeleteSnapshot:
  assumes "pool_pure (d_pool d)"
    and "NewVolumeFromVolumeID snapshotId = Inr vol" "GetProxmoxCluster (d_pool d) (vregion vol) = Inr cl"
  shows "triple (\<lambda>_. True) (delete_ok cl (d_vmID d) vol) (DeleteSnapshot d snapshotId) (\<lambda>_ _. True)"
proof -
  have wf: "wf_volume vol" using vid.enc_dec [OF assms(2)] by simp
  show ?thesis
    unfolding DeleteSnapshot_def assms(2,3) call_lift by (rule triple_delete_checked [OF assms(1,3) wf])
qed

section \<open>Creating\<close>

lemma triple_ToolsCopyVolume:
  assumes "\<And>e node. I e \<Longrightarrow> P (e, Px (c_name cl) (RPost (fst (copyRequest ep src node vol)) (snd (copyRequest ep src node vol))))"
    and "\<And>e. P (e, Px (c_name cl) RWait)"
  shows "triple I P (ToolsCopyVolume cl src vol ep) (\<lambda>_ _. True)"
proof -
  have wait: "triple (\<lambda>_. True) P (case c_NewTask cl upid of None \<Rightarrow> ret () | Some t \<Rightarrow> call (WaitForCompleteStatus cl t a b)
      h (\<lambda>(s, c, t'). if \<not> c then fail (f t') else if \<not> s then fail (g t') else ret ())) (\<lambda>_ _. True)"
    if "\<And>e. emits (\<lambda>r. \<forall>e. P (e, r)) (h e)" for upid a b h f g
    by (rule triple_emits) (intro emits_intros allI assms(2) that)
  show ?thesis
    unfolding ToolsCopyVolume_def MoveQemuDisk_def Let_def case_prod_unfold
    by (intro triple_if triple_fail TrueI triple_call [OF triple_px [where Q = "\<lambda>_ _. True"]] wait [unfolded case_prod_unfold]
        emits_fail conjI assms(1))
qed

lemma triple_ToolsCreateVolume:
  assumes "\<And>e i. I e \<Longrightarrow>
     P (e, Px (c_name cl) (RCreateDisk i (vnode vol) (vstorage vol) (last (Split CHR ''/'' (vdisk vol))) sz))"
  shows "triple I P (ToolsCreateVolume cl vol sz) (\<lambda>_ _. True)"
  unfolding ToolsCreateVolume_def Let_def
  by (auto intro!: triple_if triple_fail triple_ret triple_call [OF triple_px [where Q = "\<lambda>_ _. True"]] assms split: option.split)

text \<open>What creating a volume may send: the creation of the disk with the rounded size, or a copy into it,
  while the disk is absent; for a replicated volume also a VM, its disk and its jobs.\<close>

definition requested :: "string \<Rightarrow> string \<Rightarrow> string \<Rightarrow> volume \<Rightarrow> bool" where
  "requested region storage name vol \<longleftrightarrow> (\<exists>zone i fmt. vol = NewVolumeF region zone storage (vm_disk i name) fmt)"

definition create_ok :: "'e client \<Rightarrow> (volume \<Rightarrow> bool) \<Rightarrow> int \<Rightarrow> 'e \<times> req \<Rightarrow> bool" where
  "create_ok cl V wanted = (\<lambda>(e, r).
     case r of
       Px _ (RCreateDisk i n st name sz) \<Rightarrow>
         (\<exists>vol. V vol \<and> absentAt cl vol e \<and> n = vnode vol \<and> st = vstorage vol \<and>
            name = last (Split CHR ''/'' (vdisk vol)) \<and> sz = wanted)
     | Px _ (RPost p b) \<Rightarrow> p = ''/cluster/replication'' \<or>
         (\<exists>vol ep src node. V vol \<and> absentAt cl vol e \<and> (p, b) = copyRequest ep src node vol)
     | Px _ (RConfig i name val) \<Rightarrow>
         (\<exists>j vol. attach_ok cl j vol [(''replicate'', ''1''), (''backup'', ''1'')] (e, r))
     | Px _ (RCreateVM n c) \<Rightarrow> True
     | Px _ r' \<Rightarrow> \<not> px_write r'
     | _ \<Rightarrow> True)"

lemma create_ok_simps [simp]:
  "create_ok cl V s (e, Px n (RGet p))" "create_ok cl V s (e, Px n RWait)" "create_ok cl V s (e, K8s k)"
  "create_ok cl V s (e, Px n (RCreateVM m c))" "create_ok cl V s (e, Px n (RPost ''/cluster/replication'' b))"
  by (simp_all add: create_ok_def)

lemma triple_createDisk:
  assumes "reads_pure cl" "errors_distinct cl" "V vol"
  shows "triple (absentAt cl vol) (create_ok cl V sz) (createDisk d cl region src vol sz) (\<lambda>_ _. True)"
proof -
  have copy: "triple (absentAt cl vol) (create_ok cl V sz) (ToolsCopyVolume cl s vol ep) (\<lambda>_ _. True)" for s ep
  proof (rule triple_ToolsCopyVolume)
    fix e node assume "absentAt cl vol e"
    then show "create_ok cl V sz (e, Px (c_name cl) (RPost (fst (copyRequest ep s node vol)) (snd (copyRequest ep s node vol))))"
      using assms(3) by (fastforce simp: create_ok_def)
  qed simp
  have new: "triple (absentAt cl vol) (create_ok cl V sz) (ToolsCreateVolume cl vol sz) (\<lambda>_ _. True)"
    by (rule triple_ToolsCreateVolume) (use assms(3) in \<open>auto simp: create_ok_def\<close>)
  have src: "triple (absentAt cl vol) (create_ok cl V sz) (GetVolumeSize cl s) (\<lambda>_. absentAt cl vol)" for s
    by (rule triple_mono [OF triple_GetVolumeSize [OF assms(1,2), where I = "absentAt cl vol"]]) auto
  show ?thesis
    unfolding createDisk_def internal_def
    by (cases src) (auto intro!: triple_call [OF new] triple_call [OF src] triple_call [OF copy] triple_if triple_fail triple_ret)
qed

lemma triple_ensureDisk:
  assumes "reads_pure cl" "errors_distinct cl" "Retry_spec cl" "V vol"
  shows "triple (\<lambda>_. True) (create_ok cl V sz) (ensureDisk d cl region src vol sz) (\<lambda>_ _. True)"
proof -
  have await: "triple I (create_ok cl V sz) (awaitCreated cl v) (\<lambda>_ _. True)" for I v
    unfolding awaitCreated_def by (rule triple_emits) (intro emits_intros allI create_ok_simps assms(3))
  show ?thesis
    unfolding ensureDisk_def
    apply (rule triple_call [OF triple_GetVolumeSize [OF assms(1,2), where I = "\<lambda>_. True"]])
      apply simp
     apply (intro triple_if triple_fail TrueI)
     apply (rule triple_bindE [OF triple_pre [OF triple_createDisk [where V = V and vol = vol, OF assms(1,2,4)]]])
       apply simp
      apply simp
     apply (rule triple_bindE [OF await], simp, rule triple_ret, simp)
    apply (rule triple_ret, simp)
    done
qed

lemma attach_ok_create:
  assumes "attach_ok cl j vol [(''replicate'', ''1''), (''backup'', ''1'')] (e, r)"
  shows "create_ok cl V sz (e, r)"
proof (cases r)
  case (Px n p)
  show ?thesis
  proof (cases p)
    case (RConfig i name val)
    then show ?thesis using assms Px by (auto simp: create_ok_def)
  qed (use assms Px in \<open>auto simp: attach_ok_def create_ok_def\<close>)
qed (simp_all add: create_ok_def)

lemma emits_replicateTo [emits_intros]:
  "(\<And>b. P (Px (c_name cl) (RPost ''/cluster/replication'' b))) \<Longrightarrow> emits P (replicateTo cl i node sched n zs)"
proof (induction zs arbitrary: n)
  case (Cons z zs)
  then show ?case by (auto simp: Let_def intro!: emits_intros)
qed (simp add: emits_ret)

lemma triple_CreateReplication:
  assumes "reads_pure cl" "Retry_spec cl"
  shows "triple (\<lambda>_. True) (create_ok cl V sz) (CreateReplication cl i vol sched zones) (\<lambda>_ _. True)"
proof -
  have "triple I (create_ok cl V sz) (replicateTo cl i node s n zs) (\<lambda>_ _. True)" for I node s n zs
    by (rule triple_emits) (intro emits_intros allI create_ok_simps)
  moreover have "triple (\<lambda>_. True) (create_ok cl V sz) (AttachVolume cl i vol [(''replicate'', ''1''), (''backup'', ''1'')]) (\<lambda>_ _. True)"
    by (rule triple_mono [OF triple_AttachVolume [OF assms]]) (auto intro: attach_ok_create)
  ultimately show ?thesis unfolding CreateReplication_def by (intro triple_bindE) auto
qed

lemma emits_PrepareReplication [emits_intros]:
  "GetVMByFilter_spec cl \<Longrightarrow> (\<And>p. P (Px (c_name cl) (RGet p))) \<Longrightarrow> (\<And>n c. P (Px (c_name cl) (RCreateVM n c))) \<Longrightarrow>
   emits P (PrepareReplication cl node name i)"
  unfolding PrepareReplication_def createReplicationVM_def by (intro emits_intros)

lemma emits_checkSource [emits_intros]: "(\<And>n p. P (Px n (RGet p))) \<Longrightarrow> emits P (checkSource d region src)"
  unfolding checkSource_def by (intro emits_intros)

lemma emits_pickZone [emits_intros]: "(\<And>n p. P (Px n (RGet p))) \<Longrightarrow> emits P (pickZone cl storage zone)"
  unfolding pickZone_def by (auto intro!: emits_intros split: list.split)

lemma emits_storageTopology [emits_intros]:
  "(\<And>n p. P (Px n (RGet p))) \<Longrightarrow> emits P (storageTopology cl conf region zone storage)"
  unfolding storageTopology_def Let_def by (intro emits_intros)

lemma emits_replicationVM [emits_intros]:
  "GetVMByFilter_spec cl \<Longrightarrow> (\<And>n p. P (Px n (RGet p))) \<Longrightarrow> (\<And>n m c. P (Px n (RCreateVM m c))) \<Longrightarrow>
   emits P (replicationVM cl conf ps region zone pvc i topology)"
  unfolding replicationVM_def by (intro emits_intros)

lemma triple_CreateVolume:
  assumes "pool_spec (d_pool d)" "pool_pure (d_pool d)"
    and plan: "createCheck request = Inr plan"
    and cluster: "GetProxmoxCluster (d_pool d) (cp_region plan) = Inr cl"
  shows "triple (\<lambda>_. True)
     (create_ok cl (requested (cp_region plan) (strOf (getField (cp_params plan) ''StorageID'')) (cr_name request)) (cp_size plan))
     (CreateVolume d request) (\<lambda>_ _. True)"
proof -
  let ?V = "requested (cp_region plan) (strOf (getField (cp_params plan) ''StorageID'')) (cr_name request)"
  let ?P = "create_ok cl ?V (cp_size plan)"
  note pure = pool_pure_cluster [OF assms(2) cluster] and spec = pool_spec_cluster [OF assms(1) cluster]
  have src: "triple I ?P (checkSource d region src) (\<lambda>_ _. True)" for I region src
    by (rule triple_emits) (intro emits_intros allI create_ok_simps)
  have zone: "triple I ?P (pickZone cl storage zone) (\<lambda>_ _. True)" for I storage zone
    by (rule triple_emits) (intro emits_intros allI create_ok_simps)
  have topo: "triple I ?P (storageTopology cl conf region zone storage) (\<lambda>_ _. True)" for I conf region zone storage
    by (rule triple_emits) (intro emits_intros allI create_ok_simps)
  have vm: "triple I ?P (replicationVM cl conf ps region zone pvc i topology) (\<lambda>_ _. True)" for I conf ps region zone pvc i topology
    by (rule triple_emits) (intro emits_intros allI create_ok_simps spec)
  have disk: "triple (\<lambda>_. True) ?P (ensureDisk d cl region s vol (cp_size plan)) (\<lambda>_ _. True)" if "?V vol" for region s vol
    by (rule triple_ensureDisk [where V = ?V, OF pure spec(2) that])
  show ?thesis
    unfolding CreateVolume_def plan internal_def Let_def
    apply (rule triple_bindE [OF triple_lift [where Q = "\<lambda>r _. r = Inr plan"]], simp, simp)
    apply (rule triple_const [where I = "\<lambda>_. True", simplified], clarsimp simp: cluster simp del: volume_setters)
    apply (rule triple_bindE [OF triple_lift [where Q = "\<lambda>_ _. True"]], simp, simp)
    apply (rule triple_bindE [OF src], simp)
    apply (rule triple_bindE [OF zone], simp)
    apply (rule triple_call [OF triple_px [where Q = "\<lambda>_ _. True"]], simp, rule triple_fail, simp)
    apply (rule triple_bindE [OF topo], simp)
    apply (rule triple_bindE [OF vm], simp, rule triple_prod)
    apply (rule triple_bindE [OF disk], force simp: requested_def, simp, rule triple_prod)
    apply (rule triple_bindE [OF triple_lift [where Q = "\<lambda>_ _. True"]], simp, simp)
    apply (rule triple_bindE [where R = "\<lambda>_ _. True"])
      apply (intro triple_if triple_call [OF triple_CreateReplication [OF pure(1) spec(2)]] triple_fail triple_ret TrueI)
     apply simp
    apply (rule triple_ret, simp)
    done
qed

section \<open>The errors of the handlers\<close>

text \<open>Errors with a gRPC status code, and those among them that do not say that something is missing.\<close>

fun is_status :: "goerr \<Rightarrow> bool" where
  "is_status (Status _ _) = True"
| "is_status _ = False"

definition not_missing :: "goerr \<Rightarrow> bool" where
  "not_missing e \<longleftrightarrow> is_status e \<and> statusCode e \<noteq> NotFound"

lemma fails_internal [fails_intros]: "fails is_status (internal e)" "fails not_missing (internal e)"
  by (auto simp: internal_def not_missing_def intro: fails_fail)

lemma fails_invalid [fails_intros]: "fails is_status (invalid e)" "fails not_missing (invalid e)"
  by (auto simp: invalid_def not_missing_def intro: fails_fail)

lemma fails_Status [fails_intros]: "fails is_status (fail (Status c m))"
  by (auto intro: fails_fail)

lemma fails_pure:
  "fails is_status (lift (createCheck request))" "fails is_status (lift (sourceVolume request))"
  "fails is_status (lift (resizeParams src cur sz ps))" "fails is_status (lift (snapshotAllowed conf))"
  "fails is_status (lift (snapshotTarget d conf vol name zone))"
  by (rule fails_lift; auto simp: createCheck_def sourceVolume_def parseSource_def resizeParams_def snapshotAllowed_def
      snapshotTarget_def Let_def split: if_splits sum.splits option.splits content_source.splits prod.splits)+

lemma fails_probeNodes: "fails is_status (probeNodes cl reassign vol probe ns)"
  by (induction ns) (auto intro!: fails_intros)

lemma fails_checkVolume: "fails is_status (checkVolume d vol)"
  unfolding checkVolume_def by (intro fails_intros fails_probeNodes)

lemmas fails_handlers = fails_pure fails_probeNodes fails_checkVolume

lemma fails_CreateVolume: "fails is_status (CreateVolume d request)"
  unfolding CreateVolume_def checkSource_def pickZone_def storageTopology_def replicationVM_def ensureDisk_def createDisk_def
    awaitCreated_def Let_def
  by (intro fails_intros fails_handlers)

lemma fails_CreateSnapshot: "fails is_status (CreateSnapshot d source name params)"
  unfolding CreateSnapshot_def by (intro fails_intros fails_handlers)

lemma fails_GetCapacity: "fails is_status (GetCapacity d topology parameters)"
  unfolding GetCapacity_def capacityOf_def pickZone_def Let_def by (intro fails_intros)

lemma fails_ControllerExpandVolume: "fails is_status (ControllerExpandVolume d volumeId cr)"
  unfolding ControllerExpandVolume_def Let_def by (intro fails_intros fails_handlers)

lemma fails_ControllerModifyVolume: "fails is_status (ControllerModifyVolume d volumeId params)"
  unfolding ControllerModifyVolume_def by (intro fails_intros fails_handlers)

lemma fails_deleteStored: "fails not_missing (deleteStored cl vol msg)"
  unfolding deleteStored_def by (intro fails_intros) (auto simp: not_missing_def)

lemma fails_delete_checked:
  "fails not_missing (call (checkVolume d vol) (\<lambda>e. if statusCode e = NotFound then ret () else fail e)
     (\<lambda>(v, _). deleteStored cl v (msg v)))"
  by (rule fails_callE [OF fails_checkVolume]) (auto intro!: fails_intros fails_deleteStored simp: not_missing_def)

lemma fails_DeleteVolume: "fails not_missing (DeleteVolume d volumeId)"
  unfolding DeleteVolume_def by (intro fails_intros fails_delete_checked) (simp add: not_missing_def)

lemma fails_DeleteSnapshot: "fails not_missing (DeleteSnapshot d snapshotId)"
  unfolding DeleteSnapshot_def by (intro fails_intros fails_delete_checked)

section \<open>Publishing\<close>

text \<open>What publishing a volume may send: the rename of this volume, one attach of it into an empty slot, and
  for a volume with replication or a pending size the migration of its VM or the resize.\<close>

definition publish_ok :: "'e client \<Rightarrow> volume \<Rightarrow> params \<Rightarrow> 'e \<times> req \<Rightarrow> bool" where
  "publish_ok cl vol ps = (\<lambda>(e, r).
     case r of
       Px _ (RConfig i name val) \<Rightarrow> (\<exists>j disk cfg. attach_ok cl j (SetDisk disk vol) cfg (e, r))
     | Px _ (RPost p b) \<Rightarrow> p = renamePath vol
     | Px _ (RResize i n dev sz) \<Rightarrow> sz = Itoa (quot (intOf (getField ps ''ResizeSizeBytes'')) MiB) @ ''M''
     | Px _ (RMigrateVM i n) \<Rightarrow> boolOf (getField ps ''Replicate'')
     | Px _ r' \<Rightarrow> \<not> px_write r'
     | _ \<Rightarrow> True)"

lemma publish_ok_simps [simp]:
  "publish_ok cl vol ps (e, Px n (RGet p))" "publish_ok cl vol ps (e, Px n RWait)" "publish_ok cl vol ps (e, K8s k)"
  "publish_ok cl vol ps (e, Lock m)" "publish_ok cl vol ps (e, Unlock m)" "publish_ok cl vol ps (e, Px n (RPost (renamePath vol) b))"
  "publish_ok cl vol ps (e, Px n (RResize i m dev (Itoa (quot (intOf (getField ps ''ResizeSizeBytes'')) MiB) @ ''M'')))"
  by (simp_all add: publish_ok_def)

lemma attach_ok_publish:
  assumes "attach_ok cl j (SetDisk disk vol) cfg (e, r)"
  shows "publish_ok cl vol ps (e, r)"
proof (cases r)
  case (Px n p)
  show ?thesis
  proof (cases p)
    case (RConfig i name val)
    then show ?thesis using assms Px unfolding publish_ok_def by (auto simp del: volume_setters)
  qed (use assms Px in \<open>auto simp: attach_ok_def publish_ok_def\<close>)
qed (simp_all add: publish_ok_def)

lemma triple_attach_publish:
  assumes "reads_pure cl" "Retry_spec cl"
  shows "triple (\<lambda>_. True) (publish_ok cl vol ps) (AttachVolume cl i (SetDisk disk vol) cfg) (\<lambda>_ _. True)"
  by (rule triple_mono [OF triple_AttachVolume [OF assms]]) (auto intro: attach_ok_publish simp del: volume_setters)

lemma returns_reassignVolume: "returns (\<lambda>v. \<exists>disk. v = SetDisk disk vol) (reassignVolume d cl vol i)"
proof -
  have same: "\<exists>disk. vol = SetDisk disk vol" by (rule exI [of _ "vdisk vol"]) simp
  show ?thesis
    unfolding reassignVolume_def
    by (intro returns_if returns_call [OF returns_RenameVolume] returns_bindE_any returns_ret same) assumption
qed

lemma emits_MigrateReplication_only:
  "(\<And>p. P (Px (c_name cl) (RGet p))) \<Longrightarrow> P (Px (c_name cl) RWait) \<Longrightarrow> (\<And>i n. P (Px (c_name cl) (RMigrateVM i n))) \<Longrightarrow>
   emits P (MigrateReplication cl t vol i)"
  unfolding MigrateReplication_def by (intro emits_intros)

lemma emits_reassign_only:
  "(\<And>b. P (Px (c_name cl) (RPost (renamePath vol) b))) \<Longrightarrow> (\<And>k. P (K8s k)) \<Longrightarrow> emits P (reassignVolume d cl vol i)"
  unfolding reassignVolume_def by (intro emits_intros)

lemma triple_publishLocked:
  assumes "reads_pure cl" "Retry_spec cl"
  shows "triple (\<lambda>_. True) (publish_ok cl vol ps) (publishLocked d cl i (SetDisk disk vol) cur ps) (\<lambda>_ _. True)"
proof -
  have migrate: "triple (\<lambda>_. True) (publish_ok cl vol ps)
      (if boolOf (getField ps ''Replicate'')
       then call (MigrateReplication cl i (SetDisk disk vol) (d_vmID d)) internal (\<lambda>_. ret ()) else ret ()) (\<lambda>_ _. True)"
    by (rule triple_emits, intro emits_intros emits_MigrateReplication_only allI publish_ok_simps) (simp add: publish_ok_def)
  have rename: "triple (\<lambda>_. True) (publish_ok cl vol ps) (reassignVolume d cl (SetDisk disk vol) i) (\<lambda>_ _. True)"
    by (rule triple_emits, intro emits_reassign_only allI publish_ok_simps) (simp only: unusedVolume_SetDisk publish_ok_simps)
  have opts: "triple (\<lambda>_. True) (publish_ok cl vol ps) (publishOptions d v ps) (\<lambda>_ _. True)" for v
    unfolding publishOptions_def by (rule triple_emits) (intro emits_intros allI publish_ok_simps)
  have rsz: "triple (\<lambda>_. True) (publish_ok cl vol ps)
      (resizeOnAttach cl i v cur (intOf (getField ps ''ResizeSizeBytes'')) info) (\<lambda>_ _. True)" for v info
    unfolding resizeOnAttach_def by (rule triple_emits) (intro emits_intros allI publish_ok_simps)
  have attach: "triple (\<lambda>_. True) (publish_ok cl vol ps)
      (bindE (publishOptions d v ps) (\<lambda>cfg. call (AttachVolume cl i v cfg) internal
         (resizeOnAttach cl i v cur (intOf (getField ps ''ResizeSizeBytes''))))) (\<lambda>_ _. True)"
    if ex: "\<exists>disk'. v = SetDisk disk' (SetDisk disk vol)" for v
  proof -
    obtain disk' where v: "v = SetDisk disk' vol" using ex by auto
    show ?thesis
      unfolding v internal_def
      by (rule triple_bindE [OF opts], simp, rule triple_call [OF triple_attach_publish [OF assms]], rule triple_fail, simp, rule rsz)
  qed
  show ?thesis
    unfolding publishLocked_def
    by (rule triple_bindE [OF migrate], simp, rule triple_bindR [OF returns_reassignVolume rename], simp, rule attach)
qed

lemma triple_publish:
  assumes "pool_spec (d_pool d)" "pool_pure (d_pool d)"
    and "NewVolumeFromVolumeID (pr_volumeId request) = Inr vol" "GetProxmoxCluster (d_pool d) (vregion vol) = Inr cl"
    and "ExtractParameters (pr_context request) = Inr ps0"
  shows "triple (\<lambda>_. True) (publish_ok cl vol (publishParams d request ps0)) (ControllerPublishVolume d request) (\<lambda>_ _. True)"
proof -
  let ?P = "publish_ok cl vol (publishParams d request ps0)"
  note locked = triple_withLock [OF triple_publishLocked [OF pool_pure_cluster(1) [OF assms(2,4)] pool_spec_cluster(2) [OF assms(1,4)]]]
  have check: "triple I ?P (checkVolume d vol) (\<lambda>_ _. True)" for I
    by (rule triple_emits) (intro emits_intros allI publish_ok_simps)
  have node: "triple I ?P (nodeVMID d n) (\<lambda>_ _. True)" for I n
    by (rule triple_emits) (intro emits_intros allI publish_ok_simps assms(1))
  show ?thesis
    unfolding ControllerPublishVolume_def assms(3,4,5) call_lift Let_def
    apply (cases "ParseNodeID (pr_nodeId request)"; simp only: call_lift invalid_def)
     apply (rule triple_fail, simp)
    apply (intro triple_if triple_fail TrueI)
    apply (rule triple_bindE [OF node], simp)
    apply (rule triple_bindR [OF returns_checkVolume check], simp)
    apply (clarsimp simp del: volume_setters)
    apply (rule locked)
     apply simp_all
    done
qed

end
