(* ===== verification/Csi_Properties.thy ===== *)
theory Csi_Properties
  imports Csi_Safety
begin

text \<open>
  The properties of the CSI controller's handlers, over the rules of \<^verbatim>\<open>Csi_Safety\<close>, and a sample
  controller on the sample cluster on which each of them is exercised.
\<close>

section \<open>A sample controller\<close>

definition samplePool :: "sim pool" where
  "samplePool = \<lparr>pl_clients = [(''r'', simClient)], pl_tokenCopyEndpoint = [], pl_proxmodEndpoint = [(''r'', Some True)]\<rparr>"

abbreviation k8sMissing :: "goerr + 'a" where
  "k8sMissing \<equiv> Inl (Sentinel K8sNotFound ''not found'')"

definition sampleKube :: "sim kclient" where
  "sampleKube =
     \<lparr>k_GetNode = (\<lambda>n e. (k8sMissing, e)), k_PatchNode = (\<lambda>n p e. (Inr (), e)), k_GetPV = (\<lambda>n e. (k8sMissing, e)),
       k_GetPVC = (\<lambda>ns n e. (k8sMissing, e)), k_GetVAC = (\<lambda>n e. (k8sMissing, e)), k_GetVACBeta = (\<lambda>n e. (k8sMissing, e)),
       k_Event = (\<lambda>c t r m e. (Inr (), e)), k_CacheGet = (\<lambda>k e. (Inr None, e)), k_CacheSet = (\<lambda>k v e. (Inr (), e))\<rparr>"

definition sampleController :: "sim controller" where
  "sampleController = \<lparr>d_pool = samplePool, d_kclient = sampleKube, d_provider = ''default'', d_vmID = 9999,
     d_reassign = True, d_annotate = False, d_recorder = True, d_unsafeMount = False\<rparr>"

lemma samplePool_ok [simp]: "pool_spec samplePool" "pool_pure samplePool" "GetProxmoxCluster samplePool ''r'' = Inr simClient"
  by (simp_all add: pool_spec_def pool_pure_def samplePool_def GetProxmoxCluster_def)

lemma sampleController_pool [simp]: "d_pool sampleController = samplePool" "d_vmID sampleController = 9999"
  by (simp_all add: sampleController_def)

lemma sampleVolume_id: "NewVolumeFromVolumeID ''r/pve-1/lvm/vm-9999-pvc-1'' = Inr sampleVolume"
  unfolding vid.dec_iff by (simp add: sampleVolume_def wf_volume_def VolumeID_def append_Cons)

definition samplePublish :: publish_request where
  "samplePublish = \<lparr>pr_nodeId = ''worker-1/101'', pr_volumeId = ''r/pve-1/lvm/vm-9999-pvc-1'', pr_capability = Some ''mount'',
     pr_context = [(''storage'', ''lvm''), (''resizeSizeBytes'', ''2147483648'')], pr_readonly = False\<rparr>"

definition sampleCreate :: create_request where
  "sampleCreate = \<lparr>cr_name = ''pvc-7'', cr_capabilities = Some [''mount''], cr_parameters = [(''storage'', ''lvm'')],
     cr_mutableParameters = [], cr_capacityRange = Some (1000, 0),
     cr_topology = Some \<lparr>tr_preferred = [[(LabelTopologyRegion, ''r''), (LabelTopologyZone, ''pve-1'')]], tr_requisite = []\<rparr>,
     cr_source = None\<rparr>"

definition dirtyWorld :: "sim pworld" where
  "dirtyWorld = \<lparr>env = sampleState\<lparr>s_vms := [(''worker-1'', \<lparr>vm_node = ''pve-1'', vm_vmid = 101,
     vm_cfg = \<lparr>vc_scsis = [(''scsi0'', ''lvm:vm-101-disk-0''), (''scsi1'', ''lvm:vm-101-pvc-1,backup=0'')],
       vc_unuseds = [(''unused0'', ''lvm:vm-101-pvc-1'')], vc_uuid = ''u''\<rparr>\<rparr>)]\<rparr>, trace = []\<rparr>"

section \<open>Requests\<close>

lemma write_member:
  assumes "filter Q (map snd (sent m w)) = rs" "r \<in> set rs"
  shows "\<exists>e. (e, r) \<in> set (sent m w)"
  using assms by force





text \<open>C2: Creating a volume never overwrites a disk.  A disk is created, with the rounded size and under the
  requested name, or copied into, only in a state in which it is absent from its storage; nothing is
  deleted, unlinked or resized.\<close>

theorem CreateVolume_never_overwrites:
  assumes "pool_spec (d_pool d)" "pool_pure (d_pool d)"
    and "createCheck request = Inr plan" "GetProxmoxCluster (d_pool d) (cp_region plan) = Inr cl"
  shows "\<forall>x \<in> set (sent (CreateVolume d request) w).
    create_ok cl (requested (cp_region plan) (strOf (getField (cp_params plan) ''StorageID'')) (cr_name request)) (cp_size plan) x"
  using triple_sent [OF triple_CreateVolume [OF assms]] by simp

theorem CreateVolume_never_overwrites_witness:
  "\<exists>plan e. createCheck sampleCreate = Inr plan \<and> cp_size plan = 536870912 \<and>
     create_ok simClient (requested ''r'' ''lvm'' ''pvc-7'') 536870912
       (e, Px ''sim'' (RCreateDisk 9999 ''pve-1'' ''lvm'' ''vm-9999-pvc-7'' 536870912))"
proof -
  let ?m = "CreateVolume sampleController sampleCreate"
  have "(case createCheck sampleCreate of Inl e \<Rightarrow> False | Inr plan \<Rightarrow> cp_region plan = ''r'' \<and> cp_size plan = 536870912 \<and>
      strOf (getField (cp_params plan) ''StorageID'') = ''lvm'')" by code_simp
  then obtain plan where p: "createCheck sampleCreate = Inr plan" "cp_region plan = ''r''" "cp_size plan = 536870912"
    "strOf (getField (cp_params plan) ''StorageID'') = ''lvm''" by (auto split: sum.splits)
  have f: "filter is_write (map snd (sent ?m sampleWorld)) =
      [Px ''sim'' (RCreateDisk 9999 ''pve-1'' ''lvm'' ''vm-9999-pvc-7'' 536870912)]" by code_simp
  have "\<exists>e. (e, Px ''sim'' (RCreateDisk 9999 ''pve-1'' ''lvm'' ''vm-9999-pvc-7'' 536870912)) \<in> set (sent ?m sampleWorld)" by (rule write_member [OF f]) simp
  then obtain e where e: "(e, Px ''sim'' (RCreateDisk 9999 ''pve-1'' ''lvm'' ''vm-9999-pvc-7'' 536870912)) \<in> set (sent ?m sampleWorld)" ..
  have name: "cr_name sampleCreate = ''pvc-7''" by (simp add: sampleCreate_def)
  have "create_ok simClient (requested ''r'' ''lvm'' ''pvc-7'') 536870912
       (e, Px ''sim'' (RCreateDisk 9999 ''pve-1'' ''lvm'' ''vm-9999-pvc-7'' 536870912))"
    by (rule bspec [OF CreateVolume_never_overwrites [OF _ _ p(1), where cl = simClient, unfolded p name] e]) (simp_all add: p)
  with p show ?thesis by blast
qed



text \<open>C3: Publishing and unpublishing hold the lock of the node while they change the cluster.  In every run,
  whatever fails, the requests before the lock change nothing, the lock is taken at most once, and
  it is released at the very end.\<close>

theorem node_lock_discipline:
  assumes "pool_spec (d_pool d)" "ParseNodeID (pr_nodeId request) = Inr n"
  shows "disciplined (nid_node n) (map snd (sent (ControllerPublishVolume d request) w)) \<and>
         disciplined (nid_node n) (map snd (sent (ControllerUnpublishVolume d (pr_nodeId request) volumeId) w))"
  using locks_sent [OF locks_publish [OF assms]] locks_sent [OF locks_unpublish [OF assms]] by blast

theorem node_lock_discipline_witness:
  "\<exists>n. ParseNodeID (pr_nodeId samplePublish) = Inr n \<and> nid_node n = ''worker-1'' \<and>
     disciplined ''worker-1'' (map snd (sent (ControllerPublishVolume sampleController samplePublish) sampleWorld)) \<and>
     filter lock_req (map snd (sent (ControllerPublishVolume sampleController samplePublish) sampleWorld)) =
       [Lock ''worker-1'', Unlock ''worker-1'']"
proof -
  have "map_sum Error nid_node (ParseNodeID (pr_nodeId samplePublish)) = Inr ''worker-1''" by code_simp
  then obtain n where n: "ParseNodeID (pr_nodeId samplePublish) = Inr n" "nid_node n = ''worker-1''"
    by (auto simp: map_sum_def split: sum.splits)
  have f: "filter lock_req (map snd (sent (ControllerPublishVolume sampleController samplePublish) sampleWorld)) =
       [Lock ''worker-1'', Unlock ''worker-1'']" by code_simp
  have "pool_spec (d_pool sampleController)" by simp
  then have "disciplined ''worker-1'' (map snd (sent (ControllerPublishVolume sampleController samplePublish) sampleWorld))"
    using node_lock_discipline [OF _ n(1), unfolded n(2), THEN conjunct1] by blast
  with n f show ?thesis by (intro exI conjI)
qed


section \<open>Best-effort steps of publishing\<close>

lemma reassignVolume_value:
  "returns (\<lambda>v. v = vol \<or> (\<exists>w. fst (RenameVolume cl vol i w) = Inr v)) (reassignVolume d cl vol i)"
proof -
  have "returns (\<lambda>v. \<exists>w. fst (RenameVolume cl vol i w) = Inr v) (RenameVolume cl vol i)"
    unfolding returns_def by (metis fst_conv)
  then show ?thesis
    unfolding reassignVolume_def by (intro returns_if returns_call [where A = "\<lambda>v. \<exists>w. fst (RenameVolume cl vol i w) = Inr v"]
        returns_bindE_any returns_ret) auto
qed

lemma publishOptions_value:
  "returns (\<lambda>cfg. cfg = ToCFG ps \<or> (\<exists>vac. cfg = MergeMap vac (ToCFG ps))) (publishOptions d vol ps)"
  unfolding publishOptions_def
proof (intro returns_call_any returns_ret)
  fix x
  show "(case x of Some v \<Rightarrow> MergeMap v (ToCFG ps) | None \<Rightarrow> ToCFG ps) = ToCFG ps \<or>
      (\<exists>vac. (case x of Some v \<Rightarrow> MergeMap v (ToCFG ps) | None \<Rightarrow> ToCFG ps) = MergeMap vac (ToCFG ps))"
  proof (cases x)
    case (Some v)
    show ?thesis unfolding Some option.case by blast
  qed simp
qed simp



section \<open>Expanding\<close>

lemma emits_ControllerExpandVolume:
  assumes "pool_spec (d_pool d)" "\<And>n p. P (Px n (RGet p))"
    and "\<And>n i m dev. P (Px n (RResize i m dev (Itoa (quot (RoundUpSizeBytes required MinChunkSizeBytes) MiB) @ ''M'')))"
  shows "emits P (ControllerExpandVolume d volumeId (Some (required, limit)))"
  unfolding ControllerExpandVolume_def Let_def option.case prod.case
  by (rule emits_if emits_fail emits_cluster emits_call emits_bindE emits_lift emits_prod emits_ret emits_internal emits_invalid
      emits_checkVolume emits_GetVMByAttachedVolume emits_px assms pool_spec_cluster(1) [OF assms(1)] | assumption)+

lemma returns_ControllerExpandVolume:
  "returns (\<lambda>(sz, again). sz = RoundUpSizeBytes required MinChunkSizeBytes \<and> again \<and> (0 < limit \<longrightarrow> sz \<le> limit))
     (ControllerExpandVolume d volumeId (Some (required, limit)))"
  unfolding ControllerExpandVolume_def Let_def option.case prod.case
  by (auto intro!: returns_intros)

lemma round_chunk:
  assumes "0 < v" "v + MinChunkSizeBytes < 2 ^ 63"
  shows "\<exists>k. RoundUpSizeBytes v MinChunkSizeBytes = MiB * (512 * k) \<and> 0 < k \<and> quot (RoundUpSizeBytes v MinChunkSizeBytes) MiB = 512 * k \<and>
    v \<le> RoundUpSizeBytes v MinChunkSizeBytes \<and> RoundUpSizeBytes v MinChunkSizeBytes < v + MinChunkSizeBytes"
proof -
  have c: "0 < MinChunkSizeBytes" "MinChunkSizeBytes = MiB * 512" "0 < MiB" by (simp_all add: MinChunkSizeBytes_def MiB_def KiB_def)
  let ?k = "(v + MinChunkSizeBytes - 1) div MinChunkSizeBytes"
  have eq: "RoundUpSizeBytes v MinChunkSizeBytes = MiB * (512 * ?k)"
    using round_up_eq [OF assms(1) c(1) assms(2)] c(2) by (simp add: mult.assoc)
  have b: "v \<le> MinChunkSizeBytes * ?k" "MinChunkSizeBytes * ?k < v + MinChunkSizeBytes"
    using round_up_bounds [OF assms(1) c(1)] by auto
  have k: "0 < ?k" using b(1) assms(1) c(1) by (smt (verit) mult_nonneg_nonpos)
  have "quot (MiB * (512 * ?k)) MiB = 512 * ?k" using k c(3) by (subst quot_nonneg) auto
  moreover have e: "MinChunkSizeBytes * ?k = MiB * (512 * ?k)" using c(2) by (metis mult.assoc)
  ultimately show ?thesis using b k unfolding eq e by blast
qed

text \<open>C22: Expanding a volume.  The size is the requested one rounded up to whole chunks of 512 MiB, at least the
  requested one and less than a chunk above it, and not above the limit; the only change sent is a
  resize to exactly that size, which loses nothing by being written in mebibytes.\<close>

theorem ControllerExpandVolume_size:
  assumes "pool_spec (d_pool d)" "0 < required" "required + MinChunkSizeBytes < 2 ^ 63"
  shows "\<exists>mib. (\<forall>x \<in> set (sent (ControllerExpandVolume d volumeId (Some (required, limit))) w). is_write (snd x) \<longrightarrow>
            (\<exists>n i m dev. snd x = Px n (RResize i m dev (Itoa mib @ ''M'')))) \<and>
         (\<forall>sz again. fst (ControllerExpandVolume d volumeId (Some (required, limit)) w) = Inr (sz, again) \<longrightarrow>
            sz = MiB * mib \<and> again \<and> (0 < limit \<longrightarrow> sz \<le> limit)) \<and>
         512 dvd mib \<and> required \<le> MiB * mib \<and> MiB * mib < required + MinChunkSizeBytes"
proof -
  obtain k where k: "RoundUpSizeBytes required MinChunkSizeBytes = MiB * (512 * k)"
    "quot (RoundUpSizeBytes required MinChunkSizeBytes) MiB = 512 * k"
    "required \<le> RoundUpSizeBytes required MinChunkSizeBytes"
    "RoundUpSizeBytes required MinChunkSizeBytes < required + MinChunkSizeBytes"
    using round_chunk [OF assms(2,3)] by blast
  have "emits (\<lambda>r. is_write r \<longrightarrow> (\<exists>n i m dev. r = Px n (RResize i m dev (Itoa (512 * k) @ ''M''))))
      (ControllerExpandVolume d volumeId (Some (required, limit)))"
    by (rule emits_ControllerExpandVolume [OF assms(1)]) (auto simp: k(2))
  then have s: "\<forall>x \<in> set (sent (ControllerExpandVolume d volumeId (Some (required, limit))) w). is_write (snd x) \<longrightarrow>
      (\<exists>n i m dev. snd x = Px n (RResize i m dev (Itoa (512 * k) @ ''M'')))"
    using emits_sent by fast
  have r: "sz = MiB * (512 * k) \<and> again \<and> (0 < limit \<longrightarrow> sz \<le> limit)"
    if a: "fst (ControllerExpandVolume d volumeId (Some (required, limit)) w) = Inr (sz, again)" for sz again
  proof -
    obtain w' where "ControllerExpandVolume d volumeId (Some (required, limit)) w = (Inr (sz, again), w')"
      using a by (cases "ControllerExpandVolume d volumeId (Some (required, limit)) w") simp
    from returnsD [OF returns_ControllerExpandVolume this] show ?thesis using k(1) by auto
  qed
  show ?thesis using s r k by (intro exI [of _ "512 * k"]) auto
qed

theorem ControllerExpandVolume_size_witness:
  "\<exists>mib. fst (ControllerExpandVolume sampleController ''r/pve-1/lvm/vm-9999-pvc-1'' (Some (1500000000, 3000000000)) busyWorld) =
       Inr (1610612736, True) \<and> 1610612736 = MiB * mib \<and> 512 dvd mib"
proof -
  have r: "fst (ControllerExpandVolume sampleController ''r/pve-1/lvm/vm-9999-pvc-1'' (Some (1500000000, 3000000000)) busyWorld) =
       Inr (1610612736, True)" by code_simp
  have "pool_spec (d_pool sampleController)" "1500000000 + MinChunkSizeBytes < 2 ^ 63"
    by (simp_all add: MinChunkSizeBytes_def MiB_def KiB_def)
  from ControllerExpandVolume_size [OF this(1) _ this(2), of "''r/pve-1/lvm/vm-9999-pvc-1''" 3000000000 busyWorld] r
  show ?thesis by auto
qed

section \<open>Where the code departs from its contract\<close>

text \<open>The capability to get a volume is advertised, and the call it announces is not implemented.\<close>

lemma get_volume_advertised:
  "''GET_VOLUME'' \<in> set controllerCaps \<and> fst (ControllerGetVolume w) = Inl (Status Unimplemented [])"
  by (simp add: controllerCaps_def ControllerGetVolume_def fail_def)

text \<open>With reassignment, the snapshot of an attached volume names as its source the id under which the
  volume is attached, not the id of the request.\<close>

lemma CreateSnapshot_source_renamed:
  "map_sum Error sn_source (fst (CreateSnapshot sampleController ''r/pve-1/lvm/vm-9999-pvc-1'' ''pvc-1-snap'' [] sampleWorld)) =
     Inr ''r/pve-1/lvm/vm-101-pvc-1''"
  by code_simp

text \<open>Deleting a replicated volume a second time, when its VM and its disk are gone, fails.\<close>

lemma DeleteVolume_replicated_again:
  "map_sum Error (\<lambda>_. ()) (fst (DeleteVolume sampleController ''r/pve-1/lvm/vm-500-pvc-9'' sampleWorld)) =
     Inl (''rpc error: code = Internal desc = failed to delete replication: r/pve-1/lvm/vm-500-pvc-9, virtual machine not found'')"
  by code_simp

text \<open>A failed lookup of the replication VM, whatever the reason, creates another one.\<close>

lemma PrepareReplication_any_error:
  "filter is_write (map snd (sent (PrepareReplication (simClient\<lparr>c_GetVMByFilter := (\<lambda>f s w. (Inl (Plain ''timeout''), w))\<rparr>)
       ''pve-1'' ''pvc-1'' 9999) sampleWorld)) =
     [Px ''sim'' (RCreateVM ''pve-1'' (DefaultVMConfig @ [(''name'', JStr ''pvc-1''), (''vmid'', JInt 10000)]))]"
  by code_simp

end
