(* ===== verification/Cloud_Config.thy ===== *)
theory Cloud_Config
  imports Proxmox_Pool Sample_Cluster
begin

text \<open>
  The cloud configuration (\<^verbatim>\<open>pkg/config/config.go\<close>): reading it, the checks of each cluster entry and
  the defaults.  The YAML decoder is a parameter that turns the file's text into a configuration or an
  error.  Its cluster entries are pointers, so an entry may be nil; dereferencing one is the panic
  \<open>nilDereference\<close>.
\<close>

section \<open>Configuration\<close>

definition ProviderDefault :: string where "ProviderDefault = ''default''"

definition DefaultControllerVMID :: int where "DefaultControllerVMID = 9999"

definition MinControllerVMID :: int where "MinControllerVMID = 100"

record clusters_features =
  cf_Provider :: string
  cf_ControllerVMID :: int
  cf_ReassignVolumeOnAttach :: bool

record clusters_config =
  cc_Features :: clusters_features
  cc_Clusters :: "proxmox_cluster option list"

definition emptyConfig :: clusters_config where
  "emptyConfig = \<lparr>cc_Features = \<lparr>cf_Provider = [], cf_ControllerVMID = 0, cf_ReassignVolumeOnAttach = False\<rparr>,
     cc_Clusters = []\<rparr>"

definition hasRef :: "proxmox_cluster \<Rightarrow> bool" where
  "hasRef c \<longleftrightarrow> (case pc_TokenRef c of None \<Rightarrow> False | Some ref \<Rightarrow> tr_name ref \<noteq> [])"

definition clusterError :: "int \<Rightarrow> sentinel \<Rightarrow> string \<Rightarrow> goerr" where
  "clusterError idx s m = Wrap (''cluster #'' @ Itoa (idx + 1) @ '': '' @ m) (Sentinel s m)"

definition validateCluster :: "int \<Rightarrow> proxmox_cluster option \<Rightarrow> goerr + unit" where
  "validateCluster idx cluster =
     (case cluster of
        None \<Rightarrow> Inl nilDereference
      | Some c \<Rightarrow>
          let hasTokenIDInline = pc_TokenID c \<noteq> [];
              hasTokenIDFile = pc_TokenIDFile c \<noteq> [];
              hasTokenSecretInline = pc_TokenSecret c \<noteq> [];
              hasTokenSecretFile = pc_TokenSecretFile c \<noteq> [];
              hasTokenRef = hasRef c;
              multiple = clusterError idx ErrInvalidAuthCredentials
                ''must specify one of user, token or file credentials, not multiple'';
              hasTokenID = hasTokenIDInline \<or> hasTokenIDFile \<or> hasTokenRef;
              hasTokenSecret = hasTokenSecretInline \<or> hasTokenSecretFile \<or> hasTokenRef;
              hasUserAuth = pc_Username c \<noteq> [] \<and> pc_Password c \<noteq> []
          in if hasTokenIDInline \<and> hasTokenIDFile \<or> hasTokenSecretInline \<and> hasTokenSecretFile then Inl multiple
             else if hasTokenRef \<and> (hasTokenIDInline \<or> hasTokenIDFile \<or> hasTokenSecretInline \<or> hasTokenSecretFile)
             then Inl multiple
             else if hasTokenID \<and> hasUserAuth \<or> hasTokenSecret \<and> hasUserAuth then Inl multiple
             else if \<not> (hasTokenID \<and> hasTokenSecret) \<and> \<not> hasUserAuth
             then Inl (clusterError idx ErrAuthCredentialsMissing ''user, token or file credentials are required'')
             else if pc_Region c = []
             then Inl (clusterError idx ErrMissingPVERegion ''missing PVE region in cloud config'')
             else if pc_URL c = [] \<or> \<not> HasPrefix (pc_URL c) ''http''
             then Inl (clusterError idx ErrMissingPVEAPIURL ''missing PVE API URL in cloud config'')
             else Inr ())"

fun validateClusters :: "int \<Rightarrow> proxmox_cluster option list \<Rightarrow> goerr + unit" where
  "validateClusters idx [] = Inr ()"
| "validateClusters idx (c # cs) =
     (case validateCluster idx c of Inl e \<Rightarrow> Inl e | Inr _ \<Rightarrow> validateClusters (idx + 1) cs)"

text \<open>The defaults and the last check; the warning about \<^verbatim>\<open>reassignVolumeOnAttach\<close> is only logged.\<close>

definition finishConfig :: "clusters_config \<Rightarrow> goerr + clusters_config" where
  "finishConfig cfg =
     (let f = cc_Features cfg;
          f = (if cf_Provider f = [] then f\<lparr>cf_Provider := ProviderDefault\<rparr> else f);
          f = (if cf_ControllerVMID f = 0 then f\<lparr>cf_ControllerVMID := DefaultControllerVMID\<rparr> else f)
      in if cf_ControllerVMID f \<le> MinControllerVMID
         then Inl (Plain (''invalid VM ID, must be greater than '' @ Itoa MinControllerVMID))
         else Inr (cfg\<lparr>cc_Features := f\<rparr>))"

definition ReadCloudConfig :: "(string \<Rightarrow> goerr + clusters_config) \<Rightarrow> string option \<Rightarrow> goerr + clusters_config" where
  "ReadCloudConfig decode config =
     (case (case config of None \<Rightarrow> Inr emptyConfig | Some text \<Rightarrow> decode text) of
        Inl e \<Rightarrow> Inl (Wrap (''invalid cloud config'' @ [CHR 10] @ Error e)
                       (Sentinel ErrInvalidCloudConfig ''invalid cloud config''))
      | Inr cfg \<Rightarrow>
          (case validateClusters 0 (cc_Clusters cfg) of
             Inl e \<Rightarrow> Inl e
           | Inr _ \<Rightarrow> finishConfig cfg))"

definition hasProxmodEndpoint :: "proxmox_cluster list \<Rightarrow> bool" where
  "hasProxmodEndpoint clusters \<longleftrightarrow> (\<exists>c \<in> set clusters. pc_ProxmodEndpoint c = Some True)"

definition ReadCloudConfigFromFile :: "(string \<Rightarrow> goerr + string) \<Rightarrow> (string \<Rightarrow> goerr + clusters_config) \<Rightarrow>
    string \<Rightarrow> goerr + clusters_config" where
  "ReadCloudConfigFromFile readFile decode file =
     (case readFile file of
        Inl e \<Rightarrow> Inl (Plain (''error reading '' @ file @ '': '' @ Error e))
      | Inr text \<Rightarrow> ReadCloudConfig decode (Some text))"

section \<open>What an accepted configuration satisfies\<close>

text \<open>An entry has exactly one source of credentials: a token (each half inline or in a file, not
  both), a token reference, or a user with a password.\<close>

definition inlineToken :: "proxmox_cluster \<Rightarrow> bool" where
  "inlineToken c \<longleftrightarrow> ((pc_TokenID c \<noteq> []) \<noteq> (pc_TokenIDFile c \<noteq> [])) \<and> ((pc_TokenSecret c \<noteq> []) \<noteq> (pc_TokenSecretFile c \<noteq> []))"

definition noToken :: "proxmox_cluster \<Rightarrow> bool" where
  "noToken c \<longleftrightarrow> pc_TokenID c = [] \<and> pc_TokenIDFile c = [] \<and> pc_TokenSecret c = [] \<and> pc_TokenSecretFile c = []"

definition userAuth :: "proxmox_cluster \<Rightarrow> bool" where
  "userAuth c \<longleftrightarrow> pc_Username c \<noteq> [] \<and> pc_Password c \<noteq> []"

definition wf_cluster :: "proxmox_cluster \<Rightarrow> bool" where
  "wf_cluster c \<longleftrightarrow> pc_Region c \<noteq> [] \<and> HasPrefix (pc_URL c) ''http'' \<and>
     (inlineToken c \<and> \<not> hasRef c \<and> \<not> userAuth c \<or>
      noToken c \<and> hasRef c \<and> \<not> userAuth c \<or>
      noToken c \<and> \<not> hasRef c \<and> userAuth c)"

lemma HasPrefix_Nil [simp]: "\<not> HasPrefix [] ''http''"
  by (simp add: HasPrefix_def)

lemma validateCluster_iff: "validateCluster idx cluster = Inr () \<longleftrightarrow> (\<exists>c. cluster = Some c \<and> wf_cluster c)"
proof (cases cluster)
  case (Some c)
  show ?thesis unfolding Some
    by (cases "pc_TokenID c = []"; cases "pc_TokenIDFile c = []"; cases "pc_TokenSecret c = []";
        cases "pc_TokenSecretFile c = []"; cases "hasRef c"; cases "pc_Username c = []"; cases "pc_Password c = []")
      (auto simp: validateCluster_def Let_def wf_cluster_def inlineToken_def noToken_def userAuth_def)
qed (simp add: validateCluster_def)

lemma validateClusters_iff:
  "validateClusters idx cs = Inr () \<longleftrightarrow> (\<forall>x \<in> set cs. \<exists>c. x = Some c \<and> wf_cluster c)"
proof (induction cs arbitrary: idx)
  case (Cons c cs)
  show ?case
    using Cons validateCluster_iff [of idx c] by (auto split: sum.split)
qed simp

lemma finishConfig_Inr:
  "finishConfig cfg = Inr cfg' \<longleftrightarrow>
     cc_Clusters cfg' = cc_Clusters cfg \<and>
     cf_Provider (cc_Features cfg') = orDefault (cf_Provider (cc_Features cfg)) ProviderDefault \<and>
     cf_ReassignVolumeOnAttach (cc_Features cfg') = cf_ReassignVolumeOnAttach (cc_Features cfg) \<and>
     cf_ControllerVMID (cc_Features cfg') = (if cf_ControllerVMID (cc_Features cfg) = 0 then 9999 else cf_ControllerVMID (cc_Features cfg)) \<and>
     100 < cf_ControllerVMID (cc_Features cfg')"
  by (cases cfg; cases cfg'; cases "cc_Features cfg"; cases "cc_Features cfg'")
    (auto simp: finishConfig_def Let_def orDefault_def MinControllerVMID_def DefaultControllerVMID_def split: if_splits)

section \<open>Properties\<close>

text \<open>C39: A configuration is accepted exactly when it can be decoded, every cluster entry is present and has a
  region, an HTTP URL and exactly one source of credentials, and the controller's VM id, 9999 unless given, is
  greater than 100; the accepted configuration is the decoded one with the provider and the VM id defaulted.\<close>

theorem ReadCloudConfig_accepts:
  "ReadCloudConfig decode (Some text) = Inr cfg \<longleftrightarrow>
     (\<exists>raw. decode text = Inr raw \<and>
        (\<forall>x \<in> set (cc_Clusters raw). \<exists>c. x = Some c \<and> wf_cluster c) \<and>
        cc_Clusters cfg = cc_Clusters raw \<and>
        cf_Provider (cc_Features cfg) = orDefault (cf_Provider (cc_Features raw)) ProviderDefault \<and>
        cf_ReassignVolumeOnAttach (cc_Features cfg) = cf_ReassignVolumeOnAttach (cc_Features raw) \<and>
        cf_ControllerVMID (cc_Features cfg) = (if cf_ControllerVMID (cc_Features raw) = 0 then 9999 else cf_ControllerVMID (cc_Features raw)) \<and>
        100 < cf_ControllerVMID (cc_Features cfg))"
proof (cases "decode text")
  case (Inr raw)
  have "validateClusters 0 (cc_Clusters raw) = Inr () \<or> (\<exists>e. validateClusters 0 (cc_Clusters raw) = Inl e)"
    by (cases "validateClusters 0 (cc_Clusters raw)") auto
  then show ?thesis
    using Inr validateClusters_iff [of 0 "cc_Clusters raw"]
    by (auto simp: ReadCloudConfig_def finishConfig_Inr)
qed (simp add: ReadCloudConfig_def)

definition sampleCluster :: proxmox_cluster where
  "sampleCluster = \<lparr>pc_URL = ''https://pve.example.com:8006/api2/json'', pc_Insecure = False,
     pc_TokenID = ''csi@pve!csi'', pc_TokenIDFile = [], pc_TokenSecret = [], pc_TokenSecretFile = ''/run/secrets/token'',
     pc_TokenRef = None, pc_Username = [], pc_Password = [], pc_Region = ''region-1'',
     pc_TokenCopyEndpoint = Some True, pc_ProxmodEndpoint = None, pc_PrimaryStorage = []\<rparr>"

definition sampleConfig :: clusters_config where
  "sampleConfig = emptyConfig\<lparr>cc_Clusters := [Some sampleCluster]\<rparr>"

theorem ReadCloudConfig_accepts_witness:
  "ReadCloudConfig (\<lambda>_. Inr sampleConfig) (Some ''clusters: ...'') =
     Inr (sampleConfig\<lparr>cc_Features := \<lparr>cf_Provider = ''default'', cf_ControllerVMID = 9999, cf_ReassignVolumeOnAttach = False\<rparr>\<rparr>)"
  by (subst ReadCloudConfig_accepts)
    (simp add: sampleConfig_def emptyConfig_def sampleCluster_def wf_cluster_def inlineToken_def hasRef_def
      userAuth_def HasPrefix_def orDefault_def ProviderDefault_def)

text \<open>The pool built from clusters with distinct regions answers every question about copy endpoints as
  the clusters' own entries do: the endpoint chosen for a region is the one its entry chooses, and the
  configuration check for a proxmod endpoint agrees with asking the pool about its regions.\<close>

theorem pool_endpoints_agree:
  assumes "NewProxmoxPool readFile newClient clusters = Inr p" "distinct (map pc_Region clusters)"
  shows "(\<forall>c \<in> set clusters. CopyEndpoint p (pc_Region c) f g = ClusterCopyEndpoint c f g) \<and>
     (hasProxmodEndpoint clusters \<longleftrightarrow> (\<exists>r \<in> set (GetRegions p). ProxmodEndpoint p r False))"
proof -
  have l: "poolLoop readFile newClient clusters emptyPool = Inr p"
    using assms(1) by (simp add: NewProxmoxPool_def split: if_splits)
  note e = poolLoop_endpoints(1) [OF l assms(2)]
  have r: "r \<in> set (GetRegions p) \<longleftrightarrow> r \<in> pc_Region ` set clusters" for r
    using poolLoop_client [OF l, of r] by (auto simp: GetRegions_def emptyPool_def map_of_eq_None_iff)
  have pm: "ProxmodEndpoint p (pc_Region c) False \<longleftrightarrow> pc_ProxmodEndpoint c = Some True" if "c \<in> set clusters" for c
    using e [OF that] by (auto simp: ProxmodEndpoint_def resolveEndpointOverride_def split: option.split)
  show ?thesis
  proof
    show "\<forall>c \<in> set clusters. CopyEndpoint p (pc_Region c) f g = ClusterCopyEndpoint c f g"
      using e by (simp add: CopyEndpoint_def ClusterCopyEndpoint_def)
    show "hasProxmodEndpoint clusters \<longleftrightarrow> (\<exists>r \<in> set (GetRegions p). ProxmodEndpoint p r False)"
      unfolding hasProxmodEndpoint_def r Bex_def by (metis image_iff pm)
  qed
qed

theorem pool_endpoints_agree_witness:
  "\<exists>p. NewProxmoxPool (\<lambda>_. Inr ''secret'') (\<lambda>_ _ _. Inr simClient) [sampleCluster] = Inr p \<and>
     CopyEndpoint p ''region-1'' False False = CopyEndpointCSICopy"
proof -
  obtain p where p: "NewProxmoxPool (\<lambda>_. Inr ''secret'') (\<lambda>_ _ _. Inr simClient) [sampleCluster] = Inr p"
    by (simp add: NewProxmoxPool_def sampleCluster_def tokenValue_def readValueFromFile_def)
  then have "CopyEndpoint p (pc_Region sampleCluster) False False = ClusterCopyEndpoint sampleCluster False False"
    using pool_endpoints_agree [OF p] by simp
  then show ?thesis
    using p by (simp add: ClusterCopyEndpoint_def resolveCopyEndpoint_def resolveEndpointOverride_def sampleCluster_def)
qed

end
