(* ===== verification/Vm_Locks.thy ===== *)
theory Vm_Locks
  imports Go_Effects
begin

text \<open>
  The two keyed mutexes that serialise work on one VM: \<^verbatim>\<open>VMLock\<close> of the operator
  (\<^verbatim>\<open>pkg/operator/proxmox/vmlock.go\<close>) and \<^verbatim>\<open>VMLocks\<close> of the CSI controller
  (\<^verbatim>\<open>pkg/csi/helper.go\<close>).  Any number of threads lock and unlock keys in any interleaving.  A thread takes two
  steps to lock a key, one that finds or allocates the key's mutex and one that acquires it, and two to
  unlock it; each is atomic because the table is guarded by its own mutex or is a \<^verbatim>\<open>sync.Map\<close>.
  Unlocking a mutex that is not locked is a fatal error of the runtime.
\<close>

section \<open>Tables of mutexes\<close>

text \<open>A mutex is known by its address; \<open>lt_next\<close> is the next address the allocator hands out.\<close>

record lock_table =
  lt_locks :: "(string \<times> nat) list"
  lt_next :: nat

definition NewVMLock :: lock_table where
  "NewVMLock = \<lparr>lt_locks = [], lt_next = 0\<rparr>"

definition lockKey :: "string \<Rightarrow> int \<Rightarrow> string" where
  "lockKey region vmid = region @ ''/'' @ Itoa vmid"

definition lockGet :: "lock_table \<Rightarrow> string \<Rightarrow> nat \<times> lock_table" where
  "lockGet l k =
     (case map_of (lt_locks l) k of
        Some m \<Rightarrow> (m, l)
      | None \<Rightarrow> (lt_next l, l\<lparr>lt_locks := (k, lt_next l) # lt_locks l, lt_next := Suc (lt_next l)\<rparr>))"

text \<open>\<^verbatim>\<open>l.get(key).Unlock()\<close> looks the mutex up with the same function.\<close>

definition lockGetU :: "lock_table \<Rightarrow> string \<Rightarrow> nat option \<times> lock_table" where
  "lockGetU l k = (let (m, l') = lockGet l k in (Some m, l'))"

text \<open>The controller's table: \<^verbatim>\<open>LoadOrStore\<close> is handed a new mutex whether or not it is stored, and
  \<^verbatim>\<open>Unlock\<close> does nothing for a name that was never locked.\<close>

definition LoadOrStore :: "lock_table \<Rightarrow> string \<Rightarrow> nat \<times> lock_table" where
  "LoadOrStore l k =
     (let fresh = lt_next l; l' = l\<lparr>lt_next := Suc fresh\<rparr>
      in case map_of (lt_locks l) k of
           Some m \<Rightarrow> (m, l')
         | None \<Rightarrow> (fresh, l'\<lparr>lt_locks := (k, fresh) # lt_locks l\<rparr>))"

definition Load :: "lock_table \<Rightarrow> string \<Rightarrow> nat option \<times> lock_table" where
  "Load l k = (map_of (lt_locks l) k, l)"

section \<open>Threads\<close>

datatype pc = Idle | Waiting string nat | Holding string nat | Releasing string nat

record 'l lock_system =
  s_table :: 'l
  s_locked :: "nat set"
  s_pc :: "nat \<Rightarrow> pc"
  s_fatal :: bool

inductive kstep :: "('l \<Rightarrow> string \<Rightarrow> nat \<times> 'l) \<Rightarrow> ('l \<Rightarrow> string \<Rightarrow> nat option \<times> 'l) \<Rightarrow>
    'l lock_system \<Rightarrow> 'l lock_system \<Rightarrow> bool" for lget uget where
  find: "s_pc s t = Idle \<Longrightarrow> lget (s_table s) k = (m, l) \<Longrightarrow>
     kstep lget uget s (s\<lparr>s_table := l, s_pc := (s_pc s)(t := Waiting k m)\<rparr>)"
| acquire: "s_pc s t = Waiting k m \<Longrightarrow> m \<notin> s_locked s \<Longrightarrow>
     kstep lget uget s (s\<lparr>s_locked := insert m (s_locked s), s_pc := (s_pc s)(t := Holding k m)\<rparr>)"
| findU: "s_pc s t = Holding k m \<Longrightarrow> uget (s_table s) k = (Some m', l) \<Longrightarrow>
     kstep lget uget s (s\<lparr>s_table := l, s_pc := (s_pc s)(t := Releasing k m')\<rparr>)"
| skipU: "s_pc s t = Holding k m \<Longrightarrow> uget (s_table s) k = (None, l) \<Longrightarrow>
     kstep lget uget s (s\<lparr>s_table := l, s_pc := (s_pc s)(t := Idle)\<rparr>)"
| release: "s_pc s t = Releasing k m \<Longrightarrow> m \<in> s_locked s \<Longrightarrow>
     kstep lget uget s (s\<lparr>s_locked := s_locked s - {m}, s_pc := (s_pc s)(t := Idle)\<rparr>)"
| fatal: "s_pc s t = Releasing k m \<Longrightarrow> m \<notin> s_locked s \<Longrightarrow> kstep lget uget s (s\<lparr>s_fatal := True\<rparr>)"

definition startOf :: "'l \<Rightarrow> 'l lock_system" where
  "startOf l = \<lparr>s_table = l, s_locked = {}, s_pc = (\<lambda>_. Idle), s_fatal = False\<rparr>"

abbreviation reach :: "('l \<Rightarrow> string \<Rightarrow> nat \<times> 'l) \<Rightarrow> ('l \<Rightarrow> string \<Rightarrow> nat option \<times> 'l) \<Rightarrow> 'l \<Rightarrow> 'l lock_system \<Rightarrow> bool" where
  "reach lget uget l s \<equiv> (kstep lget uget)\<^sup>*\<^sup>* (startOf l) s"

section \<open>What a keyed mutex promises\<close>

text \<open>The abstract lock is the set of the pairs of a key and the thread that holds it: a step takes a key nobody
  holds, gives a held key back, or changes nothing.\<close>

definition owns :: "'l lock_system \<Rightarrow> (string \<times> nat) set" where
  "owns s = {(k, t). \<exists>m. s_pc s t = Holding k m \<or> s_pc s t = Releasing k m}"

definition astep :: "(string \<times> nat) set \<Rightarrow> (string \<times> nat) set \<Rightarrow> bool" where
  "astep A B \<longleftrightarrow> B = A \<or> (\<exists>k t. (\<forall>t'. (k, t') \<notin> A) \<and> B = insert (k, t) A) \<or> (\<exists>k t. (k, t) \<in> A \<and> B = A - {(k, t)})"

fun using_mutex :: "pc \<Rightarrow> string \<Rightarrow> nat \<Rightarrow> bool" where
  "using_mutex Idle k m \<longleftrightarrow> False"
| "using_mutex (Waiting k' m') k m \<longleftrightarrow> k' = k \<and> m' = m"
| "using_mutex (Holding k' m') k m \<longleftrightarrow> k' = k \<and> m' = m"
| "using_mutex (Releasing k' m') k m \<longleftrightarrow> k' = k \<and> m' = m"

fun holds_mutex :: "pc \<Rightarrow> string \<Rightarrow> nat \<Rightarrow> bool" where
  "holds_mutex Idle k m \<longleftrightarrow> False"
| "holds_mutex (Waiting k' m') k m \<longleftrightarrow> False"
| "holds_mutex (Holding k' m') k m \<longleftrightarrow> k' = k \<and> m' = m"
| "holds_mutex (Releasing k' m') k m \<longleftrightarrow> k' = k \<and> m' = m"

lemma holds_using: "holds_mutex p k m \<Longrightarrow> using_mutex p k m"
  by (cases p) auto

text \<open>What the threads rely on of a table: a key keeps the mutex it was first given, another key never shares it,
  and unlocking finds the mutex that locking found.\<close>

locale mutex_table =
  fixes inv :: "'l \<Rightarrow> bool" and look :: "'l \<Rightarrow> string \<Rightarrow> nat option"
    and lget :: "'l \<Rightarrow> string \<Rightarrow> nat \<times> 'l" and uget :: "'l \<Rightarrow> string \<Rightarrow> nat option \<times> 'l"
    and start :: 'l
  assumes start: "inv start"
    and inv_lget: "inv l \<Longrightarrow> lget l k = (m, l') \<Longrightarrow> inv l'"
    and look_lget: "inv l \<Longrightarrow> lget l k = (m, l') \<Longrightarrow> look l' k = Some m"
    and keep_lget: "inv l \<Longrightarrow> lget l k = (m, l') \<Longrightarrow> look l k' = Some n \<Longrightarrow> look l' k' = Some n"
    and uget: "inv l \<Longrightarrow> look l k = Some m \<Longrightarrow> uget l k = (Some m, l)"
    and inj: "inv l \<Longrightarrow> look l k = Some m \<Longrightarrow> look l k' = Some m \<Longrightarrow> k = k'"
begin

definition good :: "'l lock_system \<Rightarrow> bool" where
  "good s \<longleftrightarrow> inv (s_table s) \<and> \<not> s_fatal s \<and>
     (\<forall>t k m. using_mutex (s_pc s t) k m \<longrightarrow> look (s_table s) k = Some m) \<and>
     (\<forall>t k m. holds_mutex (s_pc s t) k m \<longrightarrow> m \<in> s_locked s) \<and>
     (\<forall>t k m t' k'. holds_mutex (s_pc s t) k m \<longrightarrow> holds_mutex (s_pc s t') k' m \<longrightarrow> t = t') \<and>
     (\<forall>m \<in> s_locked s. \<exists>t k. holds_mutex (s_pc s t) k m)"

lemma good_start: "good (startOf start)"
  using start by (simp add: good_def startOf_def)

lemma good_look: "good s \<Longrightarrow> using_mutex (s_pc s t) k m \<Longrightarrow> look (s_table s) k = Some m"
  unfolding good_def by blast

lemma good_inv: "good s \<Longrightarrow> inv (s_table s)"
  unfolding good_def by blast

lemma good_find:
  assumes "good s" "s_pc s t = Idle" "lget (s_table s) k = (m, l)"
  shows "good (s\<lparr>s_table := l, s_pc := (s_pc s)(t := Waiting k m)\<rparr>)"
proof -
  have i: "inv (s_table s)" using assms(1) by (simp add: good_def)
  have "\<exists>t' k'. holds_mutex (((s_pc s)(t := Waiting k m)) t') k' n" if n: "n \<in> s_locked s" for n
  proof -
    obtain t' k' where "holds_mutex (s_pc s t') k' n" using assms(1) n unfolding good_def by blast
    moreover from this have "t' \<noteq> t" using assms(2) by auto
    ultimately show ?thesis by (metis fun_upd_other)
  qed
  then show ?thesis
    using assms inv_lget [OF i assms(3)] look_lget [OF i assms(3)] keep_lget [OF i assms(3)]
    unfolding good_def by auto
qed

lemma good_acquire:
  assumes "good s" "s_pc s t = Waiting k m" "m \<notin> s_locked s"
  shows "good (s\<lparr>s_locked := insert m (s_locked s), s_pc := (s_pc s)(t := Holding k m)\<rparr>)"
proof -
  have l: "look (s_table s) k = Some m" using good_look [OF assms(1), of t] assms(2) by simp
  have free: "\<not> holds_mutex (s_pc s t') k' m" for t' k' using assms(1,3) unfolding good_def by blast
  have "\<exists>t' k'. holds_mutex (((s_pc s)(t := Holding k m)) t') k' n" if n: "n \<in> insert m (s_locked s)" for n
  proof (cases "n = m")
    case False
    then obtain t' k' where "holds_mutex (s_pc s t') k' n" using assms(1) n unfolding good_def by blast
    moreover from this have "t' \<noteq> t" using assms(2) by auto
    ultimately show ?thesis by (metis fun_upd_other)
  qed (auto intro!: exI [of _ t] exI [of _ k])
  then show ?thesis using assms l free unfolding good_def by auto
qed

lemma good_findU:
  assumes "good s" "s_pc s t = Holding k m" "uget (s_table s) k = (r, l)"
  shows "r = Some m" "l = s_table s"
    "good (s\<lparr>s_table := l, s_pc := (s_pc s)(t := Releasing k m)\<rparr>)"
proof -
  have "look (s_table s) k = Some m" "inv (s_table s)"
    using good_look [OF assms(1), of t] good_inv [OF assms(1)] assms(2) by simp_all
  then show rl: "r = Some m" "l = s_table s" using uget assms(3) by auto
  have same: "holds_mutex (((s_pc s)(t := Releasing k m)) t') k' n \<longleftrightarrow> holds_mutex (s_pc s t') k' n"
    "using_mutex (((s_pc s)(t := Releasing k m)) t') k' n \<longleftrightarrow> using_mutex (s_pc s t') k' n" for t' k' n
    using assms(2) by auto
  show "good (s\<lparr>s_table := l, s_pc := (s_pc s)(t := Releasing k m)\<rparr>)"
    using assms(1) by (simp add: good_def rl same del: fun_upd_apply)
qed

lemma good_release:
  assumes "good s" "s_pc s t = Releasing k m"
  shows "good (s\<lparr>s_locked := s_locked s - {m}, s_pc := (s_pc s)(t := Idle)\<rparr>)"
proof -
  have h: "holds_mutex (s_pc s t) k m" using assms(2) by simp
  have other: "n \<noteq> m" if "holds_mutex (s_pc s t') k' n" "t' \<noteq> t" for t' k' n
    using assms(1) h that unfolding good_def by blast
  have "\<exists>t' k'. holds_mutex (((s_pc s)(t := Idle)) t') k' n" if n: "n \<in> s_locked s - {m}" for n
  proof -
    obtain t' k' where p: "holds_mutex (s_pc s t') k' n" using assms(1) n unfolding good_def by blast
    then have "t' \<noteq> t" using assms(2) n by auto
    then show ?thesis using p by (metis fun_upd_other)
  qed
  then show ?thesis using assms(1) other unfolding good_def by auto
qed

lemma good_step:
  assumes "kstep lget uget s s'" "good s"
  shows "good s'" "astep (owns s) (owns s')"
  using assms
proof (induction rule: kstep.induct)
  case (find s t k m l)
  {
    case 1
    show ?case using 1 find by (rule good_find)
  next
    case 2
    have "owns (s\<lparr>s_table := l, s_pc := (s_pc s)(t := Waiting k m)\<rparr>) = owns s"
      using find by (auto simp: owns_def)
    then show ?case by (simp add: astep_def)
  }
next
  case (acquire s t k m)
  {
    case 1
    show ?case using 1 acquire by (rule good_acquire)
  next
    case 2
    have l: "look (s_table s) k = Some m" using good_look [OF 2, of t] acquire by simp
    have "(k, t') \<notin> owns s" for t'
    proof
      assume "(k, t') \<in> owns s"
      then obtain n where n: "holds_mutex (s_pc s t') k n" by (auto simp: owns_def)
      then have "n = m" using good_look [OF 2 holds_using] l by fastforce
      then show False using n 2 acquire unfolding good_def by blast
    qed
    moreover have "owns (s\<lparr>s_locked := insert m (s_locked s), s_pc := (s_pc s)(t := Holding k m)\<rparr>) = insert (k, t) (owns s)"
      using acquire by (auto simp: owns_def)
    ultimately show ?case unfolding astep_def by blast
  }
next
  case (findU s t k m m' l)
  {
    case 1
    then show ?case using good_findU [OF 1 findU] by simp
  next
    case 2
    have "owns (s\<lparr>s_table := l, s_pc := (s_pc s)(t := Releasing k m')\<rparr>) = owns s"
      using findU by (auto simp: owns_def)
    then show ?case by (simp add: astep_def)
  }
next
  case (skipU s t k m l)
  {
    case 1
    show ?case using good_findU(1) [OF 1 skipU] by simp
  next
    case 2
    show ?case using good_findU(1) [OF 2 skipU] by simp
  }
next
  case (release s t k m)
  {
    case 1
    show ?case using 1 release(1) by (rule good_release)
  next
    case 2
    have "owns (s\<lparr>s_locked := s_locked s - {m}, s_pc := (s_pc s)(t := Idle)\<rparr>) = owns s - {(k, t)}" "(k, t) \<in> owns s"
      using release by (auto simp: owns_def)
    then show ?case unfolding astep_def by blast
  }
next
  case (fatal s t k m)
  then have False if "good s"
    using that unfolding good_def by (metis holds_mutex.simps(4))
  then show "good s \<Longrightarrow> good (s\<lparr>s_fatal := True\<rparr>)" "good s \<Longrightarrow> astep (owns s) (owns (s\<lparr>s_fatal := True\<rparr>))" by blast+
qed

lemma good_reach: "reach lget uget start s \<Longrightarrow> good s"
  by (induction rule: rtranclp_induct) (auto intro: good_start good_step(1))

lemma exclusive:
  assumes "reach lget uget start s" "(k, t) \<in> owns s" "(k, t') \<in> owns s"
  shows "t = t'"
proof -
  have g: "good s" using assms(1) by (rule good_reach)
  obtain m m' where h: "holds_mutex (s_pc s t) k m" "holds_mutex (s_pc s t') k m'"
    using assms(2,3) by (auto simp: owns_def)
  then have "look (s_table s) k = Some m" "look (s_table s) k = Some m'"
    using g holds_using unfolding good_def by blast+
  then show ?thesis using g h unfolding good_def by simp blast
qed

lemma refines: "reach lget uget start s \<Longrightarrow> kstep lget uget s s' \<Longrightarrow> astep (owns s) (owns s')"
  using good_reach good_step(2) by blast

lemma no_fatal: "reach lget uget start s \<Longrightarrow> \<not> s_fatal s"
  using good_reach unfolding good_def by blast

text \<open>A thread waiting for a key nobody holds can take it.\<close>

lemma progress:
  assumes "reach lget uget start s" "s_pc s t = Waiting k m" "\<And>t'. (k, t') \<notin> owns s"
  shows "\<exists>s'. kstep lget uget s s' \<and> (k, t) \<in> owns s'"
proof -
  have g: "good s" using assms(1) by (rule good_reach)
  have l: "look (s_table s) k = Some m" using good_look [OF g, of t] assms(2) by simp
  have "m \<notin> s_locked s"
  proof
    assume "m \<in> s_locked s"
    then obtain t' k' where h: "holds_mutex (s_pc s t') k' m" using g unfolding good_def by blast
    then have "look (s_table s) k' = Some m" using g holds_using unfolding good_def by blast
    then have "k' = k" using g l inj unfolding good_def by blast
    then show False using h assms(3) [of t'] by (cases "s_pc s t'") (auto simp: owns_def)
  qed
  then show ?thesis
    using kstep.acquire [OF assms(2)] by (fastforce simp: owns_def)
qed

end

section \<open>The two tables keep the promise\<close>

definition lookOf :: "lock_table \<Rightarrow> string \<Rightarrow> nat option" where
  "lookOf l = map_of (lt_locks l)"

definition wf_table :: "lock_table \<Rightarrow> bool" where
  "wf_table l \<longleftrightarrow> distinct (map snd (lt_locks l)) \<and> (\<forall>m \<in> snd ` set (lt_locks l). m < lt_next l)"

lemma wf_table_inj:
  assumes "wf_table l" "lookOf l k = Some m" "lookOf l k' = Some m"
  shows "k = k'"
  using assms by (force simp: wf_table_def lookOf_def distinct_map inj_on_def dest!: map_of_SomeD)

lemma wf_table_fresh:
  "wf_table l \<Longrightarrow> wf_table (l\<lparr>lt_locks := (k, lt_next l) # lt_locks l, lt_next := Suc (lt_next l)\<rparr>)"
  by (force simp: wf_table_def less_Suc_eq)

interpretation operator_lock: mutex_table wf_table lookOf lockGet lockGetU NewVMLock
proof
  show "wf_table NewVMLock" by (simp add: wf_table_def NewVMLock_def)
  show "wf_table l'" if "wf_table l" "lockGet l k = (m, l')" for l k m l'
    using that wf_table_fresh by (auto simp: lockGet_def split: option.splits)
  show "lookOf l' k = Some m" if "lockGet l k = (m, l')" for l k m l'
    using that by (auto simp: lockGet_def lookOf_def split: option.splits)
  show "lookOf l' k' = Some n" if "lockGet l k = (m, l')" "lookOf l k' = Some n" for l k m l' k' n
    using that by (auto simp: lockGet_def lookOf_def split: option.splits)
  show "lockGetU l k = (Some m, l)" if "lookOf l k = Some m" for l k m
    using that by (simp add: lockGetU_def lockGet_def lookOf_def)
  show "k = k'" if "wf_table l" "lookOf l k = Some m" "lookOf l k' = Some m" for l k m k'
    using that by (rule wf_table_inj)
qed

interpretation controller_lock: mutex_table wf_table lookOf LoadOrStore Load NewVMLock
proof
  show "wf_table NewVMLock" by (simp add: wf_table_def NewVMLock_def)
  show "wf_table l'" if "wf_table l" "LoadOrStore l k = (m, l')" for l k m l'
    using that by (force simp: LoadOrStore_def Let_def wf_table_def less_Suc_eq split: option.splits)
  show "lookOf l' k = Some m" if "LoadOrStore l k = (m, l')" for l k m l'
    using that by (auto simp: LoadOrStore_def Let_def lookOf_def split: option.splits)
  show "lookOf l' k' = Some n" if "LoadOrStore l k = (m, l')" "lookOf l k' = Some n" for l k m l' k' n
    using that by (auto simp: LoadOrStore_def Let_def lookOf_def split: option.splits)
  show "Load l k = (Some m, l)" if "lookOf l k = Some m" for l k m
    using that by (simp add: Load_def lookOf_def)
  show "k = k'" if "wf_table l" "lookOf l k = Some m" "lookOf l k' = Some m" for l k m k'
    using that by (rule wf_table_inj)
qed

section \<open>Properties\<close>

lemma lockKey_inj:
  assumes "lockKey r v = lockKey r' v'"
  shows "r = r' \<and> v = v'"
proof -
  have "CutLast (CHR ''/'') (lockKey r v) = Some (r, Itoa v)" "CutLast (CHR ''/'') (lockKey r' v') = Some (r', Itoa v')"
    by (simp_all add: lockKey_def)
  then show ?thesis using assms Itoa_inj by (metis option.inject prod.inject)
qed


text \<open>A run in which thread 1 holds VM 100 while thread 2 waits for it.\<close>

definition contended :: "lock_table lock_system" where
  "contended = \<lparr>s_table = \<lparr>lt_locks = [(''r/100'', 0)], lt_next = 1\<rparr>, s_locked = {0},
     s_pc = (\<lambda>_. Idle)(1 := Holding ''r/100'' 0, 2 := Waiting ''r/100'' 0), s_fatal = False\<rparr>"

lemma contended_reach: "reach lockGet lockGetU NewVMLock contended"
proof -
  let ?k = "''r/100''"
  define s1 where "s1 = (startOf NewVMLock)\<lparr>s_table := \<lparr>lt_locks = [(?k, 0)], lt_next = 1\<rparr>,
     s_pc := (s_pc (startOf NewVMLock))(1 := Waiting ?k 0)\<rparr>"
  define s2 where "s2 = s1\<lparr>s_locked := insert 0 (s_locked s1), s_pc := (s_pc s1)(1 := Holding ?k 0)\<rparr>"
  have 1: "kstep lockGet lockGetU (startOf NewVMLock) s1" unfolding s1_def
    by (rule kstep.find) (simp_all add: startOf_def NewVMLock_def lockGet_def)
  have 2: "kstep lockGet lockGetU s1 s2" unfolding s2_def
    by (rule kstep.acquire) (simp_all add: s1_def startOf_def)
  have "kstep lockGet lockGetU s2 (s2\<lparr>s_table := s_table s2, s_pc := (s_pc s2)(2 := Waiting ?k 0)\<rparr>)"
    by (rule kstep.find) (simp_all add: s2_def s1_def startOf_def lockGet_def)
  moreover have "s2\<lparr>s_table := s_table s2, s_pc := (s_pc s2)(2 := Waiting ?k 0)\<rparr> = contended"
    by (simp add: s2_def s1_def startOf_def contended_def fun_eq_iff)
  ultimately show ?thesis using 1 2 by (metis rtranclp.simps)
qed


text \<open>C36: Both locks implement the abstract lock, in which a key is taken only when nobody holds it and given
  back only by its holder, and they lose no key: a thread waiting for a VM that nobody holds can take it.\<close>

theorem vm_lock_refines:
  "(reach lockGet lockGetU NewVMLock s \<longrightarrow>
      (kstep lockGet lockGetU s s' \<longrightarrow> astep (owns s) (owns s')) \<and>
      (s_pc s t = Waiting k m \<longrightarrow> (\<forall>t'. (k, t') \<notin> owns s) \<longrightarrow> (\<exists>s'. kstep lockGet lockGetU s s' \<and> (k, t) \<in> owns s'))) \<and>
   (reach LoadOrStore Load NewVMLock s \<longrightarrow>
      (kstep LoadOrStore Load s s' \<longrightarrow> astep (owns s) (owns s')) \<and>
      (s_pc s t = Waiting k m \<longrightarrow> (\<forall>t'. (k, t') \<notin> owns s) \<longrightarrow> (\<exists>s'. kstep LoadOrStore Load s s' \<and> (k, t) \<in> owns s')))"
  using operator_lock.refines operator_lock.progress controller_lock.refines controller_lock.progress
  by (intro conjI impI) (blast | assumption)+

theorem vm_lock_refines_witness:
  "\<exists>s'. kstep lockGet lockGetU contended s' \<and> astep (owns contended) (owns s')"
proof -
  have "kstep lockGet lockGetU contended (contended\<lparr>s_table := s_table contended, s_pc := (s_pc contended)(1 := Releasing ''r/100'' 0)\<rparr>)"
    by (rule kstep.findU) (simp_all add: contended_def lockGetU_def lockGet_def)
  then show ?thesis using vm_lock_refines contended_reach by blast
qed

end
