(* ===== verification/Operator_Types.thy ===== *)
theory Operator_Types
  imports Disk_Ops
begin

text \<open>
  What the operator's reconcilers and its API share: the custom resources of
  \<^verbatim>\<open>pkg/apis/csi/v1alpha1\<close>, the interfaces they are handed (the management cluster's client, the
  read-only view of Proxmox and \<^verbatim>\<open>proxmox.Writer\<close> of \<^verbatim>\<open>pkg/operator/proxmox/writer.go\<close>) and the
  record of the requests they send.  Functions of the Kubernetes libraries that the code calls on
  conditions, finalizers and quantities are parameters; \<open>lib_spec\<close> states what their documentation
  promises.  A quantity is known by its \<^verbatim>\<open>Value()\<close>, times are seconds, and a nil map is the empty map.
\<close>

section \<open>Constants\<close>

definition GroupName :: string where "GroupName = ''csi.crunchymonkies.com''"

definition VolumeFinalizer :: string where "VolumeFinalizer = GroupName @ ''/volume-protection''"
definition AttachmentFinalizer :: string where "AttachmentFinalizer = GroupName @ ''/attachment-protection''"
definition SnapshotFinalizer :: string where "SnapshotFinalizer = GroupName @ ''/snapshot-protection''"
definition TenantFinalizer :: string where "TenantFinalizer = GroupName @ ''/tenant-protection''"

definition LabelTenant :: string where "LabelTenant = GroupName @ ''/tenant''"
definition LabelStorage :: string where "LabelStorage = GroupName @ ''/storage''"
definition LabelRegion :: string where "LabelRegion = GroupName @ ''/region''"

definition ConditionAdmitted :: string where "ConditionAdmitted = ''Admitted''"
definition ConditionReady :: string where "ConditionReady = ''Ready''"
definition ConditionDegraded :: string where "ConditionDegraded = ''Degraded''"

definition TenantModeObserve :: string where "TenantModeObserve = ''Observe''"
definition TenantModeEnforce :: string where "TenantModeEnforce = ''Enforce''"
definition TenantModeSuspended :: string where "TenantModeSuspended = ''Suspended''"
definition TenantModeDecommission :: string where "TenantModeDecommission = ''Decommission''"

definition VolumePhasePending :: string where "VolumePhasePending = ''Pending''"
definition VolumePhaseReady :: string where "VolumePhaseReady = ''Ready''"
definition VolumePhaseRejected :: string where "VolumePhaseRejected = ''Rejected''"
definition VolumePhaseFailed :: string where "VolumePhaseFailed = ''Failed''"
definition VolumePhaseDeleting :: string where "VolumePhaseDeleting = ''Deleting''"

definition ConditionTrue :: string where "ConditionTrue = ''True''"
definition ConditionFalse :: string where "ConditionFalse = ''False''"

named_theorems op_consts \<open>the constants of the custom resources\<close>

lemmas op_const_defs [op_consts] =
  GroupName_def VolumeFinalizer_def AttachmentFinalizer_def SnapshotFinalizer_def TenantFinalizer_def
  LabelTenant_def LabelStorage_def LabelRegion_def ConditionAdmitted_def ConditionReady_def ConditionDegraded_def
  TenantModeObserve_def TenantModeEnforce_def TenantModeSuspended_def TenantModeDecommission_def
  VolumePhasePending_def VolumePhaseReady_def VolumePhaseRejected_def VolumePhaseFailed_def VolumePhaseDeleting_def
  ConditionTrue_def ConditionFalse_def

section \<open>Custom resources\<close>

record object_meta =
  om_Name :: string
  om_Namespace :: string
  om_Generation :: int
  om_CreationTimestamp :: int
  om_DeletionTimestamp :: "int option"
  om_Finalizers :: "string list"
  om_Labels :: gomap
  om_Annotations :: gomap

record condition =
  cd_Type :: string
  cd_Status :: string
  cd_Reason :: string
  cd_Message :: string
  cd_LastTransitionTime :: int
  cd_ObservedGeneration :: int

record claim_ref =
  cr_Name :: string
  cr_Namespace :: string
  cr_PVName :: string

record volume_source =
  src_VolumeName :: string
  src_SnapshotName :: string

record volume_spec =
  vs_Region :: string
  vs_Zone :: string
  vs_Storage :: string
  vs_CapacityBytes :: int
  vs_Parameters :: gomap
  vs_Source :: "volume_source option"
  vs_MutableParameters :: gomap
  vs_ClaimRef :: claim_ref
  vs_Adopt :: bool
  vs_AdoptVolumeID :: string

record volume_status =
  st_VolumeID :: string
  st_DiskName :: string
  st_OwnerVMID :: int
  st_CapacityBytes :: int
  st_AccessibleTopology :: "string list"
  st_Adopted :: bool
  st_Phase :: string
  st_ObservedGeneration :: int
  st_LastSyncTime :: "int option"
  st_Conditions :: "condition list"

record pvolume =
  pv_meta :: object_meta
  pv_spec :: volume_spec
  pv_status :: volume_status

record attachment_spec =
  as_VolumeName :: string
  as_VolumeID :: string
  as_NodeID :: string
  as_VMID :: int
  as_Readonly :: bool

record attachment_status =
  at_Attached :: bool
  at_DevicePath :: string
  at_LUN :: string
  at_ResizeRequired :: bool
  at_AttachedAt :: "int option"
  at_ObservedGeneration :: int
  at_Conditions :: "condition list"

record pattachment =
  pa_meta :: object_meta
  pa_spec :: attachment_spec
  pa_status :: attachment_status

record snapshot_spec =
  ns_SourceVolumeName :: string
  ns_Storage :: string
  ns_Zone :: string
  ns_ClaimRef :: claim_ref

record snapshot_status =
  nt_SnapshotID :: string
  nt_ReadyToUse :: bool
  nt_RestoreSizeBytes :: int
  nt_CreationTime :: "int option"
  nt_TaskID :: string
  nt_ObservedGeneration :: int
  nt_Conditions :: "condition list"

record psnapshot =
  pn_meta :: object_meta
  pn_spec :: snapshot_spec
  pn_status :: snapshot_status

record storage_spec =
  gs_Region :: string
  gs_Zone :: string
  gs_Storage :: string
  gs_Shared :: bool
  gs_PluginType :: string
  gs_Types :: "string list"

record pstorage_status =
  gt_Active :: bool
  gt_TotalBytes :: int
  gt_AvailableBytes :: int
  gt_UsedBytes :: int
  gt_LastSyncTime :: "int option"
  gt_Conditions :: "condition list"

record pstorage =
  ps_meta :: object_meta
  ps_spec :: storage_spec
  ps_status :: pstorage_status

record parameter_policy =
  pp_Allowed :: "string list option"
  pp_Forced :: gomap
  pp_MaxInt :: "(string \<times> int) list"
  pp_MaxVolumeBytes :: "int option"

record tenant_quota =
  tq_MaxVolumes :: "int option"
  tq_MaxCapacity :: "(string \<times> int) list"

record namespace_quota =
  nq_Namespace :: string
  nq_MaxVolumes :: "int option"
  nq_MaxCapacity :: "(string \<times> int) list"

record quota_usage =
  qu_Volumes :: int
  qu_Capacity :: "(string \<times> int) list"

record namespace_usage =
  nu_Namespace :: string
  nu_Volumes :: int
  nu_Capacity :: "(string \<times> int) list"

record tenant_spec =
  tn_Namespace :: string
  tn_Region :: string
  tn_Subject :: string
  tn_Issuer :: string
  tn_PlaceholderVMID :: int
  tn_Pool :: string
  tn_VMIDs :: "int list"
  tn_Mode :: string
  tn_LegacyControllerVMIDs :: "int list"
  tn_AllowedStorages :: "string list"
  tn_ParameterPolicy :: "parameter_policy option"
  tn_Quota :: "tenant_quota option"
  tn_NamespaceQuotas :: "namespace_quota list"

record tenant_status =
  tt_ResolvedVMIDs :: "int list"
  tt_VMIDsObservedAt :: "int option"
  tt_Used :: quota_usage
  tt_NamespaceUsed :: "namespace_usage list"
  tt_ObservedGeneration :: int
  tt_Conditions :: "condition list"

record ptenant =
  tc_meta :: object_meta
  tc_spec :: tenant_spec
  tc_status :: tenant_status

abbreviation pvName where "pvName v \<equiv> om_Name (pv_meta v)"
abbreviation pvNamespace where "pvNamespace v \<equiv> om_Namespace (pv_meta v)"
abbreviation paName where "paName a \<equiv> om_Name (pa_meta a)"
abbreviation paNamespace where "paNamespace a \<equiv> om_Namespace (pa_meta a)"
abbreviation pnName where "pnName a \<equiv> om_Name (pn_meta a)"
abbreviation pnNamespace where "pnNamespace a \<equiv> om_Namespace (pn_meta a)"
abbreviation tcName where "tcName t \<equiv> om_Name (tc_meta t)"

section \<open>What Proxmox shows and what can be asked of it\<close>

record px_disk =
  dk_Region :: string
  dk_Node :: string
  dk_Storage :: string
  dk_Name :: string
  dk_VMID :: int
  dk_SizeBytes :: int

record px_vm =
  xv_Region :: string
  xv_VMID :: int
  xv_Node :: string
  xv_Name :: string
  xv_Pool :: string

record attach_result =
  ar_DevicePath :: string
  ar_Lun :: int

datatype pxop =
    CreateDiskOp string string string string int
  | CopyDiskOp string string string string string string string
  | DeleteDiskOp string string string string
  | AttachDiskOp string int volume gomap
  | DetachDiskOp string int volume
  | ResizeDiskOp string int string string string
  | UpdateDiskOp string int volume gomap
  | RenameDiskOp string volume int
  | ClearUnusedDiskOp string int volume

record 'e writer =
  w_CreateDisk :: "string \<Rightarrow> string \<Rightarrow> string \<Rightarrow> string \<Rightarrow> int \<Rightarrow> ('e, unit) api"
  w_CopyDisk :: "string \<Rightarrow> string \<Rightarrow> string \<Rightarrow> string \<Rightarrow> string \<Rightarrow> string \<Rightarrow> string \<Rightarrow> ('e, unit) api"
  w_DeleteDisk :: "string \<Rightarrow> string \<Rightarrow> string \<Rightarrow> string \<Rightarrow> ('e, unit) api"
  w_AttachDisk :: "string \<Rightarrow> int \<Rightarrow> volume \<Rightarrow> gomap \<Rightarrow> ('e, attach_result) api"
  w_DetachDisk :: "string \<Rightarrow> int \<Rightarrow> volume \<Rightarrow> ('e, unit) api"
  w_ResizeDisk :: "string \<Rightarrow> int \<Rightarrow> string \<Rightarrow> string \<Rightarrow> string \<Rightarrow> ('e, unit) api"
  w_UpdateDisk :: "string \<Rightarrow> int \<Rightarrow> volume \<Rightarrow> gomap \<Rightarrow> ('e, unit) api"
  w_RenameDisk :: "string \<Rightarrow> volume \<Rightarrow> int \<Rightarrow> ('e, volume) api"
  w_ClearUnusedDisk :: "string \<Rightarrow> int \<Rightarrow> volume \<Rightarrow> ('e, unit) api"

section \<open>Requests\<close>

datatype kobj = KVolume pvolume | KAttachment pattachment | KSnapshot psnapshot | KTenant ptenant | KStorage pstorage

text \<open>A read names the kind and, where the code gives one, the namespace and the name or field it selects.\<close>

datatype oreq =
    OGet string string string
  | OList string string
  | OListAll string
  | OListBy string string string string
  | OCreate kobj
  | OUpdate kobj
  | OStatus kobj
  | ODelete kobj
  | PxRead string
  | PxWrite pxop
  | VmLock string int
  | VmUnlock string int
  | OSend string
  | OidcFetch string
  | OidcVerify string

type_synonym 'e oworld = "('e, oreq) world"

section \<open>The management cluster\<close>

record 'e mgmt =
  g_GetVolume :: "string \<Rightarrow> string \<Rightarrow> ('e, pvolume) api"
  g_ListVolumes :: "string \<Rightarrow> ('e, pvolume list) api"
  g_ListAllVolumes :: "('e, pvolume list) api"
  g_ListClaims :: "string \<Rightarrow> ('e, pvolume list) api"
  g_ListByVolumeID :: "string \<Rightarrow> string \<Rightarrow> ('e, pvolume list) api"
  g_WriteVolume :: "oreq \<Rightarrow> ('e, pvolume) api"
  g_GetAttachment :: "string \<Rightarrow> string \<Rightarrow> ('e, pattachment) api"
  g_ListAttachments :: "string \<Rightarrow> ('e, pattachment list) api"
  g_WriteAttachment :: "oreq \<Rightarrow> ('e, pattachment) api"
  g_GetSnapshot :: "string \<Rightarrow> string \<Rightarrow> ('e, psnapshot) api"
  g_ListSnapshots :: "string \<Rightarrow> ('e, psnapshot list) api"
  g_ListBySnapshotID :: "string \<Rightarrow> string \<Rightarrow> ('e, psnapshot list) api"
  g_WriteSnapshot :: "oreq \<Rightarrow> ('e, psnapshot) api"
  g_GetTenant :: "string \<Rightarrow> ('e, ptenant) api"
  g_ListTenants :: "('e, ptenant list) api"
  g_WriteTenant :: "oreq \<Rightarrow> ('e, ptenant) api"
  g_GetStorage :: "string \<Rightarrow> ('e, pstorage) api"
  g_ListStorages :: "('e, pstorage list) api"
  g_ListStoragesByRegion :: "string \<Rightarrow> ('e, pstorage list) api"
  g_WriteStorage :: "oreq \<Rightarrow> ('e, pstorage) api"
  g_SetStatusCondition :: "condition \<Rightarrow> condition list \<Rightarrow> condition list"
  g_FindStatusCondition :: "condition list \<Rightarrow> string \<Rightarrow> condition option"
  g_ContainsFinalizer :: "string list \<Rightarrow> string \<Rightarrow> bool"
  g_AddFinalizer :: "string list \<Rightarrow> string \<Rightarrow> bool \<times> string list"
  g_RemoveFinalizer :: "string list \<Rightarrow> string \<Rightarrow> string list"
  g_QuantityString :: "int \<Rightarrow> string"
  g_Now :: "'e \<Rightarrow> int"

text \<open>Each call of the client goes through a wrapper that records what it asks for.\<close>

abbreviation GetVolume where "GetVolume g ns n \<equiv> invoke (OGet ''ProxmoxVolume'' ns n) (g_GetVolume g ns n)"
abbreviation ListVolumesIn where "ListVolumesIn g ns \<equiv> invoke (OList ''ProxmoxVolume'' ns) (g_ListVolumes g ns)"
abbreviation ListAllVolumes where "ListAllVolumes g \<equiv> invoke (OListAll ''ProxmoxVolume'') (g_ListAllVolumes g)"
abbreviation ListClaims where
  "ListClaims g h \<equiv> invoke (OListBy ''ProxmoxVolume'' [] ''volumeClaim'' h) (g_ListClaims g h)"
abbreviation ListByVolumeID where
  "ListByVolumeID g ns i \<equiv> invoke (OListBy ''ProxmoxVolume'' ns ''volumeID'' i) (g_ListByVolumeID g ns i)"
abbreviation WriteVolume where "WriteVolume g r \<equiv> invoke r (g_WriteVolume g r)"
abbreviation GetAttachment where "GetAttachment g ns n \<equiv> invoke (OGet ''ProxmoxVolumeAttachment'' ns n) (g_GetAttachment g ns n)"
abbreviation ListAttachments where "ListAttachments g ns \<equiv> invoke (OList ''ProxmoxVolumeAttachment'' ns) (g_ListAttachments g ns)"
abbreviation WriteAttachment where "WriteAttachment g r \<equiv> invoke r (g_WriteAttachment g r)"
abbreviation GetSnapshot where "GetSnapshot g ns n \<equiv> invoke (OGet ''ProxmoxVolumeSnapshot'' ns n) (g_GetSnapshot g ns n)"
abbreviation ListSnapshotsIn where "ListSnapshotsIn g ns \<equiv> invoke (OList ''ProxmoxVolumeSnapshot'' ns) (g_ListSnapshots g ns)"
abbreviation ListBySnapshotID where
  "ListBySnapshotID g ns i \<equiv> invoke (OListBy ''ProxmoxVolumeSnapshot'' ns ''snapshotID'' i) (g_ListBySnapshotID g ns i)"
abbreviation WriteSnapshot where "WriteSnapshot g r \<equiv> invoke r (g_WriteSnapshot g r)"
abbreviation GetTenant where "GetTenant g n \<equiv> invoke (OGet ''TenantCluster'' [] n) (g_GetTenant g n)"
abbreviation ListTenants where "ListTenants g \<equiv> invoke (OListAll ''TenantCluster'') (g_ListTenants g)"
abbreviation WriteTenant where "WriteTenant g r \<equiv> invoke r (g_WriteTenant g r)"
abbreviation GetStorage where "GetStorage g n \<equiv> invoke (OGet ''ProxmoxStorage'' [] n) (g_GetStorage g n)"
abbreviation ListAllStorages where "ListAllStorages g \<equiv> invoke (OListAll ''ProxmoxStorage'') (g_ListStorages g)"
abbreviation WriteStorage where "WriteStorage g r \<equiv> invoke r (g_WriteStorage g r)"

text \<open>\<^verbatim>\<open>r.now()\<close> reads the clock of the outside state.\<close>

definition withNow :: "'e mgmt \<Rightarrow> (int \<Rightarrow> ('e oworld, 'a) io) \<Rightarrow> ('e oworld, 'a) io" where
  "withNow g k w = k (g_Now g (env w)) w"

definition IsStatusConditionTrue :: "'e mgmt \<Rightarrow> condition list \<Rightarrow> string \<Rightarrow> bool" where
  "IsStatusConditionTrue g cs t = (case g_FindStatusCondition g cs t of Some c \<Rightarrow> cd_Status c = ConditionTrue | None \<Rightarrow> False)"

text \<open>What the documentation of the Kubernetes libraries promises: setting a condition replaces the one of its
  type and leaves the others, and finalizers are kept as a set.\<close>

definition lib_spec :: "'e mgmt \<Rightarrow> bool" where
  "lib_spec g \<longleftrightarrow>
     (\<forall>c cs t. IsStatusConditionTrue g (g_SetStatusCondition g c cs) t =
        (if t = cd_Type c then cd_Status c = ConditionTrue else IsStatusConditionTrue g cs t)) \<and>
     (\<forall>fs f. g_ContainsFinalizer g fs f \<longleftrightarrow> f \<in> set fs) \<and>
     (\<forall>fs f. set (snd (g_AddFinalizer g fs f)) = insert f (set fs) \<and> (fst (g_AddFinalizer g fs f) \<longleftrightarrow> f \<notin> set fs)) \<and>
     (\<forall>fs f. set (g_RemoveFinalizer g fs f) = set fs - {f})"

text \<open>\<^verbatim>\<open>client.IgnoreNotFound\<close>, \<^verbatim>\<open>apierrors.IsNotFound\<close>, \<^verbatim>\<open>apierrors.IsAlreadyExists\<close>.\<close>

abbreviation isNotFoundErr :: "goerr \<Rightarrow> bool" where "isNotFoundErr e \<equiv> errIs e K8sNotFound"
abbreviation isAlreadyExists :: "goerr \<Rightarrow> bool" where "isAlreadyExists e \<equiv> errIs e K8sAlreadyExists"

text \<open>The result of a reconcile is the time after which it is wanted again, zero for none.\<close>

definition ignoreNotFound :: "goerr \<Rightarrow> ('w, int) io" where
  "ignoreNotFound e = (if isNotFoundErr e then ret 0 else fail e)"

text \<open>\<^verbatim>\<open>errors2(first, second)\<close> with a second error that is not nil.\<close>

definition errors2 :: "('w, 'a) io \<Rightarrow> goerr \<Rightarrow> ('w, 'b) io" where
  "errors2 first second =
     call first
       (\<lambda>e. fail (Wrap (Error second @ '' (while reporting: '' @ Error e @ '')'') second))
       (\<lambda>_. fail second)"

definition DefaultSyncPeriod :: int where "DefaultSyncPeriod = 300"

definition syncPeriod :: "int \<Rightarrow> int" where
  "syncPeriod configured = (if configured > 0 then configured else DefaultSyncPeriod)"

text \<open>\<^verbatim>\<open>sort.Slice\<close> and \<^verbatim>\<open>sort.Strings\<close>; elements that compare equal keep their order.\<close>

fun insertBy :: "('a \<Rightarrow> 'a \<Rightarrow> bool) \<Rightarrow> 'a \<Rightarrow> 'a list \<Rightarrow> 'a list" where
  "insertBy lt x [] = [x]"
| "insertBy lt x (y # ys) = (if lt y x then y # insertBy lt x ys else x # y # ys)"

definition sortBy :: "('a \<Rightarrow> 'a \<Rightarrow> bool) \<Rightarrow> 'a list \<Rightarrow> 'a list" where
  "sortBy lt xs = foldr (insertBy lt) xs []"

abbreviation sortStrings :: "string list \<Rightarrow> string list" where
  "sortStrings \<equiv> sortBy bytesLess"

lemma set_insertBy [simp]: "set (insertBy lt x xs) = insert x (set xs)"
  by (induction xs) auto

lemma length_insertBy [simp]: "length (insertBy lt x xs) = Suc (length xs)"
  by (induction xs) auto

lemma set_sortBy [simp]: "set (sortBy lt xs) = set xs"
  by (induction xs) (auto simp: sortBy_def)

lemma length_sortBy [simp]: "length (sortBy lt xs) = length xs"
  by (induction xs) (auto simp: sortBy_def)

text \<open>Two's complement wrap-around of \<^verbatim>\<open>int32\<close>.\<close>

definition wrap32 :: "int \<Rightarrow> int" where
  "wrap32 x = (x + 2 ^ 31) mod 2 ^ 32 - 2 ^ 31"

text \<open>The admitted registration of a namespace.\<close>

definition findTenant :: "'e mgmt \<Rightarrow> ptenant list \<Rightarrow> string \<Rightarrow> ptenant option" where
  "findTenant g tenants namespace =
     List.find (\<lambda>t. tn_Namespace (tc_spec t) = namespace \<and> IsStatusConditionTrue g (tt_Conditions (tc_status t)) ConditionAdmitted) tenants"

definition tenantFor :: "'e mgmt \<Rightarrow> string \<Rightarrow> ('e oworld, ptenant option) io" where
  "tenantFor g namespace =
     call (ListTenants g) (\<lambda>e. fail (Wrap (''listing tenants: '' @ Error e) e))
       (\<lambda>tenants. ret (findTenant g tenants namespace))"

lemma findTenant_Some:
  assumes "findTenant g tenants ns = Some t"
  shows "t \<in> set tenants" "tn_Namespace (tc_spec t) = ns" "IsStatusConditionTrue g (tt_Conditions (tc_status t)) ConditionAdmitted"
  using assms by (auto simp: findTenant_def find_Some_iff)

section \<open>Rules for the effects of reconcilers\<close>

lemma triple_withNow [triple_intros]: "(\<And>now. triple I P (k now) Q) \<Longrightarrow> triple I P (withNow g k) Q"
  by (simp add: triple_def withNow_def)

lemma emits_withNow [emits_intros]: "(\<And>now. emits P (k now)) \<Longrightarrow> emits P (withNow g k)"
  unfolding emits_def by (rule triple_withNow)

lemma emits_errors2 [emits_intros]: "emits P m \<Longrightarrow> emits P (errors2 m e)"
  unfolding errors2_def by (intro emits_intros)

lemma emits_ignoreNotFound [emits_intros]: "emits P (ignoreNotFound e)"
  unfolding ignoreNotFound_def by (intro emits_intros)

lemma emits_tenantFor [emits_intros]: "P (OListAll ''TenantCluster'') \<Longrightarrow> emits P (tenantFor g ns)"
  unfolding tenantFor_def by (intro emits_intros)

text \<open>The tenant a reconciler acts for is an admitted registration of the namespace it was asked about.\<close>

definition tenant_ok :: "'e mgmt \<Rightarrow> string \<Rightarrow> ptenant option \<Rightarrow> bool" where
  "tenant_ok g ns t \<longleftrightarrow> (\<forall>x. t = Some x \<longrightarrow> tn_Namespace (tc_spec x) = ns \<and>
     IsStatusConditionTrue g (tt_Conditions (tc_status x)) ConditionAdmitted)"

lemma returns_tenantFor: "returns (tenant_ok g ns) (tenantFor g ns)"
  unfolding tenantFor_def
  by (intro returns_intros) (auto simp: tenant_ok_def dest: findTenant_Some)

end
