(* ===== verification/Operator_Volume.thy ===== *)
theory Operator_Volume
  imports Operator_Types Sha256
begin

text \<open>
  The reconciler of volume records (\<^verbatim>\<open>pkg/operator/controller/volume\<close>): adopting an existing disk
  (\<^verbatim>\<open>reconciler.go\<close>), and provisioning, expanding, modifying and deleting one (\<^verbatim>\<open>provision.go\<close>).
  Log lines are left out.  A writer that is absent is a nil interface, and calling it is a panic.
\<close>

section \<open>The reconciler\<close>

record 'e volume_reconciler =
  vr_Client :: "'e mgmt"
  vr_ListDisks :: "string \<Rightarrow> string \<Rightarrow> string \<Rightarrow> ('e, px_disk list) api"
  vr_Writer :: "'e writer option"
  vr_SyncPeriod :: int

abbreviation ListDisks where
  "ListDisks r region zone storage \<equiv>
     invoke (PxRead (''disks/'' @ region @ ''/'' @ zone @ ''/'' @ storage)) (vr_ListDisks r region zone storage)"

definition withWriter :: "'e writer option \<Rightarrow> ('e writer \<Rightarrow> ('e oworld, 'a) io) \<Rightarrow> ('e oworld, 'a) io" where
  "withWriter wr k = (case wr of None \<Rightarrow> fail nilDereference | Some w \<Rightarrow> k w)"

abbreviation wCreateDisk where
  "wCreateDisk w region zone storage disk bytes \<equiv>
     invoke (PxWrite (CreateDiskOp region zone storage disk bytes)) (w_CreateDisk w region zone storage disk bytes)"
abbreviation wCopyDisk where
  "wCopyDisk w sr sz ss sd dz ds dd \<equiv>
     invoke (PxWrite (CopyDiskOp sr sz ss sd dz ds dd)) (w_CopyDisk w sr sz ss sd dz ds dd)"
abbreviation wDeleteDisk where
  "wDeleteDisk w region zone storage disk \<equiv>
     invoke (PxWrite (DeleteDiskOp region zone storage disk)) (w_DeleteDisk w region zone storage disk)"
abbreviation wResizeDisk where
  "wResizeDisk w region vmid zone device amount \<equiv>
     invoke (PxWrite (ResizeDiskOp region vmid zone device amount)) (w_ResizeDisk w region vmid zone device amount)"
abbreviation wUpdateDisk where
  "wUpdateDisk w region vmid v options \<equiv>
     invoke (PxWrite (UpdateDiskOp region vmid v options)) (w_UpdateDisk w region vmid v options)"

text \<open>\<^verbatim>\<open>claim\<close>: the handle a record has been granted, or the one it asks for.\<close>

definition claim :: "pvolume \<Rightarrow> string" where
  "claim vol = (if st_VolumeID (pv_status vol) \<noteq> [] then st_VolumeID (pv_status vol) else vs_AdoptVolumeID (pv_spec vol))"

definition IndexClaim :: "pvolume \<Rightarrow> string list" where
  "IndexClaim vol = (if claim vol \<noteq> [] then [claim vol] else [])"

definition volumeCondition :: "'e mgmt \<Rightarrow> int \<Rightarrow> string \<Rightarrow> string \<Rightarrow> string \<Rightarrow> string \<Rightarrow> pvolume \<Rightarrow> pvolume" where
  "volumeCondition g now t s reason message vol =
     pv_status_update (st_Conditions_update (g_SetStatusCondition g
       \<lparr>cd_Type = t, cd_Status = s, cd_Reason = reason, cd_Message = message, cd_LastTransitionTime = now,
        cd_ObservedGeneration = om_Generation (pv_meta vol)\<rparr>)) vol"

definition setPhase :: "string \<Rightarrow> pvolume \<Rightarrow> pvolume" where
  "setPhase p = pv_status_update (st_Phase_update (\<lambda>_. p))"

text \<open>Writing the status gives the record back as the server stored it.\<close>

definition updateVolumeStatus :: "'e mgmt \<Rightarrow> pvolume \<Rightarrow> ('e oworld, pvolume) io" where
  "updateVolumeStatus g vol =
     (let vol = pv_status_update (st_ObservedGeneration_update (\<lambda>_. om_Generation (pv_meta vol))) vol
      in call (WriteVolume g (OStatus (KVolume vol)))
           (\<lambda>e. fail (Wrap (''updating '' @ pvNamespace vol @ ''/'' @ pvName vol @ '' status: '' @ Error e) e)) ret)"

definition reject :: "'e volume_reconciler \<Rightarrow> pvolume \<Rightarrow> string \<Rightarrow> string \<Rightarrow> ('e oworld, int) io" where
  "reject r vol reason message =
     (let g = vr_Client r
      in withNow g (\<lambda>now.
           bindE (updateVolumeStatus g
             (setPhase VolumePhaseRejected
               (volumeCondition g now ConditionReady ConditionFalse reason message
                 (volumeCondition g now ConditionAdmitted ConditionFalse reason message vol)))) (\<lambda>_. ret 0)))"

definition rejectDuplicate :: "'e volume_reconciler \<Rightarrow> pvolume \<Rightarrow> pvolume \<Rightarrow> ('e oworld, int) io" where
  "rejectDuplicate r vol other =
     (let g = vr_Client r;
          message = claim vol @ '' is already claimed by '' @ pvNamespace other @ ''/'' @ pvName other
      in withNow g (\<lambda>now.
           reject r (volumeCondition g now ConditionDegraded ConditionTrue ''DuplicateClaim'' message vol) ''DuplicateClaim'' message))"

definition describes :: "pvolume \<Rightarrow> volume \<Rightarrow> string" where
  "describes vol handle =
     (let s = pv_spec vol
      in if vs_Region s \<noteq> vregion handle
         then ''spec.region '' @ Quote (vs_Region s) @ '' does not match adoptVolumeID region '' @ Quote (vregion handle)
         else if vs_Zone s \<noteq> vzone handle
         then ''spec.zone '' @ Quote (vs_Zone s) @ '' does not match adoptVolumeID zone '' @ Quote (vzone handle)
         else if vs_Storage s \<noteq> vstorage handle
         then ''spec.storage '' @ Quote (vs_Storage s) @ '' does not match adoptVolumeID storage '' @ Quote (vstorage handle)
         else [])"

definition ownedVMID :: "ptenant \<Rightarrow> string \<Rightarrow> string \<times> bool" where
  "ownedVMID tenant vmid =
     (if vmid = [] then (vmid, True)
      else case ParseInt vmid 32 of
             None \<Rightarrow> (vmid, False)
           | Some i \<Rightarrow> (vmid, i = tn_PlaceholderVMID (tc_spec tenant) \<or>
                              i \<in> set (tn_LegacyControllerVMIDs (tc_spec tenant)) \<or>
                              i \<in> set (tt_ResolvedVMIDs (tc_status tenant))))"

definition findDisk :: "px_disk list \<Rightarrow> volume \<Rightarrow> px_disk option" where
  "findDisk disks handle =
     (case List.find (\<lambda>d. dk_Name d = vdisk handle) disks of
        Some d \<Rightarrow> Some d
      | None \<Rightarrow>
          if DiskSuffix handle = [] then None
          else List.find (\<lambda>d. DiskSuffix (NewVolume (vregion handle) (vzone handle) (vstorage handle) (dk_Name d)) =
                              DiskSuffix handle) disks)"

definition embeddedVMID :: "volume \<Rightarrow> int" where
  "embeddedVMID v = (case ParseInt (VMID v) 32 of None \<Rightarrow> 0 | Some i \<Rightarrow> i)"

definition olderClaim :: "pvolume \<Rightarrow> pvolume \<Rightarrow> bool" where
  "olderClaim a b =
     (if om_CreationTimestamp (pv_meta a) \<noteq> om_CreationTimestamp (pv_meta b)
      then om_CreationTimestamp (pv_meta a) < om_CreationTimestamp (pv_meta b)
      else if pvNamespace a \<noteq> pvNamespace b then bytesLess (pvNamespace a) (pvNamespace b)
      else bytesLess (pvName a) (pvName b))"

definition findDuplicate :: "pvolume \<Rightarrow> pvolume list \<Rightarrow> pvolume option" where
  "findDuplicate vol others =
     List.find (\<lambda>other. \<not> (pvNamespace other = pvNamespace vol \<and> pvName other = pvName vol) \<and> olderClaim other vol) others"

definition duplicate :: "'e mgmt \<Rightarrow> pvolume \<Rightarrow> ('e oworld, pvolume option) io" where
  "duplicate g vol =
     (let handle = claim vol
      in if handle = [] then ret None
         else call (ListClaims g handle) (\<lambda>e. fail (Wrap (''listing claims on '' @ handle @ '': '' @ Error e) e))
                (\<lambda>others. ret (findDuplicate vol others)))"

text \<open>The labels are set in some order; the keys are different, so the result does not depend on it.\<close>

fun holdLabels :: "gomap \<Rightarrow> gomap \<Rightarrow> bool \<Rightarrow> gomap \<times> bool" where
  "holdLabels [] labels patched = (labels, patched)"
| "holdLabels ((k, v) # kvs) labels patched =
     (if mget labels k = v then holdLabels kvs labels patched else holdLabels kvs (mset_key labels k v) True)"

definition holdVolume :: "'e mgmt \<Rightarrow> pvolume \<Rightarrow> ptenant \<Rightarrow> ('e oworld, pvolume) io" where
  "holdVolume g vol tenant =
     (let (added, fs) = g_AddFinalizer g (om_Finalizers (pv_meta vol)) VolumeFinalizer;
          (labels, patched) = holdLabels
            [(LabelTenant, tcName tenant), (LabelRegion, tn_Region (tc_spec tenant)), (LabelStorage, vs_Storage (pv_spec vol))]
            (om_Labels (pv_meta vol)) added;
          held = pv_meta_update (\<lambda>m. m\<lparr>om_Finalizers := fs, om_Labels := labels\<rparr>) vol
      in if \<not> patched then ret held
         else call (WriteVolume g (OUpdate (KVolume held)))
                (\<lambda>e. fail (Wrap (''holding '' @ pvNamespace vol @ ''/'' @ pvName vol @ '': '' @ Error e) e)) ret)"

definition adoptedStatus :: "int \<Rightarrow> px_disk \<Rightarrow> volume \<Rightarrow> pvolume \<Rightarrow> pvolume" where
  "adoptedStatus now disk found vol =
     pv_status_update (\<lambda>s. s\<lparr>st_VolumeID := vs_AdoptVolumeID (pv_spec vol), st_DiskName := dk_Name disk,
        st_OwnerVMID := embeddedVMID found, st_CapacityBytes := dk_SizeBytes disk, st_Adopted := True,
        st_Phase := VolumePhaseReady, st_LastSyncTime := Some now\<rparr>) vol"

definition adopt :: "'e volume_reconciler \<Rightarrow> pvolume \<Rightarrow> ptenant \<Rightarrow> volume \<Rightarrow> ('e oworld, int) io" where
  "adopt r vol tenant handle =
     (let g = vr_Client r
      in call (ListDisks r (vregion handle) (vzone handle) (vstorage handle))
        (\<lambda>err. withNow g (\<lambda>now. errors2 (updateVolumeStatus g
            (volumeCondition g now ConditionReady ConditionFalse ''ProxmoxError'' (Error err) vol)) err))
        (\<lambda>disks.
           case findDisk disks handle of
             None \<Rightarrow>
               (let message = ''no disk matching '' @ vdisk handle @ '' on storage '' @ vstorage handle
                in withNow g (\<lambda>now. bindE (updateVolumeStatus g (setPhase VolumePhaseFailed
                     (volumeCondition g now ConditionReady ConditionFalse ''AdoptDiskNotFound'' message
                       (volumeCondition g now ConditionAdmitted ConditionFalse ''AdoptDiskNotFound'' message vol))))
                     (\<lambda>_. ret (syncPeriod (vr_SyncPeriod r)))))
           | Some disk \<Rightarrow>
               (let found = NewVolume (vregion handle) (vzone handle) (vstorage handle) (dk_Name disk)
                in if \<not> snd (ownedVMID tenant (VMID found))
                   then reject r vol ''VMIDNotOwned'' (''disk '' @ dk_Name disk @ '' is named for vmid '' @ VMID found @
                          '', which is neither tenant '' @ tcName tenant @ [CHR 0x27] @ ''s placeholder nor one of its VMs'')
                   else bindE (holdVolume g vol tenant) (\<lambda>vol. withNow g (\<lambda>now.
                          let vol = adoptedStatus now disk found vol;
                              vol = volumeCondition g now ConditionAdmitted ConditionTrue ''Accepted''
                                      (''adopted by tenant '' @ tcName tenant) vol;
                              vol = volumeCondition g now ConditionReady ConditionTrue ''Accepted''
                                      (''disk '' @ dk_Name disk @ '' on '' @ dk_Storage disk @ '', '' @ Itoa (dk_SizeBytes disk) @ '' bytes'') vol;
                              vol = (if vstorage handle \<in> set (tn_AllowedStorages (tc_spec tenant))
                                     then volumeCondition g now ConditionDegraded ConditionFalse ''Accepted'' ''ledger and Proxmox agree'' vol
                                     else volumeCondition g now ConditionDegraded ConditionTrue ''StorageNotAllowed''
                                            (''storage '' @ vstorage handle @ '' is not in tenant '' @ tcName tenant @ [CHR 0x27] @ ''s allowedStorages'') vol)
                          in bindE (updateVolumeStatus g vol) (\<lambda>_. ret (syncPeriod (vr_SyncPeriod r))))))))"

definition reconcileAdopt :: "'e volume_reconciler \<Rightarrow> pvolume \<Rightarrow> ('e oworld, int) io" where
  "reconcileAdopt r vol =
     (let g = vr_Client r; adoptID = vs_AdoptVolumeID (pv_spec vol)
      in bindE (tenantFor g (pvNamespace vol)) (\<lambda>t.
        case t of
          None \<Rightarrow> reject r vol ''TenantUnknown'' (''no admitted TenantCluster registers namespace '' @ pvNamespace vol)
        | Some tenant \<Rightarrow>
            if tn_Mode (tc_spec tenant) = TenantModeSuspended
            then reject r vol ''TenantSuspended'' (''tenant '' @ tcName tenant @ '' is suspended'')
            else if adoptID = []
            then reject r vol ''InvalidSpec'' ''spec.adopt is set without spec.adoptVolumeID''
            else case NewVolumeFromVolumeID adoptID of
              Inl err \<Rightarrow> reject r vol ''InvalidSpec''
                 (''spec.adoptVolumeID '' @ Quote adoptID @ '' is not a volume handle: '' @ Error err)
            | Inr handle \<Rightarrow>
                if describes vol handle \<noteq> [] then reject r vol ''VolumeIDMismatch'' (describes vol handle)
                else if vregion handle \<noteq> tn_Region (tc_spec tenant)
                then reject r vol ''InvalidSpec'' (''handle names region '' @ vregion handle @ '', tenant '' @ tcName tenant @
                       '' is registered in '' @ tn_Region (tc_spec tenant))
                else if \<not> snd (ownedVMID tenant (VMID handle))
                then reject r vol ''VMIDNotOwned'' (''handle names vmid '' @ VMID handle @ '', which is neither tenant '' @
                       tcName tenant @ [CHR 0x27] @ ''s placeholder nor one of its VMs'')
                else bindE (duplicate g vol) (\<lambda>other.
                       case other of
                         Some o' \<Rightarrow> rejectDuplicate r vol o'
                       | None \<Rightarrow> adopt r vol tenant handle)))"

section \<open>Policy and quota\<close>

definition numError :: "string \<Rightarrow> string \<Rightarrow> string" where
  "numError f s =
     (let ds = (case s of [] \<Rightarrow> [] | c # cs \<Rightarrow> if c = CHR ''-'' \<or> c = CHR ''+'' then cs else s)
      in ''strconv.'' @ f @ '': parsing '' @ Quote s @ '': '' @
         (if ds \<noteq> [] \<and> list_all is_digit ds then ''value out of range'' else ''invalid syntax''))"

abbreviation parseIntError :: "string \<Rightarrow> string" where "parseIntError \<equiv> numError ''ParseInt''"

fun maxIntViolation :: "(string \<times> int) list \<Rightarrow> gomap \<Rightarrow> string option" where
  "maxIntViolation [] params = None"
| "maxIntViolation ((key, limit) # rest) params =
     (case map_of params key of
        None \<Rightarrow> maxIntViolation rest params
      | Some val \<Rightarrow>
          (case ParseInt val 64 of
             None \<Rightarrow> Some (''parameter '' @ Quote key @ '' must be an integer: '' @ parseIntError val)
           | Some n \<Rightarrow>
               if n > limit
               then Some (''parameter '' @ Quote key @ '' value '' @ Itoa n @ '' exceeds maximum '' @ Itoa limit)
               else maxIntViolation rest params))"

definition checkParameterPolicy :: "parameter_policy option \<Rightarrow> gomap \<Rightarrow> int \<Rightarrow> goerr + unit" where
  "checkParameterPolicy policy params capacityBytes =
     (case policy of
        None \<Rightarrow> Inr ()
      | Some p \<Rightarrow>
          (case (case pp_Allowed p of None \<Rightarrow> None | Some allowed \<Rightarrow> List.find (\<lambda>(k, _). k \<notin> set allowed) params) of
             Some (key, _) \<Rightarrow> Inl (Plain (''parameter '' @ Quote key @ '' is not in the allowed list''))
           | None \<Rightarrow>
               (case maxIntViolation (pp_MaxInt p) params of
                  Some message \<Rightarrow> Inl (Plain message)
                | None \<Rightarrow>
                    (case pp_MaxVolumeBytes p of
                       None \<Rightarrow> Inr ()
                     | Some maxBytes \<Rightarrow>
                         if capacityBytes > maxBytes
                         then Inl (Plain (''requested capacity '' @ Itoa capacityBytes @ '' exceeds maxVolumeBytes '' @ Itoa maxBytes))
                         else Inr ()))))"

text \<open>A refusal is its reason and message.\<close>

definition checkQuota :: "'e mgmt \<Rightarrow> ptenant \<Rightarrow> pvolume \<Rightarrow> (string \<times> string) option" where
  "checkQuota g tenant vol =
     (case tn_Quota (tc_spec tenant) of
        None \<Rightarrow> None
      | Some quota \<Rightarrow>
          let usage = tt_Used (tc_status tenant); storage = vs_Storage (pv_spec vol); bytes = vs_CapacityBytes (pv_spec vol);
              volumes = (case tq_MaxVolumes quota of
                 None \<Rightarrow> None
               | Some limit \<Rightarrow>
                   if wrap32 (qu_Volumes usage + 1) > limit
                   then Some (''QuotaExceeded'', ''tenant '' @ tcName tenant @ '' has '' @ Itoa (qu_Volumes usage) @
                              '' volumes, max is '' @ Itoa limit)
                   else None)
          in case volumes of
               Some q \<Rightarrow> Some q
             | None \<Rightarrow>
                 (case map_of (tq_MaxCapacity quota) storage of
                    None \<Rightarrow> None
                  | Some maxCap \<Rightarrow>
                      let used = (case map_of (qu_Capacity usage) storage of None \<Rightarrow> 0 | Some u \<Rightarrow> u)
                      in if wrap64 (used + bytes) > maxCap
                         then Some (''QuotaExceeded'', ''tenant '' @ tcName tenant @ '' storage '' @ storage @ '' would use '' @
                                    Itoa (wrap64 (used + bytes)) @ '' bytes, max is '' @ g_QuantityString g maxCap)
                         else None))"

definition checkNamespaceQuota :: "'e mgmt \<Rightarrow> ptenant \<Rightarrow> pvolume \<Rightarrow> (string \<times> string) option" where
  "checkNamespaceQuota g tenant vol =
     (let ns = cr_Namespace (vs_ClaimRef (pv_spec vol)); storage = vs_Storage (pv_spec vol); bytes = vs_CapacityBytes (pv_spec vol)
      in if tn_NamespaceQuotas (tc_spec tenant) = [] \<or> ns = [] then None
         else case List.find (\<lambda>q. nq_Namespace q = ns) (tn_NamespaceQuotas (tc_spec tenant)) of
           None \<Rightarrow> None
         | Some quota \<Rightarrow>
             let usage = List.find (\<lambda>u. nu_Namespace u = ns) (tt_NamespaceUsed (tc_status tenant));
                 currentVolumes = (case usage of None \<Rightarrow> 0 | Some u \<Rightarrow> nu_Volumes u);
                 currentCapacity = (case usage of None \<Rightarrow> 0 | Some u \<Rightarrow> (case map_of (nu_Capacity u) storage of None \<Rightarrow> 0 | Some c \<Rightarrow> c))
             in if (case nq_MaxVolumes quota of None \<Rightarrow> False | Some limit \<Rightarrow> wrap32 (currentVolumes + 1) > limit)
                then Some (''NamespaceQuotaExceeded'', ''namespace '' @ ns @ '' has '' @ Itoa currentVolumes @ '' volumes, max is '' @
                           Itoa (the (nq_MaxVolumes quota)))
                else case map_of (nq_MaxCapacity quota) storage of
                       None \<Rightarrow> None
                     | Some maxCap \<Rightarrow>
                         if wrap64 (currentCapacity + bytes) > maxCap
                         then Some (''NamespaceQuotaExceeded'', ''namespace '' @ ns @ '' storage '' @ storage @ '' would use '' @
                                    Itoa (wrap64 (currentCapacity + bytes)) @ '' bytes, max is '' @ g_QuantityString g maxCap)
                         else None)"

definition findPluginType :: "pstorage list \<Rightarrow> string \<Rightarrow> string \<Rightarrow> string \<Rightarrow> goerr + string" where
  "findPluginType storages region zone storageName =
     (case List.find (\<lambda>ps. gs_Region (ps_spec ps) = region \<and> gs_Storage (ps_spec ps) = storageName \<and>
                           \<not> (\<not> gs_Shared (ps_spec ps) \<and> zone \<noteq> [] \<and> gs_Zone (ps_spec ps) \<noteq> zone)) storages of
        None \<Rightarrow> Inl (Plain (''storage '' @ storageName @ '' not found in the catalog for region '' @ region))
      | Some ps \<Rightarrow>
          if gs_PluginType (ps_spec ps) = []
          then Inl (Plain (''storage '' @ storageName @ '' has no pluginType in the catalog''))
          else Inr (gs_PluginType (ps_spec ps)))"

definition storagePluginType :: "'e mgmt \<Rightarrow> string \<Rightarrow> string \<Rightarrow> string \<Rightarrow> ('e oworld, string) io" where
  "storagePluginType g region zone storageName =
     call (ListAllStorages g) (\<lambda>e. fail (Wrap (''listing storages: '' @ Error e) e))
       (\<lambda>storages. lift (findPluginType storages region zone storageName))"

section \<open>Provisioning\<close>

text \<open>The refusals of \<^verbatim>\<open>reconcileProvision\<close> that need nothing but the registration and the record, in order.\<close>

definition provisionRefusal :: "'e mgmt \<Rightarrow> ptenant \<Rightarrow> pvolume \<Rightarrow> (string \<times> string) option" where
  "provisionRefusal g tenant vol =
     (let spec = pv_spec vol
      in if tn_Mode (tc_spec tenant) = TenantModeSuspended
         then Some (''TenantSuspended'', ''tenant '' @ tcName tenant @ '' is suspended'')
         else if tn_Mode (tc_spec tenant) = TenantModeObserve
         then Some (''TenantObserveOnly'', ''provisioning requires Enforce mode'')
         else if vs_Region spec \<noteq> tn_Region (tc_spec tenant)
         then Some (''InvalidSpec'', ''region '' @ vs_Region spec @ '' does not match tenant '' @ tcName tenant @ '' region '' @ tn_Region (tc_spec tenant))
         else if vs_Storage spec \<notin> set (tn_AllowedStorages (tc_spec tenant))
         then Some (''StorageNotAllowed'', ''storage '' @ vs_Storage spec @ '' is not in tenant '' @ tcName tenant @ '' allowedStorages'')
         else case checkParameterPolicy (tn_ParameterPolicy (tc_spec tenant)) (vs_Parameters spec) (vs_CapacityBytes spec) of
           Inl err \<Rightarrow> Some (''ParameterRejected'', Error err)
         | Inr _ \<Rightarrow>
             (case checkQuota g tenant vol of
                Some q \<Rightarrow> Some q
              | None \<Rightarrow>
                  if tn_NamespaceQuotas (tc_spec tenant) \<noteq> [] \<and> cr_Namespace (vs_ClaimRef spec) = []
                  then Some (''MissingClaimRef'',
                         ''tenant has namespaceQuotas but volume has no claimRef; start the provisioner with --extra-create-metadata'')
                  else checkNamespaceQuota g tenant vol))"

definition provisionFromVolume :: "'e volume_reconciler \<Rightarrow> pvolume \<Rightarrow> volume_source \<Rightarrow> volume \<Rightarrow> ('e oworld, pvolume) io" where
  "provisionFromVolume r vol source destVol =
     (let g = vr_Client r
      in call (GetVolume g (pvNamespace vol) (src_VolumeName source))
        (\<lambda>err. withNow g (\<lambda>now. updateVolumeStatus g (setPhase VolumePhaseRejected
            (volumeCondition g now ConditionAdmitted ConditionFalse ''SourceNotFound''
              (''source volume '' @ src_VolumeName source @ '' not found: '' @ Error err) vol))))
        (\<lambda>srcVol.
           if st_Phase (pv_status srcVol) \<noteq> VolumePhaseReady
           then withNow g (\<lambda>now. updateVolumeStatus g (setPhase VolumePhasePending
                  (volumeCondition g now ConditionReady ConditionFalse ''Reconciling''
                    (''source volume '' @ src_VolumeName source @ '' is not ready'') vol)))
           else withWriter (vr_Writer r) (\<lambda>w. bindE (wCopyDisk w (vs_Region (pv_spec srcVol)) (vs_Zone (pv_spec srcVol)) (vs_Storage (pv_spec srcVol))
                        (st_DiskName (pv_status srcVol)) (vs_Zone (pv_spec vol)) (vs_Storage (pv_spec vol)) (vdisk destVol))
                  (\<lambda>_. ret vol))))"

definition restoreSnapshot :: "'e volume_reconciler \<Rightarrow> pvolume \<Rightarrow> volume \<Rightarrow> psnapshot \<Rightarrow> ('e oworld, pvolume) io" where
  "restoreSnapshot r vol destVol snap =
     (let g = vr_Client r
      in if \<not> nt_ReadyToUse (pn_status snap)
         then withNow g (\<lambda>now. updateVolumeStatus g (setPhase VolumePhasePending
                (volumeCondition g now ConditionReady ConditionFalse ''Reconciling'' (''snapshot '' @ pnName snap @ '' is not ready'') vol)))
         else case NewVolumeFromVolumeID (nt_SnapshotID (pn_status snap)) of
           Inl err \<Rightarrow> withNow g (\<lambda>now. updateVolumeStatus g (setPhase VolumePhaseRejected
                (volumeCondition g now ConditionAdmitted ConditionFalse ''InvalidSpec''
                  (''invalid snapshotID '' @ Quote (nt_SnapshotID (pn_status snap)) @ '': '' @ Error err) vol)))
         | Inr snapVol \<Rightarrow>
             withWriter (vr_Writer r) (\<lambda>w. bindE (wCopyDisk w (vregion snapVol) (vzone snapVol) (vstorage snapVol) (vdisk snapVol)
                      (vs_Zone (pv_spec vol)) (vs_Storage (pv_spec vol)) (vdisk destVol)) (\<lambda>_. ret vol)))"

definition provisionFromSnapshot :: "'e volume_reconciler \<Rightarrow> pvolume \<Rightarrow> volume_source \<Rightarrow> volume \<Rightarrow> ('e oworld, pvolume) io" where
  "provisionFromSnapshot r vol source destVol =
     (let g = vr_Client r;
          missing = (\<lambda>message. withNow g (\<lambda>now. updateVolumeStatus g (setPhase VolumePhaseRejected
            (volumeCondition g now ConditionAdmitted ConditionFalse ''SourceNotFound'' message vol))))
      in call (GetSnapshot g (pvNamespace vol) (src_SnapshotName source))
        (\<lambda>_. call (ListSnapshotsIn g (pvNamespace vol))
           (\<lambda>listErr. missing (''listing snapshots: '' @ Error listErr))
           (\<lambda>snaps. case List.find (\<lambda>s. nt_SnapshotID (pn_status s) = src_SnapshotName source) snaps of
              None \<Rightarrow> missing (''snapshot '' @ src_SnapshotName source @ '' not found'')
            | Some snap \<Rightarrow> restoreSnapshot r vol destVol snap))
        (restoreSnapshot r vol destVol))"

definition provisionFromSource :: "'e volume_reconciler \<Rightarrow> pvolume \<Rightarrow> volume_source \<Rightarrow> volume \<Rightarrow> ('e oworld, pvolume) io" where
  "provisionFromSource r vol source destVol =
     (if src_VolumeName source \<noteq> [] then provisionFromVolume r vol source destVol
      else if src_SnapshotName source \<noteq> [] then provisionFromSnapshot r vol source destVol
      else fail (Plain ''source volume or snapshot name is required''))"

text \<open>A new disk, unless the storage already lists one of its name.\<close>

definition provisionFresh :: "'e volume_reconciler \<Rightarrow> pvolume \<Rightarrow> volume \<Rightarrow> int \<Rightarrow> ('e oworld, pvolume) io" where
  "provisionFresh r vol diskVol volSizeBytes =
     (let g = vr_Client r; spec = pv_spec vol
      in call (ListDisks r (vs_Region spec) (vs_Zone spec) (vs_Storage spec))
        (\<lambda>err. withNow g (\<lambda>now. errors2 (updateVolumeStatus g
            (volumeCondition g now ConditionReady ConditionFalse ''ProxmoxError'' (Error err) vol)) err))
        (\<lambda>disks.
           if list_ex (\<lambda>d. dk_Name d = vdisk diskVol \<or> dk_Name d = DiskName diskVol) disks then ret vol
           else withWriter (vr_Writer r) (\<lambda>w. call (wCreateDisk w (vs_Region spec) (vs_Zone spec) (vs_Storage spec) (vdisk diskVol) volSizeBytes)
                  (\<lambda>err. withNow g (\<lambda>now. errors2 (updateVolumeStatus g (setPhase VolumePhaseFailed
                      (volumeCondition g now ConditionReady ConditionFalse ''ProxmoxError'' (''creating disk: '' @ Error err) vol))) err))
                  (\<lambda>_. ret vol))))"

definition provisionedStatus :: "int \<Rightarrow> ptenant \<Rightarrow> volume \<Rightarrow> int \<Rightarrow> pvolume \<Rightarrow> pvolume" where
  "provisionedStatus now tenant diskVol volSizeBytes vol =
     pv_status_update (\<lambda>s. s\<lparr>st_VolumeID := VolumeID diskVol, st_DiskName := vdisk diskVol,
        st_OwnerVMID := tn_PlaceholderVMID (tc_spec tenant), st_CapacityBytes := volSizeBytes,
        st_AccessibleTopology := [vs_Zone (pv_spec vol)], st_Adopted := False,
        st_Phase := VolumePhaseReady, st_LastSyncTime := Some now\<rparr>) vol"

definition diskVolOf :: "ptenant \<Rightarrow> pvolume \<Rightarrow> string \<Rightarrow> volume" where
  "diskVolOf tenant vol pluginType =
     (let spec = pv_spec vol;
          diskName = ''vm-'' @ Itoa (tn_PlaceholderVMID (tc_spec tenant)) @ ''-'' @ pvName vol;
          format = DiskFormat pluginType (mget (vs_Parameters spec) ''storageFormat'')
      in NewVolumeF (vs_Region spec) (vs_Zone spec) (vs_Storage spec) diskName format)"

definition publishProvisioned :: "'e volume_reconciler \<Rightarrow> ptenant \<Rightarrow> volume \<Rightarrow> int \<Rightarrow> pvolume \<Rightarrow> ('e oworld, int) io" where
  "publishProvisioned r tenant diskVol volSizeBytes vol =
     (let g = vr_Client r
      in withNow g (\<lambda>now.
           let vol = provisionedStatus now tenant diskVol volSizeBytes vol;
               vol = volumeCondition g now ConditionAdmitted ConditionTrue ''Accepted'' (''provisioned by tenant '' @ tcName tenant) vol;
               vol = volumeCondition g now ConditionReady ConditionTrue ''Accepted''
                       (''disk '' @ vdisk diskVol @ '' on '' @ vs_Storage (pv_spec vol) @ '', '' @ Itoa volSizeBytes @ '' bytes'') vol
           in bindE (updateVolumeStatus g vol) (\<lambda>_. ret (syncPeriod (vr_SyncPeriod r)))))"

definition provisionDisk :: "'e volume_reconciler \<Rightarrow> pvolume \<Rightarrow> ptenant \<Rightarrow> string \<Rightarrow> ('e oworld, int) io" where
  "provisionDisk r vol tenant pluginType =
     (let g = vr_Client r;
          diskVol = diskVolOf tenant vol pluginType;
          volSizeBytes = RoundUpSizeBytes (vs_CapacityBytes (pv_spec vol)) MinChunkSizeBytes
      in bindE (holdVolume g vol tenant) (\<lambda>vol.
         bindE (case vs_Source (pv_spec vol) of
                  Some source \<Rightarrow> provisionFromSource r vol source diskVol
                | None \<Rightarrow> provisionFresh r vol diskVol volSizeBytes)
           (publishProvisioned r tenant diskVol volSizeBytes)))"

section \<open>Volumes that are ready\<close>

definition AppliedMutableParamsAnnotation :: string where
  "AppliedMutableParamsAnnotation = GroupName @ ''/applied-mutable-params''"

definition MutableParamsHash :: "gomap \<Rightarrow> string" where
  "MutableParamsHash params =
     hex (take 16 (sha256 (concat (map (\<lambda>(k, v). k @ CHR 0x00 # v @ [CHR 0x00]) (foldr insertKey params [])))))"

definition recordAppliedParams :: "'e volume_reconciler \<Rightarrow> pvolume \<Rightarrow> string \<Rightarrow> ('e oworld, int) io" where
  "recordAppliedParams r vol hash =
     (let g = vr_Client r;
          vol = pv_meta_update (om_Annotations_update (\<lambda>m. mset_key m AppliedMutableParamsAnnotation hash)) vol
      in call (WriteVolume g (OUpdate (KVolume vol)))
           (\<lambda>e. fail (Wrap (''recording applied params on '' @ pvNamespace vol @ ''/'' @ pvName vol @ '': '' @ Error e) e))
           (\<lambda>_. ret (syncPeriod (vr_SyncPeriod r))))"

definition attachedTo :: "pvolume \<Rightarrow> pattachment list \<Rightarrow> pattachment option" where
  "attachedTo vol attachments = List.find (\<lambda>a. as_VolumeName (pa_spec a) = pvName vol \<and> at_Attached (pa_status a)) attachments"

definition reconcileModify :: "'e volume_reconciler \<Rightarrow> pvolume \<Rightarrow> string \<Rightarrow> ('e oworld, int) io" where
  "reconcileModify r vol paramsHash =
     (let g = vr_Client r
      in call (ListAttachments g (pvNamespace vol)) (\<lambda>e. fail (Wrap (''listing attachments: '' @ Error e) e)) (\<lambda>attachments.
        case attachedTo vol attachments of
          None \<Rightarrow> recordAppliedParams r vol paramsHash
        | Some att \<Rightarrow>
            (case NewVolumeFromVolumeID (st_VolumeID (pv_status vol)) of
               Inl err \<Rightarrow> withNow g (\<lambda>now. bindE (updateVolumeStatus g
                  (volumeCondition g now ConditionReady ConditionFalse ''InvalidSpec''
                    (''invalid volumeID '' @ Quote (st_VolumeID (pv_status vol)) @ '': '' @ Error err) vol)) (\<lambda>_. ret 0))
             | Inr pveVol \<Rightarrow>
                 (case ExtractModifyVolumeParameters (vs_MutableParameters (pv_spec vol)) of
                    Inl err \<Rightarrow> withNow g (\<lambda>now. bindE (updateVolumeStatus g
                       (volumeCondition g now ConditionReady ConditionFalse ''ParameterRejected''
                         (''invalid mutable parameters: '' @ Error err) vol)) (\<lambda>_. ret 0))
                  | Inr params \<Rightarrow>
                      withWriter (vr_Writer r) (\<lambda>w. call (wUpdateDisk w (vregion pveVol) (as_VMID (pa_spec att)) pveVol (ToCFG params))
                        (\<lambda>err. withNow g (\<lambda>now. errors2 (updateVolumeStatus g
                           (volumeCondition g now ConditionReady ConditionFalse ''ProxmoxError''
                             (''updating disk options: '' @ Error err) vol)) err))
                        (\<lambda>_. recordAppliedParams r vol paramsHash))))))"

definition reconcileExpand :: "'e volume_reconciler \<Rightarrow> pvolume \<Rightarrow> int \<Rightarrow> ('e oworld, int) io" where
  "reconcileExpand r vol sizeBytes =
     (let g = vr_Client r; period = syncPeriod (vr_SyncPeriod r)
      in case NewVolumeFromVolumeID (st_VolumeID (pv_status vol)) of
        Inl err \<Rightarrow> withNow g (\<lambda>now. bindE (updateVolumeStatus g
           (volumeCondition g now ConditionReady ConditionFalse ''InvalidSpec''
             (''invalid volumeID '' @ Quote (st_VolumeID (pv_status vol)) @ '': '' @ Error err) vol)) (\<lambda>_. ret 0))
      | Inr pveVol \<Rightarrow>
          call (ListAttachments g (pvNamespace vol)) (\<lambda>e. fail (Wrap (''listing attachments: '' @ Error e) e)) (\<lambda>attachments.
            case attachedTo vol attachments of
              None \<Rightarrow> ret period
            | Some att \<Rightarrow>
                withWriter (vr_Writer r) (\<lambda>w. call (wResizeDisk w (vregion pveVol) (as_VMID (pa_spec att)) (vzone pveVol)
                        (''scsi'' @ at_LUN (pa_status att)) (Itoa (quot sizeBytes MiB) @ ''M''))
                  (\<lambda>err. withNow g (\<lambda>now. errors2 (updateVolumeStatus g
                     (volumeCondition g now ConditionReady ConditionFalse ''ProxmoxError'' (''resizing disk: '' @ Error err) vol)) err))
                  (\<lambda>_. withNow g (\<lambda>now. bindE (updateVolumeStatus g
                     (volumeCondition g now ConditionReady ConditionTrue ''Accepted'' (''disk expanded to '' @ Itoa sizeBytes @ '' bytes'')
                       (pv_status_update (\<lambda>s. s\<lparr>st_CapacityBytes := sizeBytes, st_LastSyncTime := Some now\<rparr>) vol))) (\<lambda>_. ret period))))))"

definition reconcileReadyVolume :: "'e volume_reconciler \<Rightarrow> pvolume \<Rightarrow> ('e oworld, int) io" where
  "reconcileReadyVolume r vol =
     (let roundedBytes = RoundUpSizeBytes (vs_CapacityBytes (pv_spec vol)) MinChunkSizeBytes;
          params = vs_MutableParameters (pv_spec vol); currentHash = MutableParamsHash params
      in if roundedBytes > st_CapacityBytes (pv_status vol) then reconcileExpand r vol roundedBytes
         else if params \<noteq> [] \<and> currentHash \<noteq> mget (om_Annotations (pv_meta vol)) AppliedMutableParamsAnnotation
         then reconcileModify r vol currentHash
         else ret (syncPeriod (vr_SyncPeriod r)))"

definition reconcileProvision :: "'e volume_reconciler \<Rightarrow> pvolume \<Rightarrow> ('e oworld, int) io" where
  "reconcileProvision r vol =
     (let g = vr_Client r; spec = pv_spec vol
      in if st_Phase (pv_status vol) = VolumePhaseReady \<and> st_VolumeID (pv_status vol) \<noteq> [] then reconcileReadyVolume r vol
         else bindE (tenantFor g (pvNamespace vol)) (\<lambda>t.
           case t of
             None \<Rightarrow> reject r vol ''TenantUnknown'' (''no admitted TenantCluster registers namespace '' @ pvNamespace vol)
           | Some tenant \<Rightarrow>
               (case provisionRefusal g tenant vol of
                  Some (reason, message) \<Rightarrow> reject r vol reason message
                | None \<Rightarrow>
                    bindE (duplicate g vol) (\<lambda>other.
                      case other of
                        Some o' \<Rightarrow> rejectDuplicate r vol o'
                      | None \<Rightarrow>
                          call (storagePluginType g (vs_Region spec) (vs_Zone spec) (vs_Storage spec))
                            (\<lambda>err. reject r vol ''InvalidSpec'' (''cannot determine storage type for '' @ vs_Storage spec @ '': '' @ Error err))
                            (provisionDisk r vol tenant)))))"

section \<open>Deleting\<close>

definition releaseVolume :: "'e mgmt \<Rightarrow> pvolume \<Rightarrow> ('e oworld, int) io" where
  "releaseVolume g vol =
     call (WriteVolume g (OUpdate (KVolume (pv_meta_update (om_Finalizers_update (\<lambda>fs. g_RemoveFinalizer g fs VolumeFinalizer)) vol))))
       (\<lambda>e. fail (Wrap (''releasing '' @ pvNamespace vol @ ''/'' @ pvName vol @ '': '' @ Error e) e)) (\<lambda>_. ret 0)"

definition deleteUnlessReferenced :: "'e volume_reconciler \<Rightarrow> pvolume \<Rightarrow> pattachment option \<Rightarrow> ('e oworld, int) io" where
  "deleteUnlessReferenced r vol reference =
     (let g = vr_Client r; spec = pv_spec vol; period = syncPeriod (vr_SyncPeriod r)
      in case reference of
           Some att \<Rightarrow> withNow g (\<lambda>now. bindE (updateVolumeStatus g (setPhase VolumePhaseDeleting
             (volumeCondition g now ConditionReady ConditionFalse ''Reconciling''
               (''attachment '' @ paName att @ '' still references this volume'') vol))) (\<lambda>_. ret period))
         | None \<Rightarrow>
             if st_DiskName (pv_status vol) = [] then releaseVolume g vol
             else withWriter (vr_Writer r) (\<lambda>w. call (wDeleteDisk w (vs_Region spec) (vs_Zone spec) (vs_Storage spec) (st_DiskName (pv_status vol)))
                    (\<lambda>err. withNow g (\<lambda>now. errors2 (updateVolumeStatus g (setPhase VolumePhaseDeleting
                       (volumeCondition g now ConditionReady ConditionFalse ''ProxmoxError'' (''deleting disk: '' @ Error err) vol))) err))
                    (\<lambda>_. releaseVolume g vol)))"

definition reconcileDeleteProvisioned :: "'e volume_reconciler \<Rightarrow> pvolume \<Rightarrow> ('e oworld, int) io" where
  "reconcileDeleteProvisioned r vol =
     call (ListAttachments (vr_Client r) (pvNamespace vol)) (\<lambda>e. fail (Wrap (''listing attachments: '' @ Error e) e)) (\<lambda>attachments.
       deleteUnlessReferenced r vol (List.find (\<lambda>a. as_VolumeName (pa_spec a) = pvName vol) attachments))"

definition reconcileDelete :: "'e volume_reconciler \<Rightarrow> pvolume \<Rightarrow> ('e oworld, int) io" where
  "reconcileDelete r vol =
     (let g = vr_Client r
      in if \<not> g_ContainsFinalizer g (om_Finalizers (pv_meta vol)) VolumeFinalizer then ret 0
         else if \<not> st_Adopted (pv_status vol) \<and> \<not> vs_Adopt (pv_spec vol) \<and> vr_Writer r \<noteq> None
         then bindE (tenantFor g (pvNamespace vol)) (\<lambda>_. reconcileDeleteProvisioned r vol)
         else bindE (tenantFor g (pvNamespace vol)) (\<lambda>t.
           case t of
             Some tenant \<Rightarrow>
               if tn_Mode (tc_spec tenant) = TenantModeDecommission
               then withNow g (\<lambda>now. bindE (updateVolumeStatus g (setPhase VolumePhaseDeleting
                      (volumeCondition g now ConditionReady ConditionFalse ''Reconciling''
                        (''tenant '' @ tcName tenant @ '' is decommissioning, and this operator cannot delete disks'') vol)))
                      (\<lambda>_. ret (syncPeriod (vr_SyncPeriod r))))
               else releaseVolume g vol
           | None \<Rightarrow> releaseVolume g vol))"

definition ReconcileVolume :: "'e volume_reconciler \<Rightarrow> string \<Rightarrow> string \<Rightarrow> ('e oworld, int) io" where
  "ReconcileVolume r namespace name =
     call (GetVolume (vr_Client r) namespace name) ignoreNotFound
       (\<lambda>vol. if om_DeletionTimestamp (pv_meta vol) \<noteq> None then reconcileDelete r vol
              else if \<not> vs_Adopt (pv_spec vol) then reconcileProvision r vol
              else reconcileAdopt r vol)"

definition volumesForTenant :: "'e mgmt \<Rightarrow> ptenant \<Rightarrow> ('e oworld, (string \<times> string) list) io" where
  "volumesForTenant g tenant =
     (if tn_Namespace (tc_spec tenant) = [] then ret []
      else call (ListVolumesIn g (tn_Namespace (tc_spec tenant))) (\<lambda>_. ret [])
             (\<lambda>vols. ret (map (\<lambda>v. (pvNamespace v, pvName v)) vols)))"

end
