(* ===== verification/Operator_Attachment.thy ===== *)
theory Operator_Attachment
  imports Operator_Volume
begin

text \<open>
  The reconcilers of attachment records (\<^verbatim>\<open>pkg/operator/controller/attachment/reconciler.go\<close>) and of
  snapshot records (\<^verbatim>\<open>pkg/operator/controller/snapshot/reconciler.go\<close>).  The per-VM lock is the one
  of \<open>Vm_Locks\<close>; here taking and releasing it are events of the run.
\<close>

section \<open>Attachments\<close>

record 'e attachment_reconciler =
  ar_Client :: "'e mgmt"
  ar_Writer :: "'e writer"
  ar_Reassign :: bool
  ar_SyncPeriod :: int

abbreviation wAttachDisk where
  "wAttachDisk w region vmid v options \<equiv>
     invoke (PxWrite (AttachDiskOp region vmid v options)) (w_AttachDisk w region vmid v options)"
abbreviation wDetachDisk where
  "wDetachDisk w region vmid v \<equiv>
     invoke (PxWrite (DetachDiskOp region vmid v)) (w_DetachDisk w region vmid v)"
abbreviation wRenameDisk where
  "wRenameDisk w region v vmid \<equiv>
     invoke (PxWrite (RenameDiskOp region v vmid)) (w_RenameDisk w region v vmid)"
abbreviation wClearUnusedDisk where
  "wClearUnusedDisk w region vmid v \<equiv>
     invoke (PxWrite (ClearUnusedDiskOp region vmid v)) (w_ClearUnusedDisk w region vmid v)"

text \<open>\<^verbatim>\<open>r.VMLock.Lock(region, vmid); defer r.VMLock.Unlock(region, vmid)\<close>.\<close>

definition withVmLock :: "string \<Rightarrow> int \<Rightarrow> ('e oworld, 'a) io \<Rightarrow> ('e oworld, 'a) io" where
  "withVmLock region vmid m =
     bindE (invoke (VmLock region vmid) (\<lambda>e. (Inr (), e))) (\<lambda>_.
       call m
         (\<lambda>err. bindE (invoke (VmUnlock region vmid) (\<lambda>e. (Inr (), e))) (\<lambda>_. fail err))
         (\<lambda>x. bindE (invoke (VmUnlock region vmid) (\<lambda>e. (Inr (), e))) (\<lambda>_. ret x)))"

definition attachmentCondition :: "'e mgmt \<Rightarrow> int \<Rightarrow> string \<Rightarrow> string \<Rightarrow> string \<Rightarrow> string \<Rightarrow> pattachment \<Rightarrow> pattachment" where
  "attachmentCondition g now t s reason message att =
     pa_status_update (at_Conditions_update (g_SetStatusCondition g
       \<lparr>cd_Type = t, cd_Status = s, cd_Reason = reason, cd_Message = message, cd_LastTransitionTime = now,
        cd_ObservedGeneration = om_Generation (pa_meta att)\<rparr>)) att"

definition updateAttachmentStatus :: "'e mgmt \<Rightarrow> pattachment \<Rightarrow> ('e oworld, pattachment) io" where
  "updateAttachmentStatus g att =
     (let att = pa_status_update (at_ObservedGeneration_update (\<lambda>_. om_Generation (pa_meta att))) att
      in call (WriteAttachment g (OStatus (KAttachment att)))
           (\<lambda>e. fail (Wrap (''updating '' @ paNamespace att @ ''/'' @ paName att @ '' status: '' @ Error e) e)) ret)"

text \<open>A condition, the status written, and the answer that goes with it.\<close>

definition attachmentAnswer :: "'e mgmt \<Rightarrow> pattachment \<Rightarrow> string \<Rightarrow> string \<Rightarrow> string \<Rightarrow> int \<Rightarrow> ('e oworld, int) io" where
  "attachmentAnswer g att t reason message after =
     withNow g (\<lambda>now. bindE (updateAttachmentStatus g (attachmentCondition g now t ConditionFalse reason message att)) (\<lambda>_. ret after))"

definition holdAttachment :: "'e mgmt \<Rightarrow> pattachment \<Rightarrow> ptenant \<Rightarrow> ('e oworld, pattachment) io" where
  "holdAttachment g att tenant =
     (let (added, fs) = g_AddFinalizer g (om_Finalizers (pa_meta att)) AttachmentFinalizer;
          (labels, patched) = holdLabels [(LabelTenant, tcName tenant)] (om_Labels (pa_meta att)) added;
          held = pa_meta_update (\<lambda>m. m\<lparr>om_Finalizers := fs, om_Labels := labels\<rparr>) att
      in if \<not> patched then ret held
         else call (WriteAttachment g (OUpdate (KAttachment held)))
                (\<lambda>e. fail (Wrap (''holding '' @ paNamespace att @ ''/'' @ paName att @ '': '' @ Error e) e)) ret)"

definition diskOptions :: "pvolume \<Rightarrow> bool \<Rightarrow> goerr + gomap" where
  "diskOptions vol readonly =
     (case ExtractParameters (vs_Parameters (pv_spec vol)) of
        Inl e \<Rightarrow> Inl e
      | Inr params \<Rightarrow>
          let params = (if readonly then setField params ''ReadOnly'' (FPBool (Some True)) else params);
              cfg = ToCFG params
          in if vs_MutableParameters (pv_spec vol) = [] then Inr cfg
             else case ExtractModifyVolumeParameters (vs_MutableParameters (pv_spec vol)) of
                    Inl e \<Rightarrow> Inl e
                  | Inr vac \<Rightarrow> Inr (MergeMap vac cfg))"

text \<open>A status update whose failure is only logged.\<close>

definition recordDisk :: "'e mgmt \<Rightarrow> pvolume \<Rightarrow> string \<Rightarrow> int \<Rightarrow> ('e oworld, pvolume) io" where
  "recordDisk g vol disk vmid =
     (let vol = pv_status_update (\<lambda>s. s\<lparr>st_DiskName := disk, st_OwnerVMID := vmid\<rparr>) vol
      in call (WriteVolume g (OStatus (KVolume vol))) (\<lambda>_. ret vol) ret)"

definition attachRename :: "'e attachment_reconciler \<Rightarrow> pvolume \<Rightarrow> volume \<Rightarrow> int \<Rightarrow> ('e oworld, pvolume \<times> volume) io" where
  "attachRename r vol pveVol vmid =
     (if ar_Reassign r \<and> vnode pveVol \<noteq> [] \<and> VMID pveVol \<noteq> Itoa vmid
      then call (wRenameDisk (ar_Writer r) (vregion pveVol) pveVol vmid)
             (\<lambda>_. ret (vol, pveVol))
             (\<lambda>renamed. bindE (recordDisk (ar_Client r) vol (vdisk renamed) vmid) (\<lambda>vol. ret (vol, renamed)))
      else ret (vol, pveVol))"

definition attachedStatus :: "int \<Rightarrow> attach_result \<Rightarrow> pattachment \<Rightarrow> pattachment" where
  "attachedStatus now result att =
     pa_status_update (\<lambda>s. s\<lparr>at_Attached := True, at_DevicePath := ar_DevicePath result, at_LUN := Itoa (ar_Lun result),
        at_AttachedAt := Some now, at_ObservedGeneration := om_Generation (pa_meta att)\<rparr>) att"

definition attachLocked :: "'e attachment_reconciler \<Rightarrow> pattachment \<Rightarrow> pvolume \<Rightarrow> volume \<Rightarrow> ('e oworld, int) io" where
  "attachLocked r att vol pveVol =
     (let g = ar_Client r; vmid = as_VMID (pa_spec att); period = syncPeriod (ar_SyncPeriod r)
      in bindE (attachRename r vol pveVol vmid) (\<lambda>(vol, pveVol').
         case diskOptions vol (as_Readonly (pa_spec att)) of
           Inl err \<Rightarrow> attachmentAnswer g att ConditionReady ''ParameterRejected'' (''volume parameters: '' @ Error err) 0
         | Inr options \<Rightarrow>
             call (wAttachDisk (ar_Writer r) (vregion pveVol) vmid pveVol' options)
               (\<lambda>err. attachmentAnswer g att ConditionReady ''ProxmoxError'' (''attaching disk: '' @ Error err) period)
               (\<lambda>result. withNow g (\<lambda>now.
                  let att = attachedStatus now result att;
                      att = attachmentCondition g now ConditionAdmitted ConditionTrue ''Accepted'' (''attached to VM '' @ Itoa vmid) att;
                      att = attachmentCondition g now ConditionReady ConditionTrue ''Accepted''
                              (''disk '' @ vdisk pveVol' @ '' on VM '' @ Itoa vmid @ '', lun '' @ Itoa (ar_Lun result)) att
                  in bindE (updateAttachmentStatus g att) (\<lambda>_. ret period)))))"

definition reconcileAttach :: "'e attachment_reconciler \<Rightarrow> pattachment \<Rightarrow> ('e oworld, int) io" where
  "reconcileAttach r att =
     (let g = ar_Client r; spec = pa_spec att; period = syncPeriod (ar_SyncPeriod r)
      in if at_Attached (pa_status att) then ret period
         else call (GetVolume g (paNamespace att) (as_VolumeName spec))
           (\<lambda>err. attachmentAnswer g att ConditionReady ''InvalidSpec'' (''volume '' @ as_VolumeName spec @ '' not found: '' @ Error err) 0)
           (\<lambda>vol.
              if st_VolumeID (pv_status vol) \<noteq> as_VolumeID spec
              then attachmentAnswer g att ConditionAdmitted ''VolumeIDMismatch''
                     (''attachment volumeID '' @ as_VolumeID spec @ '' does not match volume status.volumeID '' @ st_VolumeID (pv_status vol)) 0
              else if st_Phase (pv_status vol) \<noteq> VolumePhaseReady
              then attachmentAnswer g att ConditionReady ''Reconciling''
                     (''volume '' @ pvName vol @ '' is not ready (phase '' @ st_Phase (pv_status vol) @ '')'') period
              else bindE (tenantFor g (paNamespace att)) (\<lambda>t.
                case t of
                  None \<Rightarrow> attachmentAnswer g att ConditionAdmitted ''TenantUnknown''
                            (''no admitted TenantCluster registers namespace '' @ paNamespace att) 0
                | Some tenant \<Rightarrow>
                    if tn_Mode (tc_spec tenant) \<noteq> TenantModeEnforce \<and> tn_Mode (tc_spec tenant) \<noteq> TenantModeDecommission
                    then attachmentAnswer g att ConditionAdmitted ''TenantObserveOnly'' ''attach requires Enforce mode'' 0
                    else if as_VMID spec \<notin> set (tt_ResolvedVMIDs (tc_status tenant))
                    then attachmentAnswer g att ConditionAdmitted ''VMIDNotOwned''
                           (''vmid '' @ Itoa (as_VMID spec) @ '' is not in tenant '' @ tcName tenant @ [CHR 0x27] @ ''s resolvedVmids'') 0
                    else bindE (holdAttachment g att tenant) (\<lambda>att.
                      case NewVolumeFromVolumeID (st_VolumeID (pv_status vol)) of
                        Inl err \<Rightarrow> attachmentAnswer g att ConditionReady ''InvalidSpec''
                                     (''invalid volumeID '' @ Quote (st_VolumeID (pv_status vol)) @ '': '' @ Error err) 0
                      | Inr pveVol \<Rightarrow>
                          withVmLock (vregion pveVol) (as_VMID (pa_spec att)) (attachLocked r att vol pveVol)))))"

definition releaseAttachment :: "'e mgmt \<Rightarrow> pattachment \<Rightarrow> ('e oworld, pattachment) io" where
  "releaseAttachment g att =
     WriteAttachment g (OUpdate (KAttachment (pa_meta_update (om_Finalizers_update
       (\<lambda>fs. g_RemoveFinalizer g fs AttachmentFinalizer)) att)))"

text \<open>Back to the placeholder's name, as far as it goes: nothing here fails the detach.\<close>

definition detachRename :: "'e attachment_reconciler \<Rightarrow> pattachment \<Rightarrow> pvolume \<Rightarrow> volume \<Rightarrow> ('e oworld, unit) io" where
  "detachRename r att vol pveVol =
     (let g = ar_Client r; region = vregion pveVol; vmid = as_VMID (pa_spec att)
      in if \<not> (ar_Reassign r \<and> vnode pveVol \<noteq> []) then ret ()
         else call (tenantFor g (paNamespace att)) (\<lambda>_. ret ())
           (\<lambda>t. let placeholder = (case t of None \<Rightarrow> 0 | Some tenant \<Rightarrow> tn_PlaceholderVMID (tc_spec tenant));
                    cur = (case Atoi (VMID pveVol) of None \<Rightarrow> 0 | Some i \<Rightarrow> i)
                in if \<not> (placeholder > 0 \<and> cur \<noteq> placeholder) then ret ()
                   else call (wRenameDisk (ar_Writer r) region pveVol placeholder) (\<lambda>_. ret ())
                     (\<lambda>renamed.
                        call (wClearUnusedDisk (ar_Writer r) region vmid renamed)
                          (\<lambda>_. bindE (recordDisk g vol (vdisk renamed) placeholder) (\<lambda>_. ret ()))
                          (\<lambda>_. bindE (recordDisk g vol (vdisk renamed) placeholder) (\<lambda>_. ret ())))))"

definition reconcileDetach :: "'e attachment_reconciler \<Rightarrow> pattachment \<Rightarrow> ('e oworld, int) io" where
  "reconcileDetach r att =
     (let g = ar_Client r; spec = pa_spec att
      in if \<not> g_ContainsFinalizer g (om_Finalizers (pa_meta att)) AttachmentFinalizer then ret 0
         else call (GetVolume g (paNamespace att) (as_VolumeName spec))
           (\<lambda>_. bindE (releaseAttachment g att) (\<lambda>_. ret 0))
           (\<lambda>vol.
              if st_VolumeID (pv_status vol) = [] then bindE (releaseAttachment g att) (\<lambda>_. ret 0)
              else case NewVolumeFromVolumeID (st_VolumeID (pv_status vol)) of
                Inl _ \<Rightarrow> bindE (releaseAttachment g att) (\<lambda>_. ret 0)
              | Inr baseVol \<Rightarrow>
                  let diskName = (if st_DiskName (pv_status vol) = [] then vdisk baseVol else st_DiskName (pv_status vol));
                      pveVol = NewVolume (vregion baseVol) (vzone baseVol) (vstorage baseVol) diskName;
                      vmid = as_VMID spec
                  in withVmLock (vregion pveVol) vmid
                       (call (wDetachDisk (ar_Writer r) (vregion pveVol) vmid pveVol)
                          (\<lambda>err. withNow g (\<lambda>now. errors2 (updateAttachmentStatus g
                             (attachmentCondition g now ConditionReady ConditionFalse ''ProxmoxError'' (''detaching disk: '' @ Error err) att)) err))
                          (\<lambda>_. bindE (detachRename r att vol pveVol) (\<lambda>_.
                             call (releaseAttachment g att)
                               (\<lambda>e. fail (Wrap (''releasing '' @ paNamespace att @ ''/'' @ paName att @ '': '' @ Error e) e))
                               (\<lambda>_. ret 0))))))"

definition ReconcileAttachment :: "'e attachment_reconciler \<Rightarrow> string \<Rightarrow> string \<Rightarrow> ('e oworld, int) io" where
  "ReconcileAttachment r namespace name =
     call (GetAttachment (ar_Client r) namespace name) ignoreNotFound
       (\<lambda>att. if om_DeletionTimestamp (pa_meta att) \<noteq> None then reconcileDetach r att else reconcileAttach r att)"

section \<open>Snapshots\<close>

record 'e snapshot_reconciler =
  nr_Client :: "'e mgmt"
  nr_Writer :: "'e writer"
  nr_SyncPeriod :: int

definition snapshotCondition :: "'e mgmt \<Rightarrow> int \<Rightarrow> string \<Rightarrow> string \<Rightarrow> string \<Rightarrow> string \<Rightarrow> psnapshot \<Rightarrow> psnapshot" where
  "snapshotCondition g now t s reason message snap =
     pn_status_update (nt_Conditions_update (g_SetStatusCondition g
       \<lparr>cd_Type = t, cd_Status = s, cd_Reason = reason, cd_Message = message, cd_LastTransitionTime = now,
        cd_ObservedGeneration = om_Generation (pn_meta snap)\<rparr>)) snap"

definition updateSnapshotStatus :: "'e mgmt \<Rightarrow> psnapshot \<Rightarrow> ('e oworld, psnapshot) io" where
  "updateSnapshotStatus g snap =
     (let snap = pn_status_update (nt_ObservedGeneration_update (\<lambda>_. om_Generation (pn_meta snap))) snap
      in call (WriteSnapshot g (OStatus (KSnapshot snap)))
           (\<lambda>e. fail (Wrap (''updating '' @ pnNamespace snap @ ''/'' @ pnName snap @ '' status: '' @ Error e) e)) ret)"

definition snapshotAnswer :: "'e mgmt \<Rightarrow> psnapshot \<Rightarrow> string \<Rightarrow> string \<Rightarrow> string \<Rightarrow> int \<Rightarrow> ('e oworld, int) io" where
  "snapshotAnswer g snap t reason message after =
     withNow g (\<lambda>now. bindE (updateSnapshotStatus g (snapshotCondition g now t ConditionFalse reason message snap)) (\<lambda>_. ret after))"

definition holdSnapshot :: "'e mgmt \<Rightarrow> psnapshot \<Rightarrow> ptenant \<Rightarrow> ('e oworld, psnapshot) io" where
  "holdSnapshot g snap tenant =
     (let (added, fs) = g_AddFinalizer g (om_Finalizers (pn_meta snap)) SnapshotFinalizer;
          (labels, patched) = holdLabels [(LabelTenant, tcName tenant)] (om_Labels (pn_meta snap)) added;
          held = pn_meta_update (\<lambda>m. m\<lparr>om_Finalizers := fs, om_Labels := labels\<rparr>) snap
      in if \<not> patched then ret held
         else call (WriteSnapshot g (OUpdate (KSnapshot held)))
                (\<lambda>e. fail (Wrap (''holding '' @ pnNamespace snap @ ''/'' @ pnName snap @ '': '' @ Error e) e)) ret)"

definition snapshotStorageError :: "pstorage list \<Rightarrow> string \<Rightarrow> string \<Rightarrow> goerr + unit" where
  "snapshotStorageError storages region storageName =
     (case List.find (\<lambda>ps. gs_Region (ps_spec ps) = region \<and> gs_Storage (ps_spec ps) = storageName) storages of
        None \<Rightarrow> Inl (Plain (''storage '' @ storageName @ '' not found in the catalog for region '' @ region))
      | Some ps \<Rightarrow>
          let pluginType = gs_PluginType (ps_spec ps)
          in if pluginType = ''cifs'' \<or> pluginType = ''pbs''
             then Inl (Plain (''storage type '' @ pluginType @ '' does not support snapshots''))
             else if pluginType = ''rbd'' then Inl (Plain ''storage type rbd (ceph) does not support snapshots'')
             else if gs_Shared (ps_spec ps) then Inl (Plain ''shared storage does not support snapshots'')
             else Inr ())"

definition checkStorageForSnapshot :: "'e mgmt \<Rightarrow> string \<Rightarrow> string \<Rightarrow> ('e oworld, unit) io" where
  "checkStorageForSnapshot g region storageName =
     call (ListAllStorages g) (\<lambda>e. fail (Wrap (''listing storages: '' @ Error e) e))
       (\<lambda>storages. lift (snapshotStorageError storages region storageName))"

definition isNotFound :: "goerr \<Rightarrow> bool" where
  "isNotFound err \<longleftrightarrow> Contains (Error err) ''does not exist'' \<or> Contains (Error err) ''not found'' \<or> Contains (Error err) ''no such''"

definition snapVolOf :: "ptenant \<Rightarrow> psnapshot \<Rightarrow> volume \<Rightarrow> volume" where
  "snapVolOf tenant snap srcPveVol =
     (let v = CopyVolume srcPveVol (''vm-'' @ Itoa (tn_PlaceholderVMID (tc_spec tenant)) @ ''-'' @ pnName snap)
      in if ns_Zone (pn_spec snap) \<noteq> [] then SetZone (ns_Zone (pn_spec snap)) v else v)"

definition copySnapshot :: "'e snapshot_reconciler \<Rightarrow> psnapshot \<Rightarrow> pvolume \<Rightarrow> ptenant \<Rightarrow> volume \<Rightarrow> ('e oworld, int) io" where
  "copySnapshot r snap srcVol tenant srcPveVol =
     (let g = nr_Client r; period = syncPeriod (nr_SyncPeriod r); snapPveVol = snapVolOf tenant snap srcPveVol;
          spec = pv_spec srcVol
      in bindE (holdSnapshot g snap tenant) (\<lambda>snap.
           let srcDiskName = (if st_DiskName (pv_status srcVol) = [] then vdisk srcPveVol else st_DiskName (pv_status srcVol))
           in call (wCopyDisk (nr_Writer r) (vs_Region spec) (vzone srcPveVol) (vs_Storage spec) srcDiskName
                      (vzone snapPveVol) (vs_Storage spec) (vdisk snapPveVol))
                (\<lambda>err. withNow g (\<lambda>now. errors2 (updateSnapshotStatus g
                   (snapshotCondition g now ConditionReady ConditionFalse ''ProxmoxError'' (''copying disk: '' @ Error err)
                     (pn_status_update (nt_SnapshotID_update (\<lambda>_. VolumeID snapPveVol)) snap))) err))
                (\<lambda>_. withNow g (\<lambda>now.
                   let snap' = pn_status_update (\<lambda>s. s\<lparr>nt_SnapshotID := VolumeID snapPveVol, nt_ReadyToUse := True,
                                 nt_RestoreSizeBytes := st_CapacityBytes (pv_status srcVol), nt_CreationTime := Some now\<rparr>) snap;
                       snap' = snapshotCondition g now ConditionAdmitted ConditionTrue ''Accepted''
                                 (''snapshot of '' @ pvName srcVol @ '' by tenant '' @ tcName tenant) snap';
                       snap' = snapshotCondition g now ConditionReady ConditionTrue ''Accepted''
                                 (''disk '' @ vdisk snapPveVol @ '' on '' @ vs_Storage spec) snap'
                   in bindE (updateSnapshotStatus g snap') (\<lambda>_. ret period)))))"

definition reconcileCreate :: "'e snapshot_reconciler \<Rightarrow> psnapshot \<Rightarrow> ('e oworld, int) io" where
  "reconcileCreate r snap =
     (let g = nr_Client r; period = syncPeriod (nr_SyncPeriod r); source = ns_SourceVolumeName (pn_spec snap)
      in if nt_ReadyToUse (pn_status snap) then ret period
         else call (GetVolume g (pnNamespace snap) source)
           (\<lambda>err. snapshotAnswer g snap ConditionAdmitted ''SourceNotFound'' (''source volume '' @ source @ '' not found: '' @ Error err) 0)
           (\<lambda>srcVol.
              if st_Phase (pv_status srcVol) \<noteq> VolumePhaseReady
              then snapshotAnswer g snap ConditionReady ''Reconciling''
                     (''source volume '' @ pvName srcVol @ '' is not ready (phase '' @ st_Phase (pv_status srcVol) @ '')'') period
              else bindE (tenantFor g (pnNamespace snap)) (\<lambda>t.
                case t of
                  None \<Rightarrow> snapshotAnswer g snap ConditionAdmitted ''TenantUnknown''
                            (''no admitted TenantCluster registers namespace '' @ pnNamespace snap) 0
                | Some tenant \<Rightarrow>
                    if tn_Mode (tc_spec tenant) \<noteq> TenantModeEnforce \<and> tn_Mode (tc_spec tenant) \<noteq> TenantModeDecommission
                    then snapshotAnswer g snap ConditionAdmitted ''TenantObserveOnly'' ''snapshots require Enforce mode'' 0
                    else if vs_Storage (pv_spec srcVol) \<notin> set (tn_AllowedStorages (tc_spec tenant))
                    then snapshotAnswer g snap ConditionAdmitted ''StorageNotAllowed''
                           (''storage '' @ vs_Storage (pv_spec srcVol) @ '' is not in tenant '' @ tcName tenant @ [CHR 0x27] @ ''s allowedStorages'') 0
                    else call (checkStorageForSnapshot g (vs_Region (pv_spec srcVol)) (vs_Storage (pv_spec srcVol)))
                           (\<lambda>err. snapshotAnswer g snap ConditionAdmitted ''InvalidSpec'' (Error err) 0)
                           (\<lambda>_. case NewVolumeFromVolumeID (st_VolumeID (pv_status srcVol)) of
                              Inl err \<Rightarrow> snapshotAnswer g snap ConditionReady ''InvalidSpec''
                                 (''invalid source volumeID '' @ Quote (st_VolumeID (pv_status srcVol)) @ '': '' @ Error err) 0
                            | Inr srcPveVol \<Rightarrow> copySnapshot r snap srcVol tenant srcPveVol))))"

definition releaseSnapshot :: "'e mgmt \<Rightarrow> psnapshot \<Rightarrow> ('e oworld, psnapshot) io" where
  "releaseSnapshot g snap =
     WriteSnapshot g (OUpdate (KSnapshot (pn_meta_update (om_Finalizers_update
       (\<lambda>fs. g_RemoveFinalizer g fs SnapshotFinalizer)) snap)))"

definition reconcileDeleteSnapshot :: "'e snapshot_reconciler \<Rightarrow> psnapshot \<Rightarrow> ('e oworld, int) io" where
  "reconcileDeleteSnapshot r snap =
     (let g = nr_Client r;
          release = call (releaseSnapshot g snap)
            (\<lambda>e. fail (Wrap (''releasing '' @ pnNamespace snap @ ''/'' @ pnName snap @ '': '' @ Error e) e)) (\<lambda>_. ret 0)
      in if \<not> g_ContainsFinalizer g (om_Finalizers (pn_meta snap)) SnapshotFinalizer then ret 0
         else if nt_SnapshotID (pn_status snap) = [] then release
         else case NewVolumeFromVolumeID (nt_SnapshotID (pn_status snap)) of
           Inl _ \<Rightarrow> bindE (releaseSnapshot g snap) (\<lambda>_. ret 0)
         | Inr v \<Rightarrow>
             call (wDeleteDisk (nr_Writer r) (vregion v) (vzone v) (vstorage v) (vdisk v))
               (\<lambda>err. if isNotFound err then release
                      else withNow g (\<lambda>now. errors2 (updateSnapshotStatus g
                        (snapshotCondition g now ConditionReady ConditionFalse ''ProxmoxError'' (''deleting snapshot disk: '' @ Error err) snap)) err))
               (\<lambda>_. release))"

definition ReconcileSnapshot :: "'e snapshot_reconciler \<Rightarrow> string \<Rightarrow> string \<Rightarrow> ('e oworld, int) io" where
  "ReconcileSnapshot r namespace name =
     call (GetSnapshot (nr_Client r) namespace name) ignoreNotFound
       (\<lambda>snap. if om_DeletionTimestamp (pn_meta snap) \<noteq> None then reconcileDeleteSnapshot r snap else reconcileCreate r snap)"

end
