(* ===== verification/Operator_Tenant.thy ===== *)
theory Operator_Tenant
  imports Operator_Types
begin

text \<open>
  The reconciler of tenant registrations (\<^verbatim>\<open>pkg/operator/controller/tenant/reconciler.go\<close>): which of
  several conflicting registrations is admitted, which VMs a tenant owns, and what its volumes use.
\<close>

section \<open>The reconciler\<close>

record 'e tenant_reconciler =
  tr_Client :: "'e mgmt"
  tr_ListVMs :: "string \<Rightarrow> ('e, px_vm list) api"
  tr_ResolvePeriod :: int

definition DefaultResolvePeriod :: int where "DefaultResolvePeriod = 60"

definition resolvePeriod :: "'e tenant_reconciler \<Rightarrow> int" where
  "resolvePeriod r = (if tr_ResolvePeriod r > 0 then tr_ResolvePeriod r else DefaultResolvePeriod)"

definition tenantCondition :: "'e mgmt \<Rightarrow> int \<Rightarrow> string \<Rightarrow> string \<Rightarrow> string \<Rightarrow> string \<Rightarrow> ptenant \<Rightarrow> ptenant" where
  "tenantCondition g now t s reason message tenant =
     tc_status_update (tt_Conditions_update (g_SetStatusCondition g
       \<lparr>cd_Type = t, cd_Status = s, cd_Reason = reason, cd_Message = message, cd_LastTransitionTime = now,
        cd_ObservedGeneration = om_Generation (tc_meta tenant)\<rparr>)) tenant"

definition updateTenantStatus :: "'e mgmt \<Rightarrow> ptenant \<Rightarrow> ('e oworld, ptenant) io" where
  "updateTenantStatus g tenant =
     (let tenant = tc_status_update (tt_ObservedGeneration_update (\<lambda>_. om_Generation (tc_meta tenant))) tenant
      in call (WriteTenant g (OStatus (KTenant tenant)))
           (\<lambda>e. fail (Wrap (''updating '' @ tcName tenant @ '' status: '' @ Error e) e)) ret)"

section \<open>Usage\<close>

definition countedBytes :: "pvolume \<Rightarrow> int" where
  "countedBytes vol =
     (if st_CapacityBytes (pv_status vol) > vs_CapacityBytes (pv_spec vol)
      then st_CapacityBytes (pv_status vol) else vs_CapacityBytes (pv_spec vol))"

definition addCapacity :: "(string \<times> int) list \<Rightarrow> string \<Rightarrow> int \<Rightarrow> (string \<times> int) list" where
  "addCapacity into storage bytes =
     (if storage = [] \<or> bytes \<le> 0 then into
      else AList.update storage ((case map_of into storage of None \<Rightarrow> 0 | Some n \<Rightarrow> n) + bytes) into)"

text \<open>The usage entries of the namespaces with a quota, in the order of the spec; two quotas of the same namespace
  share one entry.\<close>

definition countVolume :: "pvolume \<Rightarrow> quota_usage \<Rightarrow> quota_usage" where
  "countVolume vol used =
     \<lparr>qu_Volumes = wrap32 (qu_Volumes used + 1), qu_Capacity = addCapacity (qu_Capacity used) (vs_Storage (pv_spec vol)) (countedBytes vol)\<rparr>"

definition countNamespaced :: "pvolume \<Rightarrow> namespace_usage \<Rightarrow> namespace_usage" where
  "countNamespaced vol entry =
     (if nu_Namespace entry = cr_Namespace (vs_ClaimRef (pv_spec vol))
      then entry\<lparr>nu_Volumes := wrap32 (nu_Volumes entry + 1),
                 nu_Capacity := addCapacity (nu_Capacity entry) (vs_Storage (pv_spec vol)) (countedBytes vol)\<rparr>
      else entry)"

definition aggregateUsage :: "pvolume list \<Rightarrow> ptenant \<Rightarrow> ptenant" where
  "aggregateUsage vols tenant =
     tc_status_update (\<lambda>s. s\<lparr>tt_Used := fold countVolume vols \<lparr>qu_Volumes = 0, qu_Capacity = []\<rparr>,
        tt_NamespaceUsed := map (fold countNamespaced vols)
          (map (\<lambda>q. \<lparr>nu_Namespace = nq_Namespace q, nu_Volumes = 0, nu_Capacity = []\<rparr>) (tn_NamespaceQuotas (tc_spec tenant)))\<rparr>) tenant"

definition tenantVolumes :: "'e mgmt \<Rightarrow> ptenant \<Rightarrow> ('e oworld, pvolume list) io" where
  "tenantVolumes g tenant =
     (let ns = tn_Namespace (tc_spec tenant)
      in if ns = [] then ret []
         else call (ListVolumesIn g ns) (\<lambda>e. fail (Wrap (''listing volumes in '' @ ns @ '': '' @ Error e) e)) ret)"

definition aggregate :: "'e mgmt \<Rightarrow> ptenant \<Rightarrow> ('e oworld, ptenant) io" where
  "aggregate g tenant = bindE (tenantVolumes g tenant) (\<lambda>vols. ret (aggregateUsage vols tenant))"

section \<open>Conflicts\<close>

definition older :: "ptenant \<Rightarrow> ptenant \<Rightarrow> bool" where
  "older a b =
     (if om_CreationTimestamp (tc_meta a) \<noteq> om_CreationTimestamp (tc_meta b)
      then om_CreationTimestamp (tc_meta a) < om_CreationTimestamp (tc_meta b)
      else bytesLess (tcName a) (tcName b))"

definition conflictReasons :: "ptenant \<Rightarrow> ptenant \<Rightarrow> string list" where
  "conflictReasons tenant other =
     (let t = tc_spec tenant; s = tc_spec other; by' = '' is already registered by '' @ tcName other
      in if tcName other = tcName tenant \<or> \<not> older other tenant then []
         else (if tn_Namespace s = tn_Namespace t then [''namespace '' @ tn_Namespace t @ by'] else []) @
              (if tn_PlaceholderVMID s = tn_PlaceholderVMID t then [''placeholderVmid '' @ Itoa (tn_PlaceholderVMID t) @ by'] else []) @
              (if tn_Subject s = tn_Subject t then [''subject '' @ tn_Subject t @ by'] else []))"

definition conflictOf :: "ptenant list \<Rightarrow> ptenant \<Rightarrow> string" where
  "conflictOf tenants tenant = Join ''; '' (sortStrings (concat (map (conflictReasons tenant) tenants)))"

definition conflict :: "'e mgmt \<Rightarrow> ptenant \<Rightarrow> ('e oworld, string) io" where
  "conflict g tenant =
     call (ListTenants g) (\<lambda>e. fail (Wrap (''listing tenants: '' @ Error e) e)) (\<lambda>tenants. ret (conflictOf tenants tenant))"

section \<open>The VMs of a tenant\<close>

text \<open>The keys of the set, sorted.\<close>

definition resolvedIDs :: "tenant_spec \<Rightarrow> px_vm list \<Rightarrow> int list" where
  "resolvedIDs spec vms =
     sort (remdups (tn_VMIDs spec @ map xv_VMID (filter (\<lambda>vm. xv_Pool vm = tn_Pool spec) vms)))"

definition setResolved :: "int \<Rightarrow> int list \<Rightarrow> ptenant \<Rightarrow> ptenant" where
  "setResolved now ids = tc_status_update (\<lambda>s. s\<lparr>tt_ResolvedVMIDs := ids, tt_VMIDsObservedAt := Some now\<rparr>)"

text \<open>On failure the registration keeps its previous resolution and time.\<close>

definition resolveVMIDs :: "'e tenant_reconciler \<Rightarrow> ptenant \<Rightarrow> ('e oworld, ptenant) io" where
  "resolveVMIDs r tenant =
     (let g = tr_Client r; spec = tc_spec tenant
      in if tn_Pool spec = [] then withNow g (\<lambda>now. ret (setResolved now (sort (remdups (tn_VMIDs spec))) tenant))
         else call (invoke (PxRead (''vms/'' @ tn_Region spec)) (tr_ListVMs r (tn_Region spec)))
                (\<lambda>e. fail (Wrap (''resolving pool '' @ tn_Pool spec @ '' in region '' @ tn_Region spec @ '': '' @ Error e) e))
                (\<lambda>vms. withNow g (\<lambda>now. ret (setResolved now (resolvedIDs spec vms) tenant))))"

definition setReady :: "'e mgmt \<Rightarrow> int \<Rightarrow> goerr option \<Rightarrow> ptenant \<Rightarrow> ptenant" where
  "setReady g now resolveErr tenant =
     (case resolveErr of
        Some e \<Rightarrow> tenantCondition g now ConditionReady ConditionFalse ''ProxmoxError'' (Error e) tenant
      | None \<Rightarrow>
          if tt_ResolvedVMIDs (tc_status tenant) = []
          then tenantCondition g now ConditionReady ConditionFalse ''InvalidSpec''
                 ''no VMIDs resolved: set spec.pool, spec.vmids, or both'' tenant
          else tenantCondition g now ConditionReady ConditionTrue ''Accepted''
                 (Itoa (int (length (tt_ResolvedVMIDs (tc_status tenant)))) @ '' VMID(s) resolved, '' @
                  Itoa (qu_Volumes (tt_Used (tc_status tenant))) @ '' volume(s) accounted'') tenant)"

section \<open>Reconciling\<close>

text \<open>The registration to publish when it lost a contest, and when it did not.\<close>

definition refuseTenant :: "'e mgmt \<Rightarrow> int \<Rightarrow> string \<Rightarrow> ptenant \<Rightarrow> ptenant" where
  "refuseTenant g now message tenant =
     tenantCondition g now ConditionReady ConditionFalse ''InvalidSpec'' message
       (tenantCondition g now ConditionAdmitted ConditionFalse ''InvalidSpec'' message
         (tc_status_update (\<lambda>s. s\<lparr>tt_ResolvedVMIDs := [], tt_VMIDsObservedAt := None\<rparr>) tenant))"

definition admitTenant :: "'e mgmt \<Rightarrow> int \<Rightarrow> ptenant \<Rightarrow> ptenant" where
  "admitTenant g now tenant =
     tenantCondition g now ConditionAdmitted ConditionTrue ''Accepted''
       (''registered for namespace '' @ tn_Namespace (tc_spec tenant) @ '' in region '' @ tn_Region (tc_spec tenant)) tenant"

definition reconcileNormal :: "'e tenant_reconciler \<Rightarrow> ptenant \<Rightarrow> ('e oworld, int) io" where
  "reconcileNormal r tenant =
     (let g = tr_Client r
      in bindE (aggregate g tenant) (\<lambda>tenant.
         bindE (conflict g tenant) (\<lambda>conflict.
           if conflict \<noteq> []
           then withNow g (\<lambda>now. bindE (updateTenantStatus g (refuseTenant g now conflict tenant)) (\<lambda>_. ret (resolvePeriod r)))
           else withNow g (\<lambda>now. let tenant = admitTenant g now tenant in
             call (resolveVMIDs r tenant)
               (\<lambda>e. withNow g (\<lambda>now. bindE (updateTenantStatus g (setReady g now (Some e) tenant)) (\<lambda>_. fail e)))
               (\<lambda>tenant. withNow g (\<lambda>now. bindE (updateTenantStatus g (setReady g now None tenant)) (\<lambda>_. ret (resolvePeriod r))))))))"

definition reconcileDeleteTenant :: "'e tenant_reconciler \<Rightarrow> ptenant \<Rightarrow> ('e oworld, int) io" where
  "reconcileDeleteTenant r tenant =
     (let g = tr_Client r
      in if \<not> g_ContainsFinalizer g (om_Finalizers (tc_meta tenant)) TenantFinalizer then ret 0
         else bindE (tenantVolumes g tenant) (\<lambda>vols.
           if vols \<noteq> []
           then withNow g (\<lambda>now. bindE (updateTenantStatus g (tenantCondition g now ConditionReady ConditionFalse ''Reconciling''
                  (Itoa (int (length vols)) @ '' ProxmoxVolume(s) remain in namespace '' @ tn_Namespace (tc_spec tenant)) tenant))
                  (\<lambda>_. ret (resolvePeriod r)))
           else call (WriteTenant g (OUpdate (KTenant (tc_meta_update (om_Finalizers_update
                        (\<lambda>fs. g_RemoveFinalizer g fs TenantFinalizer)) tenant))))
                  (\<lambda>e. fail (Wrap (''releasing the finalizer on '' @ tcName tenant @ '': '' @ Error e) e)) (\<lambda>_. ret 0)))"

definition ReconcileTenant :: "'e tenant_reconciler \<Rightarrow> string \<Rightarrow> ('e oworld, int) io" where
  "ReconcileTenant r name =
     (let g = tr_Client r
      in call (GetTenant g name) ignoreNotFound
           (\<lambda>tenant.
              if om_DeletionTimestamp (tc_meta tenant) \<noteq> None then reconcileDeleteTenant r tenant
              else let (added, fs) = g_AddFinalizer g (om_Finalizers (tc_meta tenant)) TenantFinalizer;
                       tenant = tc_meta_update (om_Finalizers_update (\<lambda>_. fs)) tenant
                   in if added
                      then call (WriteTenant g (OUpdate (KTenant tenant)))
                             (\<lambda>e. fail (Wrap (''adding the finalizer to '' @ tcName tenant @ '': '' @ Error e) e)) (reconcileNormal r)
                      else reconcileNormal r tenant))"

definition tenantsForVolume :: "'e mgmt \<Rightarrow> pvolume \<Rightarrow> ('e oworld, string list) io" where
  "tenantsForVolume g vol =
     call (ListTenants g) (\<lambda>_. ret [])
       (\<lambda>tenants. ret (map tcName (filter (\<lambda>t. tn_Namespace (tc_spec t) = pvNamespace vol) tenants)))"

end
