(* ===== verification/Sample_Mgmt.thy ===== *)
theory Sample_Mgmt
  imports Operator_Types
begin

text \<open>
  A small executable management cluster: it stores the custom resources it is given, answers reads from them and
  keeps conditions and finalizers as the Kubernetes libraries document.  It shows that the hypotheses the
  theorems make about the libraries can hold, and is the concrete cluster on which the properties of the
  operator are instantiated.  It stands for no code of the repository.
\<close>

record msim =
  sm_volumes :: "pvolume list"
  sm_attachments :: "pattachment list"
  sm_snapshots :: "psnapshot list"
  sm_tenants :: "ptenant list"
  sm_storages :: "pstorage list"
  sm_now :: int

definition simMissing :: goerr where
  "simMissing = Sentinel K8sNotFound ''not found''"

definition pick :: "('a \<Rightarrow> bool) \<Rightarrow> 'a list \<Rightarrow> goerr + 'a" where
  "pick p xs = (case List.find p xs of None \<Rightarrow> Inl simMissing | Some x \<Rightarrow> Inr x)"

text \<open>Objects are replaced by name, or added.\<close>

definition replace :: "('a \<Rightarrow> 'b) \<Rightarrow> 'a \<Rightarrow> 'a list \<Rightarrow> 'a list" where
  "replace key x xs = (if key x \<in> set (map key xs) then map (\<lambda>y. if key y = key x then x else y) xs else xs @ [x])"

definition volKey :: "pvolume \<Rightarrow> string \<times> string" where "volKey v = (pvNamespace v, pvName v)"
definition attKey :: "pattachment \<Rightarrow> string \<times> string" where "attKey v = (paNamespace v, paName v)"
definition snapKey :: "psnapshot \<Rightarrow> string \<times> string" where "snapKey v = (pnNamespace v, pnName v)"

text \<open>Each kind of write on one list of the state.\<close>

definition simWrite ::
    "(kobj \<Rightarrow> 'a option) \<Rightarrow> ('a \<Rightarrow> 'b) \<Rightarrow> (msim \<Rightarrow> 'a list) \<Rightarrow> (('a list \<Rightarrow> 'a list) \<Rightarrow> msim \<Rightarrow> msim) \<Rightarrow> oreq \<Rightarrow> (msim, 'a) api" where
  "simWrite sel key get upd q s =
     (case q of
        OCreate ob \<Rightarrow>
          (case sel ob of
             None \<Rightarrow> (Inl simMissing, s)
           | Some x \<Rightarrow> if key x \<in> set (map key (get s)) then (Inl (Sentinel K8sAlreadyExists ''already exists''), s)
                       else (Inr x, upd (\<lambda>xs. xs @ [x]) s))
      | OUpdate ob \<Rightarrow> (case sel ob of None \<Rightarrow> (Inl simMissing, s) | Some x \<Rightarrow> (Inr x, upd (replace key x) s))
      | OStatus ob \<Rightarrow> (case sel ob of None \<Rightarrow> (Inl simMissing, s) | Some x \<Rightarrow> (Inr x, upd (replace key x) s))
      | ODelete ob \<Rightarrow> (case sel ob of None \<Rightarrow> (Inl simMissing, s) | Some x \<Rightarrow> (Inr x, upd (filter (\<lambda>y. key y \<noteq> key x)) s))
      | _ \<Rightarrow> (Inl simMissing, s))"

definition simSetCondition :: "condition \<Rightarrow> condition list \<Rightarrow> condition list" where
  "simSetCondition = replace cd_Type"

definition simFindCondition :: "condition list \<Rightarrow> string \<Rightarrow> condition option" where
  "simFindCondition cs t = List.find (\<lambda>c. cd_Type c = t) cs"

fun selVolume :: "kobj \<Rightarrow> pvolume option" where "selVolume (KVolume v) = Some v" | "selVolume _ = None"
fun selAttachment :: "kobj \<Rightarrow> pattachment option" where "selAttachment (KAttachment v) = Some v" | "selAttachment _ = None"
fun selSnapshot :: "kobj \<Rightarrow> psnapshot option" where "selSnapshot (KSnapshot v) = Some v" | "selSnapshot _ = None"
fun selTenant :: "kobj \<Rightarrow> ptenant option" where "selTenant (KTenant v) = Some v" | "selTenant _ = None"
fun selStorage :: "kobj \<Rightarrow> pstorage option" where "selStorage (KStorage v) = Some v" | "selStorage _ = None"

definition sampleMgmt :: "msim mgmt" where
  "sampleMgmt =
     \<lparr>g_GetVolume = (\<lambda>ns n s. (pick (\<lambda>v. volKey v = (ns, n)) (sm_volumes s), s)),
      g_ListVolumes = (\<lambda>ns s. (Inr (filter (\<lambda>v. pvNamespace v = ns) (sm_volumes s)), s)),
      g_ListAllVolumes = (\<lambda>s. (Inr (sm_volumes s), s)),
      g_ListClaims = (\<lambda>h s. (Inr (filter (\<lambda>v. (if st_VolumeID (pv_status v) \<noteq> [] then st_VolumeID (pv_status v) else vs_AdoptVolumeID (pv_spec v)) = h)
        (sm_volumes s)), s)),
      g_ListByVolumeID = (\<lambda>ns i s. (Inr (filter (\<lambda>v. pvNamespace v = ns \<and> st_VolumeID (pv_status v) = i) (sm_volumes s)), s)),
      g_WriteVolume = simWrite selVolume volKey sm_volumes sm_volumes_update,
      g_GetAttachment = (\<lambda>ns n s. (pick (\<lambda>v. attKey v = (ns, n)) (sm_attachments s), s)),
      g_ListAttachments = (\<lambda>ns s. (Inr (filter (\<lambda>v. paNamespace v = ns) (sm_attachments s)), s)),
      g_WriteAttachment = simWrite selAttachment attKey sm_attachments sm_attachments_update,
      g_GetSnapshot = (\<lambda>ns n s. (pick (\<lambda>v. snapKey v = (ns, n)) (sm_snapshots s), s)),
      g_ListSnapshots = (\<lambda>ns s. (Inr (filter (\<lambda>v. pnNamespace v = ns) (sm_snapshots s)), s)),
      g_ListBySnapshotID = (\<lambda>ns i s. (Inr (filter (\<lambda>v. pnNamespace v = ns \<and> nt_SnapshotID (pn_status v) = i) (sm_snapshots s)), s)),
      g_WriteSnapshot = simWrite selSnapshot snapKey sm_snapshots sm_snapshots_update,
      g_GetTenant = (\<lambda>n s. (pick (\<lambda>t. tcName t = n) (sm_tenants s), s)),
      g_ListTenants = (\<lambda>s. (Inr (sm_tenants s), s)),
      g_WriteTenant = simWrite selTenant tcName sm_tenants sm_tenants_update,
      g_GetStorage = (\<lambda>n s. (pick (\<lambda>t. om_Name (ps_meta t) = n) (sm_storages s), s)),
      g_ListStorages = (\<lambda>s. (Inr (sm_storages s), s)),
      g_ListStoragesByRegion = (\<lambda>l s. (Inr (filter (\<lambda>t. mget (om_Labels (ps_meta t)) LabelRegion = l) (sm_storages s)), s)),
      g_WriteStorage = simWrite selStorage (\<lambda>t. om_Name (ps_meta t)) sm_storages sm_storages_update,
      g_SetStatusCondition = simSetCondition,
      g_FindStatusCondition = simFindCondition,
      g_ContainsFinalizer = (\<lambda>fs f. f \<in> set fs),
      g_AddFinalizer = (\<lambda>fs f. if f \<in> set fs then (False, fs) else (True, fs @ [f])),
      g_RemoveFinalizer = (\<lambda>fs f. filter (\<lambda>x. x \<noteq> f) fs),
      g_QuantityString = Itoa,
      g_Now = sm_now\<rparr>"

definition okWriter :: "'e writer" where
  "okWriter =
     \<lparr>w_CreateDisk = (\<lambda>_ _ _ _ _ e. (Inr (), e)), w_CopyDisk = (\<lambda>_ _ _ _ _ _ _ e. (Inr (), e)),
      w_DeleteDisk = (\<lambda>_ _ _ _ e. (Inr (), e)), w_AttachDisk = (\<lambda>_ _ _ _ e. (Inr \<lparr>ar_DevicePath = ''/dev/disk/by-id/wwn-0x5056432d49443031'', ar_Lun = 1\<rparr>, e)),
      w_DetachDisk = (\<lambda>_ _ _ e. (Inr (), e)), w_ResizeDisk = (\<lambda>_ _ _ _ _ e. (Inr (), e)), w_UpdateDisk = (\<lambda>_ _ _ _ e. (Inr (), e)),
      w_RenameDisk = (\<lambda>_ v i e. (case WithVMID v i of None \<Rightarrow> Inl (Plain ''not a VM disk'') | Some v' \<Rightarrow> Inr v', e)), w_ClearUnusedDisk = (\<lambda>_ _ _ e. (Inr (), e))\<rparr>"

section \<open>Its documented behaviour\<close>

lemma find_map_same: "key x \<in> key ` set xs \<Longrightarrow> List.find (\<lambda>y. key y = key x) (map (\<lambda>y. if key y = key x then x else y) xs) = Some x"
proof (induction xs)
  case (Cons a xs)
  then show ?case by (cases "key a = key x") simp_all
qed simp

lemma find_map_other:
  "t \<noteq> key x \<Longrightarrow> List.find (\<lambda>y. key y = t) (map (\<lambda>y. if key y = key x then x else y) xs) = List.find (\<lambda>y. key y = t) xs"
proof (induction xs)
  case (Cons a xs)
  then show ?case by (cases "key a = key x") simp_all
qed simp

lemma find_append_new:
  "key x \<notin> key ` set xs \<Longrightarrow> List.find (\<lambda>y. key y = t) (xs @ [x]) = (if t = key x then Some x else List.find (\<lambda>y. key y = t) xs)"
proof (induction xs)
  case (Cons a xs)
  then show ?case by (cases "key a = t") (auto simp: append_Cons)
qed simp

lemma find_replace:
  "List.find (\<lambda>y. key y = t) (replace key x xs) = (if t = key x then Some x else List.find (\<lambda>y. key y = t) xs)"
  by (simp add: replace_def find_map_same find_map_other find_append_new)

lemma sampleMgmt_lib [simp]: "lib_spec sampleMgmt"
  by (auto simp: lib_spec_def IsStatusConditionTrue_def sampleMgmt_def simSetCondition_def simFindCondition_def find_replace)

text \<open>Objects.\<close>

definition meta :: "string \<Rightarrow> string \<Rightarrow> object_meta" where
  "meta ns n = \<lparr>om_Name = n, om_Namespace = ns, om_Generation = 1, om_CreationTimestamp = 0, om_DeletionTimestamp = None,
     om_Finalizers = [], om_Labels = [], om_Annotations = []\<rparr>"

definition admittedCondition :: condition where
  "admittedCondition = \<lparr>cd_Type = ConditionAdmitted, cd_Status = ConditionTrue, cd_Reason = ''Accepted'', cd_Message = [],
     cd_LastTransitionTime = 0, cd_ObservedGeneration = 1\<rparr>"

definition sampleTenant :: ptenant where
  "sampleTenant =
     \<lparr>tc_meta = meta [] ''alpha'',
      tc_spec = \<lparr>tn_Namespace = ''tenant-alpha'', tn_Region = ''region-1'', tn_Subject = ''pvx:alpha'', tn_Issuer = ''https://id.example.com'',
        tn_PlaceholderVMID = 9001, tn_Pool = [], tn_VMIDs = [100], tn_Mode = TenantModeEnforce, tn_LegacyControllerVMIDs = [9999],
        tn_AllowedStorages = [''lvm''], tn_ParameterPolicy = None, tn_Quota = None, tn_NamespaceQuotas = []\<rparr>,
      tc_status = \<lparr>tt_ResolvedVMIDs = [100], tt_VMIDsObservedAt = Some 0, tt_Used = \<lparr>qu_Volumes = 0, qu_Capacity = []\<rparr>,
        tt_NamespaceUsed = [], tt_ObservedGeneration = 1, tt_Conditions = [admittedCondition]\<rparr>\<rparr>"

definition sampleRecord :: pvolume where
  "sampleRecord =
     \<lparr>pv_meta = meta ''tenant-alpha'' ''pvc-1'',
      pv_spec = \<lparr>vs_Region = ''region-1'', vs_Zone = ''pve-1'', vs_Storage = ''lvm'', vs_CapacityBytes = 1073741824, vs_Parameters = [],
        vs_Source = None, vs_MutableParameters = [], vs_ClaimRef = \<lparr>cr_Name = [], cr_Namespace = [], cr_PVName = []\<rparr>,
        vs_Adopt = False, vs_AdoptVolumeID = []\<rparr>,
      pv_status = \<lparr>st_VolumeID = [], st_DiskName = [], st_OwnerVMID = 0, st_CapacityBytes = 0, st_AccessibleTopology = [],
        st_Adopted = False, st_Phase = [], st_ObservedGeneration = 0, st_LastSyncTime = None, st_Conditions = []\<rparr>\<rparr>"

definition sampleStorage :: pstorage where
  "sampleStorage =
     \<lparr>ps_meta = meta [] ''region-1.pve-1.lvm'',
      ps_spec = \<lparr>gs_Region = ''region-1'', gs_Zone = ''pve-1'', gs_Storage = ''lvm'', gs_Shared = False, gs_PluginType = ''lvmthin'', gs_Types = [''images'']\<rparr>,
      ps_status = \<lparr>gt_Active = True, gt_TotalBytes = 2000, gt_AvailableBytes = 1000, gt_UsedBytes = 1000, gt_LastSyncTime = None, gt_Conditions = []\<rparr>\<rparr>"

definition sampleState :: msim where
  "sampleState = \<lparr>sm_volumes = [sampleRecord], sm_attachments = [], sm_snapshots = [], sm_tenants = [sampleTenant],
     sm_storages = [sampleStorage], sm_now = 1000\<rparr>"

definition sampleOWorld :: "msim oworld" where
  "sampleOWorld = \<lparr>env = sampleState, trace = []\<rparr>"

end
