(* ===== verification/Operator_Safety.thy ===== *)
theory Operator_Safety
  imports Operator_Attachment Operator_Tenant Sample_Mgmt
begin

text \<open>
  What the reconcilers may do to Proxmox.  Every write is justified by the records the run has read: a disk is
  created or copied only for a tenant that may provision it, resized or updated only while it is attached,
  deleted only with its record, and attached only to a VM of the tenant.
\<close>

section \<open>What is assumed of the management cluster\<close>

text \<open>A write that succeeds answers with the object it stored: the spec and the name it was given.\<close>

definition stores_spec :: "'e mgmt \<Rightarrow> bool" where
  "stores_spec g \<longleftrightarrow>
     (\<forall>v v' e e'. g_WriteVolume g (OUpdate (KVolume v)) e = (Inr v', e') \<or> g_WriteVolume g (OStatus (KVolume v)) e = (Inr v', e') \<longrightarrow>
        pv_spec v' = pv_spec v \<and> pvName v' = pvName v \<and> pvNamespace v' = pvNamespace v) \<and>
     (\<forall>a a' e e'. g_WriteAttachment g (OUpdate (KAttachment a)) e = (Inr a', e') \<longrightarrow>
        pa_spec a' = pa_spec a \<and> paName a' = paName a \<and> paNamespace a' = paNamespace a)"

abbreviation same_record :: "pvolume \<Rightarrow> pvolume \<Rightarrow> bool" where
  "same_record vol v \<equiv> pv_spec v = pv_spec vol \<and> pvName v = pvName vol \<and> pvNamespace v = pvNamespace vol"

text \<open>Writes to Proxmox that satisfy \<open>ok\<close>; every other request is free.\<close>

definition authorised :: "(pxop \<Rightarrow> bool) \<Rightarrow> oreq \<Rightarrow> bool" where
  "authorised ok r \<longleftrightarrow> (\<forall>op. r = PxWrite op \<longrightarrow> ok op)"

lemma authorised_simps [simp]:
  "authorised ok (PxWrite op) \<longleftrightarrow> ok op" "authorised ok (OGet k ns n)" "authorised ok (OList k ns)" "authorised ok (OListAll k)"
  "authorised ok (OListBy k ns f v)" "authorised ok (OCreate ob)" "authorised ok (OUpdate ob)" "authorised ok (OStatus ob)"
  "authorised ok (ODelete ob)" "authorised ok (PxRead s)" "authorised ok (VmLock s i)" "authorised ok (VmUnlock s i)"
  by (simp_all add: authorised_def)

section \<open>Volumes\<close>

definition registered :: "'e mgmt \<Rightarrow> string \<Rightarrow> ptenant \<Rightarrow> bool" where
  "registered g ns tenant \<longleftrightarrow> tn_Namespace (tc_spec tenant) = ns \<and>
     IsStatusConditionTrue g (tt_Conditions (tc_status tenant)) ConditionAdmitted"

text \<open>A tenant may have a volume provisioned: its mode, region, storages, policy and quota allow it.\<close>

definition within :: "(string \<times> int) list \<Rightarrow> (string \<times> int) list \<Rightarrow> string \<Rightarrow> int \<Rightarrow> bool" where
  "within limits used storage bytes \<longleftrightarrow>
     (\<forall>limit. map_of limits storage = Some limit \<longrightarrow> wrap64 ((case map_of used storage of None \<Rightarrow> 0 | Some u \<Rightarrow> u) + bytes) \<le> limit)"

definition may_provision :: "ptenant \<Rightarrow> pvolume \<Rightarrow> bool" where
  "may_provision tenant vol \<longleftrightarrow>
     tn_Mode (tc_spec tenant) \<notin> {TenantModeSuspended, TenantModeObserve} \<and>
     vs_Region (pv_spec vol) = tn_Region (tc_spec tenant) \<and>
     vs_Storage (pv_spec vol) \<in> set (tn_AllowedStorages (tc_spec tenant)) \<and>
     checkParameterPolicy (tn_ParameterPolicy (tc_spec tenant)) (vs_Parameters (pv_spec vol)) (vs_CapacityBytes (pv_spec vol)) = Inr () \<and>
     (\<forall>q. tn_Quota (tc_spec tenant) = Some q \<longrightarrow>
        (\<forall>limit. tq_MaxVolumes q = Some limit \<longrightarrow> wrap32 (qu_Volumes (tt_Used (tc_status tenant)) + 1) \<le> limit) \<and>
        within (tq_MaxCapacity q) (qu_Capacity (tt_Used (tc_status tenant))) (vs_Storage (pv_spec vol)) (vs_CapacityBytes (pv_spec vol)))"

lemma provisionRefusal_None:
  assumes "provisionRefusal g tenant vol = None"
  shows "may_provision tenant vol"
proof -
  have "checkQuota g tenant vol = None" and "checkParameterPolicy (tn_ParameterPolicy (tc_spec tenant)) (vs_Parameters (pv_spec vol))
      (vs_CapacityBytes (pv_spec vol)) = Inr ()"
    using assms by (auto simp: provisionRefusal_def Let_def split: if_splits sum.splits option.splits)
  moreover have "tn_Mode (tc_spec tenant) \<notin> {TenantModeSuspended, TenantModeObserve}"
      "vs_Region (pv_spec vol) = tn_Region (tc_spec tenant)" "vs_Storage (pv_spec vol) \<in> set (tn_AllowedStorages (tc_spec tenant))"
    using assms by (auto simp: provisionRefusal_def Let_def split: if_splits)
  ultimately show ?thesis
    by (auto simp: may_provision_def within_def checkQuota_def Let_def not_less split: option.splits if_splits)
qed

text \<open>The writes a run for the record \<open>vol\<close> may make.\<close>

definition provision_ok :: "'e mgmt \<Rightarrow> pvolume \<Rightarrow> string \<Rightarrow> bool" where
  "provision_ok g vol disk \<longleftrightarrow>
     om_DeletionTimestamp (pv_meta vol) = None \<and> \<not> vs_Adopt (pv_spec vol) \<and>
     (\<exists>tenant pluginType. registered g (pvNamespace vol) tenant \<and> may_provision tenant vol \<and> disk = vdisk (diskVolOf tenant vol pluginType))"

definition attached_ok :: "'e mgmt \<Rightarrow> pvolume \<Rightarrow> int \<Rightarrow> (pattachment \<Rightarrow> bool) \<Rightarrow> bool" where
  "attached_ok g vol vmid extra \<longleftrightarrow>
     om_DeletionTimestamp (pv_meta vol) = None \<and> \<not> vs_Adopt (pv_spec vol) \<and> st_Phase (pv_status vol) = VolumePhaseReady \<and>
     (\<exists>e atts att. fst (g_ListAttachments g (pvNamespace vol) e) = Inr atts \<and> att \<in> set atts \<and>
        as_VolumeName (pa_spec att) = pvName vol \<and> at_Attached (pa_status att) \<and> as_VMID (pa_spec att) = vmid \<and> extra att)"

fun volume_op_ok :: "'e mgmt \<Rightarrow> pvolume \<Rightarrow> pxop \<Rightarrow> bool" where
  "volume_op_ok g vol (CreateDiskOp region zone storage disk bytes) \<longleftrightarrow>
     provision_ok g vol disk \<and> vs_Source (pv_spec vol) = None \<and>
     region = vs_Region (pv_spec vol) \<and> zone = vs_Zone (pv_spec vol) \<and> storage = vs_Storage (pv_spec vol) \<and>
     bytes = RoundUpSizeBytes (vs_CapacityBytes (pv_spec vol)) MinChunkSizeBytes"
| "volume_op_ok g vol (CopyDiskOp srcRegion srcZone srcStorage srcDisk zone storage disk) \<longleftrightarrow>
     provision_ok g vol disk \<and> vs_Source (pv_spec vol) \<noteq> None \<and> zone = vs_Zone (pv_spec vol) \<and> storage = vs_Storage (pv_spec vol)"
| "volume_op_ok g vol (DeleteDiskOp region zone storage disk) \<longleftrightarrow>
     om_DeletionTimestamp (pv_meta vol) \<noteq> None \<and> \<not> vs_Adopt (pv_spec vol) \<and> \<not> st_Adopted (pv_status vol) \<and>
     g_ContainsFinalizer g (om_Finalizers (pv_meta vol)) VolumeFinalizer \<and>
     disk \<noteq> [] \<and> disk = st_DiskName (pv_status vol) \<and>
     region = vs_Region (pv_spec vol) \<and> zone = vs_Zone (pv_spec vol) \<and> storage = vs_Storage (pv_spec vol) \<and>
     (\<exists>e atts. fst (g_ListAttachments g (pvNamespace vol) e) = Inr atts \<and> pvName vol \<notin> (\<lambda>a. as_VolumeName (pa_spec a)) ` set atts)"
| "volume_op_ok g vol (ResizeDiskOp region vmid zone device amount) \<longleftrightarrow>
     attached_ok g vol vmid (\<lambda>att. device = ''scsi'' @ at_LUN (pa_status att)) \<and>
     (\<exists>v bytes. NewVolumeFromVolumeID (st_VolumeID (pv_status vol)) = Inr v \<and> region = vregion v \<and> zone = vzone v \<and>
        bytes = RoundUpSizeBytes (vs_CapacityBytes (pv_spec vol)) MinChunkSizeBytes \<and>
        st_CapacityBytes (pv_status vol) < bytes \<and> amount = Itoa (quot bytes MiB) @ ''M'')"
| "volume_op_ok g vol (UpdateDiskOp region vmid v options) \<longleftrightarrow>
     attached_ok g vol vmid (\<lambda>_. True) \<and> NewVolumeFromVolumeID (st_VolumeID (pv_status vol)) = Inr v \<and> region = vregion v"
| "volume_op_ok g vol _ \<longleftrightarrow> False"

text \<open>Requests around the writes.\<close>

named_theorems quiet_emits \<open>programs that write nothing to Proxmox\<close>

lemma emits_updateVolumeStatus [quiet_emits]: "emits (authorised ok) (updateVolumeStatus g vol)"
  unfolding updateVolumeStatus_def Let_def by (intro emits_intros) simp

lemma emits_reject [quiet_emits]: "emits (authorised ok) (reject r vol reason message)"
  unfolding reject_def Let_def by (intro emits_intros quiet_emits)

lemma emits_rejectDuplicate [quiet_emits]: "emits (authorised ok) (rejectDuplicate r vol other)"
  unfolding rejectDuplicate_def Let_def by (intro emits_intros quiet_emits)

lemma emits_tenant [quiet_emits]: "emits (authorised ok) (tenantFor g ns)"
  by (intro emits_intros) simp

lemma emits_duplicate [quiet_emits]: "emits (authorised ok) (duplicate g vol)"
  unfolding duplicate_def Let_def by (intro emits_intros) simp

lemma emits_storagePluginType [quiet_emits]: "emits (authorised ok) (storagePluginType g region zone storage)"
  unfolding storagePluginType_def by (intro emits_intros) simp

lemma emits_holdVolume [quiet_emits]: "emits (authorised ok) (holdVolume g vol tenant)"
  unfolding holdVolume_def Let_def case_prod_unfold by (intro emits_intros) simp

lemma emits_releaseVolume [quiet_emits]: "emits (authorised ok) (releaseVolume g vol)"
  unfolding releaseVolume_def by (intro emits_intros) simp

lemma emits_recordAppliedParams [quiet_emits]: "emits (authorised ok) (recordAppliedParams r vol h)"
  unfolding recordAppliedParams_def Let_def by (intro emits_intros) simp

lemma emits_withWriter: "(\<And>w. emits P (k w)) \<Longrightarrow> emits P (withWriter wr k)"
  unfolding withWriter_def by (intro emits_intros)

lemma emits_adopt [quiet_emits]: "emits (authorised ok) (adopt r vol tenant handle)"
  unfolding adopt_def Let_def by (intro emits_intros quiet_emits) simp

lemma emits_reconcileAdopt [quiet_emits]: "emits (authorised ok) (reconcileAdopt r vol)"
  unfolding reconcileAdopt_def Let_def by (intro emits_intros quiet_emits)

text \<open>What comes back from a write is the record that was written.\<close>

lemma stores_update:
  assumes "stores_spec g"
  shows "returns (same_record v) (WriteVolume g (OUpdate (KVolume v)))" "returns (same_record v) (WriteVolume g (OStatus (KVolume v)))"
  using assms unfolding stores_spec_def returns_def invoke_def by (auto split: prod.splits)

lemma returns_holdVolume: "stores_spec g \<Longrightarrow> returns (same_record vol) (holdVolume g vol tenant)"
  unfolding holdVolume_def Let_def case_prod_unfold
  by (intro returns_if returns_ret returns_call [OF stores_update(1)] returns_fail) auto

lemma returns_updateVolumeStatus: "stores_spec g \<Longrightarrow> returns (same_record vol) (updateVolumeStatus g vol)"
  unfolding updateVolumeStatus_def Let_def
  by (intro returns_ret returns_call [OF stores_update(2)] returns_fail) auto

text \<open>Provisioning.\<close>

lemma emits_provisionFromVolume:
  assumes "\<And>region zone storage d. ok (CopyDiskOp region zone storage d (vs_Zone (pv_spec vol)) (vs_Storage (pv_spec vol)) (vdisk dest))"
  shows "emits (authorised ok) (provisionFromVolume r vol source dest)"
  unfolding provisionFromVolume_def Let_def
  by (intro emits_intros emits_withWriter quiet_emits) (simp_all add: assms)

lemma emits_provisionFromSnapshot:
  assumes "\<And>region zone storage d. ok (CopyDiskOp region zone storage d (vs_Zone (pv_spec vol)) (vs_Storage (pv_spec vol)) (vdisk dest))"
  shows "emits (authorised ok) (provisionFromSnapshot r vol source dest)"
  unfolding provisionFromSnapshot_def restoreSnapshot_def Let_def
  by (intro emits_intros emits_withWriter quiet_emits) (simp_all add: assms)

lemma emits_provisionFromSource:
  assumes "\<And>region zone storage d. ok (CopyDiskOp region zone storage d (vs_Zone (pv_spec vol)) (vs_Storage (pv_spec vol)) (vdisk dest))"
  shows "emits (authorised ok) (provisionFromSource r vol source dest)"
  unfolding provisionFromSource_def
  by (intro emits_intros emits_provisionFromVolume emits_provisionFromSnapshot assms)

lemma emits_provisionFresh:
  assumes "ok (CreateDiskOp (vs_Region (pv_spec vol)) (vs_Zone (pv_spec vol)) (vs_Storage (pv_spec vol)) (vdisk d) bytes)"
  shows "emits (authorised ok) (provisionFresh r vol d bytes)"
  unfolding provisionFresh_def Let_def
  by (intro emits_intros emits_withWriter quiet_emits) (simp_all add: assms)

lemma emits_publishProvisioned [quiet_emits]: "emits (authorised ok) (publishProvisioned r tenant d bytes vol)"
  unfolding publishProvisioned_def Let_def by (intro emits_intros quiet_emits)

lemma emits_provisionDisk:
  assumes "stores_spec (vr_Client r)" "provision_ok (vr_Client r) vol (vdisk (diskVolOf tenant vol pluginType))"
  shows "emits (authorised (volume_op_ok (vr_Client r) vol)) (provisionDisk r vol tenant pluginType)"
  unfolding provisionDisk_def Let_def
  by (rule emits_bindR [OF returns_holdVolume [OF assms(1)] emits_holdVolume])
    (use assms(2) in \<open>auto intro!: emits_bindE emits_publishProvisioned emits_provisionFresh emits_provisionFromSource split: option.split\<close>)

text \<open>A program run on what a listing of the attachments answered.\<close>

lemma emits_attachments:
  assumes "P (OList ''ProxmoxVolumeAttachment'' ns)" "\<And>e. emits P (h e)"
    and "\<And>e atts. fst (g_ListAttachments g ns e) = Inr atts \<Longrightarrow> emits P (k atts)"
  shows "emits P (call (ListAttachments g ns) h k)"
proof (rule emits_callR [where B = "\<lambda>atts. \<exists>e. fst (g_ListAttachments g ns e) = Inr atts"])
  show "returns (\<lambda>atts. \<exists>e. fst (g_ListAttachments g ns e) = Inr atts) (ListAttachments g ns)"
    unfolding returns_def invoke_def by (auto split: prod.splits) (metis fst_conv)
qed (use assms in \<open>auto intro: emits_intros\<close>)

lemma attachedTo_Some:
  assumes "attachedTo vol atts = Some att"
  shows "att \<in> set atts" "as_VolumeName (pa_spec att) = pvName vol" "at_Attached (pa_status att)"
  using assms by (auto simp: attachedTo_def find_Some_iff)

lemma attached_okI:
  assumes "om_DeletionTimestamp (pv_meta vol) = None" "\<not> vs_Adopt (pv_spec vol)" "st_Phase (pv_status vol) = VolumePhaseReady"
    and "fst (g_ListAttachments g (pvNamespace vol) e) = Inr atts" "attachedTo vol atts = Some att" "extra att"
  shows "attached_ok g vol (as_VMID (pa_spec att)) extra"
  unfolding attached_ok_def using assms attachedTo_Some [OF assms(5)] by blast

lemma emits_reconcileModify:
  assumes "om_DeletionTimestamp (pv_meta vol) = None" "\<not> vs_Adopt (pv_spec vol)" "st_Phase (pv_status vol) = VolumePhaseReady"
  shows "emits (authorised (volume_op_ok (vr_Client r) vol)) (reconcileModify r vol h)"
  unfolding reconcileModify_def Let_def
  by (rule emits_attachments)
    (auto intro!: emits_intros emits_withWriter quiet_emits split: option.split sum.split intro: attached_okI [OF assms])

lemma emits_reconcileExpand:
  assumes "om_DeletionTimestamp (pv_meta vol) = None" "\<not> vs_Adopt (pv_spec vol)" "st_Phase (pv_status vol) = VolumePhaseReady"
    and "bytes = RoundUpSizeBytes (vs_CapacityBytes (pv_spec vol)) MinChunkSizeBytes" "st_CapacityBytes (pv_status vol) < bytes"
  shows "emits (authorised (volume_op_ok (vr_Client r) vol)) (reconcileExpand r vol bytes)"
proof (cases "NewVolumeFromVolumeID (st_VolumeID (pv_status vol))")
  case (Inr v)
  have "volume_op_ok (vr_Client r) vol (ResizeDiskOp (vregion v) (as_VMID (pa_spec att)) (vzone v)
      (''scsi'' @ at_LUN (pa_status att)) (Itoa (quot bytes MiB) @ ''M''))"
    if "fst (g_ListAttachments (vr_Client r) (pvNamespace vol) e) = Inr atts" "attachedTo vol atts = Some att" for e atts att
    using attached_okI [OF assms(1-3) that, of "\<lambda>a. ''scsi'' @ at_LUN (pa_status att) = ''scsi'' @ at_LUN (pa_status a)"] Inr assms(4,5) by auto
  then show ?thesis
    unfolding reconcileExpand_def Let_def Inr sum.case
    by (intro emits_attachments)
      (auto intro!: emits_intros emits_withWriter quiet_emits split: option.split simp del: volume_op_ok.simps)
qed (auto simp: reconcileExpand_def Let_def intro!: emits_intros quiet_emits)

lemma emits_reconcileDeleteProvisioned:
  assumes "om_DeletionTimestamp (pv_meta vol) \<noteq> None" "\<not> vs_Adopt (pv_spec vol)" "\<not> st_Adopted (pv_status vol)"
    and "g_ContainsFinalizer (vr_Client r) (om_Finalizers (pv_meta vol)) VolumeFinalizer"
  shows "emits (authorised (volume_op_ok (vr_Client r) vol)) (reconcileDeleteProvisioned r vol)"
  unfolding reconcileDeleteProvisioned_def Let_def
proof (rule emits_attachments)
  fix e atts assume l: "fst (g_ListAttachments (vr_Client r) (pvNamespace vol) e) = Inr atts"
  have "pvName vol \<notin> (\<lambda>a. as_VolumeName (pa_spec a)) ` set atts" if "find (\<lambda>a. as_VolumeName (pa_spec a) = pvName vol) atts = None"
    using that by (auto simp: find_None_iff)
  then have "volume_op_ok (vr_Client r) vol (DeleteDiskOp (vs_Region (pv_spec vol)) (vs_Zone (pv_spec vol)) (vs_Storage (pv_spec vol)) (st_DiskName (pv_status vol)))"
    if "find (\<lambda>a. as_VolumeName (pa_spec a) = pvName vol) atts = None" "st_DiskName (pv_status vol) \<noteq> []"
    using that assms l by auto
  then show "emits (authorised (volume_op_ok (vr_Client r) vol)) (deleteUnlessReferenced r vol (find (\<lambda>a. as_VolumeName (pa_spec a) = pvName vol) atts))"
    unfolding deleteUnlessReferenced_def Let_def
    by (auto intro!: emits_intros emits_withWriter quiet_emits split: option.split simp del: volume_op_ok.simps)
qed (auto intro: emits_intros)

lemma emits_reconcileReadyVolume:
  assumes "om_DeletionTimestamp (pv_meta vol) = None" "\<not> vs_Adopt (pv_spec vol)" "st_Phase (pv_status vol) = VolumePhaseReady"
  shows "emits (authorised (volume_op_ok (vr_Client r) vol)) (reconcileReadyVolume r vol)"
  unfolding reconcileReadyVolume_def Let_def
  by (intro emits_intros emits_reconcileModify emits_reconcileExpand assms refl) simp_all

lemma emits_reconcileProvision:
  assumes "stores_spec (vr_Client r)" "om_DeletionTimestamp (pv_meta vol) = None" "\<not> vs_Adopt (pv_spec vol)"
  shows "emits (authorised (volume_op_ok (vr_Client r) vol)) (reconcileProvision r vol)"
proof -
  have disk: "emits (authorised (volume_op_ok (vr_Client r) vol)) (provisionDisk r vol tenant pluginType)"
    if "tenant_ok (vr_Client r) (pvNamespace vol) (Some tenant)" "provisionRefusal (vr_Client r) tenant vol = None" for tenant pluginType
    by (rule emits_provisionDisk [OF assms(1)])
      (use that assms(2,3) provisionRefusal_None [OF that(2)] in \<open>auto simp: provision_ok_def registered_def tenant_ok_def\<close>)
  show ?thesis
    unfolding reconcileProvision_def Let_def
    by (intro emits_if emits_reconcileReadyVolume assms(2,3) emits_bindR [OF returns_tenantFor emits_tenant])
      (auto intro!: emits_intros quiet_emits disk split: option.split)
qed

lemma emits_reconcileDelete:
  assumes "om_DeletionTimestamp (pv_meta vol) \<noteq> None"
  shows "emits (authorised (volume_op_ok (vr_Client r) vol)) (reconcileDelete r vol)"
  unfolding reconcileDelete_def Let_def
  by (intro emits_intros quiet_emits emits_reconcileDeleteProvisioned assms) simp_all

text \<open>A run of a reconciler starts by reading its record.\<close>

lemma sent_after_read:
  assumes "r \<in> set (sent (call (invoke q f) h k) w)" "\<not> P q"
    and "\<And>e. emits (\<lambda>x. \<not> P x) (h e)" "\<And>x. emits (\<lambda>y. P y \<longrightarrow> Q x y) (k x)" "P (snd r)"
  shows "\<exists>x. fst (f (env w)) = Inr x \<and> Q x (snd r)"
proof -
  define A where "A = (\<lambda>r :: 'a \<times> 'b. P (snd r) \<longrightarrow> (\<exists>x. fst (f (env w)) = Inr x \<and> Q x (snd r)))"
  have "triple (\<lambda>e. e = env w) A (call (invoke q f) h k) (\<lambda>_ _. True)"
  proof (rule triple_call [where R = "\<lambda>x e. fst (f (env w)) = x"])
    show "triple (\<lambda>e. e = env w) A (invoke q f) (\<lambda>x e. fst (f (env w)) = x)"
      by (rule triple_invoke) (simp add: A_def assms(2))
    show "triple (\<lambda>_. fst (f (env w)) = Inl e) A (h e) (\<lambda>_ _. True)" for e
      using assms(3) [of e] unfolding emits_def by (rule triple_pre [OF triple_mono]) (auto simp: A_def)
    show "triple (\<lambda>_. fst (f (env w)) = Inr x) A (k x) (\<lambda>_ _. True)" for x
    proof (cases "fst (f (env w)) = Inr x")
      case True
      show ?thesis
        using assms(4) [of x] unfolding emits_def by (rule triple_pre [OF triple_mono]) (use True in \<open>auto simp: A_def\<close>)
    qed (simp add: triple_def)
  qed
  from triple_sent [OF this refl assms(1)] show ?thesis using assms(5) by (simp add: A_def)
qed


lemma sampleMgmt_stores: "stores_spec sampleMgmt"
  by (auto simp: stores_spec_def sampleMgmt_def simWrite_def)

definition sampleVolumes :: "msim volume_reconciler" where
  "sampleVolumes = \<lparr>vr_Client = sampleMgmt, vr_ListDisks = (\<lambda>_ _ _ e. (Inr [], e)), vr_Writer = Some okWriter, vr_SyncPeriod = 0\<rparr>"

lemma sampleVolumes_client: "vr_Client sampleVolumes = sampleMgmt" "env sampleOWorld = sampleState"
  by (simp_all add: sampleVolumes_def sampleOWorld_def)

fun px_op :: "oreq \<Rightarrow> pxop option" where
  "px_op (PxWrite op) = Some op"
| "px_op _ = None"

lemma px_op_Some: "px_op q = Some op \<Longrightarrow> q = PxWrite op"
  by (cases q) auto

lemma px_op_member:
  assumes "List.map_filter px_op (map snd (sent m w)) = ops" "op \<in> set ops"
  shows "\<exists>e. (e, PxWrite op) \<in> set (sent m w)"
proof -
  obtain x where "x \<in> set (sent m w)" "px_op (snd x) = Some op" using assms by (force simp: List.map_filter_def)
  then show ?thesis using px_op_Some by (metis prod.collapse)
qed


end
