(* ===== verification/Operator_Pool.thy ===== *)
theory Operator_Pool
  imports Operator_Types
begin

text \<open>
  The operator's view of Proxmox (\<^verbatim>\<open>pkg/operator/proxmox\<close>): the read-only listings of disks, VMs and
  storages, and the writer that implements \<^verbatim>\<open>proxmox.Writer\<close> with the disk operations the CSI
  controller uses.  The listings call a few more functions of the client library, which extend the
  record of the client.
\<close>

section \<open>Listings\<close>

record vm_resource = cluster_resource +
  rs_pool :: string

record storage_resource = cluster_resource +
  rs_storage :: string
  rs_content :: string

record node_storage_status = storage_status +
  ss_enabled :: int
  ss_active :: int
  ss_content :: string

record 'e op_client = "'e client" +
  oc_GetVMsByFilter :: "('e, vm_resource list) api"
  oc_GetClusterStoragesByFilter :: "('e, storage_resource list) api"
  oc_GetStorageListByFilter :: "('e, string list) api"
  oc_GetNodeStorageStatus :: "string \<Rightarrow> string \<Rightarrow> ('e, node_storage_status) api"

type_synonym 'e op_pool = "(string \<times> 'e op_client) list"

definition opCluster :: "'e op_pool \<Rightarrow> string \<Rightarrow> ('e pworld, 'e op_client) io" where
  "opCluster p region =
     (case map_of p region of
        Some cl \<Rightarrow> ret cl
      | None \<Rightarrow> fail (Wrap (''region '' @ region @ '': region not found'') (Sentinel ErrRegionNotFound ''region not found'')))"

abbreviation opRead :: "'e op_client \<Rightarrow> string \<Rightarrow> ('e, 'a) api \<Rightarrow> ('e pworld, 'a) io" where
  "opRead cl path f \<equiv> invoke (Px (c_name cl) (RGet path)) f"

definition clampVMID :: "int \<Rightarrow> int" where
  "clampVMID vmid = (if vmid > 999999999 then 0 else vmid)"

definition clampToInt64 :: "int \<Rightarrow> int" where
  "clampToInt64 v = (if v > 2 ^ 63 - 1 then 2 ^ 63 - 1 else v)"

definition diskName :: "string \<Rightarrow> string \<Rightarrow> string option" where
  "diskName volid storage =
     (case Cut CHR '':'' volid of
        None \<Rightarrow> None
      | Some (pre, name) \<Rightarrow> if pre \<noteq> storage \<or> name = [] then None else Some name)"

definition storageIsConfigured :: "'e op_client \<Rightarrow> string \<Rightarrow> ('e pworld, bool) io" where
  "storageIsConfigured cl storage =
     call (opRead cl ''storage'' (oc_GetStorageListByFilter cl)) (\<lambda>_. ret True) (\<lambda>configured. ret (storage \<in> set configured))"

text \<open>The entries of one node's listing that belong to the storage and were not seen before.\<close>

fun addDisks :: "string \<Rightarrow> string \<Rightarrow> string \<Rightarrow> storage_content list \<Rightarrow> string list \<times> px_disk list \<Rightarrow> string list \<times> px_disk list" where
  "addDisks region node storage [] acc = acc"
| "addDisks region node storage (item # items) (seen, disks) =
     (case diskName (ct_volid item) storage of
        None \<Rightarrow> addDisks region node storage items (seen, disks)
      | Some name \<Rightarrow>
          if ct_volid item \<in> set seen then addDisks region node storage items (seen, disks)
          else addDisks region node storage items (ct_volid item # seen, disks @
                 [\<lparr>dk_Region = region, dk_Node = node, dk_Storage = storage, dk_Name = name,
                   dk_VMID = clampVMID (ct_vmid item), dk_SizeBytes = clampToInt64 (ct_size item)\<rparr>]))"

fun listNodes :: "'e op_client \<Rightarrow> string \<Rightarrow> string \<Rightarrow> string list \<Rightarrow> string list \<times> px_disk list \<Rightarrow>
    ('e pworld, string list \<times> px_disk list) io" where
  "listNodes cl region storage [] acc = ret acc"
| "listNodes cl region storage (node # nodes) acc =
     call (opRead cl (''content/'' @ node @ ''/'' @ storage) (c_GetStorageContent cl node storage))
       (\<lambda>e. fail (Wrap (''region '' @ region @ '': listing '' @ storage @ '' content on '' @ node @ '': '' @ Error e) e))
       (\<lambda>content. listNodes cl region storage nodes (addDisks region node storage content acc))"

definition diskLess :: "px_disk \<Rightarrow> px_disk \<Rightarrow> bool" where
  "diskLess a b = (if dk_Name a \<noteq> dk_Name b then bytesLess (dk_Name a) (dk_Name b) else bytesLess (dk_Node a) (dk_Node b))"

definition diskNodes :: "'e op_client \<Rightarrow> string \<Rightarrow> string \<Rightarrow> string \<Rightarrow> ('e pworld, string list) io" where
  "diskNodes cl region zone storage =
     (let locating = ''region '' @ region @ '': locating storage '' @ storage @ '': ''
      in if zone \<noteq> [] then ret [zone]
         else call (opRead cl (''storagenodes/'' @ storage) (c_GetNodesForStorage cl storage))
           (\<lambda>e. if errIs e ErrNotFound
                then bindE (storageIsConfigured cl storage) (\<lambda>configured.
                       if configured then fail (Wrap (locating @ Error e) e)
                       else fail (Wrap (locating @ ''storage not found'') (Sentinel ErrStorageNotFound ''storage not found'')))
                else fail (Wrap (locating @ Error e) e))
           (\<lambda>nodes. ret (sortStrings nodes)))"

definition PoolListDisks :: "'e op_pool \<Rightarrow> string \<Rightarrow> string \<Rightarrow> string \<Rightarrow> ('e pworld, px_disk list) io" where
  "PoolListDisks p region zone storage =
     bindE (opCluster p region) (\<lambda>cl.
     bindE (diskNodes cl region zone storage) (\<lambda>nodes.
     bindE (listNodes cl region storage nodes ([], [])) (\<lambda>(seen, disks). ret (sortBy diskLess disks))))"

definition PoolListVMs :: "'e op_pool \<Rightarrow> string \<Rightarrow> ('e pworld, px_vm list) io" where
  "PoolListVMs p region =
     bindE (opCluster p region) (\<lambda>cl.
       call (opRead cl ''resources/vm'' (oc_GetVMsByFilter cl))
         (\<lambda>e. if errIs e ErrVirtualMachineNotFound then ret []
              else fail (Wrap (''region '' @ region @ '': listing VMs: '' @ Error e) e))
         (\<lambda>resources. ret (sortBy (\<lambda>a b. xv_VMID a < xv_VMID b)
            (map (\<lambda>rs. \<lparr>xv_Region = region, xv_VMID = rs_vmid rs, xv_Node = rs_node rs, xv_Name = rs_name rs, xv_Pool = rs_pool rs\<rparr>)
              (filter (\<lambda>rs. \<not> (rs_vmid rs = 0 \<or> rs_vmid rs > 2 ^ 31 - 1)) resources)))))"

section \<open>Storages\<close>

record px_storage =
  xs_Region :: string
  xs_Zone :: string
  xs_Name :: string
  xs_Shared :: bool
  xs_PluginType :: string
  xs_Types :: "string list"
  xs_Active :: bool
  xs_TotalBytes :: int
  xs_AvailableBytes :: int
  xs_UsedBytes :: int
  xs_StatusErr :: "goerr option"

definition contentTypes :: "string \<Rightarrow> string list" where
  "contentTypes content =
     (if content = [] then [] else sortStrings (filter (\<lambda>p. p \<noteq> []) (map TrimSpace (Split CHR '','' content))))"

text \<open>One listed storage, keyed by its name when it is shared and by its name and node otherwise, with the nodes
  that report it available.\<close>

definition addStorage :: "string \<Rightarrow> storage_resource \<Rightarrow> (string \<times> px_storage \<times> string list) list \<Rightarrow> (string \<times> px_storage \<times> string list) list" where
  "addStorage region rs entries =
     (if rs_storage rs = [] then entries
      else let shared = rs_shared rs > 0;
               key = (if shared then rs_storage rs else rs_storage rs @ ''/'' @ rs_node rs);
               (entry, nodes) = (case map_of entries key of
                  Some x \<Rightarrow> x
                | None \<Rightarrow> (\<lparr>xs_Region = region, xs_Zone = (if shared then [] else rs_node rs), xs_Name = rs_storage rs,
                     xs_Shared = shared, xs_PluginType = rs_pluginType rs, xs_Types = contentTypes (rs_content rs),
                     xs_Active = False, xs_TotalBytes = 0, xs_AvailableBytes = 0, xs_UsedBytes = 0, xs_StatusErr = None\<rparr>, []));
               nodes = (if rs_status rs = ''available'' then nodes @ [rs_node rs] else nodes)
           in AList.update key (entry, nodes) entries)"

definition readStatus :: "'e op_client \<Rightarrow> px_storage \<Rightarrow> string \<Rightarrow> ('e pworld, px_storage) io" where
  "readStatus cl entry node =
     call (opRead cl (''status/'' @ node @ ''/'' @ xs_Name entry) (oc_GetNodeStorageStatus cl node (xs_Name entry)))
       (\<lambda>e. let e = (if Contains (Error e) ''No such storage''
                     then Wrap (''storage not found: '' @ Error e) (Sentinel ErrStorageNotFound ''storage not found'') else e)
            in ret (entry\<lparr>xs_StatusErr := Some (Wrap (''reading '' @ xs_Name entry @ '' status on '' @ node @ '': '' @ Error e) e)\<rparr>))
       (\<lambda>status. ret (entry\<lparr>xs_Active := ss_enabled status \<noteq> 0 \<and> ss_active status \<noteq> 0,
           xs_TotalBytes := clampToInt64 (ss_total status), xs_AvailableBytes := clampToInt64 (ss_avail status),
           xs_UsedBytes := clampToInt64 (ss_used status),
           xs_Types := (if contentTypes (ss_content status) \<noteq> [] then contentTypes (ss_content status) else xs_Types entry)\<rparr>))"

fun readStatuses :: "'e op_client \<Rightarrow> (string \<times> px_storage \<times> string list) list \<Rightarrow> ('e pworld, px_storage list) io" where
  "readStatuses cl [] = ret []"
| "readStatuses cl ((key, entry, nodes) # entries) =
     bindE (case sortStrings nodes of [] \<Rightarrow> ret entry | node # _ \<Rightarrow> readStatus cl entry node) (\<lambda>entry.
     bindE (readStatuses cl entries) (\<lambda>rest. ret (entry # rest)))"

definition storageLess :: "px_storage \<Rightarrow> px_storage \<Rightarrow> bool" where
  "storageLess a b = (if xs_Name a \<noteq> xs_Name b then bytesLess (xs_Name a) (xs_Name b) else bytesLess (xs_Zone a) (xs_Zone b))"

definition PoolListStorages :: "'e op_pool \<Rightarrow> string \<Rightarrow> ('e pworld, px_storage list) io" where
  "PoolListStorages p region =
     bindE (opCluster p region) (\<lambda>cl.
       call (opRead cl ''resources/storage'' (oc_GetClusterStoragesByFilter cl))
         (\<lambda>e. fail (Wrap (''region '' @ region @ '': listing storages: '' @ Error e) e))
         (\<lambda>resources. bindE (readStatuses cl (fold (addStorage region) resources [])) (\<lambda>storages. ret (sortBy storageLess storages))))"

definition PoolRegions :: "'e op_pool \<Rightarrow> string list" where
  "PoolRegions p = sortStrings (map fst p)"

section \<open>The writer\<close>

definition onCluster :: "'e pool \<Rightarrow> string \<Rightarrow> ('e client \<Rightarrow> ('e pworld, 'a) io) \<Rightarrow> ('e pworld, 'a) io" where
  "onCluster p region k =
     (case GetProxmoxCluster p region of
        Inl e \<Rightarrow> fail (Wrap (''region '' @ region @ '': '' @ Error e) e)
      | Inr cl \<Rightarrow> k cl)"

definition dwCreateDisk :: "'e pool \<Rightarrow> string \<Rightarrow> string \<Rightarrow> string \<Rightarrow> string \<Rightarrow> int \<Rightarrow> ('e pworld, unit) io" where
  "dwCreateDisk p region zone storage disk sizeBytes =
     onCluster p region (\<lambda>cl. bindE (ToolsCreateVolume cl (NewVolume region zone storage disk) sizeBytes) (\<lambda>_. ret ()))"

definition dwCopyDisk :: "'e pool \<Rightarrow> string \<Rightarrow> string \<Rightarrow> string \<Rightarrow> string \<Rightarrow> string \<Rightarrow> string \<Rightarrow> string \<Rightarrow> ('e pworld, unit) io" where
  "dwCopyDisk p srcRegion srcZone srcStorage srcDisk dstZone dstStorage dstDisk =
     onCluster p srcRegion (\<lambda>cl. ToolsCopyVolume cl (NewVolume srcRegion srcZone srcStorage srcDisk)
       (NewVolume srcRegion dstZone dstStorage dstDisk) (CopyEndpoint p srcRegion False False))"

definition dwDeleteDisk :: "'e pool \<Rightarrow> string \<Rightarrow> string \<Rightarrow> string \<Rightarrow> string \<Rightarrow> ('e pworld, unit) io" where
  "dwDeleteDisk p region zone storage disk = onCluster p region (\<lambda>cl. DeleteVMDisk cl zone storage disk)"

definition dwAttachDisk :: "'e pool \<Rightarrow> string \<Rightarrow> int \<Rightarrow> volume \<Rightarrow> gomap \<Rightarrow> ('e pworld, attach_result) io" where
  "dwAttachDisk p region vmid vol options =
     onCluster p region (\<lambda>cl. bindE (AttachVolume cl vmid vol options) (\<lambda>pvInfo.
       case map_of pvInfo ''lun'' of
         None \<Rightarrow> ret \<lparr>ar_DevicePath = mget pvInfo ''DevicePath'', ar_Lun = 0\<rparr>
       | Some lunStr \<Rightarrow>
           (case Atoi lunStr of
              None \<Rightarrow> fail (Plain (''invalid lun '' @ Quote lunStr @ '': strconv.Atoi: parsing '' @ Quote lunStr @ '': invalid syntax''))
            | Some lun \<Rightarrow> ret \<lparr>ar_DevicePath = mget pvInfo ''DevicePath'', ar_Lun = lun\<rparr>)))"

definition dwDetachDisk :: "'e pool \<Rightarrow> string \<Rightarrow> int \<Rightarrow> volume \<Rightarrow> ('e pworld, unit) io" where
  "dwDetachDisk p region vmid vol =
     onCluster p region (\<lambda>cl. bindE (DetachVolume cl vmid vol) (\<lambda>_. WaitDetachVolume cl vmid vol))"

definition dwResizeDisk :: "'e pool \<Rightarrow> string \<Rightarrow> int \<Rightarrow> string \<Rightarrow> string \<Rightarrow> string \<Rightarrow> ('e pworld, unit) io" where
  "dwResizeDisk p region vmid zone device amount = onCluster p region (\<lambda>cl. ResizeVMDisk cl vmid zone device amount)"

definition dwUpdateDisk :: "'e pool \<Rightarrow> string \<Rightarrow> int \<Rightarrow> volume \<Rightarrow> gomap \<Rightarrow> ('e pworld, unit) io" where
  "dwUpdateDisk p region vmid vol options = onCluster p region (\<lambda>cl. UpdateVolume cl vmid vol options)"

definition dwRenameDisk :: "'e pool \<Rightarrow> string \<Rightarrow> volume \<Rightarrow> int \<Rightarrow> ('e pworld, volume) io" where
  "dwRenameDisk p region vol targetVMID = onCluster p region (\<lambda>cl. RenameVolume cl vol targetVMID)"

definition dwClearUnusedDisk :: "'e pool \<Rightarrow> string \<Rightarrow> int \<Rightarrow> volume \<Rightarrow> ('e pworld, unit) io" where
  "dwClearUnusedDisk p region vmid vol = onCluster p region (\<lambda>cl. ClearUnusedDisk cl vmid vol)"

definition NewDiskWriter :: "'e pool \<Rightarrow> 'e pworld writer" where
  "NewDiskWriter p =
     \<lparr>w_CreateDisk = dwCreateDisk p, w_CopyDisk = dwCopyDisk p, w_DeleteDisk = dwDeleteDisk p,
      w_AttachDisk = dwAttachDisk p, w_DetachDisk = dwDetachDisk p, w_ResizeDisk = dwResizeDisk p,
      w_UpdateDisk = dwUpdateDisk p, w_RenameDisk = dwRenameDisk p, w_ClearUnusedDisk = dwClearUnusedDisk p\<rparr>"

end
