(* ===== verification/Operator_Storage.thy ===== *)
theory Operator_Storage
  imports Operator_Pool Sha256
begin

text \<open>
  The storage catalog: the names of its objects (\<^verbatim>\<open>pkg/operator/controller/storage/name.go\<close>), the
  publisher that keeps it in step with Proxmox (\<^verbatim>\<open>publisher.go\<close>), and the drift detector
  (\<^verbatim>\<open>pkg/operator/controller/drift/detector.go\<close>) that compares the volume records with the disks on the
  storages.  Names are one-byte text.  Metrics and log lines are left out.
\<close>

section \<open>Names\<close>

definition maxNameLength :: nat where "maxNameLength = 253"

definition suffixLength :: nat where "suffixLength = 8"

definition inRange :: "char \<Rightarrow> char \<Rightarrow> char \<Rightarrow> bool" where
  "inRange lo hi c \<longleftrightarrow> (of_char lo :: int) \<le> of_char c \<and> (of_char c :: int) \<le> of_char hi"

definition nameChar :: "char \<Rightarrow> bool" where
  "nameChar c \<longleftrightarrow> inRange CHR ''a'' CHR ''z'' c \<or> inRange CHR ''0'' CHR ''9'' c \<or> c = CHR ''-'' \<or> c = CHR ''.''"

definition sanitize :: "string \<Rightarrow> string" where
  "sanitize s = Trim (map (\<lambda>c. if nameChar c then c else CHR ''-'') s) ''-.''"

definition digest :: "string \<Rightarrow> string" where
  "digest key = take suffixLength (hex (sha256 key))"

definition ObjectName :: "string \<Rightarrow> string \<Rightarrow> string \<Rightarrow> string" where
  "ObjectName region zone storage =
     (let parts = (if zone \<noteq> [] then [region, zone, storage] else [region, storage]);
          key = Join [CHR 0x00] [region, zone, storage];
          lowered = map ToLower parts;
          exact = list_all (\<lambda>p. sanitize p = p) lowered;
          labels = filter (\<lambda>l. l \<noteq> []) (map sanitize lowered)
      in if labels = [] then digest key
         else let name = Join ''.'' labels
              in if exact \<and> length name \<le> maxNameLength then name
                 else let tail = ''-'' @ digest key;
                          name = (if length name + length tail > maxNameLength
                                  then TrimRight (take (maxNameLength - length tail) name) ''-.'' else name)
                      in name @ tail)"

definition maxLabelLength :: nat where "maxLabelLength = 63"

definition labelChar :: "char \<Rightarrow> bool" where
  "labelChar c \<longleftrightarrow> inRange CHR ''a'' CHR ''z'' c \<or> inRange CHR ''A'' CHR ''Z'' c \<or> inRange CHR ''0'' CHR ''9'' c \<or>
     c = CHR ''-'' \<or> c = CHR ''.'' \<or> c = CHR ''_''"

definition labelValue :: "string \<Rightarrow> string" where
  "labelValue s =
     (let v = Trim (map (\<lambda>c. if labelChar c then c else CHR ''-'') s) ''-._''
      in if length v > maxLabelLength then Trim (take maxLabelLength v) ''-._'' else v)"

section \<open>The publisher\<close>

text \<open>\<^verbatim>\<open>controllerutil.CreateOrUpdate\<close> is a parameter: it brings the object of a name into existence with a
  mutation applied to it, and gives it back.\<close>

record 'e publisher =
  pb_Client :: "'e mgmt"
  pb_Regions :: "string list"
  pb_ListStorages :: "string \<Rightarrow> ('e, px_storage list) api"
  pb_CreateOrUpdate :: "string \<Rightarrow> (pstorage \<Rightarrow> pstorage) \<Rightarrow> ('e, pstorage) api"
  pb_StaleAfter :: int

record publisher_state =
  pb_lastSync :: int
  pb_lastErr :: "goerr option"
  pb_syncedOnce :: bool

definition DefaultStaleAfter :: int where "DefaultStaleAfter = 300"

definition publishSpec :: "px_storage \<Rightarrow> pstorage \<Rightarrow> pstorage" where
  "publishSpec storage obj =
     ps_spec_update (\<lambda>_. \<lparr>gs_Region = xs_Region storage, gs_Zone = xs_Zone storage, gs_Storage = xs_Name storage,
        gs_Shared = xs_Shared storage, gs_PluginType = xs_PluginType storage, gs_Types = xs_Types storage\<rparr>)
     (ps_meta_update (om_Labels_update (\<lambda>ls. mset_key (mset_key ls LabelRegion (labelValue (xs_Region storage)))
        LabelStorage (labelValue (xs_Name storage)))) obj)"

definition publishStatus :: "'e mgmt \<Rightarrow> int \<Rightarrow> px_storage \<Rightarrow> pstorage \<Rightarrow> pstorage" where
  "publishStatus g now storage obj =
     (let (s, reason, message) =
            (case xs_StatusErr storage of
               Some e \<Rightarrow> (ConditionFalse, ''ProxmoxError'', Error e)
             | None \<Rightarrow> if \<not> xs_Active storage then (ConditionFalse, ''ProxmoxError'', ''storage is not active on this node'')
                       else (ConditionTrue, ''Accepted'', ''storage is active''))
      in ps_status_update (\<lambda>st. st\<lparr>gt_Active := xs_Active storage, gt_TotalBytes := xs_TotalBytes storage,
           gt_AvailableBytes := xs_AvailableBytes storage, gt_UsedBytes := xs_UsedBytes storage, gt_LastSyncTime := Some now,
           gt_Conditions := g_SetStatusCondition g \<lparr>cd_Type = ConditionReady, cd_Status = s, cd_Reason = reason, cd_Message = message,
             cd_LastTransitionTime = now, cd_ObservedGeneration = om_Generation (ps_meta obj)\<rparr> (gt_Conditions st)\<rparr>) obj)"

definition emptyStorage :: "string \<Rightarrow> pstorage" where
  "emptyStorage name =
     \<lparr>ps_meta = \<lparr>om_Name = name, om_Namespace = [], om_Generation = 0, om_CreationTimestamp = 0, om_DeletionTimestamp = None,
        om_Finalizers = [], om_Labels = [], om_Annotations = []\<rparr>,
      ps_spec = \<lparr>gs_Region = [], gs_Zone = [], gs_Storage = [], gs_Shared = False, gs_PluginType = [], gs_Types = []\<rparr>,
      ps_status = \<lparr>gt_Active = False, gt_TotalBytes = 0, gt_AvailableBytes = 0, gt_UsedBytes = 0, gt_LastSyncTime = None, gt_Conditions = []\<rparr>\<rparr>"

definition upsert :: "'e publisher \<Rightarrow> string \<Rightarrow> px_storage \<Rightarrow> ('e oworld, unit) io" where
  "upsert p name storage =
     (let g = pb_Client p
      in bindE (invoke (OUpdate (KStorage (publishSpec storage (emptyStorage name)))) (pb_CreateOrUpdate p name (publishSpec storage))) (\<lambda>obj.
         withNow g (\<lambda>now. bindE (WriteStorage g (OStatus (KStorage (publishStatus g now storage obj)))) (\<lambda>_. ret ()))))"

definition joinErrors :: "goerr list \<Rightarrow> goerr option" where
  "joinErrors errs = (case errs of [] \<Rightarrow> None | e # _ \<Rightarrow> Some (Wrap (Join [CHR 10] (map Error errs)) e))"

text \<open>Loops that go on after an error and collect it.\<close>

fun upsertAll :: "'e publisher \<Rightarrow> px_storage list \<Rightarrow> goerr list \<Rightarrow> ('e oworld, goerr list) io" where
  "upsertAll p [] errs = ret errs"
| "upsertAll p (storage # storages) errs =
     (let name = ObjectName (xs_Region storage) (xs_Zone storage) (xs_Name storage)
      in call (upsert p name storage)
           (\<lambda>e. upsertAll p storages (errs @ [Wrap (''publishing '' @ name @ '': '' @ Error e) e]))
           (\<lambda>_. upsertAll p storages errs))"

fun pruneAll :: "'e publisher \<Rightarrow> string \<Rightarrow> string list \<Rightarrow> pstorage list \<Rightarrow> goerr list \<Rightarrow> ('e oworld, goerr list) io" where
  "pruneAll p region published [] errs = ret errs"
| "pruneAll p region published (obj # objs) errs =
     (if gs_Region (ps_spec obj) \<noteq> region then pruneAll p region published objs errs
      else if om_Name (ps_meta obj) \<in> set published then pruneAll p region published objs errs
      else call (WriteStorage (pb_Client p) (ODelete (KStorage obj)))
             (\<lambda>e. if isNotFoundErr e then pruneAll p region published objs errs
                  else pruneAll p region published objs (errs @ [Wrap (''removing '' @ om_Name (ps_meta obj) @ '': '' @ Error e) e]))
             (\<lambda>_. pruneAll p region published objs errs))"

definition failJoined :: "goerr list \<Rightarrow> ('w, unit) io" where
  "failJoined errs = (case joinErrors errs of None \<Rightarrow> ret () | Some e \<Rightarrow> fail e)"

definition prune :: "'e publisher \<Rightarrow> string \<Rightarrow> string list \<Rightarrow> ('e oworld, unit) io" where
  "prune p region published =
     (let sel = labelValue region
      in call (invoke (OListBy ''ProxmoxStorage'' [] LabelRegion sel) (g_ListStoragesByRegion (pb_Client p) sel))
           (\<lambda>e. fail (Wrap (''listing published storages for '' @ region @ '': '' @ Error e) e))
           (\<lambda>objs. bindE (pruneAll p region published objs []) failJoined))"

definition syncRegion :: "'e publisher \<Rightarrow> string \<Rightarrow> ('e oworld, unit) io" where
  "syncRegion p region =
     bindE (invoke (PxRead (''storages/'' @ region)) (pb_ListStorages p region)) (\<lambda>storages.
     bindE (upsertAll p storages []) (\<lambda>errs.
       if errs \<noteq> [] then failJoined errs
       else prune p region (map (\<lambda>s. ObjectName (xs_Region s) (xs_Zone s) (xs_Name s)) storages)))"

fun syncRegions :: "'e publisher \<Rightarrow> string list \<Rightarrow> goerr list \<Rightarrow> ('e oworld, goerr list) io" where
  "syncRegions p [] errs = ret errs"
| "syncRegions p (region # regions) errs =
     call (syncRegion p region) (\<lambda>e. syncRegions p regions (errs @ [e])) (\<lambda>_. syncRegions p regions errs)"

text \<open>\<^verbatim>\<open>Sync\<close> returns its error and the publisher's new state.\<close>

definition Sync :: "'e publisher \<Rightarrow> ('e oworld, goerr option \<times> publisher_state) io" where
  "Sync p =
     bindE (syncRegions p (pb_Regions p) []) (\<lambda>errs. withNow (pb_Client p) (\<lambda>now.
       ret (joinErrors errs, \<lparr>pb_lastSync = now, pb_lastErr = joinErrors errs, pb_syncedOnce = True\<rparr>)))"

text \<open>\<^verbatim>\<open>time.Duration\<close> printed, for a whole number of seconds.\<close>

definition showDuration :: "int \<Rightarrow> string" where
  "showDuration d =
     (if d \<ge> 3600 then Itoa (d div 3600) @ ''h'' @ Itoa (d mod 3600 div 60) @ ''m'' @ Itoa (d mod 60) @ ''s''
      else if d \<ge> 60 then Itoa (d div 60) @ ''m'' @ Itoa (d mod 60) @ ''s''
      else Itoa d @ ''s'')"

definition CheckPublisher :: "'e publisher \<Rightarrow> publisher_state \<Rightarrow> int \<Rightarrow> goerr option" where
  "CheckPublisher p s now =
     (let staleAfter = (if pb_StaleAfter p \<le> 0 then DefaultStaleAfter else pb_StaleAfter p); age = now - pb_lastSync s
      in if \<not> pb_syncedOnce s then Some (Plain ''storage catalog has not synced yet'')
         else if age > staleAfter
         then Some (case pb_lastErr s of
                      Some e \<Rightarrow> Wrap (''storage catalog last synced '' @ showDuration age @ '' ago: '' @ Error e) e
                    | None \<Rightarrow> Plain (''storage catalog last synced '' @ showDuration age @ '' ago: %!w(<nil>)''))
         else None)"

section \<open>Drift\<close>

record orphan =
  or_Region :: string
  or_Storage :: string
  or_Name :: string
  or_VMID :: int
  or_SizeBytes :: int

record missing =
  mi_Namespace :: string
  mi_Name :: string
  mi_VolumeID :: string

record drift_report =
  rp_Orphans :: "orphan list"
  rp_Missing :: "missing list"
  rp_Unreadable :: "string list"

record 'e detector =
  dt_Client :: "'e mgmt"
  dt_ListDisks :: "string \<Rightarrow> string \<Rightarrow> string \<Rightarrow> ('e, px_disk list) api"

type_synonym target = "string \<times> string"

definition driverDiskPrefix :: string where "driverDiskPrefix = ''pvc-''"

definition targetString :: "target \<Rightarrow> string" where
  "targetString t = fst t @ ''/'' @ snd t"

definition targetLess :: "target \<Rightarrow> target \<Rightarrow> bool" where
  "targetLess a b = (if fst a \<noteq> fst b then bytesLess (fst a) (fst b) else bytesLess (snd a) (snd b))"

definition targets :: "ptenant list \<Rightarrow> pvolume list \<Rightarrow> target list" where
  "targets tenants vols =
     sortBy targetLess (remdups
       (concat (map (\<lambda>t. map (\<lambda>s. (tn_Region (tc_spec t), s)) (tn_AllowedStorages (tc_spec t))) tenants) @
        map (\<lambda>v. (vs_Region (pv_spec v), vs_Storage (pv_spec v)))
          (filter (\<lambda>v. \<not> (vs_Region (pv_spec v) = [] \<or> vs_Storage (pv_spec v) = [])) vols)))"

definition claimKey :: "target \<Rightarrow> string \<Rightarrow> string" where
  "claimKey t sfx = targetString t @ ''/'' @ sfx"

text \<open>What a record contributes to the two lookups of \<^verbatim>\<open>index\<close>.\<close>

definition indexEntry :: "pvolume \<Rightarrow> (target \<times> string \<times> missing) option" where
  "indexEntry vol =
     (if st_VolumeID (pv_status vol) = [] then None
      else case NewVolumeFromVolumeID (st_VolumeID (pv_status vol)) of
        Inl _ \<Rightarrow> None
      | Inr handle \<Rightarrow>
          if DiskSuffix handle = [] then None
          else Some ((vregion handle, vstorage handle), DiskSuffix handle,
                 \<lparr>mi_Namespace = pvNamespace vol, mi_Name = pvName vol, mi_VolumeID = st_VolumeID (pv_status vol)\<rparr>))"

definition claimedOf :: "pvolume list \<Rightarrow> string list" where
  "claimedOf vols = map (\<lambda>(t, sfx, _). claimKey t sfx) (List.map_filter indexEntry vols)"

definition ledgerOf :: "pvolume list \<Rightarrow> target \<Rightarrow> missing list" where
  "ledgerOf vols target = map (\<lambda>(_, _, m). m) (filter (\<lambda>(t, _, _). t = target) (List.map_filter indexEntry vols))"

definition suffixOf :: "px_disk \<Rightarrow> string" where
  "suffixOf disk = DiskSuffix (NewVolume (dk_Region disk) [] (dk_Storage disk) (dk_Name disk))"

definition orphansIn :: "px_disk list \<Rightarrow> string list \<Rightarrow> orphan list" where
  "orphansIn disks claimed =
     map (\<lambda>d. \<lparr>or_Region = dk_Region d, or_Storage = dk_Storage d, or_Name = dk_Name d, or_VMID = dk_VMID d, or_SizeBytes = dk_SizeBytes d\<rparr>)
       (filter (\<lambda>d. HasPrefix (suffixOf d) driverDiskPrefix \<and> claimKey (dk_Region d, dk_Storage d) (suffixOf d) \<notin> set claimed) disks)"

definition missingIn :: "px_disk list \<Rightarrow> missing list \<Rightarrow> missing list" where
  "missingIn disks expected =
     (let present = filter (\<lambda>s. s \<noteq> []) (map suffixOf disks)
      in filter (\<lambda>m. case NewVolumeFromVolumeID (mi_VolumeID m) of
                       Inl _ \<Rightarrow> False
                     | Inr handle \<Rightarrow> DiskSuffix handle \<notin> set present) expected)"

definition sweepOne :: "string list \<Rightarrow> missing list \<Rightarrow> px_disk list \<Rightarrow> drift_report \<Rightarrow> drift_report" where
  "sweepOne claimed expected disks report =
     report\<lparr>rp_Orphans := rp_Orphans report @ orphansIn disks claimed, rp_Missing := rp_Missing report @ missingIn disks expected\<rparr>"

fun sweepTargets :: "'e detector \<Rightarrow> pvolume list \<Rightarrow> target list \<Rightarrow> drift_report \<Rightarrow> ('e oworld, drift_report) io" where
  "sweepTargets d vols [] report = ret report"
| "sweepTargets d vols (target # rest) report =
     call (invoke (PxRead (''disks/'' @ fst target @ ''//'' @ snd target)) (dt_ListDisks d (fst target) [] (snd target)))
       (\<lambda>e. if \<not> errIs e ErrStorageNotFound
            then sweepTargets d vols rest (report\<lparr>rp_Unreadable := rp_Unreadable report @ [targetString target]\<rparr>)
            else sweepTargets d vols rest (sweepOne (claimedOf vols) (ledgerOf vols target) [] report))
       (\<lambda>disks. sweepTargets d vols rest (sweepOne (claimedOf vols) (ledgerOf vols target) disks report))"

definition orphanLess :: "orphan \<Rightarrow> orphan \<Rightarrow> bool" where
  "orphanLess a b =
     (if or_Region a \<noteq> or_Region b then bytesLess (or_Region a) (or_Region b)
      else if or_Storage a \<noteq> or_Storage b then bytesLess (or_Storage a) (or_Storage b)
      else bytesLess (or_Name a) (or_Name b))"

definition missingLess :: "missing \<Rightarrow> missing \<Rightarrow> bool" where
  "missingLess a b =
     (if mi_Namespace a \<noteq> mi_Namespace b then bytesLess (mi_Namespace a) (mi_Namespace b) else bytesLess (mi_Name a) (mi_Name b))"

definition sortReport :: "drift_report \<Rightarrow> drift_report" where
  "sortReport report =
     \<lparr>rp_Orphans = sortBy orphanLess (rp_Orphans report), rp_Missing = sortBy missingLess (rp_Missing report),
      rp_Unreadable = sortStrings (rp_Unreadable report)\<rparr>"

definition Sweep :: "'e detector \<Rightarrow> ('e oworld, drift_report) io" where
  "Sweep d =
     (let g = dt_Client d
      in call (ListAllVolumes g) (\<lambda>e. fail (Wrap (''listing volumes: '' @ Error e) e)) (\<lambda>vols.
         call (ListTenants g) (\<lambda>e. fail (Wrap (''listing tenants: '' @ Error e) e)) (\<lambda>tenants.
         bindE (sweepTargets d vols (targets tenants vols) \<lparr>rp_Orphans = [], rp_Missing = [], rp_Unreadable = []\<rparr>)
           (\<lambda>report. ret (sortReport report)))))"

end
