(* ===== verification/Operator_Api.thy ===== *)
theory Operator_Api
  imports Operator_Attachment
begin

text \<open>
  Every method of the operator's volume API (\<^verbatim>\<open>pkg/operator/api/service.go\<close>).  A handler gets the tenant and the
  request id from the context, which the interceptors of \<^verbatim>\<open>Operator_Authn\<close> have filled in; the stream of
  \<^verbatim>\<open>WatchCapacity\<close> is a parameter.
\<close>

section \<open>Messages\<close>

record create_volume_request =
  cq_Name :: string
  cq_PvName :: string
  cq_ClaimRef :: "(string \<times> string) option"
  cq_Region :: string
  cq_Zone :: string
  cq_Storage :: string
  cq_CapacityBytes :: int
  cq_Parameters :: gomap
  cq_MutableParameters :: gomap
  cq_Source :: "volume_source option"

record create_volume_response =
  cp_VolumeId :: string
  cp_CapacityBytes :: int
  cp_AccessibleTopology :: "string list"
  cp_VolumeContext :: gomap

record attach_request =
  aq_VolumeId :: string
  aq_NodeId :: string
  aq_Vmid :: int
  aq_Readonly :: bool

record attach_response =
  ap_DevicePath :: string
  ap_Lun :: int
  ap_ResizeRequired :: bool

record expand_response =
  ep_CapacityBytes :: int
  ep_NodeExpansionRequired :: bool

record snapshot_entry =
  se_SnapshotId :: string
  se_SourceVolumeId :: string
  se_ReadyToUse :: bool
  se_RestoreSizeBytes :: int
  se_CreationTime :: "int option"

record list_snapshots_request =
  lq_SourceVolumeName :: string
  lq_SnapshotId :: string
  lq_MaxEntries :: int
  lq_StartingToken :: string

record capacity_message =
  cm_Storage :: string
  cm_Zone :: string
  cm_AvailableBytes :: int
  cm_TotalBytes :: int
  cm_Shared :: bool

record 'e service =
  sv_client :: "'e mgmt"
  sv_vms :: "(string \<Rightarrow> ('e, px_vm list) api) option"

record call_context =
  ctx_tenant :: "ptenant option"
  ctx_requestID :: string

abbreviation statusError :: "code \<Rightarrow> string \<Rightarrow> ('w, 'a) io" where
  "statusError c m \<equiv> fail (Status c m)"

definition withTenant :: "call_context \<Rightarrow> (ptenant \<Rightarrow> ('e oworld, 'a) io) \<Rightarrow> ('e oworld, 'a) io" where
  "withTenant ctx k = (case ctx_tenant ctx of None \<Rightarrow> statusError Internal ''tenant not in context'' | Some tenant \<Rightarrow> k tenant)"

text \<open>The metadata of an object the API creates.\<close>

definition newMeta :: "ptenant \<Rightarrow> string \<Rightarrow> string \<Rightarrow> object_meta" where
  "newMeta tenant requestID name =
     \<lparr>om_Name = name, om_Namespace = tn_Namespace (tc_spec tenant), om_Generation = 0, om_CreationTimestamp = 0,
      om_DeletionTimestamp = None, om_Finalizers = [], om_Labels = [(LabelTenant, tcName tenant)],
      om_Annotations = [(GroupName @ ''/request-id'', requestID)]\<rparr>"

section \<open>Lookups\<close>

definition volumeByID :: "'e service \<Rightarrow> string \<Rightarrow> string \<Rightarrow> ('e oworld, pvolume) io" where
  "volumeByID s namespace volumeID =
     call (ListByVolumeID (sv_client s) namespace volumeID) (\<lambda>e. statusError Internal (''listing volumes: '' @ Error e))
       (\<lambda>vols. case vols of
          [] \<Rightarrow> statusError NotFound (''volume '' @ volumeID @ '' not found in namespace '' @ namespace)
        | vol # _ \<Rightarrow> ret vol)"

definition snapshotByID :: "'e service \<Rightarrow> string \<Rightarrow> string \<Rightarrow> ('e oworld, psnapshot) io" where
  "snapshotByID s namespace snapshotID =
     call (ListBySnapshotID (sv_client s) namespace snapshotID) (\<lambda>e. statusError Internal (''listing snapshots: '' @ Error e))
       (\<lambda>snaps. case snaps of
          [] \<Rightarrow> statusError NotFound (''snapshot '' @ snapshotID @ '' not found in namespace '' @ namespace)
        | snap # _ \<Rightarrow> ret snap)"

definition specMatchesRequest :: "pvolume \<Rightarrow> create_volume_request \<Rightarrow> bool" where
  "specMatchesRequest vol req \<longleftrightarrow>
     vs_Region (pv_spec vol) = cq_Region req \<and> vs_Zone (pv_spec vol) = cq_Zone req \<and>
     vs_Storage (pv_spec vol) = cq_Storage req \<and> vs_CapacityBytes (pv_spec vol) = cq_CapacityBytes req"

definition mapRejectionCode :: "'e mgmt \<Rightarrow> pvolume \<Rightarrow> goerr" where
  "mapRejectionCode g vol =
     (let (reason, message) = (case g_FindStatusCondition g (st_Conditions (pv_status vol)) ConditionAdmitted of
             None \<Rightarrow> ([], ''volume rejected'') | Some c \<Rightarrow> (cd_Reason c, cd_Message c))
      in if reason \<in> set [''QuotaExceeded'', ''NamespaceQuotaExceeded''] then Status ResourceExhausted message
         else if reason \<in> set [''TenantSuspended'', ''TenantObserveOnly'', ''StorageNotAllowed'', ''VMIDNotOwned'']
         then Status PermissionDenied message
         else Status InvalidArgument message)"

definition attachmentName :: "string \<Rightarrow> string \<Rightarrow> string" where
  "attachmentName volumeID nodeID = ''pva-'' @ hex (take 8 (sha256 (volumeID @ CHR 0x00 # nodeID)))"

definition lunFromStatus :: "string \<Rightarrow> int" where
  "lunFromStatus lun = (if lun = [] then 0 else case ParseInt lun 32 of None \<Rightarrow> 0 | Some n \<Rightarrow> n)"

text \<open>\<^verbatim>\<open>%v\<close> of a slice of ints.\<close>

definition showInts :: "int list \<Rightarrow> string" where
  "showInts ns = ''['' @ Join '' '' (map Itoa ns) @ '']''"

definition resolveVMIDByName :: "'e service \<Rightarrow> ptenant \<Rightarrow> string \<Rightarrow> ('e oworld, int) io" where
  "resolveVMIDByName s tenant nodeName =
     (case sv_vms s of
        None \<Rightarrow> statusError FailedPrecondition (''cannot resolve node '' @ Quote nodeName @
                  '' to a VMID: no VMID in node ID and VM reader is not available'')
      | Some listVMs \<Rightarrow>
          call (invoke (PxRead (''vms/'' @ tn_Region (tc_spec tenant))) (listVMs (tn_Region (tc_spec tenant))))
            (\<lambda>e. statusError Internal (''listing VMs for VMID resolution: '' @ Error e))
            (\<lambda>vms. case map xv_VMID (filter (\<lambda>vm. xv_Name vm = nodeName \<and> xv_VMID vm \<in> set (tt_ResolvedVMIDs (tc_status tenant))) vms) of
               [] \<Rightarrow> statusError FailedPrecondition (''no VM named '' @ Quote nodeName @ '' found in tenant '' @ tcName tenant @ [CHR 0x27] @ ''s resolvedVmids'')
             | [vmid] \<Rightarrow> ret vmid
             | matches \<Rightarrow> statusError FailedPrecondition (''multiple VMs named '' @ Quote nodeName @ '' found in tenant '' @
                  tcName tenant @ [CHR 0x27] @ ''s resolvedVmids: '' @ showInts matches)))"

definition resolveVMID :: "'e service \<Rightarrow> ptenant \<Rightarrow> string \<Rightarrow> int \<Rightarrow> ('e oworld, int) io" where
  "resolveVMID s tenant nodeID reqVMID =
     (let resolved = set (tt_ResolvedVMIDs (tc_status tenant));
          owner = tcName tenant @ [CHR 0x27] @ ''s resolvedVmids''
      in if reqVMID \<noteq> 0
         then (if reqVMID \<notin> resolved then statusError FailedPrecondition (''vmid '' @ Itoa reqVMID @ '' is not in tenant '' @ owner)
               else ret reqVMID)
         else case ParseNodeID nodeID of
           Inl e \<Rightarrow> statusError InvalidArgument (''invalid node_id '' @ Quote nodeID @ '': '' @ Error e)
         | Inr n \<Rightarrow>
             (case NodeGetVMID n of
                Inr i \<Rightarrow>
                  (let vmid = wrap32 i
                   in if i = 0 then resolveVMIDByName s tenant (nid_node n)
                      else if vmid \<notin> resolved
                      then statusError FailedPrecondition (''vmid '' @ Itoa vmid @ '' (from node ID) is not in tenant '' @ owner)
                      else ret vmid)
              | Inl _ \<Rightarrow> resolveVMIDByName s tenant (nid_node n)))"

section \<open>Volumes\<close>

definition newVolume :: "call_context \<Rightarrow> ptenant \<Rightarrow> create_volume_request \<Rightarrow> pvolume" where
  "newVolume ctx tenant req =
     \<lparr>pv_meta = newMeta tenant (ctx_requestID ctx) (cq_Name req),
      pv_spec = \<lparr>vs_Region = cq_Region req, vs_Zone = cq_Zone req, vs_Storage = cq_Storage req, vs_CapacityBytes = cq_CapacityBytes req,
        vs_Parameters = cq_Parameters req, vs_Source = cq_Source req, vs_MutableParameters = cq_MutableParameters req,
        vs_ClaimRef = (case cq_ClaimRef req of
            None \<Rightarrow> \<lparr>cr_Name = [], cr_Namespace = [], cr_PVName = []\<rparr>
          | Some (ns, n) \<Rightarrow> \<lparr>cr_Name = n, cr_Namespace = ns, cr_PVName = cq_Name req\<rparr>),
        vs_Adopt = False, vs_AdoptVolumeID = []\<rparr>,
      pv_status = \<lparr>st_VolumeID = [], st_DiskName = [], st_OwnerVMID = 0, st_CapacityBytes = 0, st_AccessibleTopology = [],
        st_Adopted = False, st_Phase = [], st_ObservedGeneration = 0, st_LastSyncTime = None, st_Conditions = []\<rparr>\<rparr>"

definition volumeAnswer :: "'e service \<Rightarrow> pvolume \<Rightarrow> ('e oworld, create_volume_response) io" where
  "volumeAnswer s vol =
     (let g = sv_client s; phase = st_Phase (pv_status vol)
      in if phase = VolumePhaseReady
         then (case VolumeContext (mset_key (vs_Parameters (pv_spec vol)) ''storage'' (vs_Storage (pv_spec vol))) (vs_MutableParameters (pv_spec vol)) of
                 Inl e \<Rightarrow> statusError Internal (''volume context: '' @ Error e)
               | Inr volumeContext \<Rightarrow> ret \<lparr>cp_VolumeId = st_VolumeID (pv_status vol), cp_CapacityBytes = st_CapacityBytes (pv_status vol),
                     cp_AccessibleTopology = st_AccessibleTopology (pv_status vol), cp_VolumeContext = volumeContext\<rparr>)
         else if phase = VolumePhaseRejected then fail (mapRejectionCode g vol)
         else if phase = VolumePhaseFailed
         then (let msg = (case g_FindStatusCondition g (st_Conditions (pv_status vol)) ConditionReady of
                            None \<Rightarrow> ''provisioning failed'' | Some c \<Rightarrow> cd_Message c);
                   final = statusError Internal (''provisioning failed: '' @ msg)
               in if om_DeletionTimestamp (pv_meta vol) \<noteq> None then final
                  else call (WriteVolume g (ODelete (KVolume vol)))
                         (\<lambda>e. if isNotFoundErr e then final else statusError Internal (''cleaning up failed volume: '' @ Error e))
                         (\<lambda>_. final))
         else statusError Unavailable (''provisioning volume '' @ pvName vol))"

definition ApiCreateVolume :: "'e service \<Rightarrow> call_context \<Rightarrow> create_volume_request \<Rightarrow> ('e oworld, create_volume_response) io" where
  "ApiCreateVolume s ctx req =
     (if cq_Name req = [] then statusError InvalidArgument ''name is required''
      else if cq_CapacityBytes req \<le> 0 then statusError InvalidArgument ''capacity_bytes must be positive''
      else if cq_Region req = [] then statusError InvalidArgument ''region is required''
      else if cq_Storage req = [] then statusError InvalidArgument ''storage is required''
      else withTenant ctx (\<lambda>tenant.
        let g = sv_client s; ns = tn_Namespace (tc_spec tenant)
        in call (GetVolume g ns (cq_Name req))
             (\<lambda>e. if \<not> isNotFoundErr e then statusError Internal (''getting volume: '' @ Error e)
                  else call (WriteVolume g (OCreate (KVolume (newVolume ctx tenant req))))
                         (\<lambda>e. if isAlreadyExists e
                              then call (GetVolume g ns (cq_Name req))
                                     (\<lambda>e. statusError Internal (''getting volume after create race: '' @ Error e)) (volumeAnswer s)
                              else statusError Internal (''creating volume: '' @ Error e))
                         (volumeAnswer s))
             (\<lambda>vol. if \<not> specMatchesRequest vol req
                    then statusError AlreadyExists (''volume '' @ cq_Name req @ '' exists with a different spec'')
                    else volumeAnswer s vol)))"

definition ApiDeleteVolume :: "'e service \<Rightarrow> call_context \<Rightarrow> string \<Rightarrow> ('e oworld, unit) io" where
  "ApiDeleteVolume s ctx volumeId =
     (if volumeId = [] then statusError InvalidArgument ''volume_id is required''
      else withTenant ctx (\<lambda>tenant.
        let g = sv_client s; ns = tn_Namespace (tc_spec tenant);
            gone = (\<lambda>vol. call (GetVolume g (pvNamespace vol) (pvName vol))
               (\<lambda>e. if isNotFoundErr e then ret () else statusError Internal (''checking volume deletion: '' @ Error e))
               (\<lambda>vol. statusError Unavailable (''deleting volume '' @ pvName vol)))
        in call (ListByVolumeID g ns volumeId) (\<lambda>e. statusError Internal (''listing volumes: '' @ Error e))
             (\<lambda>vols. case vols of
                [] \<Rightarrow> ret ()
              | vol # _ \<Rightarrow>
                  if om_DeletionTimestamp (pv_meta vol) \<noteq> None then gone vol
                  else call (WriteVolume g (ODelete (KVolume vol)))
                         (\<lambda>e. if isNotFoundErr e then ret () else statusError Internal (''deleting volume: '' @ Error e))
                         (\<lambda>_. gone vol))))"

definition notReady :: "pvolume \<Rightarrow> ('w, 'a) io" where
  "notReady vol = statusError FailedPrecondition (''volume '' @ pvName vol @ '' is not ready (phase '' @ st_Phase (pv_status vol) @ '')'')"

definition maxVolumeBytes :: "ptenant \<Rightarrow> int option" where
  "maxVolumeBytes tenant = (case tn_ParameterPolicy (tc_spec tenant) of None \<Rightarrow> None | Some p \<Rightarrow> pp_MaxVolumeBytes p)"

definition rereadCapacity :: "'e service \<Rightarrow> int \<Rightarrow> pvolume \<Rightarrow> ('e oworld, expand_response) io" where
  "rereadCapacity s capacityBytes vol =
     call (GetVolume (sv_client s) (pvNamespace vol) (pvName vol)) (\<lambda>e. statusError Internal (''re-reading volume: '' @ Error e))
       (\<lambda>vol. if st_CapacityBytes (pv_status vol) \<ge> capacityBytes
              then ret \<lparr>ep_CapacityBytes = st_CapacityBytes (pv_status vol), ep_NodeExpansionRequired = True\<rparr>
              else statusError Unavailable (''expanding volume '' @ pvName vol))"

definition ApiExpandVolume :: "'e service \<Rightarrow> call_context \<Rightarrow> string \<Rightarrow> int \<Rightarrow> ('e oworld, expand_response) io" where
  "ApiExpandVolume s ctx volumeId capacityBytes =
     (if volumeId = [] then statusError InvalidArgument ''volume_id is required''
      else if capacityBytes \<le> 0 then statusError InvalidArgument ''capacity_bytes must be positive''
      else withTenant ctx (\<lambda>tenant.
        bindE (volumeByID s (tn_Namespace (tc_spec tenant)) volumeId) (\<lambda>vol.
          if st_Phase (pv_status vol) \<noteq> VolumePhaseReady then notReady vol
          else if capacityBytes \<le> st_CapacityBytes (pv_status vol)
          then ret \<lparr>ep_CapacityBytes = st_CapacityBytes (pv_status vol), ep_NodeExpansionRequired = True\<rparr>
          else if maxVolumeBytes tenant \<noteq> None \<and> capacityBytes > the (maxVolumeBytes tenant)
          then statusError ResourceExhausted (''requested capacity '' @ Itoa capacityBytes @ '' exceeds maxVolumeBytes '' @
                 Itoa (the (maxVolumeBytes tenant)))
          else if vs_CapacityBytes (pv_spec vol) < capacityBytes
          then call (WriteVolume (sv_client s) (OUpdate (KVolume (pv_spec_update (vs_CapacityBytes_update (\<lambda>_. capacityBytes)) vol))))
                 (\<lambda>e. statusError Internal (''updating volume capacity: '' @ Error e)) (rereadCapacity s capacityBytes)
          else rereadCapacity s capacityBytes vol)))"

fun modifyViolation :: "(string \<times> int) list \<Rightarrow> gomap \<Rightarrow> string option" where
  "modifyViolation [] params = None"
| "modifyViolation ((key, limit) # rest) params =
     (case map_of params key of
        None \<Rightarrow> modifyViolation rest params
      | Some val \<Rightarrow>
          (case ParseInt val 64 of
             None \<Rightarrow> Some (''mutable parameter '' @ Quote key @ '' must be an integer: '' @ parseIntError val)
           | Some n \<Rightarrow>
               if n > limit
               then Some (''mutable parameter '' @ Quote key @ '' value '' @ Itoa n @ '' exceeds maximum '' @ Itoa limit)
               else modifyViolation rest params))"

definition modifyRefusal :: "ptenant \<Rightarrow> gomap \<Rightarrow> string option" where
  "modifyRefusal tenant params =
     (case tn_ParameterPolicy (tc_spec tenant) of
        None \<Rightarrow> None
      | Some p \<Rightarrow>
          (case (case pp_Allowed p of None \<Rightarrow> None | Some allowed \<Rightarrow> List.find (\<lambda>(k, _). k \<notin> set allowed) params) of
             Some (key, _) \<Rightarrow> Some (''mutable parameter '' @ Quote key @ '' is not in the allowed list'')
           | None \<Rightarrow> modifyViolation (pp_MaxInt p) params))"

definition ApiModifyVolume :: "'e service \<Rightarrow> call_context \<Rightarrow> string \<Rightarrow> gomap \<Rightarrow> ('e oworld, unit) io" where
  "ApiModifyVolume s ctx volumeId params =
     (if volumeId = [] then statusError InvalidArgument ''volume_id is required''
      else withTenant ctx (\<lambda>tenant.
        let g = sv_client s; ns = tn_Namespace (tc_spec tenant)
        in bindE (volumeByID s ns volumeId) (\<lambda>vol.
           if st_Phase (pv_status vol) \<noteq> VolumePhaseReady then notReady vol
           else case modifyRefusal tenant params of
             Some message \<Rightarrow> statusError InvalidArgument message
           | None \<Rightarrow>
               call (WriteVolume g (OUpdate (KVolume (pv_spec_update (vs_MutableParameters_update (\<lambda>_. params)) vol))))
                 (\<lambda>e. statusError Internal (''updating volume mutable parameters: '' @ Error e))
                 (\<lambda>vol. call (ListAttachments g ns) (\<lambda>e. statusError Internal (''listing attachments: '' @ Error e))
                    (\<lambda>attachments. case attachedTo vol attachments of
                       None \<Rightarrow> ret ()
                     | Some _ \<Rightarrow>
                         call (GetVolume g (pvNamespace vol) (pvName vol)) (\<lambda>e. statusError Internal (''re-reading volume: '' @ Error e))
                           (\<lambda>vol. if mget (om_Annotations (pv_meta vol)) AppliedMutableParamsAnnotation = MutableParamsHash params then ret ()
                                  else statusError Unavailable (''modifying volume '' @ pvName vol)))))))"

section \<open>Attachments\<close>

definition newAttachment :: "call_context \<Rightarrow> ptenant \<Rightarrow> attach_request \<Rightarrow> string \<Rightarrow> pvolume \<Rightarrow> int \<Rightarrow> pattachment" where
  "newAttachment ctx tenant req name vol vmid =
     \<lparr>pa_meta = newMeta tenant (ctx_requestID ctx) name,
      pa_spec = \<lparr>as_VolumeName = pvName vol, as_VolumeID = aq_VolumeId req, as_NodeID = aq_NodeId req, as_VMID = vmid, as_Readonly = aq_Readonly req\<rparr>,
      pa_status = \<lparr>at_Attached = False, at_DevicePath = [], at_LUN = [], at_ResizeRequired = False, at_AttachedAt = None,
        at_ObservedGeneration = 0, at_Conditions = []\<rparr>\<rparr>"

definition attachAnswer :: "'e service \<Rightarrow> attach_request \<Rightarrow> pvolume \<Rightarrow> int \<Rightarrow> pattachment \<Rightarrow> ('e oworld, attach_response) io" where
  "attachAnswer s req vol vmid att =
     (let g = sv_client s; spec = pa_spec att; st = pa_status att; attName = attachmentName (aq_VolumeId req) (aq_NodeId req)
      in if as_VolumeID spec \<noteq> aq_VolumeId req \<or> as_NodeID spec \<noteq> aq_NodeId req \<or> as_VMID spec \<noteq> vmid
         then statusError AlreadyExists (''attachment '' @ attName @ '' exists with a different spec (volumeID='' @ as_VolumeID spec @
                '' nodeID='' @ as_NodeID spec @ '' vmid='' @ Itoa (as_VMID spec) @ '')'')
         else if at_Attached st
         then ret \<lparr>ap_DevicePath = at_DevicePath st, ap_Lun = lunFromStatus (at_LUN st), ap_ResizeRequired = at_ResizeRequired st\<rparr>
         else let waiting = statusError Unavailable (''attaching volume '' @ pvName vol @ '' to VM '' @ Itoa vmid)
              in case g_FindStatusCondition g (at_Conditions st) ConditionAdmitted of
                   None \<Rightarrow> waiting
                 | Some c \<Rightarrow>
                     if cd_Status c \<noteq> ConditionFalse then waiting
                     else let refused = statusError Internal (''attach refused: '' @ cd_Message c)
                          in if om_DeletionTimestamp (pa_meta att) \<noteq> None then refused
                             else call (WriteAttachment g (ODelete (KAttachment att)))
                                    (\<lambda>e. if isNotFoundErr e then refused else statusError Internal (''cleaning up refused attachment: '' @ Error e))
                                    (\<lambda>_. refused))"

definition ApiAttachVolume :: "'e service \<Rightarrow> call_context \<Rightarrow> attach_request \<Rightarrow> ('e oworld, attach_response) io" where
  "ApiAttachVolume s ctx req =
     (if aq_VolumeId req = [] then statusError InvalidArgument ''volume_id is required''
      else if aq_NodeId req = [] then statusError InvalidArgument ''node_id is required''
      else withTenant ctx (\<lambda>tenant.
        let g = sv_client s; ns = tn_Namespace (tc_spec tenant); attName = attachmentName (aq_VolumeId req) (aq_NodeId req)
        in bindE (volumeByID s ns (aq_VolumeId req)) (\<lambda>vol.
           if st_Phase (pv_status vol) \<noteq> VolumePhaseReady then notReady vol
           else bindE (resolveVMID s tenant (aq_NodeId req) (aq_Vmid req)) (\<lambda>vmid.
             call (GetAttachment g ns attName)
               (\<lambda>e. if \<not> isNotFoundErr e then statusError Internal (''getting attachment: '' @ Error e)
                    else call (WriteAttachment g (OCreate (KAttachment (newAttachment ctx tenant req attName vol vmid))))
                           (\<lambda>e. if isAlreadyExists e
                                then call (GetAttachment g ns attName)
                                       (\<lambda>e. statusError Internal (''getting attachment after create race: '' @ Error e)) (attachAnswer s req vol vmid)
                                else statusError Internal (''creating attachment: '' @ Error e))
                           (attachAnswer s req vol vmid))
               (attachAnswer s req vol vmid)))))"

definition ApiDetachVolume :: "'e service \<Rightarrow> call_context \<Rightarrow> string \<Rightarrow> string \<Rightarrow> ('e oworld, unit) io" where
  "ApiDetachVolume s ctx volumeId nodeId =
     (if volumeId = [] then statusError InvalidArgument ''volume_id is required''
      else if nodeId = [] then statusError InvalidArgument ''node_id is required''
      else withTenant ctx (\<lambda>tenant.
        let g = sv_client s; ns = tn_Namespace (tc_spec tenant); attName = attachmentName volumeId nodeId;
            gone = call (GetAttachment g ns attName)
               (\<lambda>e. if isNotFoundErr e then ret () else statusError Internal (''checking attachment deletion: '' @ Error e))
               (\<lambda>_. statusError Unavailable (''detaching volume '' @ volumeId))
        in call (GetAttachment g ns attName)
             (\<lambda>e. if isNotFoundErr e then ret () else statusError Internal (''getting attachment: '' @ Error e))
             (\<lambda>att. if om_DeletionTimestamp (pa_meta att) \<noteq> None then gone
                    else call (WriteAttachment g (ODelete (KAttachment att)))
                           (\<lambda>e. if isNotFoundErr e then ret () else statusError Internal (''deleting attachment: '' @ Error e))
                           (\<lambda>_. gone))))"

section \<open>Snapshots\<close>

definition timestampFromMeta :: "int option \<Rightarrow> int option" where
  "timestampFromMeta t = (case t of None \<Rightarrow> None | Some x \<Rightarrow> if x = 0 then None else Some x)"

definition snapshotEntry :: "psnapshot \<Rightarrow> snapshot_entry" where
  "snapshotEntry snap =
     \<lparr>se_SnapshotId = nt_SnapshotID (pn_status snap), se_SourceVolumeId = [], se_ReadyToUse = nt_ReadyToUse (pn_status snap),
      se_RestoreSizeBytes = nt_RestoreSizeBytes (pn_status snap), se_CreationTime = timestampFromMeta (nt_CreationTime (pn_status snap))\<rparr>"

definition newSnapshot :: "call_context \<Rightarrow> ptenant \<Rightarrow> string \<Rightarrow> pvolume \<Rightarrow> string \<Rightarrow> string \<Rightarrow> psnapshot" where
  "newSnapshot ctx tenant name srcVol source zone =
     \<lparr>pn_meta = newMeta tenant (ctx_requestID ctx) name,
      pn_spec = \<lparr>ns_SourceVolumeName = source, ns_Storage = vs_Storage (pv_spec srcVol), ns_Zone = zone,
        ns_ClaimRef = \<lparr>cr_Name = [], cr_Namespace = [], cr_PVName = []\<rparr>\<rparr>,
      pn_status = \<lparr>nt_SnapshotID = [], nt_ReadyToUse = False, nt_RestoreSizeBytes = 0, nt_CreationTime = None, nt_TaskID = [],
        nt_ObservedGeneration = 0, nt_Conditions = []\<rparr>\<rparr>"

text \<open>The response to a create has no source.\<close>

definition createdSnapshot :: "'e service \<Rightarrow> psnapshot \<Rightarrow> ('e oworld, snapshot_entry) io" where
  "createdSnapshot s snap =
     (let g = sv_client s; waiting = statusError Unavailable (''creating snapshot '' @ pnName snap)
      in if nt_SnapshotID (pn_status snap) \<noteq> [] \<and> nt_ReadyToUse (pn_status snap) then ret (snapshotEntry snap)
         else case g_FindStatusCondition g (nt_Conditions (pn_status snap)) ConditionReady of
           None \<Rightarrow> waiting
         | Some c \<Rightarrow>
             if cd_Status c = ConditionFalse \<and> cd_Reason c = ''ProxmoxError''
             then (let final = statusError Internal (''snapshot failed: '' @ cd_Message c)
                   in if om_DeletionTimestamp (pn_meta snap) \<noteq> None then final
                      else call (WriteSnapshot g (ODelete (KSnapshot snap)))
                             (\<lambda>e. if isNotFoundErr e then final else statusError Internal (''cleaning up failed snapshot: '' @ Error e))
                             (\<lambda>_. final))
             else waiting)"

definition ApiCreateSnapshot :: "'e service \<Rightarrow> call_context \<Rightarrow> string \<Rightarrow> string \<Rightarrow> string \<Rightarrow> ('e oworld, snapshot_entry) io" where
  "ApiCreateSnapshot s ctx name source zone =
     (if name = [] then statusError InvalidArgument ''name is required''
      else if source = [] then statusError InvalidArgument ''source_volume_name is required''
      else withTenant ctx (\<lambda>tenant.
        let g = sv_client s; ns = tn_Namespace (tc_spec tenant)
        in call (GetVolume g ns source)
             (\<lambda>e. if isNotFoundErr e then statusError NotFound (''source volume '' @ source @ '' not found'')
                  else statusError Internal (''getting source volume: '' @ Error e))
             (\<lambda>srcVol.
               if st_Phase (pv_status srcVol) \<noteq> VolumePhaseReady
               then statusError FailedPrecondition (''source volume '' @ source @ '' is not ready (phase '' @ st_Phase (pv_status srcVol) @ '')'')
               else call (GetSnapshot g ns name)
                 (\<lambda>e. if \<not> isNotFoundErr e then statusError Internal (''getting snapshot: '' @ Error e)
                      else call (WriteSnapshot g (OCreate (KSnapshot (newSnapshot ctx tenant name srcVol source zone))))
                             (\<lambda>e. if isAlreadyExists e
                                  then call (GetSnapshot g ns name)
                                         (\<lambda>e. statusError Internal (''getting snapshot after create race: '' @ Error e)) (createdSnapshot s)
                                  else statusError Internal (''creating snapshot: '' @ Error e))
                             (createdSnapshot s))
                 (\<lambda>snap. if ns_SourceVolumeName (pn_spec snap) \<noteq> source
                         then statusError AlreadyExists (''snapshot '' @ name @ '' exists with a different source'')
                         else createdSnapshot s snap))))"

text \<open>\<^verbatim>\<open>snapshotByID\<close> where not finding the snapshot is an answer of its own.\<close>

definition orNotFound :: "('w, 'a) io \<Rightarrow> ('w, 'b) io \<Rightarrow> ('a \<Rightarrow> ('w, 'b) io) \<Rightarrow> ('w, 'b) io" where
  "orNotFound m absent k = call m (\<lambda>e. if statusCode e = NotFound then absent else fail e) k"

definition ApiDeleteSnapshot :: "'e service \<Rightarrow> call_context \<Rightarrow> string \<Rightarrow> ('e oworld, unit) io" where
  "ApiDeleteSnapshot s ctx snapshotId =
     (if snapshotId = [] then statusError InvalidArgument ''snapshot_id is required''
      else withTenant ctx (\<lambda>tenant.
        let g = sv_client s;
            gone = (\<lambda>snap. call (GetSnapshot g (pnNamespace snap) (pnName snap))
               (\<lambda>e. if isNotFoundErr e then ret () else statusError Internal (''checking snapshot deletion: '' @ Error e))
               (\<lambda>snap. statusError Unavailable (''deleting snapshot '' @ pnName snap)))
        in orNotFound (snapshotByID s (tn_Namespace (tc_spec tenant)) snapshotId) (ret ())
             (\<lambda>snap. if om_DeletionTimestamp (pn_meta snap) \<noteq> None then gone snap
                     else call (WriteSnapshot g (ODelete (KSnapshot snap)))
                            (\<lambda>e. if isNotFoundErr e then ret () else statusError Internal (''deleting snapshot: '' @ Error e))
                            (\<lambda>_. gone snap))))"

text \<open>A page of \<open>filtered\<close>: its entries and the token of the next one.  Slicing from a negative index panics.\<close>

definition snapshotPage :: "psnapshot list \<Rightarrow> int \<Rightarrow> int \<Rightarrow> goerr + (snapshot_entry list \<times> string)" where
  "snapshotPage filtered start maxEntries =
     (let n = int (length filtered); start = (if start > n then n else start)
      in if start < 0 then Inl outOfRange
         else let remaining = drop (nat start) filtered; m = int (length remaining);
                  maxEntries = (if maxEntries \<le> 0 then m else maxEntries);
                  maxEntries = (if maxEntries > m then m else maxEntries)
              in Inr (map snapshotEntry (take (nat maxEntries) remaining),
                      if start + maxEntries < n then Itoa (start + maxEntries) else []))"

definition ApiListSnapshots :: "'e service \<Rightarrow> call_context \<Rightarrow> list_snapshots_request \<Rightarrow> ('e oworld, snapshot_entry list \<times> string) io" where
  "ApiListSnapshots s ctx req =
     withTenant ctx (\<lambda>tenant.
       let g = sv_client s; ns = tn_Namespace (tc_spec tenant)
       in if lq_SnapshotId req \<noteq> []
          then orNotFound (snapshotByID s ns (lq_SnapshotId req)) (ret ([], [])) (\<lambda>snap. ret ([snapshotEntry snap], []))
          else call (ListSnapshotsIn g ns) (\<lambda>e. statusError Internal (''listing snapshots: '' @ Error e))
            (\<lambda>items.
              let filtered = filter (\<lambda>snap. nt_SnapshotID (pn_status snap) \<noteq> [] \<and>
                    (lq_SourceVolumeName req = [] \<or> ns_SourceVolumeName (pn_spec snap) = lq_SourceVolumeName req)) items
              in case (if lq_StartingToken req = [] then Some 0 else Atoi (lq_StartingToken req)) of
                   None \<Rightarrow> statusError InvalidArgument (''invalid starting_token: '' @ numError ''Atoi'' (lq_StartingToken req))
                 | Some start \<Rightarrow> lift (snapshotPage filtered start (lq_MaxEntries req))))"

section \<open>Capacity\<close>

definition offered :: "ptenant \<Rightarrow> string \<Rightarrow> string \<Rightarrow> pstorage \<Rightarrow> bool" where
  "offered tenant storage zone ps \<longleftrightarrow>
     gs_Storage (ps_spec ps) \<in> set (tn_AllowedStorages (tc_spec tenant)) \<and>
     (storage = [] \<or> gs_Storage (ps_spec ps) = storage) \<and> (zone = [] \<or> gs_Zone (ps_spec ps) = zone)"

definition capacityMessage :: "pstorage \<Rightarrow> capacity_message" where
  "capacityMessage ps = \<lparr>cm_Storage = gs_Storage (ps_spec ps), cm_Zone = gs_Zone (ps_spec ps), cm_AvailableBytes = gt_AvailableBytes (ps_status ps),
     cm_TotalBytes = gt_TotalBytes (ps_status ps), cm_Shared = gs_Shared (ps_spec ps)\<rparr>"

fun sendEach :: "(capacity_message \<Rightarrow> ('e, unit) api) \<Rightarrow> capacity_message list \<Rightarrow> ('e oworld, unit) io" where
  "sendEach send [] = ret ()"
| "sendEach send (m # ms) = bindE (invoke (OSend (cm_Storage m)) (send m)) (\<lambda>_. sendEach send ms)"

definition sendCapacity :: "'e service \<Rightarrow> ptenant \<Rightarrow> string \<Rightarrow> string \<Rightarrow> (capacity_message \<Rightarrow> ('e, unit) api) \<Rightarrow> ('e oworld, unit) io" where
  "sendCapacity s tenant storage zone send =
     call (ListAllStorages (sv_client s)) (\<lambda>e. statusError Internal (''listing storages: '' @ Error e))
       (\<lambda>items. sendEach send (map capacityMessage (filter (offered tenant storage zone) items)))"

text \<open>The stream is polled on every tick until its context is done, here after \<open>n\<close> ticks.\<close>

primrec watchLoop :: "('e oworld, unit) io \<Rightarrow> nat \<Rightarrow> ('e oworld, unit) io" where
  "watchLoop poll 0 = poll"
| "watchLoop poll (Suc n) = bindE poll (\<lambda>_. watchLoop poll n)"

definition WatchCapacity :: "'e service \<Rightarrow> call_context \<Rightarrow> string \<Rightarrow> string \<Rightarrow> (capacity_message \<Rightarrow> ('e, unit) api) \<Rightarrow> nat \<Rightarrow> ('e oworld, unit) io" where
  "WatchCapacity s ctx storage zone send ticks = withTenant ctx (\<lambda>tenant. watchLoop (sendCapacity s tenant storage zone send) ticks)"

section \<open>Indexes\<close>

definition IndexVolumeID :: "pvolume \<Rightarrow> string list" where
  "IndexVolumeID vol = (if st_VolumeID (pv_status vol) \<noteq> [] then [st_VolumeID (pv_status vol)] else [])"

definition IndexSnapshotID :: "psnapshot \<Rightarrow> string list" where
  "IndexSnapshotID snap = (if nt_SnapshotID (pn_status snap) \<noteq> [] then [nt_SnapshotID (pn_status snap)] else [])"

end
