(* ===== verification/Go_Json.thy ===== *)
theory Go_Json
  imports Node_ID
begin

text \<open>
  What the code uses of \<^verbatim>\<open>encoding/json\<close> and \<^verbatim>\<open>encoding/base64\<close>: which texts are valid, reading the members of an object
  and the elements of an array, strings with their escapes, and the URL alphabet of base64.
\<close>

section \<open>JSON texts\<close>

text \<open>\<^verbatim>\<open>json.Valid\<close>.  Each recogniser consumes a prefix and returns the rest.  A value nested deeper
  than 10000 levels is refused, as by the library.\<close>

definition isWs :: "char \<Rightarrow> bool" where
  "isWs c \<longleftrightarrow> c \<in> {CHR 32, CHR 9, CHR 10, CHR 13}"

abbreviation skipWs :: "string \<Rightarrow> string" where "skipWs \<equiv> dropWhile isWs"

definition isHex :: "char \<Rightarrow> bool" where
  "isHex c \<longleftrightarrow> is_digit c \<or> c \<in> set ''abcdefABCDEF''"

fun jsonString :: "string \<Rightarrow> string option" where
  "jsonString [] = None"
| "jsonString (c # cs) =
     (if c = CHR 0x22 then Some cs
      else if (of_char c :: nat) < 32 then None
      else if c \<noteq> CHR 0x5C then jsonString cs
      else case cs of
             [] \<Rightarrow> None
           | d # ds \<Rightarrow>
               if d \<in> set (CHR 0x22 # CHR 0x5C # ''/bfnrt'') then jsonString ds
               else if d = CHR ''u'' \<and> 4 \<le> length ds \<and> list_all isHex (take 4 ds) then jsonString (drop 4 ds)
               else None)"

definition jsonDigits :: "string \<Rightarrow> string option" where
  "jsonDigits s = (if s \<noteq> [] \<and> is_digit (hd s) then Some (dropWhile is_digit s) else None)"

definition jsonExp :: "string \<Rightarrow> string option" where
  "jsonExp s =
     (case s of
        [] \<Rightarrow> Some []
      | c # cs \<Rightarrow>
          if c \<in> set ''eE''
          then jsonDigits (case cs of [] \<Rightarrow> [] | d # ds \<Rightarrow> if d \<in> set ''+-'' then ds else cs)
          else Some s)"

definition jsonFrac :: "string \<Rightarrow> string option" where
  "jsonFrac s =
     (case s of
        [] \<Rightarrow> Some []
      | c # cs \<Rightarrow> if c = CHR ''.'' then Option.bind (jsonDigits cs) jsonExp else jsonExp s)"

definition jsonNumber :: "string \<Rightarrow> string option" where
  "jsonNumber s =
     (let s = (case s of c # cs \<Rightarrow> if c = CHR ''-'' then cs else s | [] \<Rightarrow> s)
      in case s of
           [] \<Rightarrow> None
         | c # cs \<Rightarrow> if c = CHR ''0'' then jsonFrac cs else Option.bind (jsonDigits s) jsonFrac)"

definition jsonLit :: "string \<Rightarrow> string \<Rightarrow> string option" where
  "jsonLit l s = (if HasPrefix s l then Some (drop (length l) s) else None)"

text \<open>The members of an array or an object, up to the closing bracket: \<open>item\<close> recognises one, and the
  first argument bounds their number by the length of the text, as every member consumes a character.\<close>

primrec jsonItems :: "nat \<Rightarrow> (string \<Rightarrow> string option) \<Rightarrow> char \<Rightarrow> string \<Rightarrow> string option" where
  "jsonItems 0 item close s = None"
| "jsonItems (Suc n) item close s =
     (case item s of
        None \<Rightarrow> None
      | Some rest \<Rightarrow>
          (case skipWs rest of
             [] \<Rightarrow> None
           | c # cs \<Rightarrow> if c = close then Some cs else if c = CHR '','' then jsonItems n item close cs else None))"

definition jsonMember :: "(string \<Rightarrow> string option) \<Rightarrow> string \<Rightarrow> string option" where
  "jsonMember val s =
     (case skipWs s of
        [] \<Rightarrow> None
      | c # cs \<Rightarrow>
          if c \<noteq> CHR 0x22 then None
          else case jsonString cs of
                 None \<Rightarrow> None
               | Some rest \<Rightarrow>
                   (case skipWs rest of [] \<Rightarrow> None | e # es \<Rightarrow> if e = CHR '':'' then val es else None))"

definition jsonGroup :: "(string \<Rightarrow> string option) \<Rightarrow> char \<Rightarrow> string \<Rightarrow> string option" where
  "jsonGroup item close s =
     (case skipWs s of
        [] \<Rightarrow> None
      | e # es \<Rightarrow> if e = close then Some es else jsonItems (length s) item close s)"

text \<open>A value with at most \<open>d\<close> levels of arrays and objects.\<close>

primrec jsonValue :: "nat \<Rightarrow> string \<Rightarrow> string option" where
  "jsonValue 0 s =
     (case skipWs s of
        [] \<Rightarrow> None
      | c # cs \<Rightarrow>
          if c = CHR 0x22 then jsonString cs
          else if c = CHR ''{'' \<or> c = CHR ''['' then None
          else if c = CHR ''t'' then jsonLit ''true'' (c # cs)
          else if c = CHR ''f'' then jsonLit ''false'' (c # cs)
          else if c = CHR ''n'' then jsonLit ''null'' (c # cs)
          else jsonNumber (c # cs))"
| "jsonValue (Suc d) s =
     (case skipWs s of
        [] \<Rightarrow> None
      | c # cs \<Rightarrow>
          if c = CHR 0x22 then jsonString cs
          else if c = CHR ''{'' then jsonGroup (jsonMember (jsonValue d)) (CHR ''}'') cs
          else if c = CHR ''['' then jsonGroup (jsonValue d) (CHR '']'') cs
          else if c = CHR ''t'' then jsonLit ''true'' (c # cs)
          else if c = CHR ''f'' then jsonLit ''false'' (c # cs)
          else if c = CHR ''n'' then jsonLit ''null'' (c # cs)
          else jsonNumber (c # cs))"

definition maxNestingDepth :: nat where "maxNestingDepth = 10000"

definition jsonValid :: "string \<Rightarrow> bool" where
  "jsonValid s = (case jsonValue (min (length s) maxNestingDepth) s of None \<Rightarrow> False | Some rest \<Rightarrow> skipWs rest = [])"

section \<open>Decoding\<close>

text \<open>The length of the UTF-8 encoding at the head of a text, zero where there is none, and the encoding of a rune.\<close>

definition runeLen :: "string \<Rightarrow> nat" where
  "runeLen s =
     (let b = (\<lambda>i. if i < length s then (of_char (s ! i) :: nat) else 0); cont = (\<lambda>i. 128 \<le> b i \<and> b i < 192)
      in if s = [] then 0
         else if b 0 < 128 then 1
         else if 194 \<le> b 0 \<and> b 0 \<le> 223 \<and> cont 1 then 2
         else if 224 \<le> b 0 \<and> b 0 \<le> 239 \<and> cont 1 \<and> cont 2 \<and> (b 0 = 224 \<longrightarrow> 160 \<le> b 1) \<and> (b 0 = 237 \<longrightarrow> b 1 < 160) then 3
         else if 240 \<le> b 0 \<and> b 0 \<le> 244 \<and> cont 1 \<and> cont 2 \<and> cont 3 \<and> (b 0 = 240 \<longrightarrow> 144 \<le> b 1) \<and> (b 0 = 244 \<longrightarrow> b 1 < 144) then 4
         else 0)"

definition encodeRune :: "nat \<Rightarrow> string" where
  "encodeRune r =
     (if r < 128 then [char_of r]
      else if r < 2048 then [char_of (192 + r div 64), char_of (128 + r mod 64)]
      else if r < 65536 then [char_of (224 + r div 4096), char_of (128 + r div 64 mod 64), char_of (128 + r mod 64)]
      else [char_of (240 + r div 262144), char_of (128 + r div 4096 mod 64), char_of (128 + r div 64 mod 64), char_of (128 + r mod 64)])"

definition runeError :: nat where "runeError = 0xFFFD"

definition hexVal :: "char \<Rightarrow> nat" where
  "hexVal c =
     (let n = of_char c :: nat
      in if n \<le> 57 then n - 48 else if n \<le> 70 then n - 55 else n - 87)"

definition hex4 :: "string \<Rightarrow> nat" where
  "hex4 s = foldl (\<lambda>acc c. acc * 16 + hexVal c) 0 (take 4 s)"

definition unescape :: "char \<Rightarrow> char" where
  "unescape d = (if d = CHR ''b'' then CHR 8 else if d = CHR ''f'' then CHR 12 else if d = CHR ''n'' then CHR 10
     else if d = CHR ''r'' then CHR 13 else if d = CHR ''t'' then CHR 9 else d)"

text \<open>The value of the inside of a JSON string: surrogate pairs are joined, and what is not UTF-8 or half a pair
  becomes the replacement rune.  The first argument bounds the steps by the length.\<close>

primrec unquoteN :: "nat \<Rightarrow> string \<Rightarrow> string" where
  "unquoteN 0 s = []"
| "unquoteN (Suc n) s =
     (case s of
        [] \<Rightarrow> []
      | c # cs \<Rightarrow>
          if c \<noteq> CHR 0x5C
          then (if runeLen s = 0 then encodeRune runeError @ unquoteN n cs
                else take (runeLen s) s @ unquoteN n (drop (runeLen s) s))
          else case cs of
                 [] \<Rightarrow> []
               | d # ds \<Rightarrow>
                   if d \<noteq> CHR ''u'' then unescape d # unquoteN n ds
                   else let r = hex4 ds; rest = drop 4 ds; r2 = hex4 (drop 2 rest)
                        in if r < 0xD800 \<or> 0xE000 \<le> r then encodeRune r @ unquoteN n rest
                           else if r < 0xDC00 \<and> HasPrefix rest (CHR 0x5C # ''u'') \<and> 0xDC00 \<le> r2 \<and> r2 < 0xE000
                           then encodeRune ((r - 0xD800) * 0x400 + (r2 - 0xDC00) + 0x10000) @ unquoteN n (drop 6 rest)
                           else encodeRune runeError @ unquoteN n rest)"

definition unquote :: "string \<Rightarrow> string" where "unquote s = unquoteN (length s) s"

text \<open>The value at the head of a valid text, with the rest.\<close>

definition headValue :: "string \<Rightarrow> string \<times> string" where
  "headValue s =
     (let s = skipWs s
      in case jsonValue (min (length s) maxNestingDepth) s of
           None \<Rightarrow> (s, []) | Some rest \<Rightarrow> (take (length s - length rest) s, rest))"

primrec membersN :: "nat \<Rightarrow> string \<Rightarrow> (string \<times> string) list" where
  "membersN 0 s = []"
| "membersN (Suc n) s =
     (let (key, rest) = headValue s; (val, rest) = headValue (drop 1 (skipWs rest)); more = skipWs rest
      in (unquote (butlast (drop 1 key)), val) # (if HasPrefix more '','' then membersN n (drop 1 more) else []))"

primrec elementsN :: "nat \<Rightarrow> string \<Rightarrow> string list" where
  "elementsN 0 s = []"
| "elementsN (Suc n) s =
     (let (val, rest) = headValue s; more = skipWs rest
      in val # (if HasPrefix more '','' then elementsN n (drop 1 more) else []))"

definition bracketed :: "char \<Rightarrow> (nat \<Rightarrow> string \<Rightarrow> 'a list) \<Rightarrow> string \<Rightarrow> 'a list" where
  "bracketed close items s = (if HasPrefix (skipWs (drop 1 s)) [close] then [] else items (length s) (drop 1 s))"

text \<open>\<^verbatim>\<open>json.Unmarshal\<close> of a valid value into a string: null leaves it as it was.\<close>

definition decodeString :: "string \<Rightarrow> string \<Rightarrow> string option" where
  "decodeString old v =
     (if HasPrefix v [CHR 0x22] then Some (unquote (butlast (drop 1 v)))
      else if v = ''null'' then Some old else None)"

text \<open>The elements of an array of strings.\<close>

fun decodeStrings :: "string list \<Rightarrow> string list option" where
  "decodeStrings [] = Some []"
| "decodeStrings (v # vs) =
     (case decodeString [] v of None \<Rightarrow> None | Some s \<Rightarrow> map_option ((#) s) (decodeStrings vs))"

text \<open>A key names the field it equals, or else the one it equals up to case; the long s (C5 BF) folds to s.\<close>

fun foldKey :: "string \<Rightarrow> string" where
  "foldKey [] = []"
| "foldKey (c # cs) =
     (case cs of
        d # ds \<Rightarrow> if c = CHR 0xC5 \<and> d = CHR 0xBF then CHR ''s'' # foldKey ds else ToLower [c] @ foldKey cs
      | [] \<Rightarrow> ToLower [c])"

section \<open>Base64\<close>

text \<open>\<^verbatim>\<open>base64.RawURLEncoding.DecodeString\<close>: line breaks are skipped and left-over bits are not checked.\<close>

definition b64 :: "char \<Rightarrow> nat option" where
  "b64 c =
     (let n = of_char c :: nat
      in if 65 \<le> n \<and> n \<le> 90 then Some (n - 65)
         else if 97 \<le> n \<and> n \<le> 122 then Some (n - 71)
         else if 48 \<le> n \<and> n \<le> 57 then Some (n + 4)
         else if c = CHR ''-'' then Some 62 else if c = CHR ''_'' then Some 63 else None)"

fun b64groups :: "nat list \<Rightarrow> string option" where
  "b64groups (a # b # c # d # rest) =
     map_option (\<lambda>s. char_of (a * 4 + b div 16) # char_of (b mod 16 * 16 + c div 4) # char_of (c mod 4 * 64 + d) # s) (b64groups rest)"
| "b64groups [a, b, c] = Some [char_of (a * 4 + b div 16), char_of (b mod 16 * 16 + c div 4)]"
| "b64groups [a, b] = Some [char_of (a * 4 + b div 16)]"
| "b64groups [a] = None"
| "b64groups [] = Some []"

definition b64decode :: "string \<Rightarrow> string option" where
  "b64decode s =
     (let vs = map b64 (filter (\<lambda>c. c \<noteq> CHR 10 \<and> c \<noteq> CHR 13) s)
      in if None \<in> set vs then None else b64groups (map the vs))"

section \<open>Encoding\<close>

text \<open>\<^verbatim>\<open>json.Marshal\<close> of a string: the characters with a meaning in JSON or HTML and the control characters are escaped,
  as are two line separators, and what is not UTF-8 becomes the replacement rune.\<close>

definition hexLower :: "nat \<Rightarrow> char" where
  "hexLower n = char_of (if n < 10 then 48 + n else 87 + n)"

definition quoteByte :: "char \<Rightarrow> string" where
  "quoteByte c =
     (let n = of_char c :: nat
      in if c = CHR 0x22 \<or> c = CHR 0x5C then [CHR 0x5C, c]
         else if n = 8 then [CHR 0x5C, CHR ''b''] else if n = 12 then [CHR 0x5C, CHR ''f''] else if n = 10 then [CHR 0x5C, CHR ''n'']
         else if n = 13 then [CHR 0x5C, CHR ''r''] else if n = 9 then [CHR 0x5C, CHR ''t'']
         else if n < 32 \<or> c \<in> {CHR ''<'', CHR ''>'', CHR ''&''} then CHR 0x5C # ''u00'' @ [hexLower (n div 16), hexLower (n mod 16)]
         else [c])"

primrec quoteN :: "nat \<Rightarrow> string \<Rightarrow> string" where
  "quoteN 0 s = []"
| "quoteN (Suc n) s =
     (case s of
        [] \<Rightarrow> []
      | c # cs \<Rightarrow>
          if (of_char c :: nat) < 128 then quoteByte c @ quoteN n cs
          else if runeLen s = 0 then CHR 0x5C # ''ufffd'' @ quoteN n cs
          else let r = take (runeLen s) s
               in (if r = encodeRune 0x2028 then CHR 0x5C # ''u2028'' else if r = encodeRune 0x2029 then CHR 0x5C # ''u2029'' else r)
                  @ quoteN n (drop (runeLen s) s))"

definition quote :: "string \<Rightarrow> string" where
  "quote s = CHR 0x22 # quoteN (length s) s @ [CHR 0x22]"

definition jsonArray :: "string list \<Rightarrow> string" where
  "jsonArray vs = ''['' @ Join '','' vs @ '']''"

definition jsonObject :: "(string \<times> string) list \<Rightarrow> string" where
  "jsonObject ms = ''{'' @ Join '','' (map (\<lambda>(k, v). quote k @ '':'' @ v) ms) @ ''}''"

section \<open>Reading back what was written\<close>

definition ascii :: "string \<Rightarrow> bool" where
  "ascii s \<longleftrightarrow> list_all (\<lambda>c. (of_char c :: nat) < 128) s"

lemma quoteN_ascii: "ascii s \<Longrightarrow> length s \<le> n \<Longrightarrow> quoteN n s = concat (map quoteByte s)"
  by (induction n arbitrary: s) (auto simp: ascii_def split: list.split)

lemma quote_ascii: "ascii s \<Longrightarrow> quote s = CHR 0x22 # concat (map quoteByte s) @ [CHR 0x22]"
  by (simp add: quote_def quoteN_ascii)

lemma hexLower_props:
  assumes "n < 16"
  shows "isHex (hexLower n)" "hexVal (hexLower n) = n"
proof -
  have oc: "(of_char (hexLower n) :: nat) = (if n < 10 then 48 + n else 87 + n)"
    using assms unfolding hexLower_def by (simp add: of_char_of)
  show "hexVal (hexLower n) = n" using assms by (simp add: hexVal_def Let_def oc)
  show "isHex (hexLower n)"
  proof (cases "n < 10")
    case True
    then show ?thesis using oc by (simp add: isHex_def is_digit_def)
  next
    case False
    then have "(of_char (hexLower n) :: nat) \<in> {of_char (CHR ''a''), of_char (CHR ''b''), of_char (CHR ''c''), of_char (CHR ''d''), of_char (CHR ''e''), of_char (CHR ''f'')}"
      using assms oc by auto
    then show ?thesis unfolding isHex_def by (simp only: of_char_eq_iff insert_iff empty_iff) auto
  qed
qed

lemma quoteByte_short:
  "quoteByte (CHR 0x22) = [CHR 0x5C, CHR 0x22]" "quoteByte (CHR 0x5C) = [CHR 0x5C, CHR 0x5C]" "quoteByte (CHR 8) = [CHR 0x5C, CHR ''b'']"
  "quoteByte (CHR 12) = [CHR 0x5C, CHR ''f'']" "quoteByte (CHR 10) = [CHR 0x5C, CHR ''n'']" "quoteByte (CHR 13) = [CHR 0x5C, CHR ''r'']"
  "quoteByte (CHR 9) = [CHR 0x5C, CHR ''t'']"
  by (simp_all add: quoteByte_def)

lemma unescape_short:
  "unescape (CHR 0x22) = CHR 0x22" "unescape (CHR 0x5C) = CHR 0x5C" "unescape (CHR ''b'') = CHR 8" "unescape (CHR ''f'') = CHR 12"
  "unescape (CHR ''n'') = CHR 10" "unescape (CHR ''r'') = CHR 13" "unescape (CHR ''t'') = CHR 9"
  by (simp_all add: unescape_def)

lemma of_char_short:
  "(of_char c :: nat) = 8 \<longleftrightarrow> c = CHR 8" "(of_char c :: nat) = 12 \<longleftrightarrow> c = CHR 12" "(of_char c :: nat) = 10 \<longleftrightarrow> c = CHR 10"
  "(of_char c :: nat) = 13 \<longleftrightarrow> c = CHR 13" "(of_char c :: nat) = 9 \<longleftrightarrow> c = CHR 9"
proof -
  have n: "(of_char c :: nat) = of_char d \<longleftrightarrow> c = d" for d by simp
  show "(of_char c :: nat) = 8 \<longleftrightarrow> c = CHR 8" using n [of "CHR 8"] by simp
  show "(of_char c :: nat) = 12 \<longleftrightarrow> c = CHR 12" using n [of "CHR 12"] by simp
  show "(of_char c :: nat) = 10 \<longleftrightarrow> c = CHR 10" using n [of "CHR 10"] by simp
  show "(of_char c :: nat) = 13 \<longleftrightarrow> c = CHR 13" using n [of "CHR 13"] by simp
  show "(of_char c :: nat) = 9 \<longleftrightarrow> c = CHR 9" using n [of "CHR 9"] by simp
qed

abbreviation shortEscapes :: "char list" where
  "shortEscapes \<equiv> [CHR 0x22, CHR 0x5C, CHR 8, CHR 12, CHR 10, CHR 13, CHR 9]"

definition hexEscaped :: "char \<Rightarrow> bool" where
  "hexEscaped c \<longleftrightarrow> (of_char c :: nat) < 32 \<or> c = CHR ''<'' \<or> c = CHR ''>'' \<or> c = CHR ''&''"

lemma quoteByte_long:
  assumes "c \<notin> set shortEscapes"
  shows "quoteByte c = (if hexEscaped c then CHR 0x5C # ''u00'' @ [hexLower (of_char c div 16), hexLower (of_char c mod 16)] else [c])"
proof -
  have "(of_char c :: nat) \<noteq> 8" "(of_char c :: nat) \<noteq> 12" "(of_char c :: nat) \<noteq> 10" "(of_char c :: nat) \<noteq> 13" "(of_char c :: nat) \<noteq> 9"
    "c \<noteq> CHR 0x22" "c \<noteq> CHR 0x5C"
    using assms unfolding of_char_short by simp_all
  then show ?thesis unfolding quoteByte_def hexEscaped_def Let_def by simp
qed

lemma hexEscaped_less: "hexEscaped c \<Longrightarrow> (of_char c :: nat) < 64"
  unfolding hexEscaped_def by auto

lemma jsonString_quoteByte: "jsonString (quoteByte c @ rest) = jsonString rest"
proof (cases "c \<in> set shortEscapes")
  case True
  have "\<exists>d. quoteByte c = [CHR 0x5C, d] \<and> d \<in> set (CHR 0x22 # CHR 0x5C # ''/bfnrt'')"
    using True by (simp only: list.set insert_iff empty_iff) (elim disjE; simp add: quoteByte_short)
  then show ?thesis by auto
next
  case False
  show ?thesis
  proof (cases "hexEscaped c")
    case True
    have "isHex (hexLower (of_char c div 16))" "isHex (hexLower (of_char c mod 16))"
      using hexEscaped_less [OF True] by (auto intro!: hexLower_props)
    moreover have "isHex (CHR ''0'')" by (simp add: isHex_def is_digit_def)
    ultimately show ?thesis using True by (simp add: quoteByte_long [OF False])
  next
    case h: False
    then have "\<not> (of_char c :: nat) < 32" "c \<noteq> CHR 0x22" "c \<noteq> CHR 0x5C" using False by (simp_all add: hexEscaped_def)
    then show ?thesis using h by (simp add: quoteByte_long [OF False])
  qed
qed

lemma jsonString_quoted: "jsonString (concat (map quoteByte s) @ CHR 0x22 # rest) = Some rest"
  by (induction s) (simp_all add: jsonString_quoteByte)

lemma runeLen_ascii: "(of_char c :: nat) < 128 \<Longrightarrow> runeLen (c # cs) = 1"
  by (simp add: runeLen_def)

lemma unquoteN_quoteByte:
  assumes "(of_char c :: nat) < 128"
  shows "unquoteN (Suc n) (quoteByte c @ rest) = c # unquoteN n rest"
proof (cases "c \<in> set shortEscapes")
  case True
  have "\<exists>d. quoteByte c = [CHR 0x5C, d] \<and> d \<noteq> CHR ''u'' \<and> unescape d = c"
    using True by (simp only: list.set insert_iff empty_iff) (elim disjE; simp add: quoteByte_short unescape_short)
  then show ?thesis by auto
next
  case False
  show ?thesis
  proof (cases "hexEscaped c")
    case True
    have h: "hex4 (CHR ''0'' # CHR ''0'' # hexLower (of_char c div 16) # hexLower (of_char c mod 16) # rest) = of_char c"
      using hexEscaped_less [OF True] by (simp add: hex4_def hexLower_props) (simp add: hexVal_def)
    have "encodeRune (of_char c) = [c]" using assms by (simp add: encodeRune_def)
    then show ?thesis using True h assms by (simp add: quoteByte_long [OF False])
  next
    case h: False
    then have "c \<noteq> CHR 0x5C" using False by simp
    then show ?thesis using h runeLen_ascii [OF assms] by (simp add: quoteByte_long [OF False])
  qed
qed

lemma unquoteN_quoted: "ascii s \<Longrightarrow> length s \<le> n \<Longrightarrow> unquoteN n (concat (map quoteByte s)) = s"
proof (induction s arbitrary: n)
  case Nil
  then show ?case by (cases n) simp_all
next
  case (Cons c s)
  then obtain m where "n = Suc m" "length s \<le> m" by (cases n) auto
  then show ?case using Cons by (simp add: unquoteN_quoteByte ascii_def del: unquoteN.simps)
qed

lemma quoteByte_length: "1 \<le> length (quoteByte c)"
  by (simp add: quoteByte_def Let_def)

lemma unquote_quoted: "ascii s \<Longrightarrow> unquote (concat (map quoteByte s)) = s"
proof -
  have "length s \<le> length (concat (map quoteByte s))"
    by (induction s) (use quoteByte_length in \<open>auto intro: le_trans add_mono\<close>)
  then show "ascii s \<Longrightarrow> ?thesis" unfolding unquote_def by (rule unquoteN_quoted [rotated])
qed

text \<open>A compact text of a value, whatever follows it.\<close>

definition jtext :: "nat \<Rightarrow> string \<Rightarrow> bool" where
  "jtext d t \<longleftrightarrow> t \<noteq> [] \<and> \<not> isWs (hd t) \<and> (\<forall>rest. jsonValue d (t @ rest) = Some rest)"

lemma skipWs_here: "t \<noteq> [] \<Longrightarrow> \<not> isWs (hd t) \<Longrightarrow> skipWs (t @ rest) = t @ rest"
  by (cases t) auto

lemma isWs_not [simp]: "\<not> isWs (CHR 0x22)" "\<not> isWs (CHR '','')" "\<not> isWs (CHR '':'')" "\<not> isWs (CHR '']'')" "\<not> isWs (CHR ''}'')" "\<not> isWs (CHR ''['')" "\<not> isWs (CHR ''{'')"
  by (simp_all add: isWs_def)

lemma jtext_quote: "ascii s \<Longrightarrow> jtext d (quote s)"
  unfolding jtext_def by (cases d) (simp_all add: quote_ascii jsonString_quoted)

lemma jsonItems_joined:
  assumes "\<And>t rest. t \<in> set ts \<Longrightarrow> item (t @ rest) = Some rest" "ts \<noteq> []" "length ts \<le> n" "\<not> isWs close" "close \<noteq> CHR '',''"
  shows "jsonItems n item close (Join '','' ts @ close # rest) = Some rest"
  using assms
proof (induction ts arbitrary: n)
  case (Cons t ts)
  then obtain m where m: "n = Suc m" by (cases n) auto
  show ?case
  proof (cases ts)
    case Nil
    then show ?thesis using Cons m by simp
  next
    case (Cons u us)
    have "item (t @ CHR '','' # Join '','' ts @ close # rest) = Some (CHR '','' # Join '','' ts @ close # rest)" using Cons.prems(1) by simp
    moreover have "jsonItems m item close (Join '','' ts @ close # rest) = Some rest"
      using Cons.IH [of m] Cons.prems Cons m by simp
    ultimately show ?thesis using m Cons Cons.prems by simp
  qed
qed simp

lemma Join_length: "(\<And>t. t \<in> set ts \<Longrightarrow> t \<noteq> []) \<Longrightarrow> length ts \<le> length (Join '','' ts)"
proof (induction ts rule: induct_list012)
  case (3 x y zs)
  then have "length (y # zs) \<le> length (Join '','' (y # zs))" by simp
  moreover have "x \<noteq> []" using 3 by simp
  ultimately show ?case by (cases x) simp_all
qed (auto simp: Suc_le_eq)

lemma Join_hd: "(\<And>t. t \<in> set ts \<Longrightarrow> t \<noteq> []) \<Longrightarrow> ts \<noteq> [] \<Longrightarrow> Join '','' ts \<noteq> [] \<and> hd (Join '','' ts) = hd (hd ts)"
  by (cases ts rule: list.exhaust, simp, cases "tl ts") auto

lemma jsonGroup_joined:
  assumes "\<And>t rest. t \<in> set ts \<Longrightarrow> item (t @ rest) = Some rest" "\<And>t. t \<in> set ts \<Longrightarrow> t \<noteq> [] \<and> \<not> isWs (hd t) \<and> hd t \<noteq> close"
    and "\<not> isWs close" "close \<noteq> CHR '',''"
  shows "jsonGroup item close (Join '','' ts @ close # rest) = Some rest"
proof (cases "ts = []")
  case False
  let ?s = "Join '','' ts @ close # rest"
  have h: "Join '','' ts \<noteq> []" "hd (Join '','' ts) = hd (hd ts)" using Join_hd [of ts] assms(2) False by auto
  then have s: "skipWs ?s = ?s" "hd ?s \<noteq> close" using assms(2) [of "hd ts"] False by (auto intro!: skipWs_here)
  have "jsonItems (length ?s) item close ?s = Some rest"
    using Join_length [of ts] assms by (intro jsonItems_joined) (auto simp: False)
  moreover obtain e es where "?s = e # es" using h(1) by (cases ?s) auto
  ultimately show ?thesis unfolding jsonGroup_def s(1) using s(2) by simp
qed (simp add: jsonGroup_def assms)

end
