(* ===== verification/Transport.thy ===== *)
theory Transport
  imports Go_Json
begin

text \<open>
  The HTTP transport of the Proxmox clients (\<^verbatim>\<open>pkg/proxmoxpool/transport.go\<close>): replaying reads a
  bounded number of times and describing statuses the client library does not report.  The underlying
  round trip, the wait between two attempts and the test for a network timeout are parameters.
  Emptying a response that is thrown away (\<^verbatim>\<open>drain\<close>) only concerns the connection pool and is left out.
\<close>

section \<open>Requests, responses and the transport\<close>

record http_request =
  hr_Method :: string
  hr_URL :: string
  hr_Body :: string

text \<open>A body is what reading it to its end gives.\<close>

record http_response =
  rs_StatusCode :: int
  rs_Status :: string
  rs_ContentLength :: int
  rs_Body :: "goerr + string"

datatype tevent = Send http_request | ObserveRetry string string | Sleep int

type_synonym 'e tworld = "('e, tevent) world"

record 'e api_transport =
  t_base :: "http_request \<Rightarrow> ('e, http_response) api"
  t_sleep :: "int \<Rightarrow> ('e, unit) api"
  t_isTimeout :: "goerr \<Rightarrow> bool"
  t_attempts :: int
  t_backoff :: int

definition MethodGet :: string where "MethodGet = ''GET''"

definition apiRetryAttempts :: int where "apiRetryAttempts = 3"

text \<open>A quarter of a second, in nanoseconds.\<close>

definition apiRetryBackoff :: int where "apiRetryBackoff = 250000000"

definition newAPITransport :: "(http_request \<Rightarrow> ('e, http_response) api) \<Rightarrow> (int \<Rightarrow> ('e, unit) api) \<Rightarrow>
    (goerr \<Rightarrow> bool) \<Rightarrow> 'e api_transport" where
  "newAPITransport base slp isTimeout =
     \<lparr>t_base = base, t_sleep = slp, t_isTimeout = isTimeout, t_attempts = apiRetryAttempts, t_backoff = apiRetryBackoff\<rparr>"

fun retryable :: "goerr + http_response \<Rightarrow> bool" where
  "retryable (Inl err) \<longleftrightarrow> \<not> errIs err ContextCanceled \<and> \<not> errIs err ContextDeadlineExceeded"
| "retryable (Inr res) \<longleftrightarrow>
     rs_StatusCode res = 429 \<or> rs_StatusCode res \<ge> 500 \<or>
     200 \<le> rs_StatusCode res \<and> rs_StatusCode res < 300 \<and> rs_ContentLength res = 0"

fun retryOutcome :: "'e api_transport \<Rightarrow> goerr + http_response \<Rightarrow> string" where
  "retryOutcome t (Inl err) = (if t_isTimeout t err then ''timeout'' else ''transport-error'')"
| "retryOutcome t (Inr res) =
     (if 200 \<le> rs_StatusCode res \<and> rs_StatusCode res < 300 then ''empty-body'' else Itoa (rs_StatusCode res))"

definition describeStatus :: "http_response \<Rightarrow> goerr + http_response" where
  "describeStatus res =
     (if rs_StatusCode res \<in> {400, 401, 403, 500, 501} then Inr res
      else if rs_StatusCode res < 400 then Inr res
      else case rs_Body res of
             Inl e \<Rightarrow> Inl (Wrap (''reading '' @ rs_Status res @ '' response body: '' @ Error e) e)
           | Inr body \<Rightarrow> if jsonValid body then Inr res else Inr (res\<lparr>rs_StatusCode := 500\<rparr>))"

abbreviation sendOnce :: "'e api_transport \<Rightarrow> http_request \<Rightarrow> ('e tworld, http_response) io" where
  "sendOnce t req \<equiv> invoke (Send req) (t_base t req)"

text \<open>The loop with \<open>n\<close> attempts left after this one.\<close>

fun retryLoop :: "nat \<Rightarrow> 'e api_transport \<Rightarrow> http_request \<Rightarrow> ('e tworld, http_response) io" where
  "retryLoop 0 t req = call (sendOnce t req) fail (\<lambda>res. lift (describeStatus res))"
| "retryLoop (Suc n) t req =
     call (sendOnce t req)
       (\<lambda>err. if \<not> retryable (Inl err) then fail err
              else bindE (invoke (ObserveRetry (hr_Method req) (retryOutcome t (Inl err))) (\<lambda>e. (Inr (), e))) (\<lambda>_.
                   bindE (invoke (Sleep (t_backoff t)) (t_sleep t (t_backoff t))) (\<lambda>_. retryLoop n t req)))
       (\<lambda>res. if \<not> retryable (Inr res) then lift (describeStatus res)
              else bindE (invoke (ObserveRetry (hr_Method req) (retryOutcome t (Inr res))) (\<lambda>e. (Inr (), e))) (\<lambda>_.
                   bindE (invoke (Sleep (t_backoff t)) (t_sleep t (t_backoff t))) (\<lambda>_. retryLoop n t req)))"

definition RoundTrip :: "'e api_transport \<Rightarrow> http_request \<Rightarrow> ('e tworld, http_response) io" where
  "RoundTrip t req =
     (if hr_Method req \<noteq> MethodGet
      then call (sendOnce t req) fail (\<lambda>res. lift (describeStatus res))
      else let attempts = (if t_attempts t < 1 then 1 else t_attempts t)
           in retryLoop (nat (attempts - 1)) t req)"

section \<open>How often a request is sent\<close>

definition sends :: "('e \<times> tevent) list \<Rightarrow> http_request list" where
  "sends xs = List.map_filter (\<lambda>(_, v). case v of Send r \<Rightarrow> Some r | _ \<Rightarrow> None) xs"

lemma sends_append [simp]: "sends (xs @ ys) = sends xs @ sends ys"
  by (simp add: sends_def map_filter_def)

lemma sends_Cons [simp]:
  "sends [] = []" "sends ((e, Send r) # xs) = r # sends xs"
  "sends ((e, ObserveRetry m l) # xs) = sends xs" "sends ((e, Sleep d) # xs) = sends xs"
  by (simp_all add: sends_def map_filter_simps)

text \<open>\<open>attempted k m req\<close>: a run of \<open>m\<close> sends \<open>req\<close>, and nothing else, between once and \<open>k\<close> times.\<close>

definition attempted :: "nat \<Rightarrow> ('e tworld, 'a) io \<Rightarrow> http_request \<Rightarrow> bool" where
  "attempted k m req \<longleftrightarrow> (\<forall>w. \<exists>rs n. trace (snd (m w)) = trace w @ rs \<and> sends rs = replicate (Suc n) req \<and> n < k)"

lemma once_attempted: "attempted 1 (call (sendOnce t req) fail (\<lambda>res. lift (describeStatus res))) req"
  by (auto simp: attempted_def call_def invoke_def fail_def lift_def split: prod.split sum.split)

lemma attempted_pause:
  assumes "attempted k m req"
  shows "\<exists>rs n. trace (snd (bindE (invoke (ObserveRetry a l) (\<lambda>e. (Inr (), e))) (\<lambda>_.
     bindE (invoke (Sleep d) f) (\<lambda>_. m)) w)) = trace w @ rs \<and> sends rs = replicate n req \<and> n \<le> k"
proof -
  define w1 where "w1 = w\<lparr>trace := trace w @ [(env w, ObserveRetry a l)]\<rparr>"
  obtain x e where f: "f (env w1) = (x, e)" by fastforce
  define w2 where "w2 = w1\<lparr>env := e, trace := trace w1 @ [(env w1, Sleep d)]\<rparr>"
  have run: "bindE (invoke (ObserveRetry a l) (\<lambda>e. (Inr (), e))) (\<lambda>_. bindE (invoke (Sleep d) f) (\<lambda>_. m)) w =
      (case x of Inl err \<Rightarrow> (Inl err, w2) | Inr _ \<Rightarrow> m w2)"
    using f by (simp add: bindE_def call_def invoke_def fail_def w1_def w2_def split: sum.split)
  have tr: "trace w2 = trace w @ [(env w, ObserveRetry a l), (env w1, Sleep d)]"
    by (simp add: w1_def w2_def)
  obtain rs n where m: "trace (snd (m w2)) = trace w2 @ rs" "sends rs = replicate (Suc n) req" "n < k"
    using assms unfolding attempted_def by blast
  show ?thesis
  proof (cases x)
    case (Inl err)
    then show ?thesis unfolding run using tr by (intro exI [of _ "[(env w, ObserveRetry a l), (env w1, Sleep d)]"] exI [of _ 0]) simp
  next
    case (Inr u)
    then show ?thesis unfolding run using tr m
      by (intro exI [of _ "[(env w, ObserveRetry a l), (env w1, Sleep d)] @ rs"] exI [of _ "Suc n"]) simp
  qed
qed

lemma retryLoop_attempted: "attempted (Suc n) (retryLoop n t req) req"
proof (induction n)
  case 0
  then show ?case using once_attempted by simp
next
  case (Suc n)
  show ?case unfolding attempted_def
  proof
    fix w :: "'a tworld"
    obtain r w1 where s: "sendOnce t req w = (r, w1)" by fastforce
    have w1: "trace w1 = trace w @ [(env w, Send req)]"
      using s by (auto simp: invoke_def split: prod.splits)
    let ?rest = "\<lambda>o'. bindE (invoke (ObserveRetry (hr_Method req) o') (\<lambda>e. (Inr (), e))) (\<lambda>_.
                   bindE (invoke (Sleep (t_backoff t)) (t_sleep t (t_backoff t))) (\<lambda>_. retryLoop n t req))"
    have run: "snd (retryLoop (Suc n) t req w) = (if retryable r then snd (?rest (retryOutcome t r) w1) else w1)"
      using s by (cases r) (auto simp: call_def fail_def lift_def)
    obtain rs m where "trace (snd (?rest (retryOutcome t r) w1)) = trace w1 @ rs" "sends rs = replicate m req" "m \<le> Suc n"
      using attempted_pause [OF Suc] by blast
    then show "\<exists>rs m. trace (snd (retryLoop (Suc n) t req w)) = trace w @ rs \<and> sends rs = replicate (Suc m) req \<and> m < Suc (Suc n)"
      unfolding run using w1
      by (cases "retryable r")
        (auto intro!: exI [of _ "(env w, Send req) # rs"] exI [of _ m] exI [of _ "[(env w, Send req)]"] exI [of _ 0])
  qed
qed

section \<open>Recovering from bad answers\<close>

text \<open>The outside state after one more answer has been thrown away and waited for, and the answer the
  \<open>k\<close>-th attempt (from 0) gets.\<close>

definition nextTry :: "'e api_transport \<Rightarrow> http_request \<Rightarrow> 'e \<Rightarrow> 'e" where
  "nextTry t req e = snd (t_sleep t (t_backoff t) (snd (t_base t req e)))"

definition answer :: "'e api_transport \<Rightarrow> http_request \<Rightarrow> nat \<Rightarrow> 'e \<Rightarrow> goerr + http_response" where
  "answer t req k e = fst (t_base t req ((nextTry t req ^^ k) e))"

text \<open>The wait before the attempt after the \<open>k\<close>-th is not cut short by the caller's context.\<close>

definition rested :: "'e api_transport \<Rightarrow> http_request \<Rightarrow> nat \<Rightarrow> 'e \<Rightarrow> bool" where
  "rested t req k e \<longleftrightarrow> fst (t_sleep t (t_backoff t) (snd (t_base t req ((nextTry t req ^^ k) e)))) = Inr ()"

definition described :: "goerr + http_response \<Rightarrow> goerr + http_response" where
  "described r = (case r of Inl e \<Rightarrow> Inl e | Inr res \<Rightarrow> describeStatus res)"

lemma answer_Suc: "answer t req (Suc k) e = answer t req k (nextTry t req e)"
  by (simp add: answer_def funpow_swap1)

lemma rested_Suc: "rested t req (Suc k) e = rested t req k (nextTry t req e)"
  by (simp add: rested_def funpow_swap1)

lemma retryLoop_final:
  assumes "\<not> retryable (answer t req 0 (env w))"
  shows "fst (retryLoop n t req w) = described (answer t req 0 (env w))"
proof -
  obtain r e where b: "t_base t req (env w) = (r, e)" by fastforce
  show ?thesis using assms b
    by (cases n; cases r) (auto simp: answer_def described_def call_def invoke_def fail_def lift_def)
qed

lemma retryLoop_again:
  assumes "retryable (answer t req 0 (env w))" "rested t req 0 (env w)"
  shows "\<exists>w'. env w' = nextTry t req (env w) \<and> fst (retryLoop (Suc n) t req w) = fst (retryLoop n t req w')"
proof -
  obtain r e where b: "t_base t req (env w) = (r, e)" by fastforce
  obtain e' where s: "t_sleep t (t_backoff t) e = (Inr (), e')"
    using assms(2) b by (cases "t_sleep t (t_backoff t) e") (simp add: rested_def)
  have r: "retryable r" using assms(1) b by (simp add: answer_def)
  define w' where "w' = w\<lparr>env := e', trace := trace w @ [(env w, Send req),
     (e, ObserveRetry (hr_Method req) (retryOutcome t r)), (e, Sleep (t_backoff t))]\<rparr>"
  have "env w' = nextTry t req (env w)" using b s by (simp add: nextTry_def w'_def)
  moreover have "retryLoop (Suc n) t req w = retryLoop n t req w'"
    using b s r by (cases r) (simp_all add: bindE_def call_def invoke_def fail_def lift_def w'_def del: retryable.simps retryOutcome.simps)
  ultimately show ?thesis by metis
qed

lemma retryLoop_recovers:
  assumes "k \<le> n" "\<And>i. i < k \<Longrightarrow> retryable (answer t req i (env w)) \<and> rested t req i (env w)"
    and "\<not> retryable (answer t req k (env w))"
  shows "fst (retryLoop n t req w) = described (answer t req k (env w))"
  using assms
proof (induction k arbitrary: n w)
  case 0
  then show ?case by (simp add: retryLoop_final)
next
  case (Suc k)
  then obtain m where n: "n = Suc m" "k \<le> m" by (cases n) auto
  obtain w' where w': "env w' = nextTry t req (env w)" "fst (retryLoop n t req w) = fst (retryLoop m t req w')"
    using retryLoop_again [of t req w m] Suc.prems(2) [of 0] n by auto
  have "fst (retryLoop m t req w') = described (answer t req k (env w'))"
  proof (rule Suc.IH)
    show "retryable (answer t req i (env w')) \<and> rested t req i (env w')" if "i < k" for i
      using Suc.prems(2) [of "Suc i"] that w' by (simp add: answer_Suc rested_Suc)
  qed (use n Suc.prems(3) w' in \<open>simp_all add: answer_Suc\<close>)
  then show ?case using w' by (simp add: answer_Suc)
qed

section \<open>Properties\<close>

text \<open>C37: A request is put on the wire at least once and never more often than the configured number of
  attempts, always unchanged, and a request that may change state -- any method but GET -- exactly once.\<close>

theorem RoundTrip_bounded:
  "\<exists>n. sends (sent (RoundTrip t req) w) = replicate (Suc n) req \<and>
     int n < max 1 (t_attempts t) \<and> (hr_Method req = MethodGet \<or> n = 0)"
proof -
  let ?k = "if hr_Method req = MethodGet then Suc (nat (max 1 (t_attempts t) - 1)) else 1"
  have "attempted ?k (RoundTrip t req) req"
    using retryLoop_attempted once_attempted by (auto simp: RoundTrip_def Let_def max_def)
  then obtain rs n where "trace (snd (RoundTrip t req w)) = trace w @ rs" "sends rs = replicate (Suc n) req" "n < ?k"
    unfolding attempted_def by blast
  then show ?thesis by (intro exI [of _ n]) (auto simp: sent_def split: if_splits)
qed

text \<open>C38: A read that fails or comes back empty is tried again until it gets an answer worth keeping: if one of
  the permitted attempts gets one and no wait before it is cut short, that answer is what the caller receives,
  with its status described.\<close>

theorem RoundTrip_recovers:
  assumes "hr_Method req = MethodGet" "int k < max 1 (t_attempts t)"
    and "\<And>i. i < k \<Longrightarrow> retryable (answer t req i (env w)) \<and> rested t req i (env w)"
    and "\<not> retryable (answer t req k (env w))"
  shows "fst (RoundTrip t req w) = described (answer t req k (env w))"
proof -
  have "k \<le> nat (max 1 (t_attempts t) - 1)" using assms(2) by linarith
  then have "fst (retryLoop (nat (max 1 (t_attempts t) - 1)) t req w) = described (answer t req k (env w))"
    by (rule retryLoop_recovers [OF _ assms(3,4)])
  moreover have "RoundTrip t req = retryLoop (nat (max 1 (t_attempts t) - 1)) t req"
    using assms(1) by (auto simp: RoundTrip_def Let_def max_def simp del: retryLoop.simps)
  ultimately show ?thesis by simp
qed

text \<open>Three attempts against a server that answers 596 with an empty body, then an empty 200, then a list.\<close>

definition flaky :: "http_response list \<Rightarrow> (goerr + http_response) \<times> http_response list" where
  "flaky s = (case s of [] \<Rightarrow> (Inl (Plain ''EOF''), []) | r # rs \<Rightarrow> (Inr r, rs))"

definition flakyAnswers :: "http_response list" where
  "flakyAnswers =
     [\<lparr>rs_StatusCode = 596, rs_Status = ''596 Connection error'', rs_ContentLength = 0, rs_Body = Inr []\<rparr>,
      \<lparr>rs_StatusCode = 200, rs_Status = ''200 OK'', rs_ContentLength = 0, rs_Body = Inr []\<rparr>,
      \<lparr>rs_StatusCode = 200, rs_Status = ''200 OK'', rs_ContentLength = 2, rs_Body = Inr ''[]''\<rparr>]"

definition flakyTransport :: "http_response list api_transport" where
  "flakyTransport = newAPITransport (\<lambda>_. flaky) (\<lambda>_ s. (Inr (), s)) (\<lambda>_. False)"

definition listVMs :: http_request where
  "listVMs = \<lparr>hr_Method = ''GET'', hr_URL = ''/cluster/resources'', hr_Body = []\<rparr>"

lemmas flaky_simps = flakyTransport_def newAPITransport_def flakyAnswers_def flaky_def apiRetryAttempts_def
  answer_def rested_def nextTry_def listVMs_def MethodGet_def

theorem RoundTrip_recovers_witness:
  "fst (RoundTrip flakyTransport listVMs \<lparr>env = flakyAnswers, trace = []\<rparr>) =
     described (answer flakyTransport listVMs 2 flakyAnswers) \<and>
   answer flakyTransport listVMs 2 flakyAnswers = Inr (flakyAnswers ! 2)"
proof -
  have "retryable (answer flakyTransport listVMs i flakyAnswers) \<and> rested flakyTransport listVMs i flakyAnswers"
    if "i < 2" for i :: nat
  proof -
    have "i = 0 \<or> i = 1" using that by auto
    then show ?thesis by (auto simp: flaky_simps)
  qed
  moreover have "\<not> retryable (answer flakyTransport listVMs 2 flakyAnswers)"
    by (simp add: flaky_simps numeral_2_eq_2)
  ultimately have "fst (RoundTrip flakyTransport listVMs \<lparr>env = flakyAnswers, trace = []\<rparr>) =
     described (answer flakyTransport listVMs 2 flakyAnswers)"
    using RoundTrip_recovers [of listVMs 2 flakyTransport "\<lparr>env = flakyAnswers, trace = []\<rparr>"]
    by (simp add: listVMs_def MethodGet_def flakyTransport_def newAPITransport_def apiRetryAttempts_def)
  then show ?thesis by (simp add: flaky_simps numeral_2_eq_2)
qed

end
