(* ===== verification/Operator_Authn.thy ===== *)
theory Operator_Authn
  imports Operator_Api Transport
begin

text \<open>
  Who a call of the volume API is from and the interceptors around every method
  (\<^verbatim>\<open>pkg/operator/api\<close>: \<^verbatim>\<open>authn.go\<close>, \<^verbatim>\<open>audit.go\<close>, \<^verbatim>\<open>ratelimit.go\<close>, \<^verbatim>\<open>recover.go\<close>, \<^verbatim>\<open>server.go\<close>).
  OIDC discovery, the check of a signature, the token bucket and the
  fresh request id are parameters.  The cache of verifiers and the limiters are state that a call passes on
  whether it succeeds or not.
\<close>

section \<open>Decoding a payload\<close>

text \<open>\<^verbatim>\<open>audience.UnmarshalJSON\<close>.\<close>

definition decodeAudience :: "string \<Rightarrow> string list option" where
  "decodeAudience v =
     (case decodeString [] v of
        Some s \<Rightarrow> Some [s]
      | None \<Rightarrow> if HasPrefix v ''['' then decodeStrings (bracketed (CHR '']'') elementsN v) else None)"

record jwt_claims =
  jc_Issuer :: string
  jc_AZP :: string
  jc_Audience :: "string list"

fun decodeMembers :: "(string \<times> string) list \<Rightarrow> jwt_claims \<Rightarrow> jwt_claims option" where
  "decodeMembers [] cl = Some cl"
| "decodeMembers ((key, v) # rest) cl =
     (if foldKey key = ''iss''
      then (case decodeString (jc_Issuer cl) v of None \<Rightarrow> None | Some s \<Rightarrow> decodeMembers rest (cl\<lparr>jc_Issuer := s\<rparr>))
      else if foldKey key = ''azp''
      then (case decodeString (jc_AZP cl) v of None \<Rightarrow> None | Some s \<Rightarrow> decodeMembers rest (cl\<lparr>jc_AZP := s\<rparr>))
      else if foldKey key = ''aud''
      then (case decodeAudience v of None \<Rightarrow> None | Some ss \<Rightarrow> decodeMembers rest (cl\<lparr>jc_Audience := ss\<rparr>))
      else decodeMembers rest cl)"

text \<open>The text of an error of the decoders is left out of the messages below.\<close>

definition unmarshalClaims :: "string \<Rightarrow> jwt_claims option" where
  "unmarshalClaims payload =
     (let v = fst (headValue payload); empty = \<lparr>jc_Issuer = [], jc_AZP = [], jc_Audience = []\<rparr>
      in if \<not> jsonValid payload then None
         else if HasPrefix v ''{'' then decodeMembers (bracketed (CHR ''}'') membersN v) empty
         else if v = ''null'' then Some empty else None)"

definition parseUnverifiedClaims :: "string \<Rightarrow> goerr + jwt_claims" where
  "parseUnverifiedClaims rawToken =
     (let parts = Split (CHR ''.'') rawToken
      in if length parts \<noteq> 3 then Inl (Plain (''token must have 3 parts, got '' @ Itoa (int (length parts))))
         else case b64decode (parts ! 1) of
                None \<Rightarrow> Inl (Plain ''decoding payload'')
              | Some payload \<Rightarrow>
                  (case unmarshalClaims payload of
                     None \<Rightarrow> Inl (Plain ''unmarshalling claims'')
                   | Some claims \<Rightarrow> Inr claims))"

section \<open>Authentication\<close>

text \<open>The OIDC library: discovery of a provider, the verifier it makes for an audience, and the check of a token.\<close>

record ('e, 'p, 'v) oidc =
  oi_NewProvider :: "string \<Rightarrow> ('e, 'p) api"
  oi_Verifier :: "'p \<Rightarrow> string \<Rightarrow> 'v"
  oi_Verify :: "'v \<Rightarrow> string \<Rightarrow> ('e, unit) api"

text \<open>The state of the server: the cached verifiers and the limiter of each tenant.\<close>

record ('v, 'l) api_state =
  au_verifiers :: "(string \<times> 'v) list"
  rl_limiters :: "(string \<times> 'l) list"

type_synonym ('v, 'l, 'e) apiworld = "('v, 'l) api_state \<times> 'e oworld"

text \<open>A call that leaves the state of the server alone.\<close>

definition onWorld :: "('w, 'a) io \<Rightarrow> ('s \<times> 'w, 'a) io" where
  "onWorld m sw = (case m (snd sw) of (r, w) \<Rightarrow> (r, (fst sw, w)))"

definition audienceContains :: "string list \<Rightarrow> string \<Rightarrow> bool" where
  "audienceContains aud target \<longleftrightarrow> target \<in> set aud"

definition matchingTenants :: "ptenant list \<Rightarrow> string \<Rightarrow> string \<Rightarrow> ptenant list" where
  "matchingTenants tenants issuer azp = filter (\<lambda>t. tn_Issuer (tc_spec t) = issuer \<and> tn_Subject (tc_spec t) = ''pvx:'' @ azp) tenants"

definition resolveTenant :: "'e mgmt \<Rightarrow> string \<Rightarrow> string \<Rightarrow> ('e oworld, ptenant) io" where
  "resolveTenant g issuer azp =
     call (ListTenants g) (\<lambda>e. statusError Internal (''listing tenants: '' @ Error e))
       (\<lambda>tenants. case matchingTenants tenants issuer azp of
          [] \<Rightarrow> statusError PermissionDenied (''no tenant matches issuer '' @ issuer @ '' and subject pvx:'' @ azp)
        | [tenant] \<Rightarrow>
            if IsStatusConditionTrue g (tt_Conditions (tc_status tenant)) ConditionAdmitted then ret tenant
            else statusError PermissionDenied (''tenant '' @ tcName tenant @ '' is not admitted'')
        | matches \<Rightarrow> statusError PermissionDenied (''ambiguous: '' @ Itoa (int (length matches)) @ '' tenants match issuer '' @ issuer @
                       '' and subject pvx:'' @ azp))"

definition verifierKey :: "string \<Rightarrow> string \<Rightarrow> string" where
  "verifierKey issuer azp = issuer @ ''|'' @ azp"

definition getVerifier :: "('e, 'p, 'v) oidc \<Rightarrow> string \<Rightarrow> string \<Rightarrow> (('v, 'l, 'e) apiworld, 'v) io" where
  "getVerifier oi issuer azp sw =
     (let key = verifierKey issuer azp
      in case map_of (au_verifiers (fst sw)) key of
           Some v \<Rightarrow> ret v sw
         | None \<Rightarrow>
             call (onWorld (invoke (OidcFetch issuer) (oi_NewProvider oi issuer)))
               (\<lambda>e. fail (Wrap (''OIDC discovery for '' @ issuer @ '': '' @ Error e) e))
               (\<lambda>provider (st, w). let v = oi_Verifier oi provider azp
                 in ret v (st\<lparr>au_verifiers := AList.update key v (au_verifiers st)\<rparr>, w)) sw)"

text \<open>The metadata of a call: for each lower-case key the values sent.\<close>

type_synonym metadata = "(string \<times> string list) list"

definition bearerToken :: "metadata option \<Rightarrow> goerr + string" where
  "bearerToken md =
     (case md of
        None \<Rightarrow> Inl (Status Unauthenticated ''missing metadata'')
      | Some m \<Rightarrow>
          (case map_of m ''authorization'' of
             Some (token # _) \<Rightarrow>
               if HasPrefix token ''Bearer '' then Inr (TrimPrefix token ''Bearer '')
               else Inl (Status Unauthenticated ''authorization header must be Bearer'')
           | _ \<Rightarrow> Inl (Status Unauthenticated ''missing authorization header'')))"

definition tokenClaims :: "string \<Rightarrow> goerr + jwt_claims" where
  "tokenClaims rawToken =
     (case parseUnverifiedClaims rawToken of
        Inl err \<Rightarrow> Inl (Status Unauthenticated (''invalid token: '' @ Error err))
      | Inr claims \<Rightarrow>
          if jc_Issuer claims = [] then Inl (Status Unauthenticated ''token has no issuer'')
          else if jc_AZP claims = [] then Inl (Status Unauthenticated ''token has no azp claim'')
          else if \<not> audienceContains (jc_Audience claims) (jc_AZP claims) then Inl (Status Unauthenticated ''aud must contain azp'')
          else Inr claims)"

definition authenticate :: "'e mgmt \<Rightarrow> ('e, 'p, 'v) oidc \<Rightarrow> metadata option \<Rightarrow> (('v, 'l, 'e) apiworld, ptenant) io" where
  "authenticate g oi md =
     bindE (lift (bearerToken md)) (\<lambda>rawToken.
     bindE (lift (tokenClaims rawToken)) (\<lambda>claims.
     bindE (onWorld (resolveTenant g (jc_Issuer claims) (jc_AZP claims))) (\<lambda>tenant.
     call (getVerifier oi (jc_Issuer claims) (jc_AZP claims)) (\<lambda>e. statusError Unauthenticated (''OIDC verification failed: '' @ Error e)) (\<lambda>verifier.
     call (onWorld (invoke (OidcVerify rawToken) (oi_Verify oi verifier rawToken)))
       (\<lambda>e. statusError Unauthenticated (''token verification failed: '' @ Error e))
       (\<lambda>_. ret tenant)))))"

section \<open>Interceptors\<close>

text \<open>The token bucket of \<^verbatim>\<open>golang.org/x/time/rate\<close>, made with the configured rate and burst.\<close>

record ('e, 'l) bucket =
  rl_New :: 'l
  rl_Allow :: "'e \<Rightarrow> 'l \<Rightarrow> bool \<times> 'l"

definition limiterFor :: "('e, 'l) bucket \<Rightarrow> (string \<times> 'l) list \<Rightarrow> string \<Rightarrow> 'l" where
  "limiterFor b limiters tenantName = (case map_of limiters tenantName of None \<Rightarrow> rl_New b | Some l \<Rightarrow> l)"

definition rateLimited :: "('e, 'l) bucket \<Rightarrow> ptenant option \<Rightarrow> (('v, 'l, 'e) apiworld, 'a) io \<Rightarrow> (('v, 'l, 'e) apiworld, 'a) io" where
  "rateLimited b tenant handler sw =
     (case tenant of
        None \<Rightarrow> handler sw
      | Some t \<Rightarrow>
          let (ok, l) = rl_Allow b (env (snd sw)) (limiterFor b (rl_limiters (fst sw)) (tcName t));
              sw = ((fst sw)\<lparr>rl_limiters := AList.update (tcName t) l (rl_limiters (fst sw))\<rparr>, snd sw)
          in if ok then handler sw else statusError ResourceExhausted (''rate limit exceeded for tenant '' @ tcName t) sw)"

definition isPanic :: "goerr \<Rightarrow> bool" where
  "isPanic e \<longleftrightarrow> e = nilDereference \<or> e = outOfRange"

definition recovering :: "('w, 'a) io \<Rightarrow> ('w, 'a) io" where
  "recovering handler = call handler (\<lambda>e. if isPanic e then statusError Internal ''internal error'' else fail e) ret"

text \<open>The chains of \<^verbatim>\<open>NewServer\<close>.  The audit interceptor makes the request id and logs the outcome.\<close>

definition unaryCall ::
    "'e mgmt \<Rightarrow> ('e, 'p, 'v) oidc \<Rightarrow> ('e, 'l) bucket \<Rightarrow> metadata option \<Rightarrow> string \<Rightarrow> (call_context \<Rightarrow> ('e oworld, 'a) io) \<Rightarrow>
     (('v, 'l, 'e) apiworld, 'a) io" where
  "unaryCall g oi b md requestID handler =
     recovering (bindE (authenticate g oi md) (\<lambda>tenant.
       rateLimited b (Some tenant) (onWorld (handler \<lparr>ctx_tenant = Some tenant, ctx_requestID = requestID\<rparr>))))"

definition streamCall ::
    "'e mgmt \<Rightarrow> ('e, 'p, 'v) oidc \<Rightarrow> metadata option \<Rightarrow> string \<Rightarrow> (call_context \<Rightarrow> ('e oworld, 'a) io) \<Rightarrow> (('v, 'l, 'e) apiworld, 'a) io" where
  "streamCall g oi md requestID handler =
     recovering (bindE (authenticate g oi md) (\<lambda>tenant. onWorld (handler \<lparr>ctx_tenant = Some tenant, ctx_requestID = requestID\<rparr>)))"

end
