(* ===== verification/Remote_Controller.thy ===== *)
theory Remote_Controller
  imports Operator_Authn Csi_Controller
begin

text \<open>
  The CSI controller of a tenant cluster (\<^verbatim>\<open>pkg/csi/remote/controller.go\<close>), which has no access to
  Proxmox and hands every RPC to the operator's volume API.  The generated gRPC client is the record
  \<open>volume_client\<close>; the handlers are written for any client, and \<open>apiClient\<close> is the client of the
  API of this development, with its interceptors.
\<close>

definition remoteCaps :: "string list" where
  "remoteCaps =
     [''CREATE_DELETE_VOLUME'', ''PUBLISH_UNPUBLISH_VOLUME'', ''GET_CAPACITY'', ''CREATE_DELETE_SNAPSHOT'', ''CLONE_VOLUME'',
      ''EXPAND_VOLUME'', ''GET_VOLUME'', ''SINGLE_NODE_MULTI_WRITER'', ''MODIFY_VOLUME'']"

definition remoteGetCapabilities :: "('w, string list) io" where
  "remoteGetCapabilities = ret remoteCaps"

section \<open>The client of the volume API\<close>

record 'w volume_client =
  vc_CreateVolume :: "create_volume_request \<Rightarrow> ('w, create_volume_response) io"
  vc_DeleteVolume :: "string \<Rightarrow> ('w, unit) io"
  vc_AttachVolume :: "attach_request \<Rightarrow> ('w, attach_response) io"
  vc_DetachVolume :: "string \<Rightarrow> string \<Rightarrow> int \<Rightarrow> ('w, unit) io"
  vc_ExpandVolume :: "string \<Rightarrow> int \<Rightarrow> ('w, expand_response) io"
  vc_ModifyVolume :: "string \<Rightarrow> gomap \<Rightarrow> ('w, unit) io"
  vc_CreateSnapshot :: "string \<Rightarrow> string \<Rightarrow> string \<Rightarrow> ('w, snapshot_entry) io"
  vc_DeleteSnapshot :: "string \<Rightarrow> ('w, unit) io"
  vc_ListSnapshots :: "list_snapshots_request \<Rightarrow> ('w, snapshot_entry list \<times> string) io"

text \<open>\<^verbatim>\<open>status.FromError\<close>: the status an error carries, directly or wrapped.\<close>

fun carriesStatus :: "goerr \<Rightarrow> bool" where
  "carriesStatus (Status c m) = True"
| "carriesStatus (Wrap m e) = carriesStatus e"
| "carriesStatus _ = False"

definition FromError :: "goerr \<Rightarrow> (code \<times> string) option" where
  "FromError e =
     (case e of
        Status c m \<Rightarrow> Some (c, m)
      | _ \<Rightarrow> if carriesStatus e then Some (statusCode e, Error e) else None)"

definition translateError :: "goerr \<Rightarrow> goerr" where
  "translateError err =
     (case FromError err of
        None \<Rightarrow> Status Internal (Error err)
      | Some (c, m) \<Rightarrow> Status c (''remote: '' @ m))"

abbreviation remotely :: "('w, 'a) io \<Rightarrow> ('a \<Rightarrow> ('w, 'b) io) \<Rightarrow> ('w, 'b) io" where
  "remotely m k \<equiv> call m (\<lambda>e. fail (translateError e)) k"

section \<open>Volumes\<close>

text \<open>One of the two loops over the topologies: \<open>Inr\<close> when a segment names region and zone.\<close>

fun accessibilityLoop :: "gomap list \<Rightarrow> string \<Rightarrow> string + string \<times> string" where
  "accessibilityLoop [] region = Inl region"
| "accessibilityLoop (seg # segs) region =
     (let r = mget seg LabelTopologyRegion; z = mget seg LabelTopologyZone
      in if r \<noteq> [] \<and> z \<noteq> [] then Inr (r, z)
         else accessibilityLoop segs (if r \<noteq> [] \<and> region = [] then r else region))"

definition locationFromAccessibility :: "topology_requirement option \<Rightarrow> string \<times> string" where
  "locationFromAccessibility tr =
     (case tr of
        None \<Rightarrow> ([], [])
      | Some t \<Rightarrow>
          (case accessibilityLoop (tr_preferred t) [] of
             Inr loc \<Rightarrow> loc
           | Inl region \<Rightarrow>
               (case accessibilityLoop (tr_requisite t) region of
                  Inr loc \<Rightarrow> loc
                | Inl region' \<Rightarrow> (region', []))))"

definition provisionerPrefix :: string where
  "provisionerPrefix = ''csi.storage.k8s.io/''"

definition protoParams :: "gomap \<Rightarrow> gomap" where
  "protoParams params = filter (\<lambda>(k, _). \<not> HasPrefix k provisionerPrefix \<and> k \<noteq> ''storage'') params"

text \<open>The name of the volume record behind a handle.\<close>

definition recordName :: "string \<Rightarrow> goerr + string" where
  "recordName handle =
     (case NewVolumeFromVolumeID handle of
        Inl err \<Rightarrow> Inl (Status InvalidArgument (''invalid source volume ID: '' @ Error err))
      | Inr srcVol \<Rightarrow> Inr (if PV srcVol = [] then handle else PV srcVol))"

definition protoSource :: "content_source option \<Rightarrow> goerr + volume_source option" where
  "protoSource src =
     (case src of
        None \<Rightarrow> Inr None
      | Some SourceUnset \<Rightarrow> Inr (Some \<lparr>src_VolumeName = [], src_SnapshotName = []\<rparr>)
      | Some (SourceSnapshot snap) \<Rightarrow> Inr (Some \<lparr>src_VolumeName = [], src_SnapshotName = snap\<rparr>)
      | Some (SourceVolume handle) \<Rightarrow>
          (case recordName handle of
             Inl err \<Rightarrow> Inl err
           | Inr name \<Rightarrow> Inr (Some \<lparr>src_VolumeName = name, src_SnapshotName = []\<rparr>)))"

definition protoCreate :: "create_request \<Rightarrow> goerr + create_volume_request" where
  "protoCreate req =
     (let params = cr_parameters req;
          (region, zone) = locationFromAccessibility (cr_topology req);
          storage = mget params ''storage'';
          pvcName = mget params ''csi.storage.k8s.io/pvc/name'';
          pvcNamespace = mget params ''csi.storage.k8s.io/pvc/namespace''
      in if cr_name req = [] then Inl (Status InvalidArgument ''VolumeName must be provided'')
         else if cr_capabilities req = None then Inl (Status InvalidArgument ''VolumeCapabilities must be provided'')
         else if region = [] then Inl (Status Internal ''cannot determine region from topology'')
         else if storage = [] then Inl (Status InvalidArgument ''parameter storage must be provided'')
         else case protoSource (cr_source req) of
           Inl err \<Rightarrow> Inl err
         | Inr source \<Rightarrow> Inr
             \<lparr>cq_Name = cr_name req, cq_PvName = mget params ''csi.storage.k8s.io/pv/name'',
              cq_ClaimRef = (if pvcName \<noteq> [] \<or> pvcNamespace \<noteq> [] then Some (pvcNamespace, pvcName) else None),
              cq_Region = region, cq_Zone = zone, cq_Storage = storage,
              cq_CapacityBytes = (case cr_capacityRange req of None \<Rightarrow> 0 | Some (required, _) \<Rightarrow> required),
              cq_Parameters = protoParams params, cq_MutableParameters = cr_mutableParameters req, cq_Source = source\<rparr>)"

definition remoteCreateVolume :: "'w volume_client \<Rightarrow> create_request \<Rightarrow> ('w, csi_volume) io" where
  "remoteCreateVolume cl req =
     bindE (lift (protoCreate req)) (\<lambda>protoReq.
       remotely (vc_CreateVolume cl protoReq) (\<lambda>resp.
         ret \<lparr>cv_id = cp_VolumeId resp, cv_context = cp_VolumeContext resp, cv_source = None, cv_capacity = cp_CapacityBytes resp,
              cv_topology = map (segment (cq_Region protoReq)) (cp_AccessibleTopology resp)\<rparr>))"

definition remoteDeleteVolume :: "'w volume_client \<Rightarrow> string \<Rightarrow> ('w, unit) io" where
  "remoteDeleteVolume cl volumeId =
     (if volumeId = [] then statusError InvalidArgument ''VolumeId must be provided''
      else remotely (vc_DeleteVolume cl volumeId) ret)"

text \<open>The VM id of a node id, or 0 for the operator to find it by name.\<close>

definition requestVMID :: "string \<Rightarrow> int" where
  "requestVMID nodeId =
     (case ParseNodeID nodeId of
        Inl _ \<Rightarrow> 0
      | Inr n \<Rightarrow> (case NodeGetVMID n of Inl _ \<Rightarrow> 0 | Inr i \<Rightarrow> if i \<noteq> 0 then wrap32 i else 0))"

definition remotePublishVolume :: "'w volume_client \<Rightarrow> publish_request \<Rightarrow> ('w, gomap) io" where
  "remotePublishVolume cl req =
     (if pr_volumeId req = [] then statusError InvalidArgument ''VolumeId must be provided''
      else if pr_nodeId req = [] then statusError InvalidArgument ''NodeId must be provided''
      else remotely (vc_AttachVolume cl \<lparr>aq_VolumeId = pr_volumeId req, aq_NodeId = pr_nodeId req,
               aq_Vmid = requestVMID (pr_nodeId req), aq_Readonly = pr_readonly req\<rparr>) (\<lambda>resp.
             ret ([(''DevicePath'', ap_DevicePath resp), (''lun'', Itoa (ap_Lun resp))] @
                  (if ap_ResizeRequired resp then [(''resizeRequired'', ''true'')] else []))))"

definition remoteUnpublishVolume :: "'w volume_client \<Rightarrow> string \<Rightarrow> string \<Rightarrow> ('w, unit) io" where
  "remoteUnpublishVolume cl volumeId nodeId =
     (if volumeId = [] then statusError InvalidArgument ''VolumeId must be provided''
      else remotely (vc_DetachVolume cl volumeId nodeId (if nodeId \<noteq> [] then requestVMID nodeId else 0)) ret)"

definition remoteExpandVolume :: "'w volume_client \<Rightarrow> string \<Rightarrow> (int \<times> int) option \<Rightarrow> ('w, expand_response) io" where
  "remoteExpandVolume cl volumeId capacityRange =
     (if volumeId = [] then statusError InvalidArgument ''VolumeId must be provided''
      else case capacityRange of
        None \<Rightarrow> statusError InvalidArgument ''CapacityRange must be provided''
      | Some (required, _) \<Rightarrow> remotely (vc_ExpandVolume cl volumeId required) ret)"

definition remoteModifyVolume :: "'w volume_client \<Rightarrow> string \<Rightarrow> gomap \<Rightarrow> ('w, unit) io" where
  "remoteModifyVolume cl volumeId mutableParameters =
     (if volumeId = [] then statusError InvalidArgument ''VolumeId must be provided''
      else remotely (vc_ModifyVolume cl volumeId mutableParameters) ret)"

section \<open>Snapshots\<close>

text \<open>A CSI snapshot has the fields of a snapshot entry of the API.\<close>

definition remoteCreateSnapshot :: "'w volume_client \<Rightarrow> string \<Rightarrow> string \<Rightarrow> gomap \<Rightarrow> ('w, snapshot_entry) io" where
  "remoteCreateSnapshot cl name sourceVolumeID parameters =
     (if name = [] then statusError InvalidArgument ''Name must be provided''
      else if sourceVolumeID = [] then statusError InvalidArgument ''SourceVolumeId must be provided''
      else bindE (lift (recordName sourceVolumeID)) (\<lambda>sourceVolumeName.
        remotely (vc_CreateSnapshot cl name sourceVolumeName (mget parameters ''zone'')) (\<lambda>resp.
          ret (resp\<lparr>se_SourceVolumeId := sourceVolumeID\<rparr>))))"

definition remoteDeleteSnapshot :: "'w volume_client \<Rightarrow> string \<Rightarrow> ('w, unit) io" where
  "remoteDeleteSnapshot cl snapshotId =
     (if snapshotId = [] then statusError InvalidArgument ''SnapshotId must be provided''
      else remotely (vc_DeleteSnapshot cl snapshotId) ret)"

record csi_list_snapshots =
  cl_SnapshotId :: string
  cl_SourceVolumeId :: string
  cl_MaxEntries :: int
  cl_StartingToken :: string

definition sourceFilter :: "string \<Rightarrow> string" where
  "sourceFilter sourceVolumeId =
     (if sourceVolumeId = [] then []
      else case NewVolumeFromVolumeID sourceVolumeId of Inl _ \<Rightarrow> [] | Inr srcVol \<Rightarrow> PV srcVol)"

definition remoteListSnapshots :: "'w volume_client \<Rightarrow> csi_list_snapshots \<Rightarrow> ('w, snapshot_entry list \<times> string) io" where
  "remoteListSnapshots cl req =
     remotely (vc_ListSnapshots cl \<lparr>lq_SourceVolumeName = sourceFilter (cl_SourceVolumeId req), lq_SnapshotId = cl_SnapshotId req,
                lq_MaxEntries = cl_MaxEntries req, lq_StartingToken = cl_StartingToken req\<rparr>) ret"

section \<open>Capacity\<close>

definition capacityKey :: "string \<Rightarrow> string \<Rightarrow> string" where
  "capacityKey zone storage = zone @ ''/'' @ storage"

type_synonym capacity_cache = "(string \<times> capacity_message) list"

definition remoteGetCapacity :: "capacity_cache \<Rightarrow> gomap option \<Rightarrow> gomap \<Rightarrow> goerr + int" where
  "remoteGetCapacity cache topology parameters =
     (case topology of
        None \<Rightarrow> Inl (Status InvalidArgument ''no topology specified'')
      | Some segments \<Rightarrow>
          (let storage = mget parameters ''storage''
           in if storage = [] then Inl (Status InvalidArgument ''storage parameter is required'')
              else case map_of cache (capacityKey (mget segments LabelTopologyZone) storage) of
                None \<Rightarrow> Inr 0
              | Some entry \<Rightarrow> Inr (cm_AvailableBytes entry)))"

text \<open>One stream, given by the messages it delivers before it ends (\<open>None\<close> when it cannot be opened):
  whether it delivered anything, and the cache after it.\<close>

definition cacheMessage :: "capacity_message \<Rightarrow> capacity_cache \<Rightarrow> capacity_cache" where
  "cacheMessage resp cache = AList.update (capacityKey (cm_Zone resp) (cm_Storage resp)) resp cache"

definition doWatch :: "capacity_message list option \<Rightarrow> capacity_cache \<Rightarrow> bool \<times> capacity_cache" where
  "doWatch stream cache =
     (case stream of
        None \<Rightarrow> (False, cache)
      | Some messages \<Rightarrow> (messages \<noteq> [], fold cacheMessage messages cache))"

definition watchBackoffFloor :: int where
  "watchBackoffFloor = 1000000000"

definition watchBackoffCeiling :: int where
  "watchBackoffCeiling = 60 * 1000000000"

text \<open>The streams the context lasts for, with the delay after each and the cache at the end.\<close>

fun watchCapacityFrom :: "int \<Rightarrow> capacity_message list option list \<Rightarrow> capacity_cache \<Rightarrow> int list \<times> capacity_cache" where
  "watchCapacityFrom backoff [] cache = ([], cache)"
| "watchCapacityFrom backoff (stream # streams) cache =
     (let (received, cache) = doWatch stream cache;
          backoff = (if received then watchBackoffFloor else min (wrap64 (backoff * 2)) watchBackoffCeiling);
          (delays, cache) = watchCapacityFrom backoff streams cache
      in (backoff # delays, cache))"

definition watchCapacity :: "capacity_message list option list \<Rightarrow> capacity_cache \<Rightarrow> int list \<times> capacity_cache" where
  "watchCapacity = watchCapacityFrom watchBackoffFloor"

section \<open>The client of this API\<close>

text \<open>What gRPC makes of the error of a handler on its way to the client.\<close>

definition wireError :: "goerr \<Rightarrow> goerr" where
  "wireError e = (case FromError e of None \<Rightarrow> Status Unknown (Error e) | Some (c, m) \<Rightarrow> Status c m)"

definition overWire :: "('w, 'a) io \<Rightarrow> ('w, 'a) io" where
  "overWire m = call m (\<lambda>e. fail (wireError e)) ret"

definition apiClient ::
    "'e service \<Rightarrow> ('e, 'p, 'v) oidc \<Rightarrow> ('e, 'l) bucket \<Rightarrow> metadata option \<Rightarrow> string \<Rightarrow> ('v, 'l, 'e) apiworld volume_client" where
  "apiClient s oi b md requestID =
     \<lparr>vc_CreateVolume = (\<lambda>req. overWire (unaryCall (sv_client s) oi b md requestID (\<lambda>ctx. ApiCreateVolume s ctx req))),
      vc_DeleteVolume = (\<lambda>i. overWire (unaryCall (sv_client s) oi b md requestID (\<lambda>ctx. ApiDeleteVolume s ctx i))),
      vc_AttachVolume = (\<lambda>req. overWire (unaryCall (sv_client s) oi b md requestID (\<lambda>ctx. ApiAttachVolume s ctx req))),
      vc_DetachVolume = (\<lambda>i node _. overWire (unaryCall (sv_client s) oi b md requestID (\<lambda>ctx. ApiDetachVolume s ctx i node))),
      vc_ExpandVolume = (\<lambda>i bytes. overWire (unaryCall (sv_client s) oi b md requestID (\<lambda>ctx. ApiExpandVolume s ctx i bytes))),
      vc_ModifyVolume = (\<lambda>i ps. overWire (unaryCall (sv_client s) oi b md requestID (\<lambda>ctx. ApiModifyVolume s ctx i ps))),
      vc_CreateSnapshot = (\<lambda>name src zone. overWire (unaryCall (sv_client s) oi b md requestID (\<lambda>ctx. ApiCreateSnapshot s ctx name src zone))),
      vc_DeleteSnapshot = (\<lambda>i. overWire (unaryCall (sv_client s) oi b md requestID (\<lambda>ctx. ApiDeleteSnapshot s ctx i))),
      vc_ListSnapshots = (\<lambda>req. overWire (unaryCall (sv_client s) oi b md requestID (\<lambda>ctx. ApiListSnapshots s ctx req)))\<rparr>"

text \<open>The RPCs of the CSI controller that reach the API, and the handler of each.\<close>

datatype csi_call =
    CsiCreateVolume create_request
  | CsiDeleteVolume string
  | CsiPublishVolume publish_request
  | CsiUnpublishVolume string string
  | CsiExpandVolume string "(int \<times> int) option"
  | CsiModifyVolume string gomap
  | CsiCreateSnapshot string string gomap
  | CsiDeleteSnapshot string
  | CsiListSnapshots csi_list_snapshots

fun remoteServe :: "'w volume_client \<Rightarrow> csi_call \<Rightarrow> ('w, unit) io" where
  "remoteServe cl (CsiCreateVolume req) = bindE (remoteCreateVolume cl req) (\<lambda>_. ret ())"
| "remoteServe cl (CsiDeleteVolume i) = remoteDeleteVolume cl i"
| "remoteServe cl (CsiPublishVolume req) = bindE (remotePublishVolume cl req) (\<lambda>_. ret ())"
| "remoteServe cl (CsiUnpublishVolume i node) = remoteUnpublishVolume cl i node"
| "remoteServe cl (CsiExpandVolume i required) = bindE (remoteExpandVolume cl i required) (\<lambda>_. ret ())"
| "remoteServe cl (CsiModifyVolume i ps) = remoteModifyVolume cl i ps"
| "remoteServe cl (CsiCreateSnapshot name src ps) = bindE (remoteCreateSnapshot cl name src ps) (\<lambda>_. ret ())"
| "remoteServe cl (CsiDeleteSnapshot i) = remoteDeleteSnapshot cl i"
| "remoteServe cl (CsiListSnapshots req) = bindE (remoteListSnapshots cl req) (\<lambda>_. ret ())"

end
