(* ===== verification/Api_Safety.thy ===== *)
theory Api_Safety
  imports Operator_Authn Sample_Mgmt "HOL-Library.Code_Target_Nat"
begin

text \<open>
  What a call of the volume API may ask of the management cluster.  Every request of a handler stays inside the
  namespace of the tenant the call was authenticated for and none of them changes Proxmox; an attachment is only
  created for a VM of the tenant.
\<close>

section \<open>What is assumed of the management cluster\<close>

text \<open>A read in a namespace answers with objects of that namespace, and a write with the object it was given.\<close>

definition scoped_spec :: "'e mgmt \<Rightarrow> bool" where
  "scoped_spec g \<longleftrightarrow>
     (\<forall>ns n. returns (\<lambda>v. pvNamespace v = ns) (g_GetVolume g ns n)) \<and>
     (\<forall>ns n. returns (\<lambda>a. paNamespace a = ns) (g_GetAttachment g ns n)) \<and>
     (\<forall>ns n. returns (\<lambda>s. pnNamespace s = ns) (g_GetSnapshot g ns n)) \<and>
     (\<forall>ns i. returns (list_all (\<lambda>v. pvNamespace v = ns)) (g_ListByVolumeID g ns i)) \<and>
     (\<forall>ns i. returns (list_all (\<lambda>s. pnNamespace s = ns)) (g_ListBySnapshotID g ns i)) \<and>
     (\<forall>v. returns (\<lambda>v'. pvNamespace v' = pvNamespace v) (g_WriteVolume g (OCreate (KVolume v)))) \<and>
     (\<forall>v. returns (\<lambda>v'. pvNamespace v' = pvNamespace v) (g_WriteVolume g (OUpdate (KVolume v)))) \<and>
     (\<forall>a. returns (\<lambda>a'. paNamespace a' = paNamespace a) (g_WriteAttachment g (OCreate (KAttachment a)))) \<and>
     (\<forall>s. returns (\<lambda>s'. pnNamespace s' = pnNamespace s) (g_WriteSnapshot g (OCreate (KSnapshot s))))"

section \<open>Requests of a tenant\<close>

fun namespaceOf :: "kobj \<Rightarrow> string" where
  "namespaceOf (KVolume v) = pvNamespace v"
| "namespaceOf (KAttachment a) = paNamespace a"
| "namespaceOf (KSnapshot s) = pnNamespace s"
| "namespaceOf (KTenant t) = om_Namespace (tc_meta t)"
| "namespaceOf (KStorage s) = om_Namespace (ps_meta s)"

fun createdFor :: "ptenant \<Rightarrow> kobj \<Rightarrow> bool" where
  "createdFor t (KVolume v) \<longleftrightarrow> om_Labels (pv_meta v) = [(LabelTenant, tcName t)]"
| "createdFor t (KAttachment a) \<longleftrightarrow>
     om_Labels (pa_meta a) = [(LabelTenant, tcName t)] \<and> as_VMID (pa_spec a) \<in> set (tt_ResolvedVMIDs (tc_status t))"
| "createdFor t (KSnapshot s) \<longleftrightarrow> om_Labels (pn_meta s) = [(LabelTenant, tcName t)]"
| "createdFor t _ \<longleftrightarrow> False"

fun isTenantKind :: "kobj \<Rightarrow> bool" where
  "isTenantKind (KTenant t) = False"
| "isTenantKind (KStorage s) = False"
| "isTenantKind _ = True"

fun confined :: "ptenant \<Rightarrow> oreq \<Rightarrow> bool" where
  "confined t (OGet k ns n) \<longleftrightarrow> ns = tn_Namespace (tc_spec t)"
| "confined t (OList k ns) \<longleftrightarrow> ns = tn_Namespace (tc_spec t)"
| "confined t (OListBy k ns f v) \<longleftrightarrow> ns = tn_Namespace (tc_spec t)"
| "confined t (OListAll k) \<longleftrightarrow> k = ''ProxmoxStorage''"
| "confined t (OCreate ob) \<longleftrightarrow> namespaceOf ob = tn_Namespace (tc_spec t) \<and> createdFor t ob"
| "confined t (OUpdate ob) \<longleftrightarrow> namespaceOf ob = tn_Namespace (tc_spec t) \<and> isTenantKind ob"
| "confined t (ODelete ob) \<longleftrightarrow> namespaceOf ob = tn_Namespace (tc_spec t) \<and> isTenantKind ob"
| "confined t (PxRead s) \<longleftrightarrow> s = ''vms/'' @ tn_Region (tc_spec t)"
| "confined t (OSend storage) \<longleftrightarrow> storage \<in> set (tn_AllowedStorages (tc_spec t))"
| "confined t _ \<longleftrightarrow> False"

abbreviation tns :: "ptenant \<Rightarrow> string" where
  "tns t \<equiv> tn_Namespace (tc_spec t)"

abbreviation tenantEmits :: "ptenant \<Rightarrow> ('e oworld, 'a) io \<Rightarrow> bool" where
  "tenantEmits t \<equiv> emits (confined t)"

section \<open>Reads and writes\<close>

named_theorems api_emits \<open>the requests of a handler, with what is known of the answers\<close>

lemma returns_invoke: "returns B f \<Longrightarrow> returns B (invoke r f)"
  by (fastforce simp: returns_def invoke_def split: prod.splits)

lemma emits_read:
  assumes "returns B f" "P r" "\<And>e. emits P (h e)" "\<And>x. B x \<Longrightarrow> emits P (k x)"
  shows "emits P (call (invoke r f) h k)"
  by (rule emits_callR [where B = B]) (use assms in \<open>auto intro: returns_invoke emits_invoke\<close>)

lemma emits_scoped [api_emits]:
  assumes "scoped_spec g" "\<And>e. emits P (h e)"
  shows "P (OGet ''ProxmoxVolume'' ns n) \<Longrightarrow> (\<And>v. pvNamespace v = ns \<Longrightarrow> emits P (kv v)) \<Longrightarrow> emits P (call (GetVolume g ns n) h kv)"
    and "P (OGet ''ProxmoxVolumeAttachment'' ns n) \<Longrightarrow> (\<And>a. paNamespace a = ns \<Longrightarrow> emits P (ka a)) \<Longrightarrow> emits P (call (GetAttachment g ns n) h ka)"
    and "P (OGet ''ProxmoxVolumeSnapshot'' ns n) \<Longrightarrow> (\<And>s. pnNamespace s = ns \<Longrightarrow> emits P (ks s)) \<Longrightarrow> emits P (call (GetSnapshot g ns n) h ks)"
    and "P (OListBy ''ProxmoxVolume'' ns ''volumeID'' i) \<Longrightarrow> (\<And>vs. list_all (\<lambda>v. pvNamespace v = ns) vs \<Longrightarrow> emits P (kvs vs)) \<Longrightarrow>
           emits P (call (ListByVolumeID g ns i) h kvs)"
    and "P (OListBy ''ProxmoxVolumeSnapshot'' ns ''snapshotID'' i) \<Longrightarrow> (\<And>ss. list_all (\<lambda>s. pnNamespace s = ns) ss \<Longrightarrow> emits P (kss ss)) \<Longrightarrow>
           emits P (call (ListBySnapshotID g ns i) h kss)"
    and "P (OCreate (KVolume v)) \<Longrightarrow> (\<And>v'. pvNamespace v' = pvNamespace v \<Longrightarrow> emits P (kv v')) \<Longrightarrow>
           emits P (call (WriteVolume g (OCreate (KVolume v))) h kv)"
    and "P (OUpdate (KVolume v)) \<Longrightarrow> (\<And>v'. pvNamespace v' = pvNamespace v \<Longrightarrow> emits P (kv v')) \<Longrightarrow>
           emits P (call (WriteVolume g (OUpdate (KVolume v))) h kv)"
    and "P (OCreate (KAttachment a)) \<Longrightarrow> (\<And>a'. paNamespace a' = paNamespace a \<Longrightarrow> emits P (ka a')) \<Longrightarrow>
           emits P (call (WriteAttachment g (OCreate (KAttachment a))) h ka)"
    and "P (OCreate (KSnapshot s)) \<Longrightarrow> (\<And>s'. pnNamespace s' = pnNamespace s \<Longrightarrow> emits P (ks s')) \<Longrightarrow>
           emits P (call (WriteSnapshot g (OCreate (KSnapshot s))) h ks)"
  using assms unfolding scoped_spec_def by (auto intro!: emits_read)

lemma emits_list [api_emits]:
  "emits P a \<Longrightarrow> (\<And>y ys. s = y # ys \<Longrightarrow> emits P (g y ys)) \<Longrightarrow> emits P (case s of [] \<Rightarrow> a | y # ys \<Rightarrow> g y ys)"
  by (simp split: list.split)

lemma emits_withTenant [api_emits]:
  "(\<And>t. ctx_tenant ctx = Some t \<Longrightarrow> emits P (k t)) \<Longrightarrow> emits P (withTenant ctx k)"
  by (simp add: withTenant_def emits_fail split: option.split)

section \<open>Handlers\<close>

lemma newMeta_simps [simp]:
  "om_Namespace (newMeta t i n) = tns t" "om_Labels (newMeta t i n) = [(LabelTenant, tcName t)]" "om_Name (newMeta t i n) = n"
  by (simp_all add: newMeta_def)

lemma created_meta [simp]:
  "pv_meta (newVolume ctx t req) = newMeta t (ctx_requestID ctx) (cq_Name req)"
  "pa_meta (newAttachment ctx t areq n vol vmid) = newMeta t (ctx_requestID ctx) n"
  "as_VMID (pa_spec (newAttachment ctx t areq n vol vmid)) = vmid"
  "pn_meta (newSnapshot ctx t n srcVol src zone) = newMeta t (ctx_requestID ctx) n"
  by (simp_all add: newVolume_def newAttachment_def newSnapshot_def)

lemma emits_volumeAnswer [api_emits]: "pvNamespace vol = tns t \<Longrightarrow> tenantEmits t (volumeAnswer s vol)"
  unfolding volumeAnswer_def Let_def by (intro emits_intros) auto

lemma emits_ApiCreateVolume [api_emits]:
  assumes "scoped_spec (sv_client s)" "ctx_tenant ctx = Some t"
  shows "tenantEmits t (ApiCreateVolume s ctx req)"
  unfolding ApiCreateVolume_def Let_def withTenant_def assms(2) option.case
  by (rule assms(1) emits_if emits_fail api_emits | (simp; fail))+

lemma emits_ApiDeleteVolume [api_emits]:
  assumes "scoped_spec (sv_client s)" "ctx_tenant ctx = Some t"
  shows "tenantEmits t (ApiDeleteVolume s ctx i)"
  unfolding ApiDeleteVolume_def Let_def withTenant_def assms(2) option.case
  by (rule assms(1) emits_if emits_fail emits_ret api_emits emits_call emits_invoke | (simp; fail))+

lemma volumeByID_scoped:
  assumes "scoped_spec (sv_client s)"
  shows "tenantEmits t (volumeByID s (tns t) i)" "returns (\<lambda>v. pvNamespace v = ns) (volumeByID s ns i)"
proof -
  show "tenantEmits t (volumeByID s (tns t) i)"
    unfolding volumeByID_def by (rule assms emits_fail emits_ret api_emits | (simp; fail))+
  have "returns (list_all (\<lambda>v. pvNamespace v = ns)) (ListByVolumeID (sv_client s) ns i)"
    using assms by (auto simp: scoped_spec_def intro: returns_invoke)
  then show "returns (\<lambda>v. pvNamespace v = ns) (volumeByID s ns i)"
    unfolding volumeByID_def by (rule returns_call) (auto intro: returns_intros split: list.split)
qed

lemma snapshotByID_scoped:
  assumes "scoped_spec (sv_client s)"
  shows "tenantEmits t (snapshotByID s (tns t) i)" "returns (\<lambda>v. pnNamespace v = ns) (snapshotByID s ns i)"
proof -
  show "tenantEmits t (snapshotByID s (tns t) i)"
    unfolding snapshotByID_def by (rule assms emits_fail emits_ret api_emits | (simp; fail))+
  have "returns (list_all (\<lambda>v. pnNamespace v = ns)) (ListBySnapshotID (sv_client s) ns i)"
    using assms by (auto simp: scoped_spec_def intro: returns_invoke)
  then show "returns (\<lambda>v. pnNamespace v = ns) (snapshotByID s ns i)"
    unfolding snapshotByID_def by (rule returns_call) (auto intro: returns_intros split: list.split)
qed

lemma emits_byVolumeID [api_emits]:
  assumes "scoped_spec (sv_client s)" "\<And>v. pvNamespace v = tns t \<Longrightarrow> tenantEmits t (k v)"
  shows "tenantEmits t (bindE (volumeByID s (tns t) i) k)"
  using assms by (intro emits_bindR [OF volumeByID_scoped(2) volumeByID_scoped(1)]) auto

lemma emits_bySnapshotID [api_emits]:
  assumes "scoped_spec (sv_client s)" "tenantEmits t a" "\<And>v. pnNamespace v = tns t \<Longrightarrow> tenantEmits t (k v)"
  shows "tenantEmits t (orNotFound (snapshotByID s (tns t) i) a k)"
  unfolding orNotFound_def using assms
  by (intro emits_callR [OF snapshotByID_scoped(2) snapshotByID_scoped(1)]) (auto intro: emits_intros)

lemma emits_notReady [api_emits]: "emits P (notReady vol)"
  unfolding notReady_def by (rule emits_fail)

lemma emits_rereadCapacity [api_emits]:
  assumes "scoped_spec (sv_client s)" "pvNamespace vol = tns t"
  shows "tenantEmits t (rereadCapacity s n vol)"
  unfolding rereadCapacity_def
  by (rule assms(1) emits_if emits_fail emits_ret api_emits | (simp add: assms(2); fail))+

lemma emits_ApiExpandVolume [api_emits]:
  assumes "scoped_spec (sv_client s)" "ctx_tenant ctx = Some t"
  shows "tenantEmits t (ApiExpandVolume s ctx i n)"
  unfolding ApiExpandVolume_def Let_def withTenant_def assms(2) option.case
  by (rule assms(1) emits_if emits_fail emits_ret api_emits | (simp; fail))+

lemma emits_ApiModifyVolume [api_emits]:
  assumes "scoped_spec (sv_client s)" "ctx_tenant ctx = Some t"
  shows "tenantEmits t (ApiModifyVolume s ctx i ps)"
  unfolding ApiModifyVolume_def Let_def withTenant_def assms(2) option.case
  by (rule assms(1) emits_if emits_fail emits_ret api_emits emits_option emits_call emits_invoke | (simp; fail))+

lemma resolveVMID_scoped: "tenantEmits t (resolveVMID s t node vmid)"
  unfolding resolveVMID_def resolveVMIDByName_def Let_def
  by (auto intro!: emits_intros simp: emits_ret emits_fail split: sum.split option.split list.split)

lemma filter_single: "filter P xs = [x] \<Longrightarrow> P x \<and> x \<in> set xs"
  by (auto simp: filter_eq_Cons_iff)

lemma resolveVMIDByName_returns: "returns (\<lambda>i. i \<in> set (tt_ResolvedVMIDs (tc_status t))) (resolveVMIDByName s t node)"
  unfolding resolveVMIDByName_def
  by (auto intro!: returns_intros simp: map_eq_Cons_conv dest!: filter_single split: list.split)

lemma resolveVMID_returns: "returns (\<lambda>i. i \<in> set (tt_ResolvedVMIDs (tc_status t))) (resolveVMID s t node vmid)"
  unfolding resolveVMID_def Let_def
  by (auto intro: returns_intros resolveVMIDByName_returns split: sum.split)

lemma emits_resolveVMID [api_emits]:
  assumes "\<And>i. i \<in> set (tt_ResolvedVMIDs (tc_status t)) \<Longrightarrow> tenantEmits t (k i)"
  shows "tenantEmits t (bindE (resolveVMID s t node vmid) k)"
  using assms by (rule emits_bindR [OF resolveVMID_returns resolveVMID_scoped])

lemma emits_attachAnswer [api_emits]: "paNamespace att = tns t \<Longrightarrow> tenantEmits t (attachAnswer s req vol vmid att)"
  unfolding attachAnswer_def Let_def by (intro emits_intros) auto

lemma emits_ApiAttachVolume [api_emits]:
  assumes "scoped_spec (sv_client s)" "ctx_tenant ctx = Some t"
  shows "tenantEmits t (ApiAttachVolume s ctx req)"
  unfolding ApiAttachVolume_def Let_def withTenant_def assms(2) option.case
  by (rule assms(1) emits_if emits_fail emits_ret api_emits | (simp; fail))+

lemma emits_ApiDetachVolume [api_emits]:
  assumes "scoped_spec (sv_client s)" "ctx_tenant ctx = Some t"
  shows "tenantEmits t (ApiDetachVolume s ctx i node)"
  unfolding ApiDetachVolume_def Let_def withTenant_def assms(2) option.case
  by (rule assms(1) emits_if emits_fail emits_ret api_emits emits_call emits_invoke | (simp; fail))+

lemma emits_createdSnapshot [api_emits]: "pnNamespace snap = tns t \<Longrightarrow> tenantEmits t (createdSnapshot s snap)"
  unfolding createdSnapshot_def Let_def by (intro emits_intros) auto

lemma emits_ApiCreateSnapshot [api_emits]:
  assumes "scoped_spec (sv_client s)" "ctx_tenant ctx = Some t"
  shows "tenantEmits t (ApiCreateSnapshot s ctx n src zone)"
  unfolding ApiCreateSnapshot_def Let_def withTenant_def assms(2) option.case
  by (rule assms(1) emits_if emits_fail emits_ret api_emits | (simp; fail))+

lemma emits_ApiDeleteSnapshot [api_emits]:
  assumes "scoped_spec (sv_client s)" "ctx_tenant ctx = Some t"
  shows "tenantEmits t (ApiDeleteSnapshot s ctx i)"
  unfolding ApiDeleteSnapshot_def Let_def withTenant_def assms(2) option.case
  by (rule assms(1) emits_if emits_fail emits_ret api_emits emits_call emits_invoke | (simp; fail))+

lemma emits_ApiListSnapshots [api_emits]:
  assumes "scoped_spec (sv_client s)" "ctx_tenant ctx = Some t"
  shows "tenantEmits t (ApiListSnapshots s ctx req)"
  unfolding ApiListSnapshots_def Let_def withTenant_def assms(2) option.case
  by (rule assms(1) emits_if emits_fail emits_ret emits_lift api_emits emits_option emits_call emits_invoke | (simp; fail))+

lemma emits_sendEach:
  "(\<And>m. m \<in> set ms \<Longrightarrow> P (OSend (cm_Storage m))) \<Longrightarrow> emits P (sendEach send ms)"
  by (induction ms) (auto intro!: emits_intros)

lemma emits_WatchCapacity [api_emits]:
  assumes "ctx_tenant ctx = Some t"
  shows "tenantEmits t (WatchCapacity s ctx storage zone send n)"
proof -
  have poll: "tenantEmits t (sendCapacity s t storage zone send)"
    unfolding sendCapacity_def by (intro emits_intros emits_sendEach) (auto simp: offered_def capacityMessage_def)
  have "tenantEmits t (watchLoop (sendCapacity s t storage zone send) n)"
    by (induction n) (auto intro: emits_intros poll)
  then show ?thesis unfolding WatchCapacity_def withTenant_def assms option.case .
qed

section \<open>Calls through the server\<close>

text \<open>The requests of a run of the server, whose world also holds its verifiers and limiters.\<close>

definition apiSent :: "(('v, 'l, 'e) apiworld, 'a) io \<Rightarrow> ('v, 'l, 'e) apiworld \<Rightarrow> ('e \<times> oreq) list" where
  "apiSent m sw = drop (length (trace (snd sw))) (trace (snd (snd (m sw))))"

definition apiEmits :: "(oreq \<Rightarrow> bool) \<Rightarrow> (('v, 'l, 'e) apiworld, 'a) io \<Rightarrow> bool" where
  "apiEmits P m \<longleftrightarrow> (\<forall>sw. \<exists>rs. trace (snd (snd (m sw))) = trace (snd sw) @ rs \<and> list_all (\<lambda>r. P (snd r)) rs)"

named_theorems server_emits \<open>composition rules for the requests of the server\<close>

lemma apiEmits_sent: "apiEmits P m \<Longrightarrow> r \<in> set (apiSent m sw) \<Longrightarrow> P (snd r)"
  unfolding apiEmits_def apiSent_def list_all_iff by (metis append_eq_conv_conj)

lemma apiEmits_ret [server_emits]: "apiEmits P (ret x)"
  by (simp add: apiEmits_def ret_def)

lemma apiEmits_fail [server_emits]: "apiEmits P (fail e)"
  by (simp add: apiEmits_def fail_def)

lemma apiEmits_lift [server_emits]: "apiEmits P (lift r)"
  by (simp add: apiEmits_def lift_def)

lemma apiEmits_onWorld [server_emits]:
  assumes "emits P m" shows "apiEmits P (onWorld m)"
  using assms by (simp add: apiEmits_def emits_def triple_def onWorld_def list_all_iff case_prod_unfold)

lemma apiEmits_callR:
  assumes "returns B m" "apiEmits P m" "\<And>e. apiEmits P (h e)" "\<And>x. B x \<Longrightarrow> apiEmits P (k x)"
  shows "apiEmits P (call m h k)"
  unfolding apiEmits_def
proof
  fix sw
  obtain r sw1 where m1: "m sw = (r, sw1)" by (rule prod.exhaust)
  define n where "n = (case r of Inl e \<Rightarrow> h e | Inr x \<Rightarrow> k x)"
  have "B x" if "r = Inr x" for x using returnsD [OF assms(1), of sw x sw1] m1 that by simp
  then have "apiEmits P n" using assms(3,4) by (simp add: n_def split: sum.split)
  moreover have "call m h k sw = n sw1" using m1 by (auto simp: call_def n_def split: sum.split)
  moreover obtain rs where "trace (snd sw1) = trace (snd sw) @ rs" "list_all (\<lambda>r. P (snd r)) rs"
    using assms(2) m1 unfolding apiEmits_def by (metis snd_conv)
  ultimately show "\<exists>rs. trace (snd (snd (call m h k sw))) = trace (snd sw) @ rs \<and> list_all (\<lambda>r. P (snd r)) rs"
    unfolding apiEmits_def by (metis append.assoc list_all_append)
qed

lemma apiEmits_bindR:
  assumes "returns B m" "apiEmits P m" "\<And>x. B x \<Longrightarrow> apiEmits P (k x)"
  shows "apiEmits P (bindE m k)"
  unfolding bindE_def using assms by (intro apiEmits_callR [OF assms(1,2)] apiEmits_fail)

lemma apiEmits_call [server_emits]:
  "apiEmits P m \<Longrightarrow> (\<And>e. apiEmits P (h e)) \<Longrightarrow> (\<And>x. apiEmits P (k x)) \<Longrightarrow> apiEmits P (call m h k)"
  by (rule apiEmits_callR [OF returns_any])

lemma apiEmits_if [server_emits]: "(b \<Longrightarrow> apiEmits P m) \<Longrightarrow> (\<not> b \<Longrightarrow> apiEmits P n) \<Longrightarrow> apiEmits P (if b then m else n)"
  by simp

lemma apiEmits_lookup:
  "(\<And>v. apiEmits P (f v)) \<Longrightarrow> apiEmits P m \<Longrightarrow> apiEmits P (\<lambda>sw. case c sw of Some v \<Rightarrow> f v sw | None \<Rightarrow> m sw)"
  by (simp add: apiEmits_def split: option.split)

lemma apiEmits_keep: "apiEmits P (\<lambda>(st, w). ret v (f st, w))"
  by (simp add: apiEmits_def ret_def split_beta)

lemma apiEmits_getVerifier [server_emits]: "P (OidcFetch issuer) \<Longrightarrow> apiEmits P (getVerifier oi issuer azp)"
  unfolding getVerifier_def [abs_def] Let_def
  by (intro apiEmits_lookup server_emits apiEmits_keep emits_invoke)

lemma apiEmits_rateLimited [server_emits]: "apiEmits P handler \<Longrightarrow> apiEmits P (rateLimited b t handler)"
  by (fastforce simp: apiEmits_def rateLimited_def fail_def Let_def split: option.split prod.split)

lemma apiEmits_recovering [server_emits]: "apiEmits P handler \<Longrightarrow> apiEmits P (recovering handler)"
  unfolding recovering_def by (intro server_emits)

section \<open>Authentication\<close>

text \<open>The requests that authenticating a call makes.\<close>

definition authRequest :: "metadata option \<Rightarrow> oreq \<Rightarrow> bool" where
  "authRequest md q \<longleftrightarrow> (\<exists>tok claims. bearerToken md = Inr tok \<and> tokenClaims tok = Inr claims \<and>
     q \<in> {OListAll ''TenantCluster'', OidcFetch (jc_Issuer claims), OidcVerify tok})"

text \<open>The tenant a call acts for: the only one registered for the issuer and the client of its token, admitted,
  and with the token verified.\<close>

definition authenticatedAs :: "'e mgmt \<Rightarrow> ('e, 'p, 'v) oidc \<Rightarrow> metadata option \<Rightarrow> ptenant \<Rightarrow> bool" where
  "authenticatedAs g oi md t \<longleftrightarrow> (\<exists>tok claims.
     bearerToken md = Inr tok \<and> tokenClaims tok = Inr claims \<and>
     (\<exists>e tenants. fst (g_ListTenants g e) = Inr tenants \<and> matchingTenants tenants (jc_Issuer claims) (jc_AZP claims) = [t]) \<and>
     IsStatusConditionTrue g (tt_Conditions (tc_status t)) ConditionAdmitted \<and>
     (\<exists>v e. fst (oi_Verify oi v tok e) = Inr ()))"

definition resolved :: "'e mgmt \<Rightarrow> string \<Rightarrow> string \<Rightarrow> ptenant \<Rightarrow> bool" where
  "resolved g issuer azp t \<longleftrightarrow>
     (\<exists>e tenants. fst (g_ListTenants g e) = Inr tenants \<and> matchingTenants tenants issuer azp = [t]) \<and>
     IsStatusConditionTrue g (tt_Conditions (tc_status t)) ConditionAdmitted"

lemma returns_onWorld: "returns B m \<Longrightarrow> returns B (onWorld m)"
  by (fastforce simp: returns_def onWorld_def split: prod.splits)

lemma returns_answer: "returns (\<lambda>x. \<exists>e. fst (f e) = Inr x) (invoke r f)"
  unfolding returns_def invoke_def by (auto split: prod.splits) (metis fst_conv)

lemma returns_resolveTenant: "returns (resolved g issuer azp) (resolveTenant g issuer azp)"
  unfolding resolveTenant_def
proof (rule returns_call [OF returns_answer])
  fix tenants assume "\<exists>e. fst (g_ListTenants g e) = Inr tenants"
  then have "resolved g issuer azp t" if "matchingTenants tenants issuer azp = [t]"
      "IsStatusConditionTrue g (tt_Conditions (tc_status t)) ConditionAdmitted" for t
    using that unfolding resolved_def by blast
  then show "returns (resolved g issuer azp) (case matchingTenants tenants issuer azp of
          [] \<Rightarrow> statusError PermissionDenied (''no tenant matches issuer '' @ issuer @ '' and subject pvx:'' @ azp)
        | [tenant] \<Rightarrow>
            if IsStatusConditionTrue g (tt_Conditions (tc_status tenant)) ConditionAdmitted then ret tenant
            else statusError PermissionDenied (''tenant '' @ tcName tenant @ '' is not admitted'')
        | matches \<Rightarrow> statusError PermissionDenied (''ambiguous: '' @ Itoa (int (length matches)) @ '' tenants match issuer '' @ issuer @
                       '' and subject pvx:'' @ azp))"
    by (auto intro: returns_ret returns_fail split: list.split)
qed (rule returns_fail)

lemma returns_lifted: "returns (\<lambda>x. r = Inr x) (lift r)"
  by (rule returns_lift)

lemma returns_authenticate: "returns (authenticatedAs g oi md) (authenticate g oi md)"
  unfolding authenticate_def
proof (rule returns_bindE [OF returns_lifted], rule returns_bindE [OF returns_lifted],
    rule returns_bindE [OF returns_onWorld [OF returns_resolveTenant]], rule returns_call [OF returns_any], rule returns_fail,
    rule returns_call [OF returns_onWorld [OF returns_answer]], rule returns_fail, rule returns_ret)
  fix tok claims t v u
  assume "bearerToken md = Inr tok" "tokenClaims tok = Inr claims" "resolved g (jc_Issuer claims) (jc_AZP claims) t"
    "\<exists>e. fst (oi_Verify oi v tok e) = Inr u"
  then show "authenticatedAs g oi md t" unfolding authenticatedAs_def resolved_def by auto
qed

lemma emits_resolveTenant: "P (OListAll ''TenantCluster'') \<Longrightarrow> emits P (resolveTenant g issuer azp)"
  unfolding resolveTenant_def by (auto intro!: emits_intros split: list.split simp: emits_ret emits_fail)

lemma apiEmits_authenticate: "apiEmits (authRequest md) (authenticate g oi md)"
  unfolding authenticate_def
proof (intro apiEmits_bindR [OF returns_lifted] apiEmits_lift)
  fix tok claims assume "bearerToken md = Inr tok" "tokenClaims tok = Inr claims"
  then have "authRequest md (OListAll ''TenantCluster'')" "authRequest md (OidcFetch (jc_Issuer claims))" "authRequest md (OidcVerify tok)"
    by (auto simp: authRequest_def)
  then show "apiEmits (authRequest md) (bindE (onWorld (resolveTenant g (jc_Issuer claims) (jc_AZP claims))) (\<lambda>tenant.
     call (getVerifier oi (jc_Issuer claims) (jc_AZP claims)) (\<lambda>e. statusError Unauthenticated (''OIDC verification failed: '' @ Error e)) (\<lambda>verifier.
     call (onWorld (invoke (OidcVerify tok) (oi_Verify oi verifier tok)))
       (\<lambda>e. statusError Unauthenticated (''token verification failed: '' @ Error e)) (\<lambda>_. ret tenant))))"
    by (intro apiEmits_bindR [OF returns_any] server_emits emits_resolveTenant emits_invoke)
qed

text \<open>A call that the interceptors let through is confined to the tenant it was authenticated for.\<close>

definition tenantRequest :: "'e mgmt \<Rightarrow> ('e, 'p, 'v) oidc \<Rightarrow> metadata option \<Rightarrow> oreq \<Rightarrow> bool" where
  "tenantRequest g oi md q \<longleftrightarrow> authRequest md q \<or> (\<exists>t. authenticatedAs g oi md t \<and> confined t q)"

lemma apiEmits_mono: "apiEmits P m \<Longrightarrow> (\<And>q. P q \<Longrightarrow> Q q) \<Longrightarrow> apiEmits Q m"
  unfolding apiEmits_def list_all_iff by metis

lemma apiEmits_unaryCall [server_emits]:
  assumes "\<And>ctx t. ctx_tenant ctx = Some t \<Longrightarrow> tenantEmits t (handler ctx)"
  shows "apiEmits (tenantRequest g oi md) (unaryCall g oi b md requestID handler)"
  unfolding unaryCall_def
proof (intro apiEmits_recovering apiEmits_bindR [OF returns_authenticate] apiEmits_rateLimited apiEmits_onWorld)
  show "apiEmits (tenantRequest g oi md) (authenticate g oi md)"
    using apiEmits_authenticate by (rule apiEmits_mono) (simp add: tenantRequest_def)
  fix t assume t: "authenticatedAs g oi md t"
  have "emits (confined t) (handler \<lparr>ctx_tenant = Some t, ctx_requestID = requestID\<rparr>)" using assms by simp
  then show "emits (tenantRequest g oi md) (handler \<lparr>ctx_tenant = Some t, ctx_requestID = requestID\<rparr>)"
    using t by (auto simp: tenantRequest_def elim!: emits_mono)
qed

section \<open>Verifiers\<close>

text \<open>A verifier made for an issuer and a client.  The library documents that it only accepts tokens of its issuer
  whose audience has its client.\<close>

definition verifierFor :: "('e, 'p, 'v) oidc \<Rightarrow> string \<Rightarrow> string \<Rightarrow> 'v \<Rightarrow> bool" where
  "verifierFor oi issuer azp v \<longleftrightarrow> (\<exists>provider e. fst (oi_NewProvider oi issuer e) = Inr provider \<and> v = oi_Verifier oi provider azp)"

definition oidc_spec :: "('e, 'p, 'v) oidc \<Rightarrow> bool" where
  "oidc_spec oi \<longleftrightarrow> (\<forall>issuer azp v tok claims e.
     verifierFor oi issuer azp v \<and> fst (oi_Verify oi v tok e) = Inr () \<and> parseUnverifiedClaims tok = Inr claims \<longrightarrow>
       jc_Issuer claims = issuer \<and> azp \<in> set (jc_Audience claims))"

definition cache_ok :: "('e, 'p, 'v) oidc \<Rightarrow> ('v, 'l) api_state \<Rightarrow> bool" where
  "cache_ok oi st \<longleftrightarrow> (\<forall>key v. map_of (au_verifiers st) key = Some v \<longrightarrow>
     (\<exists>issuer azp. key = verifierKey issuer azp \<and> verifierFor oi issuer azp v))"

lemma lift_InrD: "lift r w = (Inr x, w') \<Longrightarrow> r = Inr x \<and> w' = w"
  by (simp add: lift_def)

lemma onWorld_InrD: "onWorld m sw = (r, sw') \<Longrightarrow> fst sw' = fst sw \<and> m (snd sw) = (r, snd sw')"
  by (auto simp: onWorld_def split: prod.splits)

lemma getVerifier_sound:
  assumes "cache_ok oi (fst sw)" "getVerifier oi issuer azp sw = (Inr v, sw')"
  shows "\<exists>issuer' azp'. verifierKey issuer' azp' = verifierKey issuer azp \<and> verifierFor oi issuer' azp' v" "cache_ok oi (fst sw')"
proof -
  have "(\<exists>issuer' azp'. verifierKey issuer' azp' = verifierKey issuer azp \<and> verifierFor oi issuer' azp' v) \<and> cache_ok oi (fst sw')"
  proof (cases "map_of (au_verifiers (fst sw)) (verifierKey issuer azp)")
    case (Some u)
    then show ?thesis using assms by (fastforce simp: getVerifier_def ret_def cache_ok_def)
  next
    case None
    obtain p sw1 where p: "onWorld (invoke (OidcFetch issuer) (oi_NewProvider oi issuer)) sw = (Inr p, sw1)"
      and k: "v = oi_Verifier oi p azp" "fst sw' = (fst sw1)\<lparr>au_verifiers := AList.update (verifierKey issuer azp) v (au_verifiers (fst sw1))\<rparr>"
      using assms(2) None by (auto simp: getVerifier_def ret_def Let_def split_beta elim!: call_fail_InrD)
    have "verifierFor oi issuer azp v"
      using onWorld_InrD [OF p] k returnsD [OF returns_answer] unfolding verifierFor_def by metis
    then show ?thesis using onWorld_InrD [OF p] k assms(1) by (auto simp: cache_ok_def update_conv)
  qed
  then show "\<exists>issuer' azp'. verifierKey issuer' azp' = verifierKey issuer azp \<and> verifierFor oi issuer' azp' v" "cache_ok oi (fst sw')"
    by auto
qed

lemma tokenClaimsD: "tokenClaims tok = Inr claims \<Longrightarrow> parseUnverifiedClaims tok = Inr claims \<and> jc_AZP claims \<in> set (jc_Audience claims)"
  by (auto simp: tokenClaims_def audienceContains_def split: sum.splits if_splits)

lemma matching_single: "matchingTenants ts issuer azp = [t] \<Longrightarrow> tn_Issuer (tc_spec t) = issuer \<and> tn_Subject (tc_spec t) = ''pvx:'' @ azp"
  unfolding matchingTenants_def by (drule filter_single) simp

text \<open>C7: a call is only let through as a tenant when its bearer token passed the check of a verifier made for the very
  issuer and client the tenant is registered with, and the tenant is admitted.  This holds although the verifiers are cached
  under keys that two different pairs can share, and it keeps the cache good for the next call.\<close>

theorem authenticate_sound:
  assumes "oidc_spec oi" "cache_ok oi (fst sw)" "authenticate g oi md sw = (Inr t, sw')"
  shows "(\<exists>tok claims v e. bearerToken md = Inr tok \<and> tokenClaims tok = Inr claims \<and>
            tn_Issuer (tc_spec t) = jc_Issuer claims \<and> tn_Subject (tc_spec t) = ''pvx:'' @ jc_AZP claims \<and>
            IsStatusConditionTrue g (tt_Conditions (tc_status t)) ConditionAdmitted \<and>
            verifierFor oi (tn_Issuer (tc_spec t)) (jc_AZP claims) v \<and> fst (oi_Verify oi v tok e) = Inr ()) \<and>
         cache_ok oi (fst sw')"
proof -
  obtain tok claims sw1 v sw2 where tok: "bearerToken md = Inr tok" "tokenClaims tok = Inr claims"
    and t: "onWorld (resolveTenant g (jc_Issuer claims) (jc_AZP claims)) sw = (Inr t, sw1)"
    and v: "getVerifier oi (jc_Issuer claims) (jc_AZP claims) sw1 = (Inr v, sw2)"
    and c: "onWorld (invoke (OidcVerify tok) (oi_Verify oi v tok)) sw2 = (Inr (), sw')"
    using assms(3) unfolding authenticate_def by (fastforce simp: ret_def elim!: bindE_InrD call_fail_InrD dest!: lift_InrD)
  have sw1: "cache_ok oi (fst sw1)" using assms(2) onWorld_InrD [OF t] by simp
  obtain issuer azp where key: "verifierKey issuer azp = verifierKey (jc_Issuer claims) (jc_AZP claims)" and vf: "verifierFor oi issuer azp v"
    using getVerifier_sound(1) [OF sw1 v] by blast
  obtain e where e: "fst (oi_Verify oi v tok e) = Inr ()"
    using returnsD [OF returns_answer] onWorld_InrD [OF c] by metis
  have "jc_Issuer claims = issuer" using assms(1) vf e tokenClaimsD [OF tok(2)] unfolding oidc_spec_def by blast
  then have "verifierFor oi (jc_Issuer claims) (jc_AZP claims) v" using key vf by (simp add: verifierKey_def)
  moreover have "resolved g (jc_Issuer claims) (jc_AZP claims) t"
    using returnsD [OF returns_resolveTenant] onWorld_InrD [OF t] by metis
  ultimately have "\<exists>tok claims v e. bearerToken md = Inr tok \<and> tokenClaims tok = Inr claims \<and>
           tn_Issuer (tc_spec t) = jc_Issuer claims \<and> tn_Subject (tc_spec t) = ''pvx:'' @ jc_AZP claims \<and>
           IsStatusConditionTrue g (tt_Conditions (tc_status t)) ConditionAdmitted \<and>
           verifierFor oi (tn_Issuer (tc_spec t)) (jc_AZP claims) v \<and> fst (oi_Verify oi v tok e) = Inr ()"
    using tok e matching_single unfolding resolved_def by metis
  then show ?thesis using getVerifier_sound(2) [OF sw1 v] onWorld_InrD [OF c] by simp
qed

text \<open>An OIDC library that checks the issuer and the audience, and a call with a token of the sample tenant.\<close>

definition sampleVerify :: "string \<times> string \<Rightarrow> string \<Rightarrow> ('e, unit) api" where
  "sampleVerify v tok e =
     (case parseUnverifiedClaims tok of
        Inr claims \<Rightarrow> (if jc_Issuer claims = fst v \<and> snd v \<in> set (jc_Audience claims) then Inr () else Inl (Plain ''rejected''), e)
      | Inl err \<Rightarrow> (Inl err, e))"

definition sampleOidc :: "(msim, string, string \<times> string) oidc" where
  "sampleOidc = \<lparr>oi_NewProvider = (\<lambda>issuer e. (Inr issuer, e)), oi_Verifier = Pair, oi_Verify = sampleVerify\<rparr>"

definition sampleToken :: string where
  "sampleToken = ''e30.eyJpc3MiOiJodHRwczovL2lkLmV4YW1wbGUuY29tIiwiYXpwIjoiYWxwaGEiLCJhdWQiOiJhbHBoYSJ9.e30''"

definition sampleMetadata :: "metadata option" where
  "sampleMetadata = Some [(''authorization'', [''Bearer '' @ sampleToken])]"

definition sampleApiWorld :: "(string \<times> string, unit, msim) apiworld" where
  "sampleApiWorld = (\<lparr>au_verifiers = [], rl_limiters = []\<rparr>, sampleOWorld)"

lemma sampleOidc_spec: "oidc_spec sampleOidc"
  by (auto simp: oidc_spec_def verifierFor_def sampleOidc_def sampleVerify_def split: sum.splits if_splits)

theorem authenticate_sound_witness:
  "\<exists>sw'. authenticate sampleMgmt sampleOidc sampleMetadata sampleApiWorld = (Inr sampleTenant, sw') \<and> cache_ok sampleOidc (fst sw')"
proof -
  have "fst (authenticate sampleMgmt sampleOidc sampleMetadata sampleApiWorld) = Inr sampleTenant" by code_simp
  then obtain sw' where sw': "authenticate sampleMgmt sampleOidc sampleMetadata sampleApiWorld = (Inr sampleTenant, sw')"
    by (metis prod.collapse)
  have "cache_ok sampleOidc (fst sampleApiWorld)" by (simp add: cache_ok_def sampleApiWorld_def)
  from authenticate_sound [OF sampleOidc_spec this sw'] sw' show ?thesis by blast
qed

end
