(* ===== verification/Remote_Safety.thy ===== *)
theory Remote_Safety
  imports Remote_Controller Api_Safety
begin

text \<open>
  The CSI controller of a tenant together with the API it calls: the requests a CSI call leads to in the management
  cluster, what the handlers make of the answers of any client that keeps the contract of the API, and the cache
  of capacities.
\<close>

section \<open>Isolation of tenants, end to end\<close>

lemma apiEmits_bindE [server_emits]: "apiEmits P m \<Longrightarrow> (\<And>x. apiEmits P (k x)) \<Longrightarrow> apiEmits P (bindE m k)"
  unfolding bindE_def by (intro server_emits)

lemma apiEmits_sum [server_emits]: "(\<And>x. apiEmits P (f x)) \<Longrightarrow> (\<And>y. apiEmits P (g y)) \<Longrightarrow> apiEmits P (case s of Inl x \<Rightarrow> f x | Inr y \<Rightarrow> g y)"
  by (simp split: sum.split)

lemma apiEmits_option [server_emits]: "apiEmits P a \<Longrightarrow> (\<And>y. apiEmits P (g y)) \<Longrightarrow> apiEmits P (case s of None \<Rightarrow> a | Some y \<Rightarrow> g y)"
  by (simp split: option.split)

lemma apiEmits_prod [server_emits]: "(\<And>x y. apiEmits P (f x y)) \<Longrightarrow> apiEmits P (case s of (x, y) \<Rightarrow> f x y)"
  by (simp split: prod.split)

lemma apiEmits_overWire [server_emits]: "apiEmits P m \<Longrightarrow> apiEmits P (overWire m)"
  unfolding overWire_def by (intro server_emits)

lemma apiEmits_apiClient [server_emits]:
  assumes "scoped_spec (sv_client s)"
  shows "apiEmits (tenantRequest (sv_client s) oi md) (vc_CreateVolume (apiClient s oi b md i) creq)"
    and "apiEmits (tenantRequest (sv_client s) oi md) (vc_DeleteVolume (apiClient s oi b md i) v)"
    and "apiEmits (tenantRequest (sv_client s) oi md) (vc_AttachVolume (apiClient s oi b md i) areq)"
    and "apiEmits (tenantRequest (sv_client s) oi md) (vc_DetachVolume (apiClient s oi b md i) v node vmid)"
    and "apiEmits (tenantRequest (sv_client s) oi md) (vc_ExpandVolume (apiClient s oi b md i) v n)"
    and "apiEmits (tenantRequest (sv_client s) oi md) (vc_ModifyVolume (apiClient s oi b md i) v ps)"
    and "apiEmits (tenantRequest (sv_client s) oi md) (vc_CreateSnapshot (apiClient s oi b md i) sn src zone)"
    and "apiEmits (tenantRequest (sv_client s) oi md) (vc_DeleteSnapshot (apiClient s oi b md i) sn)"
    and "apiEmits (tenantRequest (sv_client s) oi md) (vc_ListSnapshots (apiClient s oi b md i) lreq)"
  by (simp_all add: apiClient_def apiEmits_overWire apiEmits_unaryCall assms api_emits)

lemma apiEmits_remoteServe:
  assumes "scoped_spec (sv_client s)"
  shows "apiEmits (tenantRequest (sv_client s) oi md) (remoteServe (apiClient s oi b md i) c)"
  using assms
  by (cases c)
    (auto simp: remoteCreateVolume_def remoteDeleteVolume_def remotePublishVolume_def remoteUnpublishVolume_def remoteExpandVolume_def
      remoteModifyVolume_def remoteCreateSnapshot_def remoteDeleteSnapshot_def remoteListSnapshots_def intro!: server_emits)


lemma sampleMgmt_scoped: "scoped_spec sampleMgmt"
  by (auto simp: scoped_spec_def sampleMgmt_def returns_def simWrite_def pick_def list_all_iff volKey_def attKey_def snapKey_def
      find_Some_iff split: option.splits if_splits)

definition sampleService :: "msim service" where
  "sampleService = \<lparr>sv_client = sampleMgmt, sv_vms = None\<rparr>"

definition sampleBucket :: "(msim, unit) bucket" where
  "sampleBucket = \<lparr>rl_New = (), rl_Allow = (\<lambda>_ l. (True, l))\<rparr>"

definition sampleCreate :: create_request where
  "sampleCreate = \<lparr>cr_name = ''pvc-2'', cr_capabilities = Some [], cr_parameters = [(''storage'', ''lvm'')], cr_mutableParameters = [],
     cr_capacityRange = Some (1073741824, 0), cr_topology = Some \<lparr>tr_preferred = [segment ''region-1'' ''pve-1''], tr_requisite = []\<rparr>, cr_source = None\<rparr>"

definition sampleClient :: "(string \<times> string, unit, msim) apiworld volume_client" where
  "sampleClient = apiClient sampleService sampleOidc sampleBucket sampleMetadata ''req-1''"


section \<open>The contract of the API\<close>

text \<open>What the handlers rely on: an error that reaches them carries a status, and a volume that was expanded has
  at least the size asked for.\<close>

locale volume_api =
  fixes cl :: "'w volume_client"
  assumes status_errors:
      "fails carriesStatus (vc_CreateVolume cl creq)" "fails carriesStatus (vc_DeleteVolume cl v)"
      "fails carriesStatus (vc_AttachVolume cl areq)" "fails carriesStatus (vc_DetachVolume cl v node vmid)"
      "fails carriesStatus (vc_ExpandVolume cl v n)" "fails carriesStatus (vc_ModifyVolume cl v ps)"
      "fails carriesStatus (vc_CreateSnapshot cl sn src zone)" "fails carriesStatus (vc_DeleteSnapshot cl sn)"
      "fails carriesStatus (vc_ListSnapshots cl lreq)"
    and expands: "returns (\<lambda>r. n \<le> ep_CapacityBytes r) (vc_ExpandVolume cl v n)"
begin

lemma remotely_code:
  assumes "fails carriesStatus m" "m w = (Inl err, w')"
  shows "\<exists>msg. remotely m k w = (Inl (Status (statusCode err) (''remote: '' @ msg)), w')"
proof -
  have "carriesStatus err" using assms unfolding fails_def by blast
  then show ?thesis using assms(2)
    by (cases err) (auto simp: call_def fail_def translateError_def FromError_def)
qed

lemma delete_code:
  "v \<noteq> [] \<Longrightarrow> vc_DeleteVolume cl v w = (Inl err, w') \<Longrightarrow>
     \<exists>msg. remoteDeleteVolume cl v w = (Inl (Status (statusCode err) (''remote: '' @ msg)), w')"
  unfolding remoteDeleteVolume_def by (simp only: if_False) (rule remotely_code [OF status_errors(2)])

lemma create_code:
  assumes "protoCreate req = Inr p" "vc_CreateVolume cl p w = (Inl err, w')"
  shows "\<exists>msg. remoteCreateVolume cl req w = (Inl (Status (statusCode err) (''remote: '' @ msg)), w')"
  using remotely_code [OF status_errors(1) assms(2)] assms(1)
  by (auto simp: remoteCreateVolume_def bindE_def call_def lift_def split: prod.splits sum.splits)

lemma publish_code:
  assumes "pr_volumeId req \<noteq> []" "pr_nodeId req \<noteq> []"
    "vc_AttachVolume cl \<lparr>aq_VolumeId = pr_volumeId req, aq_NodeId = pr_nodeId req, aq_Vmid = requestVMID (pr_nodeId req), aq_Readonly = pr_readonly req\<rparr> w = (Inl err, w')"
  shows "\<exists>msg. remotePublishVolume cl req w = (Inl (Status (statusCode err) (''remote: '' @ msg)), w')"
  unfolding remotePublishVolume_def using assms(1,2)
  by (simp only: if_False) (rule remotely_code [OF status_errors(3) assms(3)])

lemma expand_enough: "returns (\<lambda>r. required \<le> ep_CapacityBytes r) (remoteExpandVolume cl v (Some (required, limit)))"
  unfolding remoteExpandVolume_def by (auto intro!: returns_intros returns_call [OF expands])

end

lemma wireError_status: "\<exists>c m. wireError e = Status c m"
  by (auto simp: wireError_def split: option.split)

lemma fails_overWire: "fails carriesStatus (overWire m)"
  unfolding overWire_def using wireError_status by (intro fails_call fails_fail fails_ret) (metis carriesStatus.simps(1))

lemma returns_overWire: "returns B m \<Longrightarrow> returns B (overWire m)"
  unfolding overWire_def by (erule returns_call) (auto intro: returns_intros)

lemma returns_rateLimited: "returns B handler \<Longrightarrow> returns B (rateLimited b t handler)"
  by (auto simp: rateLimited_def returns_def fail_def Let_def split: prod.splits if_splits option.splits)

lemma returns_unaryCall: "(\<And>ctx. returns B (handler ctx)) \<Longrightarrow> returns B (unaryCall g oi b md i handler)"
  unfolding unaryCall_def recovering_def
  by (rule returns_call [where A = B]) (auto intro!: returns_intros returns_rateLimited returns_onWorld)

lemma returns_ApiExpandVolume: "returns (\<lambda>r. n \<le> ep_CapacityBytes r) (ApiExpandVolume s ctx v n)"
  unfolding ApiExpandVolume_def withTenant_def rereadCapacity_def notReady_def
  by (auto intro!: returns_intros split: option.split)

interpretation api: volume_api "apiClient s oi b md i"
  by unfold_locales (simp_all add: apiClient_def fails_overWire returns_overWire returns_unaryCall returns_ApiExpandVolume)

text \<open>An expansion that the CSI controller of a tenant reports as done has at least the size that was asked for, through
  the whole chain of client, interceptors and handler.\<close>

theorem remote_expand_enough:
  "returns (\<lambda>r. required \<le> ep_CapacityBytes r) (remoteExpandVolume (apiClient s oi b md i) v (Some (required, limit)))"
  by (rule api.expand_enough)

section \<open>Where a volume goes\<close>

text \<open>A segment with the labels of Kubernetes only.\<close>

definition plainSegment :: "gomap \<Rightarrow> bool" where
  "plainSegment seg \<longleftrightarrow> (\<forall>key \<in> {ProxmoxRegion, ProxmoxRegionLegacy, ProxmoxNode, ProxmoxNodeLegacy}. mget seg key = [])"

lemma plain_topology: "plainSegment seg \<Longrightarrow> GetNodeTopology seg = (mget seg LabelTopologyRegion, mget seg LabelTopologyZone)"
  by (simp add: plainSegment_def GetNodeTopology_def)

lemma accessibilityLoop_eq: "list_all plainSegment segs \<Longrightarrow> accessibilityLoop segs region = locationLoop segs region"
  by (induction segs arbitrary: region) (simp_all add: plain_topology Let_def)

text \<open>The CSI controller of a tenant and the one that talks to Proxmox itself place a volume alike, for topologies that only
  carry the labels of Kubernetes.\<close>

theorem remote_location_agrees:
  assumes "list_all plainSegment (tr_preferred t)" "list_all plainSegment (tr_requisite t)"
  shows "locationFromAccessibility (Some t) = locationFromTopologyRequirement (Some t)"
  using assms by (simp add: locationFromAccessibility_def locationFromTopologyRequirement_def accessibilityLoop_eq split: sum.split)

theorem remote_location_agrees_witness:
  "locationFromAccessibility (Some \<lparr>tr_preferred = [segment ''region-1'' ''pve-1''], tr_requisite = []\<rparr>) =
     locationFromTopologyRequirement (Some \<lparr>tr_preferred = [segment ''region-1'' ''pve-1''], tr_requisite = []\<rparr>) \<and>
   locationFromAccessibility (Some \<lparr>tr_preferred = [segment ''region-1'' ''pve-1''], tr_requisite = []\<rparr>) = (''region-1'', ''pve-1'')"
proof
  have "plainSegment (segment ''region-1'' ''pve-1'')" by code_simp
  then show "locationFromAccessibility (Some \<lparr>tr_preferred = [segment ''region-1'' ''pve-1''], tr_requisite = []\<rparr>) =
     locationFromTopologyRequirement (Some \<lparr>tr_preferred = [segment ''region-1'' ''pve-1''], tr_requisite = []\<rparr>)"
    by (intro remote_location_agrees) simp_all
  show "locationFromAccessibility (Some \<lparr>tr_preferred = [segment ''region-1'' ''pve-1''], tr_requisite = []\<rparr>) = (''region-1'', ''pve-1'')"
    by code_simp
qed

section \<open>Capacity\<close>

lemma backoff_bounds:
  assumes "watchBackoffFloor \<le> backoff" "backoff \<le> watchBackoffCeiling"
  shows "list_all (\<lambda>d. watchBackoffFloor \<le> d \<and> d \<le> watchBackoffCeiling) (fst (watchCapacityFrom backoff streams cache))"
  using assms
proof (induction streams arbitrary: backoff cache)
  case (Cons stream streams)
  have "wrap64 (backoff * 2) = backoff * 2"
    using Cons.prems by (intro wrap64_id) (simp add: in_int_def watchBackoffFloor_def watchBackoffCeiling_def)
  then show ?case
    using Cons.prems Cons.IH [of watchBackoffFloor] Cons.IH [of "min (backoff * 2) watchBackoffCeiling"]
    by (auto simp: Let_def split_beta watchBackoffFloor_def watchBackoffCeiling_def)
qed simp

text \<open>The stream of capacities is opened again after at least a second and at most a minute, however many streams failed
  before.\<close>

theorem watch_backoff_bounds:
  "list_all (\<lambda>d. 1000000000 \<le> d \<and> d \<le> 60000000000) (fst (watchCapacity streams cache))"
  using backoff_bounds [of watchBackoffFloor streams cache]
  by (simp add: watchCapacity_def watchBackoffFloor_def watchBackoffCeiling_def)

abbreviation messageKey :: "capacity_message \<Rightarrow> string" where
  "messageKey m \<equiv> capacityKey (cm_Zone m) (cm_Storage m)"

definition delivered :: "capacity_message list option list \<Rightarrow> capacity_message list" where
  "delivered streams = concat (map (\<lambda>s. case s of None \<Rightarrow> [] | Some ms \<Rightarrow> ms) streams)"

lemma cached_messages:
  "map_of (fold cacheMessage ms cache) key =
     (case List.find (\<lambda>m. messageKey m = key) (rev ms) of None \<Rightarrow> map_of cache key | Some m \<Rightarrow> Some m)"
  by (induction ms rule: rev_induct) (auto simp: cacheMessage_def update_conv)

lemma watched_cache: "snd (watchCapacityFrom backoff streams cache) = fold cacheMessage (delivered streams) cache"
  by (induction streams arbitrary: backoff cache) (auto simp: delivered_def doWatch_def Let_def split_beta split: option.split)

text \<open>The capacity reported for a zone and a storage is that of the latest message about them on any of the streams, and zero
  when there was none.\<close>

theorem remote_capacity_latest:
  assumes "mget parameters ''storage'' \<noteq> []"
  shows "remoteGetCapacity (snd (watchCapacity streams [])) (Some segments) parameters =
     Inr (case List.find (\<lambda>m. messageKey m = capacityKey (mget segments LabelTopologyZone) (mget parameters ''storage'')) (rev (delivered streams)) of
            None \<Rightarrow> 0 | Some m \<Rightarrow> cm_AvailableBytes m)"
  using assms by (simp add: remoteGetCapacity_def watchCapacity_def watched_cache cached_messages Let_def split: option.split)

definition sampleMessage :: "string \<Rightarrow> int \<Rightarrow> capacity_message" where
  "sampleMessage zone n = \<lparr>cm_Storage = ''lvm'', cm_Zone = zone, cm_AvailableBytes = n, cm_TotalBytes = 100, cm_Shared = False\<rparr>"

theorem remote_capacity_latest_witness:
  "remoteGetCapacity (snd (watchCapacity [Some [sampleMessage ''pve-1'' 7, sampleMessage ''pve-2'' 8], None, Some [sampleMessage ''pve-1'' 9]] []))
     (Some (segment ''region-1'' ''pve-1'')) [(''storage'', ''lvm'')] = Inr 9"
  by (subst remote_capacity_latest) code_simp+

lemma capacityKey_inj:
  "CHR ''/'' \<notin> set z \<Longrightarrow> CHR ''/'' \<notin> set z' \<Longrightarrow> capacityKey z s = capacityKey z' s' \<longleftrightarrow> z = z' \<and> s = s'"
  unfolding capacityKey_def
proof (induction z arbitrary: z')
  case Nil
  then show ?case by (cases z') (auto simp: append_Cons)
next
  case (Cons c z)
  then show ?case by (cases z') (auto simp: append_Cons)
qed

text \<open>C40: a storage that the operator publishes without a zone, as it does for every shared storage, is reported to have no
  capacity whenever a zone is asked for.\<close>

theorem shared_capacity_zero:
  assumes "mget parameters ''storage'' = storage" "storage \<noteq> []" "mget segments LabelTopologyZone \<noteq> []"
    and "CHR ''/'' \<notin> set (mget segments LabelTopologyZone)"
    and "list_all (\<lambda>m. CHR ''/'' \<notin> set (cm_Zone m) \<and> (cm_Storage m = storage \<longrightarrow> cm_Zone m = [])) (delivered streams)"
  shows "remoteGetCapacity (snd (watchCapacity streams [])) (Some segments) parameters = Inr 0"
proof -
  have "List.find (\<lambda>m. messageKey m = capacityKey (mget segments LabelTopologyZone) storage) (rev (delivered streams)) = None"
    using assms(3-5) by (auto simp: find_None_iff capacityKey_inj list_all_iff)
  then show ?thesis
    using assms(1,2) by (simp add: remoteGetCapacity_def watchCapacity_def watched_cache cached_messages Let_def)
qed

theorem shared_capacity_zero_witness:
  "remoteGetCapacity (snd (watchCapacity [Some [sampleMessage [] 7]] [])) (Some (segment ''region-1'' ''pve-1'')) [(''storage'', ''lvm'')] = Inr 0"
  by (rule shared_capacity_zero [where storage = "''lvm''"]) code_simp+

end
