(* ===== verification/K8s_Tools.thy ===== *)
theory K8s_Tools
  imports Volume_Ops
begin

text \<open>
  The helpers around the Kubernetes client (\<^verbatim>\<open>pkg/tools/kubernetes\<close>: \<^verbatim>\<open>pv.go\<close>, \<^verbatim>\<open>nodes.go\<close>).  The client is a
  record of functions over the outside state, as for Proxmox; creating a UUID, the clock and the printing of
  quantities and times come from libraries and are part of it.
\<close>

section \<open>The client\<close>

record 'e kube =
  q_GetPVC :: "string \<Rightarrow> string \<Rightarrow> ('e, kpvc) api"
  q_CreatePVC :: "kpvc \<Rightarrow> ('e, kpvc) api"
  q_DeletePVC :: "string \<Rightarrow> string \<Rightarrow> bool \<Rightarrow> ('e, unit) api"
  q_PatchPVC :: "string \<Rightarrow> string \<Rightarrow> kpatch \<Rightarrow> ('e, unit) api"
  q_GetPV :: "string \<Rightarrow> ('e, kpv) api"
  q_ListPVs :: "('e, kpv list) api"
  q_CreatePV :: "kpv \<Rightarrow> ('e, unit) api"
  q_DeletePV :: "string \<Rightarrow> bool \<Rightarrow> ('e, unit) api"
  q_PatchPV :: "string \<Rightarrow> kpatch \<Rightarrow> ('e, unit) api"
  q_WatchPV :: "string \<Rightarrow> ('e, unit) api"
  q_GetPod :: "string \<Rightarrow> string \<Rightarrow> ('e, kpod) api"
  q_ListPods :: "string \<Rightarrow> ('e, kpod list) api"
  q_DeletePod :: "string \<Rightarrow> string \<Rightarrow> ('e, unit) api"
  q_GetNode :: "string \<Rightarrow> ('e, knode) api"
  q_ListNodes :: "('e, knode list) api"
  q_PatchNode :: "string \<Rightarrow> kpatch \<Rightarrow> ('e, unit) api"
  q_ListCSINodes :: "('e, kcsinode list) api"
  q_ListClasses :: "('e, kclass list) api"
  q_ListQuotas :: "string \<Rightarrow> ('e, kquota list) api"
  q_Event :: "string \<Rightarrow> string \<Rightarrow> string \<Rightarrow> string \<Rightarrow> ('e, unit) api"
  q_NewUUID :: "('e, string) api"
  q_Now :: "'e \<Rightarrow> int"
  q_FormatTime :: "int \<Rightarrow> string"
  q_Quantity :: "int \<Rightarrow> string"
  q_ShowRef :: "object_ref option \<Rightarrow> string"
  q_Address :: "string option \<Rightarrow> string"

definition nsName :: "string \<Rightarrow> string \<Rightarrow> string" where
  "nsName ns n = ns @ ''/'' @ n"

abbreviation KGetPVC where "KGetPVC k ns n \<equiv> invoke (K8s (KGet ''persistentvolumeclaims'' (nsName ns n))) (q_GetPVC k ns n)"
abbreviation KMakePVC where "KMakePVC k c \<equiv> invoke (K8s (KCreatePVC c)) (q_CreatePVC k c)"
abbreviation KDeletePVC where "KDeletePVC k ns n fg \<equiv> invoke (K8s (KDelete ''persistentvolumeclaims'' (nsName ns n))) (q_DeletePVC k ns n fg)"
abbreviation KPatchPVC where "KPatchPVC k ns n p \<equiv> invoke (K8s (KPatch ''persistentvolumeclaims'' (nsName ns n) p)) (q_PatchPVC k ns n p)"
abbreviation KGetPV where "KGetPV k n \<equiv> invoke (K8s (KGet ''persistentvolumes'' n)) (q_GetPV k n)"
abbreviation KListPVs where "KListPVs k \<equiv> invoke (K8s (KList ''persistentvolumes'')) (q_ListPVs k)"
abbreviation KMakePV where "KMakePV k v \<equiv> invoke (K8s (KCreatePV v)) (q_CreatePV k v)"
abbreviation KDeletePV where "KDeletePV k n fg \<equiv> invoke (K8s (KDelete ''persistentvolumes'' n)) (q_DeletePV k n fg)"
abbreviation KPatchPV where "KPatchPV k n p \<equiv> invoke (K8s (KPatch ''persistentvolumes'' n p)) (q_PatchPV k n p)"
abbreviation KWatchPV where "KWatchPV k n \<equiv> invoke (K8s (KGet ''watch/persistentvolumes'' n)) (q_WatchPV k n)"
abbreviation KGetPod where "KGetPod k ns n \<equiv> invoke (K8s (KGet ''pods'' (nsName ns n))) (q_GetPod k ns n)"
abbreviation KListPods where "KListPods k ns \<equiv> invoke (K8s (KList (''pods/'' @ ns))) (q_ListPods k ns)"
abbreviation KDeletePod where "KDeletePod k ns n \<equiv> invoke (K8s (KDelete ''pods'' (nsName ns n))) (q_DeletePod k ns n)"
abbreviation KGetNode where "KGetNode k n \<equiv> invoke (K8s (KGet ''nodes'' n)) (q_GetNode k n)"
abbreviation KListNodes where "KListNodes k \<equiv> invoke (K8s (KList ''nodes'')) (q_ListNodes k)"
abbreviation KPatchKNode where "KPatchKNode k n p \<equiv> invoke (K8s (KPatch ''nodes'' n p)) (q_PatchNode k n p)"
abbreviation KListCSINodes where "KListCSINodes k \<equiv> invoke (K8s (KList ''csinodes'')) (q_ListCSINodes k)"
abbreviation KListClasses where "KListClasses k \<equiv> invoke (K8s (KList ''storageclasses'')) (q_ListClasses k)"
abbreviation KListQuotas where "KListQuotas k ns \<equiv> invoke (K8s (KList (''resourcequotas/'' @ ns))) (q_ListQuotas k ns)"
abbreviation KNewUUID where "KNewUUID k \<equiv> invoke (K8s (KLocal ''uuid'')) (q_NewUUID k)"

text \<open>\<^verbatim>\<open>time.Now()\<close>.\<close>

definition withTime :: "'e kube \<Rightarrow> (int \<Rightarrow> ('e pworld, 'a) io) \<Rightarrow> ('e pworld, 'a) io" where
  "withTime k m w = m (q_Now k (env w)) w"

abbreviation notFound :: "goerr \<Rightarrow> bool" where "notFound e \<equiv> errIs e K8sNotFound"

text \<open>\<^verbatim>\<open>fmt.Errorf\<close> with \<^verbatim>\<open>%v\<close>: the text is kept, the chain is not.\<close>

definition failAs :: "string \<Rightarrow> goerr \<Rightarrow> ('w, 'a) io" where
  "failAs what e = fail (Plain (what @ '': '' @ Error e))"

text \<open>\<^verbatim>\<open>fmt.Errorf\<close> with \<^verbatim>\<open>%w\<close> and a sentinel in front.\<close>

definition sentinelError :: "sentinel \<Rightarrow> string \<Rightarrow> string \<Rightarrow> goerr" where
  "sentinelError s what m = Wrap (what @ '': '' @ m) (Sentinel s what)"

definition invalidTarget :: "string \<Rightarrow> goerr" where
  "invalidTarget = sentinelError ErrInvalidTarget ''invalid migration target''"

text \<open>The dash of the messages, a three-byte character.\<close>

definition emDash :: string where
  "emDash = [CHR 0xE2, CHR 0x80, CHR 0x94]"

section \<open>Claims and volumes\<close>

definition PodPending :: string where "PodPending = ''Pending''"
definition PodSucceeded :: string where "PodSucceeded = ''Succeeded''"
definition PodFailed :: string where "PodFailed = ''Failed''"

definition PVCResources :: "'e kube \<Rightarrow> string \<Rightarrow> string \<Rightarrow> ('e pworld, kpvc \<times> kpv) io" where
  "PVCResources k namespace pvcName =
     call (KGetPVC k namespace pvcName) (failAs ''failed to get PersistentVolumeClaims'') (\<lambda>pvc.
       call (KGetPV k (kc_VolumeName pvc)) (failAs ''failed to get PersistentVolumes'') (\<lambda>pv. ret (pvc, pv)))"

definition usesClaim :: "string \<Rightarrow> kpod \<Rightarrow> bool" where
  "usesClaim pvcName pod \<longleftrightarrow> Some pvcName \<in> set (kp_Volumes pod)"

definition terminal :: "kpod \<Rightarrow> bool" where
  "terminal pod \<longleftrightarrow> kp_Phase pod = PodSucceeded \<or> kp_Phase pod = PodFailed"

definition listPods :: "'e kube \<Rightarrow> string \<Rightarrow> (kpod list \<Rightarrow> 'a) \<Rightarrow> ('e pworld, 'a) io" where
  "listPods k namespace f = call (KListPods k namespace) (failAs ''failed to list pods'') (\<lambda>pods. ret (f pods))"

definition usage :: "string \<Rightarrow> kpod list \<Rightarrow> string list \<times> string" where
  "usage pvcName pods =
     (let using = filter (\<lambda>pod. kp_Phase pod \<noteq> PodPending \<and> usesClaim pvcName pod) pods
      in (map kp_Name using, if using = [] then [] else kp_NodeName (last using)))"

definition PVCPodUsage :: "'e kube \<Rightarrow> string \<Rightarrow> string \<Rightarrow> ('e pworld, string list \<times> string) io" where
  "PVCPodUsage k namespace pvcName = listPods k namespace (usage pvcName)"

text \<open>A map from pod to node; two pods of a namespace have different names.\<close>

definition placements :: "string \<Rightarrow> kpod list \<Rightarrow> gomap" where
  "placements pvcName pods =
     fold (\<lambda>pod m. if kp_NodeName pod = [] \<or> terminal pod \<or> \<not> usesClaim pvcName pod then m
                   else mset_key m (kp_Name pod) (kp_NodeName pod)) pods []"

definition PVCPodPlacement :: "'e kube \<Rightarrow> string \<Rightarrow> string \<Rightarrow> ('e pworld, gomap) io" where
  "PVCPodPlacement k namespace pvcName = listPods k namespace (placements pvcName)"

definition PVCConsumers :: "'e kube \<Rightarrow> string \<Rightarrow> string \<Rightarrow> ('e pworld, string list) io" where
  "PVCConsumers k namespace pvcName =
     listPods k namespace (\<lambda>pods. map kp_Name (filter (\<lambda>pod. \<not> terminal pod \<and> usesClaim pvcName pod) pods))"

definition inZone :: "string \<Rightarrow> string \<Rightarrow> string \<Rightarrow> kpv \<Rightarrow> bool" where
  "inZone driver region zone pv =
     (case kv_CSI pv of
        None \<Rightarrow> False
      | Some (d, handle) \<Rightarrow> d = driver \<and>
          (case NewVolumeFromVolumeID handle of Inl _ \<Rightarrow> False | Inr vol \<Rightarrow> vregion vol = region \<and> vzone vol = zone))"

definition PVsInZone :: "'e kube \<Rightarrow> string \<Rightarrow> string \<Rightarrow> string \<Rightarrow> ('e pworld, kpv list) io" where
  "PVsInZone k driver region zone =
     call (KListPVs k) (failAs ''failed to list PersistentVolumes'') (\<lambda>pvs. ret (filter (inZone driver region zone) pvs))"

text \<open>What the \<^verbatim>\<open>select\<close> of the wait sees in turn, until the timeout.\<close>

datatype pv_event = WatchClosed | WatchDeleted | WatchOther | WatchTick

fun pvWaitLoop :: "'e kube \<Rightarrow> string \<Rightarrow> pv_event list \<Rightarrow> ('e pworld, unit) io" where
  "pvWaitLoop k pvName [] = fail (Plain (''timeout waiting for PersistentVolume '' @ pvName @ '' to be deleted''))"
| "pvWaitLoop k pvName (WatchClosed # evs) = fail (Plain ''watch channel closed unexpectedly'')"
| "pvWaitLoop k pvName (WatchDeleted # evs) = ret ()"
| "pvWaitLoop k pvName (WatchOther # evs) = pvWaitLoop k pvName evs"
| "pvWaitLoop k pvName (WatchTick # evs) =
     call (KGetPV k pvName) (\<lambda>e. if notFound e then ret () else pvWaitLoop k pvName evs) (\<lambda>_. pvWaitLoop k pvName evs)"

text \<open>\<open>cancelled\<close>: the context ends during the first five seconds.\<close>

definition PVWaitDelete :: "'e kube \<Rightarrow> goerr option \<Rightarrow> pv_event list \<Rightarrow> string \<Rightarrow> ('e pworld, unit) io" where
  "PVWaitDelete k cancelled evs pvName =
     (case cancelled of
        Some err \<Rightarrow> fail err
      | None \<Rightarrow>
          call (KGetPV k pvName) (\<lambda>e. if notFound e then ret () else fail e)
            (\<lambda>_. call (KWatchPV k pvName) fail (\<lambda>_. pvWaitLoop k pvName evs)))"

section \<open>Nodes\<close>

definition csiNodeName :: "string \<Rightarrow> kcsinode \<Rightarrow> string list" where
  "csiNodeName driver drivers =
     (case List.map_filter (\<lambda>(name, i). if name = driver then (case ParseNodeID i of Inl _ \<Rightarrow> None | Inr n \<Rightarrow> Some (nid_node n)) else None) drivers of
        [] \<Rightarrow> [] | n # _ \<Rightarrow> [n])"

definition CSINodes :: "'e kube \<Rightarrow> string \<Rightarrow> ('e pworld, string list) io" where
  "CSINodes k csiDriverName =
     call (KListCSINodes k) (failAs ''failed to list CSINodes'') (\<lambda>csinodes. ret (concat (map (csiNodeName csiDriverName) csinodes)))"

fun CondonNodes :: "'e kube \<Rightarrow> string list \<Rightarrow> ('e pworld, string list) io" where
  "CondonNodes k [] = ret []"
| "CondonNodes k (node # nodes) =
     call (KGetNode k node) (failAs ''failed to get node status'') (\<lambda>nodeStatus.
       if kn_unschedulable nodeStatus then CondonNodes k nodes
       else call (KPatchKNode k node (PatchUnschedulable True)) (failAs ''failed to cordon node'')
              (\<lambda>_. bindE (CondonNodes k nodes) (\<lambda>cordoned. ret (node # cordoned))))"

fun UncondonNodes :: "'e kube \<Rightarrow> string list \<Rightarrow> ('e pworld, unit) io" where
  "UncondonNodes k [] = ret ()"
| "UncondonNodes k (node # nodes) =
     call (KPatchKNode k node (PatchUnschedulable False)) (failAs ''failed to uncordon node'') (\<lambda>_. UncondonNodes k nodes)"

end
