(* ===== verification/Rewire.thy ===== *)
theory Rewire
  imports K8s_Tools
begin

text \<open>
  The annotation protocol of a migration (\<^verbatim>\<open>pkg/migrator/migrator.go\<close>) and the rewiring of a volume and its claim to the
  moved disk (\<^verbatim>\<open>pkg/migrator/topology.go\<close>): the reserved volume, the recreated claim, the wait for their binding and its
  adaptation to another storage class.
\<close>

section \<open>Annotations\<close>

definition migrationKey :: "string \<Rightarrow> string" where
  "migrationKey name = Group @ ''/'' @ name"

definition legacyKey :: "string \<Rightarrow> string" where
  "legacyKey name = DriverName @ ''/'' @ name"

abbreviation "AnnotationMigrate \<equiv> migrationKey ''migrate''"
abbreviation "AnnotationMigrateNode \<equiv> migrationKey ''migrate-node''"
abbreviation "AnnotationMigrateForce \<equiv> migrationKey ''migrate-force''"
abbreviation "AnnotationMigrateStorage \<equiv> migrationKey ''migrate-storage''"
abbreviation "AnnotationMigratePhase \<equiv> migrationKey ''migrate-phase''"
abbreviation "AnnotationMigrateMessage \<equiv> migrationKey ''migrate-message''"
abbreviation "AnnotationMigrateAttempts \<equiv> migrationKey ''migrate-attempts''"
abbreviation "AnnotationMigrateStartedAt \<equiv> migrationKey ''migrate-started-at''"
abbreviation "AnnotationMigrateState \<equiv> migrationKey ''migrate-state''"
abbreviation "AnnotationEvacuate \<equiv> migrationKey ''evacuate''"
abbreviation "AnnotationEvacuateForce \<equiv> migrationKey ''evacuate-force''"
abbreviation "AnnotationReactiveEvacuation \<equiv> migrationKey ''reactive-evacuation''"

definition protocolNames :: "string list" where
  "protocolNames = [''migrate'', ''migrate-node'', ''migrate-force'', ''migrate-storage'', ''migrate-phase'', ''migrate-message'',
     ''migrate-attempts'', ''migrate-started-at'', ''migrate-state'', ''evacuate'', ''evacuate-force'', ''reactive-evacuation'']"

definition legacyAnnotationAliases :: gomap where
  "legacyAnnotationAliases = map (\<lambda>n. (migrationKey n, legacyKey n)) protocolNames"

definition LegacyAnnotation :: "string \<Rightarrow> string" where
  "LegacyAnnotation key = mget legacyAnnotationAliases key"

definition GetAnnotation :: "gomap \<Rightarrow> string \<Rightarrow> string" where
  "GetAnnotation annotations key =
     (if mget annotations key \<noteq> [] then mget annotations key else mget annotations (LegacyAnnotation key))"

text \<open>One round of the loop; the aliases have pairwise different keys, so the order of the map does not matter.\<close>

definition normalizeAlias :: "gomap \<Rightarrow> string \<times> string \<Rightarrow> annotation_patch \<Rightarrow> annotation_patch" where
  "normalizeAlias current alias patch =
     (let (canonical, legacy) = alias
      in if map_of current legacy = None then patch
         else let v = GetAnnotation current canonical;
                  patch = (if map_of patch canonical = None \<and> v \<noteq> [] then AList.update canonical (Some v) patch else patch)
              in if map_of patch legacy = None then AList.update legacy None patch else patch)"

definition NormalizeLegacy :: "gomap \<Rightarrow> annotation_patch \<Rightarrow> annotation_patch" where
  "NormalizeLegacy current patch = fold (normalizeAlias current) legacyAnnotationAliases patch"

definition withLegacyVariants :: "string list \<Rightarrow> string list" where
  "withLegacyVariants keys = keys @ filter (\<lambda>l. l \<noteq> []) (map LegacyAnnotation keys)"

definition migrationAnnotations :: "string list" where
  "migrationAnnotations = withLegacyVariants
     [AnnotationMigrate, AnnotationMigrateNode, AnnotationMigrateForce, AnnotationMigrateStorage, AnnotationMigratePhase,
      AnnotationMigrateMessage, AnnotationMigrateAttempts, AnnotationMigrateStartedAt, AnnotationMigrateState]"

definition binderBookkeepingAnnotations :: "string list" where
  "binderBookkeepingAnnotations =
     [''pv.kubernetes.io/bind-completed'', ''pv.kubernetes.io/bound-by-controller'', ''volume.kubernetes.io/selected-node'',
      ''volume.kubernetes.io/storage-provisioner'', ''volume.beta.kubernetes.io/storage-provisioner'']"

definition without :: "string list \<Rightarrow> gomap \<Rightarrow> gomap" where
  "without keys m = filter (\<lambda>(k, _). k \<notin> set keys) m"

section \<open>The reserved volume and the recreated claim\<close>

definition ReclaimRetain :: string where "ReclaimRetain = ''Retain''"
definition ReclaimDelete :: string where "ReclaimDelete = ''Delete''"
definition VolumeBound :: string where "VolumeBound = ''Bound''"

definition volumeHandleOf :: "kpv \<Rightarrow> string" where
  "volumeHandleOf pv = (case kv_CSI pv of None \<Rightarrow> [] | Some (_, h) \<Rightarrow> h)"

definition pvcClassName :: "kpvc \<Rightarrow> string" where
  "pvcClassName pvc = (case kc_StorageClassName pvc of None \<Rightarrow> [] | Some c \<Rightarrow> c)"

definition recreatedPVC :: "kpvc \<Rightarrow> kpvc" where
  "recreatedPVC pvc =
     pvc\<lparr>kc_Meta := (kc_Meta pvc)\<lparr>km_UID := [], km_ResourceVersion := [], km_DeletionTimestamp := None, km_DeletionGracePeriodSeconds := None,
           km_Annotations := without binderBookkeepingAnnotations (without migrationAnnotations (km_Annotations (kc_Meta pvc)))\<rparr>,
         kc_VolumeName := [], kc_StatusCapacity := [], kc_StatusPhase := [],
         kc_Requests := [(''storage'', case map_of (kc_StatusCapacity pvc) ''storage'' of None \<Rightarrow> 0 | Some n \<Rightarrow> n)]\<rparr>"

definition topologyTerms :: "volume \<Rightarrow> (string \<times> string \<times> string list) list list" where
  "topologyTerms vol = [[(LabelTopologyRegion, ''In'', [vregion vol]), (LabelTopologyZone, ''In'', [vzone vol])]]"

text \<open>Without a CSI source, setting the handle is a panic; the caller has checked that there is one.\<close>

definition reservedPV :: "kpv \<Rightarrow> string \<Rightarrow> string \<Rightarrow> string \<Rightarrow> volume \<Rightarrow> kpv" where
  "reservedPV pv newPVName namespace pvcName targetVol =
     pv\<lparr>kv_Meta := (kv_Meta pv)\<lparr>km_Name := newPVName, km_UID := [], km_ResourceVersion := [], km_CreationTimestamp := 0,
           km_DeletionTimestamp := None, km_DeletionGracePeriodSeconds := None,
           km_Annotations := without migrationAnnotations (km_Annotations (kv_Meta pv))\<rparr>,
        kv_Phase := [],
        kv_CSI := map_option (\<lambda>(driver, _). (driver, VolumeID targetVol)) (kv_CSI pv),
        kv_ReclaimPolicy := ReclaimRetain,
        kv_NodeTerms := Some (topologyTerms targetVol),
        kv_ClaimRef := Some \<lparr>rf_Kind = ''PersistentVolumeClaim'', rf_APIVersion = ''v1'', rf_Namespace = namespace, rf_Name = pvcName, rf_UID = []\<rparr>\<rparr>"

definition accessModesEqual :: "string list \<Rightarrow> string list \<Rightarrow> bool" where
  "accessModesEqual a b \<longleftrightarrow> length a = length b \<and> list_all (\<lambda>m. m \<in> set a) b"

definition modeOf :: "string option \<Rightarrow> string" where
  "modeOf m = (case m of None \<Rightarrow> ''Filesystem'' | Some x \<Rightarrow> x)"

definition volumeModesEqual :: "string option \<Rightarrow> string option \<Rightarrow> bool" where
  "volumeModesEqual a b \<longleftrightarrow> modeOf a = modeOf b"

definition showStrings :: "string list \<Rightarrow> string" where
  "showStrings xs = ''['' @ Join '' '' xs @ '']''"

definition validateReservedPV :: "'e kube \<Rightarrow> kpv \<Rightarrow> kpvc \<Rightarrow> goerr + unit" where
  "validateReservedPV k pv pvc =
     (if kv_StorageClassName pv \<noteq> pvcClassName pvc
      then Inl (Plain (''reserved PV storageClassName '' @ Quote (kv_StorageClassName pv) @ '' does not match PVC storageClassName '' @
             Quote (pvcClassName pvc) @ ''; it would not bind''))
      else if (case map_of (kc_Requests pvc) ''storage'' of None \<Rightarrow> False | Some req \<Rightarrow> kv_Capacity pv < req)
      then Inl (Plain (''reserved PV capacity '' @ q_Quantity k (kv_Capacity pv) @ '' is smaller than PVC request '' @
             q_Quantity k (the (map_of (kc_Requests pvc) ''storage''))))
      else if \<not> accessModesEqual (kv_AccessModes pv) (kc_AccessModes pvc)
      then Inl (Plain (''reserved PV access modes '' @ showStrings (kv_AccessModes pv) @ '' do not match PVC access modes '' @ showStrings (kc_AccessModes pvc)))
      else if \<not> volumeModesEqual (kv_VolumeMode pv) (kc_VolumeMode pvc)
      then Inl (Plain (''reserved PV volumeMode '' @ q_Address k (kv_VolumeMode pv) @ '' does not match PVC volumeMode '' @ q_Address k (kc_VolumeMode pvc)))
      else case kv_ClaimRef pv of
        None \<Rightarrow> Inl (Plain ''reserved PV claimRef must be set with an empty UID to pre-bind the PVC'')
      | Some ref \<Rightarrow>
          if rf_UID ref \<noteq> [] then Inl (Plain ''reserved PV claimRef must be set with an empty UID to pre-bind the PVC'') else Inr ())"

section \<open>Lookups\<close>

definition claims :: "object_ref option \<Rightarrow> string \<Rightarrow> string \<Rightarrow> bool" where
  "claims ref namespace name = (case ref of None \<Rightarrow> False | Some r \<Rightarrow> rf_Namespace r = namespace \<and> rf_Name r = name)"

definition isReservation :: "string \<Rightarrow> string \<Rightarrow> string \<Rightarrow> kpv \<Rightarrow> bool" where
  "isReservation namespace pvcName dataHandle pv \<longleftrightarrow>
     kv_ReclaimPolicy pv = ReclaimRetain \<and> kv_Phase pv \<noteq> VolumeBound \<and> volumeHandleOf pv = dataHandle \<and>
     (case kv_ClaimRef pv of None \<Rightarrow> False | Some r \<Rightarrow> rf_UID r = []) \<and> claims (kv_ClaimRef pv) namespace pvcName"

definition findExistingReservation :: "'e kube \<Rightarrow> string \<Rightarrow> string \<Rightarrow> string \<Rightarrow> ('e pworld, kpv option) io" where
  "findExistingReservation k namespace pvcName dataHandle =
     call (KListPVs k) (\<lambda>_. ret None) (\<lambda>pvs. ret (List.find (isReservation namespace pvcName dataHandle) pvs))"

definition storageClassForStorage :: "'e kube \<Rightarrow> string \<Rightarrow> ('e pworld, string option) io" where
  "storageClassForStorage k storageID =
     call (KListClasses k) (\<lambda>_. ret None)
       (\<lambda>scs. ret (case map kl_Name (filter (\<lambda>sc. kl_Provisioner sc = DriverName \<and> mget (kl_Parameters sc) ''storage'' = storageID) scs) of
          [name] \<Rightarrow> Some name | _ \<Rightarrow> None))"

definition isWaitForFirstConsumer :: "'e kube \<Rightarrow> string \<Rightarrow> ('e pworld, bool) io" where
  "isWaitForFirstConsumer k className =
     (if className = [] then ret False
      else call (KListClasses k) (\<lambda>_. ret False)
        (\<lambda>scs. ret (case List.find (\<lambda>sc. kl_Name sc = className) scs of
           None \<Rightarrow> False | Some sc \<Rightarrow> kl_VolumeBindingMode sc = Some ''WaitForFirstConsumer'')))"

definition reservedPVCIsIdleWFFC :: "'e kube \<Rightarrow> string \<Rightarrow> kpvc \<Rightarrow> kpv \<Rightarrow> ('e pworld, bool) io" where
  "reservedPVCIsIdleWFFC k namespace pvc reserved =
     (if kc_VolumeName pvc \<noteq> [] then ret False
      else if \<not> claims (kv_ClaimRef reserved) namespace (km_Name (kc_Meta pvc)) then ret False
      else bindE (isWaitForFirstConsumer k (pvcClassName pvc)) (\<lambda>wffc.
        if \<not> wffc then ret False
        else call (PVCConsumers k namespace (km_Name (kc_Meta pvc))) (\<lambda>_. ret False) (\<lambda>pods. ret (pods = []))))"

text \<open>The refusal of a quota that leaves no room.\<close>

definition quotaRefusal :: "'e kube \<Rightarrow> string \<Rightarrow> string \<Rightarrow> int \<Rightarrow> kquota \<Rightarrow> string option" where
  "quotaRefusal k namespace newClass request quota =
     (let storageRes = newClass @ ''.storageclass.storage.k8s.io/requests.storage'';
          countRes = newClass @ ''.storageclass.storage.k8s.io/persistentvolumeclaims'';
          hard = (if kq_StatusHard quota = [] then kq_SpecHard quota else kq_StatusHard quota);
          usedOf = (\<lambda>r. case map_of (kq_Used quota) r of None \<Rightarrow> 0 | Some n \<Rightarrow> n);
          counted = (case map_of hard countRes of
             None \<Rightarrow> None
           | Some limit \<Rightarrow>
               if usedOf countRes \<ge> limit
               then Some (''resourcequota '' @ nsName namespace (kq_Name quota) @ '' allows no more persistentvolumeclaims of storageclass '' @ newClass @
                      '' ('' @ q_Quantity k (usedOf countRes) @ '' of '' @ q_Quantity k limit @ '' used); raise the quota or choose another target class'')
               else None)
      in case map_of hard storageRes of
           None \<Rightarrow> counted
         | Some limit \<Rightarrow>
             if limit - usedOf storageRes < request
             then Some (''resourcequota '' @ nsName namespace (kq_Name quota) @ '' leaves '' @ q_Quantity k (limit - usedOf storageRes) @ '' of '' @
                    q_Quantity k limit @ '' for storageclass '' @ newClass @ '' requests.storage, the migrated volume needs '' @ q_Quantity k request @
                    ''; raise the quota or choose another target class'')
             else counted)"

definition checkTargetClassQuota :: "'e kube \<Rightarrow> string \<Rightarrow> string \<Rightarrow> int \<Rightarrow> ('e pworld, unit) io" where
  "checkTargetClassQuota k namespace newClass request =
     call (KListQuotas k namespace) (\<lambda>_. ret ())
       (\<lambda>quotas. case List.map_filter (quotaRefusal k namespace newClass request) quotas of
          [] \<Rightarrow> ret () | m # _ \<Rightarrow> fail (invalidTarget m))"

section \<open>Rewiring\<close>

definition maxClassReconciliations :: nat where
  "maxClassReconciliations = 2"

definition setPVReclaimPolicy :: "'e kube \<Rightarrow> string \<Rightarrow> string \<Rightarrow> ('e pworld, unit) io" where
  "setPVReclaimPolicy k pvName policy = KPatchPV k pvName (PatchReclaimPolicy policy)"

text \<open>A call one kind of whose errors is as good as success.\<close>

definition tolerating :: "sentinel \<Rightarrow> string \<Rightarrow> ('w, 'a) io \<Rightarrow> ('w, unit) io" where
  "tolerating s what m = call m (\<lambda>e. if errIs e s then ret () else failAs what e) (\<lambda>_. ret ())"

definition deleteRacingPair :: "'e kube \<Rightarrow> string \<Rightarrow> kpvc \<Rightarrow> string \<Rightarrow> int \<Rightarrow> ('e pworld, unit) io" where
  "deleteRacingPair k namespace pvc dataVolumeHandle started =
     call (KGetPV k (kc_VolumeName pvc)) (failAs (''failed to get racing PV '' @ kc_VolumeName pvc)) (\<lambda>fresh.
       let name = km_Name (kv_Meta fresh); pvcName = km_Name (kc_Meta pvc); created = km_CreationTimestamp (kv_Meta fresh) in
       if kv_CSI fresh \<noteq> None \<and> volumeHandleOf fresh = dataVolumeHandle
       then fail (Plain (''refusing to delete PV '' @ name @ '': it references the migrated data disk '' @ dataVolumeHandle))
       else if \<not> claims (kv_ClaimRef fresh) namespace pvcName
       then fail (Plain (''refusing to delete PV '' @ name @ '': its claimRef ('' @ q_ShowRef k (kv_ClaimRef fresh) @
              '') does not point back at the migrating PVC '' @ nsName namespace pvcName))
       else if \<not> started < created
       then fail (Plain (''refusing to delete PV '' @ name @ '': created '' @ q_FormatTime k created @ '', not strictly after the rewire started at '' @
              q_FormatTime k started @ '' '' @ emDash @ '' not a freshly provisioned racing volume''))
       else bindE (tolerating K8sNotFound (''failed to delete racing PVC '' @ pvcName) (KDeletePVC k namespace pvcName False)) (\<lambda>_.
              tolerating K8sNotFound (''failed to delete racing PV '' @ name) (KDeletePV k name False)))"

definition nextReservation :: "kpv \<Rightarrow> string \<Rightarrow> string \<Rightarrow> kpv" where
  "nextReservation current uuid className =
     current\<lparr>kv_Meta := (kv_Meta current)\<lparr>km_Name := ''pvc-'' @ uuid, km_UID := [], km_ResourceVersion := [], km_CreationTimestamp := 0\<rparr>,
             kv_Phase := [], kv_StorageClassName := className\<rparr>"

definition reReserveDataPV :: "'e kube \<Rightarrow> kpv \<Rightarrow> string \<Rightarrow> ('e pworld, kpv) io" where
  "reReserveDataPV k reserved className =
     call (KGetPV k (km_Name (kv_Meta reserved))) (failAs (''failed to get reserved PV '' @ km_Name (kv_Meta reserved))) (\<lambda>current.
       let name = km_Name (kv_Meta current) in
       if kv_ReclaimPolicy current \<noteq> ReclaimRetain
       then fail (Plain (''refusing to replace reserved PV '' @ name @ '': reclaim policy is '' @ kv_ReclaimPolicy current @ '', not Retain''))
       else if kv_Phase current = VolumeBound \<or> (case kv_ClaimRef current of None \<Rightarrow> False | Some ref \<Rightarrow> rf_UID ref \<noteq> [])
       then fail (Plain (''refusing to replace reserved PV '' @ name @ '': it is already bound''))
       else if volumeHandleOf current \<noteq> volumeHandleOf reserved
       then fail (Plain (''refusing to replace PV '' @ name @ '': volume handle '' @ Quote (volumeHandleOf current) @ '' is not the migrated data disk '' @
              Quote (volumeHandleOf reserved)))
       else bindE (KNewUUID k) (\<lambda>uuid.
         let replacement = nextReservation current uuid className in
         call (KMakePV k replacement)
           (failAs (''failed to create re-reserved PV '' @ km_Name (kv_Meta replacement) @ '' (class '' @ className @ '')''))
           (\<lambda>_. bindE (tolerating K8sNotFound (''failed to delete outdated reserved PV '' @ name) (KDeletePV k name False))
              (\<lambda>_. ret replacement))))"

definition reconcileReservedClass :: "'e kube \<Rightarrow> string \<Rightarrow> kpvc \<Rightarrow> kpv \<Rightarrow> int \<Rightarrow> ('e pworld, kpv) io" where
  "reconcileReservedClass k namespace pvc reserved started =
     bindE (if kc_VolumeName pvc = [] then ret ()
            else case kv_CSI reserved of
                   None \<Rightarrow> fail nilDereference
                 | Some (_, handle) \<Rightarrow> deleteRacingPair k namespace pvc handle started)
       (\<lambda>_. reReserveDataPV k reserved (pvcClassName pvc))"

text \<open>\<open>ticks\<close> 2-second pauses go by before the wait ends, with the timeout (\<open>None\<close>) or the context.  \<open>left\<close> is what
  is left of \<open>maxClassReconciliations\<close>.\<close>

fun waitReservedPVBind :: "'e kube \<Rightarrow> goerr option \<Rightarrow> string \<Rightarrow> string \<Rightarrow> int \<Rightarrow> nat \<Rightarrow> nat \<Rightarrow> kpv \<Rightarrow> ('e pworld, string) io" where
  "waitReservedPVBind k ending namespace pvcName started left ticks reserved =
     (let name = km_Name (kv_Meta reserved);
          pause = (case ticks of
             Suc n \<Rightarrow> waitReservedPVBind k ending namespace pvcName started left n reserved
           | 0 \<Rightarrow> fail (case ending of
               Some err \<Rightarrow> err
             | None \<Rightarrow> Plain (''timeout waiting for PersistentVolumeClaim '' @ pvcName @ '' to bind to '' @ name)))
      in call (KGetPVC k namespace pvcName)
           (\<lambda>e. if notFound e then pause else failAs (''failed to get PersistentVolumeClaim '' @ pvcName) e)
           (\<lambda>pvc.
              if kc_VolumeName pvc = name then ret name
              else if pvcClassName pvc \<noteq> kv_StorageClassName reserved
              then (case left of
                      0 \<Rightarrow> fail (invalidTarget (''PersistentVolumeClaim '' @ pvcName @ '' still carries storageclass '' @ Quote (pvcClassName pvc) @
                             '' after '' @ Itoa (int maxClassReconciliations) @ '' re-reservations; giving up '' @ emDash @ '' the migrated disk is preserved on PV '' @
                             name @ '' (Available, Retain)''))
                    | Suc l \<Rightarrow> bindE (reconcileReservedClass k namespace pvc reserved started)
                        (\<lambda>next. waitReservedPVBind k ending namespace pvcName started l ticks next))
              else if kc_VolumeName pvc \<noteq> []
              then fail (Plain (''PersistentVolumeClaim '' @ pvcName @ '' bound to '' @ kc_VolumeName pvc @ '', not the reserved volume '' @ name @
                     '': a controller provisioned a new volume; the migrated disk is preserved on PV '' @ name @ '' (Available, Retain)''))
              else bindE (reservedPVCIsIdleWFFC k namespace pvc reserved) (\<lambda>idle. if idle then ret name else pause)))"

declare waitReservedPVBind.simps [simp del]

text \<open>How the waits of a migration go: the pauses that go by before each ends and how it ends.\<close>

record waits =
  wt_DrainTicks :: nat
  wt_DrainDone :: goerr
  wt_Grace :: "goerr option"
  wt_DetachTicks :: nat
  wt_DetachDone :: goerr
  wt_DeleteDone :: "goerr option"
  wt_DeleteEvents :: "pv_event list"
  wt_BindTicks :: nat
  wt_BindEnd :: "goerr option"

text \<open>The pair as it is created, before the destructive steps.\<close>

definition rewiredPair :: "'e kube \<Rightarrow> string \<Rightarrow> kpvc \<Rightarrow> kpv \<Rightarrow> volume \<Rightarrow> string \<Rightarrow> ('e pworld, kpv \<times> kpvc) io" where
  "rewiredPair k namespace pvc pv targetVol newPVName =
     bindE (storageClassForStorage k (vstorage targetVol)) (\<lambda>sc.
       let newPV = reservedPV pv newPVName namespace (km_Name (kc_Meta pvc)) targetVol; newPVC = recreatedPVC pvc;
           (newPV, newPVC) = (case sc of
              Some c \<Rightarrow> (newPV\<lparr>kv_StorageClassName := c\<rparr>, newPVC\<lparr>kc_StorageClassName := Some c\<rparr>)
            | None \<Rightarrow> (newPV, newPVC))
       in bindE (lift (validateReservedPV k newPV newPVC)) (\<lambda>_.
            bindE (if pvcClassName newPVC = pvcClassName pvc then ret ()
                   else checkTargetClassQuota k namespace (pvcClassName newPVC) (the (map_of (kc_Requests newPVC) ''storage'')))
              (\<lambda>_. ret (newPV, newPVC))))"

text \<open>The steps 1 to 6.\<close>

definition rewirePair :: "'e kube \<Rightarrow> waits \<Rightarrow> string \<Rightarrow> kpvc \<Rightarrow> kpv \<Rightarrow> int \<Rightarrow> bool \<Rightarrow> kpv \<Rightarrow> kpvc \<Rightarrow> ('e pworld, unit) io" where
  "rewirePair k ws namespace pvc pv started existing newPV newPVC =
     (let name = km_Name (kv_Meta pv); pvcName = km_Name (kc_Meta pvc); newPVName = km_Name (kv_Meta newPV);
          finalPolicy = (if kv_ReclaimPolicy pv = [] then ReclaimDelete else kv_ReclaimPolicy pv)
      in bindE (if kv_ReclaimPolicy pv = ReclaimRetain then ret ()
                else call (setPVReclaimPolicy k name ReclaimRetain) (failAs (''failed to set old PV '' @ name @ '' to Retain before rewire'')) ret) (\<lambda>_.
         bindE (if existing then ret ()
                else call (KMakePV k newPV) (failAs (''failed to create reserved PV '' @ newPVName)) ret) (\<lambda>_.
         call (KDeletePVC k namespace pvcName True) (failAs ''failed to delete PVC'') (\<lambda>_.
         bindE (tolerating K8sNotFound (''failed to delete old PV '' @ name) (KDeletePV k name True)) (\<lambda>_.
         call (PVWaitDelete k (wt_DeleteDone ws) (wt_DeleteEvents ws) name) (failAs (''failed to wait for old PV '' @ name @ '' deletion'')) (\<lambda>_.
         bindE (tolerating K8sAlreadyExists ''failed to create PVC'' (KMakePVC k newPVC)) (\<lambda>_.
         bindE (waitReservedPVBind k (wt_BindEnd ws) namespace pvcName started maxClassReconciliations (wt_BindTicks ws) newPV) (\<lambda>boundPVName.
           if finalPolicy = ReclaimRetain then ret ()
           else call (setPVReclaimPolicy k boundPVName finalPolicy) (failAs (''failed to restore reclaim policy on PV '' @ boundPVName)) ret))))))))"

definition replacePVTopology :: "'e kube \<Rightarrow> waits \<Rightarrow> string \<Rightarrow> kpvc \<Rightarrow> kpv \<Rightarrow> volume \<Rightarrow> ('e pworld, unit) io" where
  "replacePVTopology k ws namespace pvc pv targetVol = withTime k (\<lambda>started.
     bindE (findExistingReservation k namespace (km_Name (kc_Meta pvc)) (VolumeID targetVol)) (\<lambda>existing.
       bindE (KNewUUID k) (\<lambda>uuid.
         let newPVName = (case existing of Some v \<Rightarrow> km_Name (kv_Meta v) | None \<Rightarrow> ''pvc-'' @ uuid) in
         if kv_CSI pv = None then fail nilDereference
         else bindE (rewiredPair k namespace pvc pv targetVol newPVName) (\<lambda>(newPV, newPVC).
                rewirePair k ws namespace pvc pv started (existing \<noteq> None) newPV newPVC))))"

end
