(* ===== verification/Migrator.thy ===== *)
theory Migrator
  imports Rewire
begin

text \<open>
  The migration of one volume (\<^verbatim>\<open>pkg/migrator/migrator.go\<close>): checks, resumption of an interrupted attempt, draining of
  the pods, conversion and copy of the disk, verification, rewiring and the reclamation of the source.  Log lines are
  not modelled.
\<close>

section \<open>The migrator and its requests\<close>

definition DefaultTaskTimeout :: int where "DefaultTaskTimeout = 10800"
definition DefaultHelperVMID :: int where "DefaultHelperVMID = 9998"

definition PhaseDraining :: string where "PhaseDraining = ''Draining''"
definition PhaseMoving :: string where "PhaseMoving = ''Moving''"
definition PhaseRewiring :: string where "PhaseRewiring = ''Rewiring''"

text \<open>\<open>mg_OnPhase\<close> is what the caller wants run at each phase, \<open>mg_Recorder\<close> whether there is a recorder for events.\<close>

record 'e migrator =
  mg_KClient :: "'e kube"
  mg_PClient :: "'e pool option"
  mg_Recorder :: bool
  mg_OnPhase :: "(string \<Rightarrow> ('e pworld, unit) io) option"
  mg_HelperVMID :: int
  mg_TokenCopyEndpoint :: bool
  mg_ProxmodEndpoint :: bool

record migrate_request =
  mr_Namespace :: string
  mr_PVCName :: string
  mr_TargetNode :: string
  mr_TargetStorage :: string
  mr_Force :: bool
  mr_TaskTimeout :: int
  mr_DrainTimeout :: int
  mr_DetachTimeout :: int

text \<open>A call whose outcome is not looked at, and a deferred call, which runs on every way out.\<close>

definition attempt :: "('w, 'a) io \<Rightarrow> ('w, unit) io" where
  "attempt m = call m (\<lambda>_. ret ()) (\<lambda>_. ret ())"

definition deferring :: "('w, unit) io \<Rightarrow> ('w, 'a) io \<Rightarrow> ('w, 'a) io" where
  "deferring cleanup m = call m (\<lambda>err. bindE (attempt cleanup) (\<lambda>_. fail err)) (\<lambda>x. bindE (attempt cleanup) (\<lambda>_. ret x))"

definition event :: "'e migrator \<Rightarrow> kpvc \<Rightarrow> string \<Rightarrow> string \<Rightarrow> string \<Rightarrow> ('e pworld, unit) io" where
  "event m pvc eventType reason message =
     (if \<not> mg_Recorder m then ret ()
      else let object = nsName (km_Namespace (kc_Meta pvc)) (km_Name (kc_Meta pvc))
           in attempt (invoke (K8s (KEvent object eventType reason message)) (q_Event (mg_KClient m) object eventType reason message)))"

definition phase :: "'e migrator \<Rightarrow> string \<Rightarrow> ('e pworld, unit) io" where
  "phase m p = (case mg_OnPhase m of None \<Rightarrow> ret () | Some f \<Rightarrow> attempt (f p))"

definition annotatePV :: "'e kube \<Rightarrow> string \<Rightarrow> string \<Rightarrow> string \<Rightarrow> ('e pworld, unit) io" where
  "annotatePV k pvName key v =
     bindE (KGetPV k pvName) (\<lambda>current. KPatchPV k pvName (PatchAnnotations (NormalizeLegacy (km_Annotations (kv_Meta current)) [(key, Some v)])))"

definition targetDiskName :: "string \<Rightarrow> string" where
  "targetDiskName disk =
     (case List.find (HasSuffix disk) [''.qcow2'', ''.vmdk''] of
        Some ext \<Rightarrow> take (length disk - length ext) disk @ ''.raw''
      | None \<Rightarrow> disk)"

definition migratorCopyEndpoint :: "'e migrator \<Rightarrow> string \<Rightarrow> copy_endpoint" where
  "migratorCopyEndpoint m region =
     (case mg_PClient m of
        None \<Rightarrow> if mg_ProxmodEndpoint m then CopyEndpointProxmod
                else if mg_TokenCopyEndpoint m then CopyEndpointCSICopy else CopyEndpointBuiltin
      | Some pool \<Rightarrow> CopyEndpoint pool region (mg_TokenCopyEndpoint m) (mg_ProxmodEndpoint m))"

section \<open>Draining\<close>

text \<open>\<open>ticks\<close> 2-second pauses go by before the context ends with the error \<open>done\<close>.\<close>

fun podsGoneLoop :: "'e kube \<Rightarrow> goerr \<Rightarrow> string \<Rightarrow> string \<Rightarrow> int option \<Rightarrow> nat \<Rightarrow> ('e pworld, unit) io" where
  "podsGoneLoop k done namespace pvcName deadline ticks =
     call (PVCPodUsage k namespace pvcName) (failAs ''failed to find pods using pvc'') (\<lambda>(p, _).
       if p = [] then ret ()
       else withTime k (\<lambda>now.
         if (case deadline of None \<Rightarrow> False | Some d \<Rightarrow> d < now)
         then fail (Plain (''timed out waiting for pods to terminate: '' @ Join '','' p))
         else case ticks of 0 \<Rightarrow> fail done | Suc n \<Rightarrow> podsGoneLoop k done namespace pvcName deadline n))"

declare podsGoneLoop.simps [simp del]

definition waitPodsGone :: "'e kube \<Rightarrow> waits \<Rightarrow> migrate_request \<Rightarrow> ('e pworld, unit) io" where
  "waitPodsGone k ws req = withTime k (\<lambda>now.
     bindE (podsGoneLoop k (wt_DrainDone ws) (mr_Namespace req) (mr_PVCName req)
              (if mr_DrainTimeout req > 0 then Some (now + mr_DrainTimeout req) else None) (wt_DrainTicks ws))
       (\<lambda>_. case wt_Grace ws of None \<Rightarrow> ret () | Some err \<Rightarrow> fail err))"

fun deletePods :: "'e kube \<Rightarrow> string \<Rightarrow> string list \<Rightarrow> ('e pworld, unit) io" where
  "deletePods k namespace [] = ret ()"
| "deletePods k namespace (pod # pods) =
     call (KDeletePod k namespace pod) (failAs ''failed to delete pod'') (\<lambda>_. deletePods k namespace pods)"

section \<open>Conversion\<close>

definition convertedMove :: "'e migrator \<Rightarrow> 'e client \<Rightarrow> volume \<Rightarrow> volume \<Rightarrow> string \<Rightarrow> int \<Rightarrow> int \<Rightarrow> ('e pworld, unit) io" where
  "convertedMove m cluster vol targetVol targetNode taskTimeout vmid =
     bindE (AttachDisk cluster (vnode vol) vmid (VolID vol)) (\<lambda>_.
       bindE (ConvertDiskToRaw cluster (vnode vol) vmid (vstorage vol) taskTimeout) (\<lambda>rawVolid.
         case SplitN 2 CHR '':'' rawVolid of
           [storage, disk] \<Rightarrow>
             MoveQemuDisk cluster (NewVolume (vregion vol) (vnode vol) storage disk) targetNode targetVol taskTimeout
               (migratorCopyEndpoint m (vregion vol))
         | _ \<Rightarrow> fail (Plain (''unexpected converted disk volid '' @ Quote rawVolid))))"

definition convertAndMove :: "'e migrator \<Rightarrow> 'e client \<Rightarrow> volume \<Rightarrow> volume \<Rightarrow> string \<Rightarrow> int \<Rightarrow> ('e pworld, unit) io" where
  "convertAndMove m cluster vol targetVol targetNode taskTimeout =
     (let vmid = (if mg_HelperVMID m \<le> 0 then DefaultHelperVMID else mg_HelperVMID m) in
      if Itoa vmid = VMID vol
      then fail (invalidTarget (''helper VM ID '' @ Itoa vmid @ '' must differ from the volume owner VM ID''))
      else bindE (FindVMNode cluster vmid) (\<lambda>(node, name, found).
        bindE (if \<not> found then ret ()
               else if name \<noteq> HelperVMName
               then fail (invalidTarget (''VM '' @ Itoa vmid @ '' already exists ('' @ Quote name @ '') '' @ emDash @ '' configure a free helper VM ID''))
               else call (DeleteVM cluster node vmid) (failAs (''failed to remove stale helper VM '' @ Itoa vmid)) ret) (\<lambda>_.
          bindE (CreateHelperVM cluster (vnode vol) vmid) (\<lambda>_.
            deferring (DeleteVM cluster (vnode vol) vmid) (convertedMove m cluster vol targetVol targetNode taskTimeout vmid)))))"

section \<open>The steps of a migration\<close>

definition reclaimSourceDisk :: "'e migrator \<Rightarrow> 'e client \<Rightarrow> kpvc \<Rightarrow> volume \<Rightarrow> volume \<Rightarrow> int \<Rightarrow> ('e pworld, bool) io" where
  "reclaimSourceDisk m cluster pvc sourceVol targetVol taskTimeout =
     (if vnode sourceVol = vnode targetVol \<and> vstorage sourceVol = vstorage targetVol \<and> vdisk sourceVol = vdisk targetVol
      then ret True
      else call (DeleteDisk cluster sourceVol (vnode sourceVol) taskTimeout)
        (\<lambda>err. bindE (event m pvc ''Warning'' ''MigrationSourceReclaimFailed''
             (''failed to reclaim source disk '' @ vdisk sourceVol @ '' on '' @ vnode sourceVol @ '' (leftover copy, reclaim manually): '' @ Error err))
             (\<lambda>_. ret False))
        (\<lambda>_. ret True))"

text \<open>Resume detection and the shared-storage check; the result is whether the disk is already there.\<close>

definition resumeOrShared :: "'e client \<Rightarrow> migrate_request \<Rightarrow> kpv \<Rightarrow> volume \<Rightarrow> volume \<Rightarrow> ('e pworld, bool) io" where
  "resumeOrShared cluster req pv vol targetVol =
     (if GetAnnotation (km_Annotations (kv_Meta pv)) AnnotationMigrateState = mr_TargetNode req
      then call (DiskOnNode cluster targetVol (mr_TargetNode req)) (\<lambda>_. ret False) (\<lambda>(onTarget, bytes).
        if onTarget \<and> bytes \<ge> kv_Capacity pv then ret True
        else if onTarget
        then call (DeleteDisk cluster targetVol (mr_TargetNode req) 300)
               (failAs (''failed to delete partial disk on '' @ mr_TargetNode req)) (\<lambda>_. ret False)
        else ret False)
      else if vnode vol \<noteq> mr_TargetNode req
      then call (DiskOnNode cluster vol (mr_TargetNode req)) (\<lambda>_. ret False) (\<lambda>(shared, _).
        if shared
        then fail (sentinelError ErrSharedStorage ''storage is shared with the target node''
               (''disk '' @ vdisk vol @ '' is already present on proxmox node '' @ mr_TargetNode req @ '' (storage '' @ vstorage vol @ '')''))
        else ret False)
      else ret False)"

text \<open>The VM of the node the pods run on, in the cluster of the volume.\<close>

definition lookupVM :: "'e pool \<Rightarrow> string \<Rightarrow> k8s_node \<Rightarrow> goerr \<Rightarrow> string \<Rightarrow> ('e pworld, int) io" where
  "lookupVM pool vmName kubeNode nodeErr region =
     (let uuid = kn_systemUUID kubeNode in
      if uuid = []
      then fail (Plain (''failed to resolve Proxmox VMID from node '' @ vmName @ '': '' @ Error nodeErr @
             '' (the node reports no system UUID to verify a VM lookup against; set the '' @ AnnotationProxmoxInstanceID @ '' annotation)''))
      else bindE (call (FindVMByNode pool kubeNode)
                   (\<lambda>_. call (FindVMByUUID pool uuid)
                      (\<lambda>e. fail (Plain (''failed to resolve Proxmox VMID from node '' @ vmName @ '': '' @ Error e @
                          '' (no VM matches the node name or system UUID '' @ uuid @ '')''))) ret) ret)
             (\<lambda>(vmID, vmRegion).
                if vmRegion \<noteq> region
                then fail (Plain (''node '' @ vmName @ '' resolved to Proxmox VMID '' @ Itoa vmID @ '' in region '' @ vmRegion @
                       '', but the volume is in region '' @ region))
                else ret vmID))"

definition resolveVM :: "'e kube \<Rightarrow> 'e pool \<Rightarrow> string \<Rightarrow> string \<Rightarrow> ('e pworld, int) io" where
  "resolveVM k pool vmName region =
     (if vmName = [] then ret 0
      else call (KGetNode k vmName) (failAs (''failed to get kubernetes node '' @ vmName)) (\<lambda>kubeNode.
        case ProxmoxVMIDbyNode (k8s_node.truncate kubeNode) of
          Inl nodeErr \<Rightarrow> lookupVM pool vmName (k8s_node.truncate kubeNode) nodeErr region
        | Inr vmID \<Rightarrow>
            (case ParseProviderID (kn_providerID kubeNode) of
               Inl _ \<Rightarrow> ret vmID
             | Inr (_, pidRegion) \<Rightarrow>
                 if pidRegion \<noteq> region
                 then fail (Plain (''node '' @ vmName @ '' providerID places Proxmox VMID '' @ Itoa vmID @ '' in region '' @ pidRegion @
                        '', but the volume is in region '' @ region))
                 else ret vmID)))"

definition removePartial :: "'e client \<Rightarrow> volume \<Rightarrow> string \<Rightarrow> int \<Rightarrow> ('e pworld, unit) io" where
  "removePartial cluster targetVol node expectedSize =
     call (DiskOnNode cluster targetVol node) (\<lambda>_. ret ()) (\<lambda>(onTarget, bytes).
       if onTarget \<and> bytes < expectedSize then attempt (DeleteDisk cluster targetVol node 300) else ret ())"

definition moveDisk :: "'e migrator \<Rightarrow> 'e client \<Rightarrow> migrate_request \<Rightarrow> kpvc \<Rightarrow> kpv \<Rightarrow> volume \<Rightarrow> volume \<Rightarrow> int \<Rightarrow> ('e pworld, unit) io" where
  "moveDisk m cluster req pvc pv vol targetVol taskTimeout =
     (let name = km_Name (kv_Meta pv); target = mr_TargetNode req in
      call (annotatePV (mg_KClient m) name AnnotationMigrateState target) (failAs (''failed to annotate PV '' @ name)) (\<lambda>_.
      bindE (phase m PhaseMoving) (\<lambda>_.
      bindE (event m pvc ''Normal'' ''MigrationMoving''
               (''moving disk '' @ vdisk vol @ '' to proxmox node '' @ target @ '' (as '' @ VolID targetVol @ '')'')) (\<lambda>_.
        if HasSuffix (vdisk vol) ''.qcow2'' \<or> HasSuffix (vdisk vol) ''.vmdk''
        then call (convertAndMove m cluster vol targetVol target taskTimeout) (\<lambda>err. fail (Wrap (''failed to migrate disk: '' @ Error err) err)) ret
        else call (MoveQemuDisk cluster vol target targetVol taskTimeout (migratorCopyEndpoint m (vregion vol)))
               (\<lambda>err. bindE (removePartial cluster targetVol target (kv_Capacity pv)) (\<lambda>_. failAs ''failed to move disk'' err)) ret))))"

text \<open>From the verification of the copy to the reclamation of the source.\<close>

definition verifyAndRewire :: "'e migrator \<Rightarrow> waits \<Rightarrow> 'e client \<Rightarrow> migrate_request \<Rightarrow> kpvc \<Rightarrow> kpv \<Rightarrow> volume \<Rightarrow> volume \<Rightarrow> int \<Rightarrow> ('e pworld, unit) io" where
  "verifyAndRewire m ws cluster req pvc pv vol targetVol taskTimeout =
     (let target = mr_TargetNode req in
      call (DiskOnNode cluster targetVol target) (failAs (''failed to verify disk on target node '' @ target)) (\<lambda>(onTarget, bytes).
        if \<not> onTarget \<or> bytes < kv_Capacity pv
        then fail (Plain (''disk '' @ vdisk targetVol @ '' on '' @ target @ '' (storage '' @ vstorage targetVol @ '') is missing or partial ('' @
               Itoa bytes @ '' of '' @ Itoa (kv_Capacity pv) @ '' bytes) after move, refusing to rewire''))
        else bindE (phase m PhaseRewiring) (\<lambda>_.
          call (replacePVTopology (mg_KClient m) ws (mr_Namespace req) pvc pv targetVol)
            (\<lambda>err. fail (Wrap (''failed to replace PV topology: '' @ Error err) err)) (\<lambda>_.
          bindE (reclaimSourceDisk m cluster pvc vol targetVol taskTimeout) (\<lambda>_.
            event m pvc ''Normal'' ''MigrationCompleted'' (''migrated to proxmox node '' @ target))))))"

definition detachMoveRewire :: "'e migrator \<Rightarrow> waits \<Rightarrow> 'e client \<Rightarrow> migrate_request \<Rightarrow> kpvc \<Rightarrow> kpv \<Rightarrow> volume \<Rightarrow> volume \<Rightarrow> bool \<Rightarrow> int \<Rightarrow> int \<Rightarrow> ('e pworld, unit) io" where
  "detachMoveRewire m ws cluster req pvc pv vol targetVol skipMove vmID taskTimeout =
     call (WaitForVolumeDetach (wt_DetachTicks ws) (wt_DetachDone ws) cluster vmID (vdisk vol)) (failAs ''failed to wait for volume detach'') (\<lambda>_.
       bindE (if skipMove then ret () else moveDisk m cluster req pvc pv vol targetVol taskTimeout) (\<lambda>_.
         verifyAndRewire m ws cluster req pvc pv vol targetVol taskTimeout))"

text \<open>The pods are removed from the nodes of the driver while these are cordoned, and the rest runs until they are uncordoned.\<close>

definition drained :: "'e migrator \<Rightarrow> waits \<Rightarrow> migrate_request \<Rightarrow> kpvc \<Rightarrow> string \<Rightarrow> string list \<Rightarrow> string \<Rightarrow> ('e pworld, unit) io \<Rightarrow> ('e pworld, unit) io" where
  "drained m ws req pvc driver pods vmName rest =
     (let k = mg_KClient m in
      if pods = [] then rest
      else if \<not> mr_Force req
      then fail (sentinelError ErrInUse ''volume is in use''
             (''persistentvolumeclaims is using by pods: '' @ Join '','' pods @ '' on node '' @ vmName @ '', cannot move volume''))
      else bindE (phase m PhaseDraining) (\<lambda>_.
        bindE (event m pvc ''Normal'' ''MigrationDraining'' (''draining pods '' @ Join '','' pods @ '' for migration to '' @ mr_TargetNode req)) (\<lambda>_.
        bindE (CSINodes k driver) (\<lambda>csiNodes.
        call (CondonNodes k csiNodes) (failAs ''failed to cordon nodes'') (\<lambda>cordonedNodes.
          deferring (UncondonNodes k cordonedNodes)
            (bindE (deletePods k (mr_Namespace req) pods) (\<lambda>_. bindE (waitPodsGone k ws req) (\<lambda>_. rest))))))))"

text \<open>What the requested migration is about: the parsed handle and the volume on the target, once it makes sense.\<close>

definition migrationVolumes :: "migrate_request \<Rightarrow> kpv \<Rightarrow> goerr + string \<times> volume \<times> volume" where
  "migrationVolumes req pv =
     (case kv_CSI pv of
        None \<Rightarrow> Inl (Plain (''persistentvolume '' @ km_Name (kv_Meta pv) @ '' is not provisioned by Proxmox CSI driver''))
      | Some (driver, handle) \<Rightarrow>
          if driver \<noteq> DriverName then Inl (Plain (''persistentvolume '' @ km_Name (kv_Meta pv) @ '' is not provisioned by Proxmox CSI driver''))
          else case NewVolumeFromVolumeID handle of
            Inl e \<Rightarrow> Inl (Plain (''failed to parse volume ID: '' @ Error e))
          | Inr vol \<Rightarrow>
              let targetStorage = (if mr_TargetStorage req = [] then vstorage vol else mr_TargetStorage req) in
              if vnode vol = []
              then Inl (invalidTarget (''persistentvolumeclaims '' @ mr_PVCName req @ '' is on shared storage '' @ vstorage vol @ '', no migration needed''))
              else if vnode vol = mr_TargetNode req \<and> targetStorage = vstorage vol
              then Inl (sentinelError ErrAlreadyOnTarget ''volume already on target node''
                     (''persistentvolumeclaims '' @ mr_PVCName req @ '' is already on proxmox node '' @ mr_TargetNode req @ '' (storage '' @ targetStorage @ '')''))
              else Inr (driver, vol, NewVolume (vregion vol) (mr_TargetNode req) targetStorage (targetDiskName (vdisk vol))))"

definition migrateOn :: "'e migrator \<Rightarrow> waits \<Rightarrow> migrate_request \<Rightarrow> 'e pool \<Rightarrow> 'e client \<Rightarrow> kpvc \<Rightarrow> kpv \<Rightarrow> string \<Rightarrow> volume \<Rightarrow> volume \<Rightarrow> ('e pworld, unit) io" where
  "migrateOn m ws req pool cluster pvc pv driver vol targetVol =
     (let targetStorage = vstorage targetVol; taskTimeout = (if mr_TaskTimeout req \<le> 0 then DefaultTaskTimeout else mr_TaskTimeout req) in
      call (GetNodesForStorage cluster targetStorage)
        (\<lambda>e. if errIs e ErrNotFound then fail (invalidTarget (''storage '' @ targetStorage @ '' does not exist''))
             else failAs (''failed to get nodes for storage '' @ targetStorage) e) (\<lambda>zones.
      if mr_TargetNode req \<notin> set zones
      then fail (invalidTarget (''proxmox node '' @ mr_TargetNode req @ '' does not have storage '' @ targetStorage @ '' (nodes: '' @ Join '','' zones @ '')''))
      else bindE (resumeOrShared cluster req pv vol targetVol) (\<lambda>skipMove.
        call (PVCPodUsage (mg_KClient m) (mr_Namespace req) (mr_PVCName req)) (failAs ''failed to find pods using pvc'') (\<lambda>(pods, vmName).
          bindE (resolveVM (mg_KClient m) pool vmName (vregion vol)) (\<lambda>vmID.
            drained m ws req pvc driver pods vmName (detachMoveRewire m ws cluster req pvc pv vol targetVol skipMove vmID taskTimeout))))))"

definition Migrate :: "'e migrator \<Rightarrow> waits \<Rightarrow> migrate_request \<Rightarrow> ('e pworld, unit) io" where
  "Migrate m ws req =
     call (PVCResources (mg_KClient m) (mr_Namespace req) (mr_PVCName req)) (failAs ''failed to get resources'') (\<lambda>(pvc, pv).
       bindE (lift (migrationVolumes req pv)) (\<lambda>(driver, vol, targetVol).
         case mg_PClient m of
           None \<Rightarrow> fail nilDereference
         | Some pool \<Rightarrow>
             call (lift (GetProxmoxCluster pool (vregion vol))) (failAs ''failed to get Proxmox cluster'') (\<lambda>cluster.
               migrateOn m ws req pool cluster pvc pv driver vol targetVol)))"

end
