(* ===== verification/Go_Float.thy ===== *)
theory Go_Float
  imports Csi_Helper "HOL-Library.Log_Nat"
begin

text \<open>
  The double precision arithmetic of Go on the values the placement code computes with: a \<^verbatim>\<open>float64\<close> is the rational it
  denotes, and every operation rounds its exact result to 53 significant bits, ties to even.  Sizes and fractions
  stay far from the ranges of overflow and of subnormal numbers, which are left out.
\<close>

section \<open>Rounding\<close>

definition roundHalfEven :: "rat \<Rightarrow> int" where
  "roundHalfEven x =
     (let f = \<lfloor>x\<rfloor>; d = x - of_int f
      in if d < 1 / 2 then f else if d > 1 / 2 then f + 1 else if even f then f else f + 1)"

definition twoPow :: "int \<Rightarrow> rat" where
  "twoPow e = (if e \<ge> 0 then 2 ^ nat e else 1 / 2 ^ nat (- e))"

text \<open>The exponent of the last of the 53 bits of a number.\<close>

definition ulpExp :: "rat \<Rightarrow> int" where
  "ulpExp x =
     (let (n, d) = quotient_of \<bar>x\<bar>; k = bitlen n - bitlen d
      in (if \<bar>x\<bar> \<ge> twoPow k then k else k - 1) - 52)"

definition fl64 :: "rat \<Rightarrow> rat" where
  "fl64 x = (if x = 0 then 0 else of_int (roundHalfEven (x / twoPow (ulpExp x))) * twoPow (ulpExp x))"

definition fadd :: "rat \<Rightarrow> rat \<Rightarrow> rat" where "fadd a b = fl64 (a + b)"
definition fmul :: "rat \<Rightarrow> rat \<Rightarrow> rat" where "fmul a b = fl64 (a * b)"
definition fdiv :: "rat \<Rightarrow> rat \<Rightarrow> rat" where "fdiv a b = fl64 (a / b)"
definition ofInt64 :: "int \<Rightarrow> rat" where "ofInt64 n = fl64 (of_int n)"

text \<open>\<^verbatim>\<open>int64(x)\<close> truncates; what does not fit becomes the least value, as on amd64.\<close>

definition toInt64 :: "rat \<Rightarrow> int" where
  "toInt64 x = (let t = (if x \<ge> 0 then \<lfloor>x\<rfloor> else \<lceil>x\<rceil>) in if - (2 ^ 63) \<le> t \<and> t < 2 ^ 63 then t else - (2 ^ 63))"

text \<open>\<^verbatim>\<open>%.2f\<close>.\<close>

definition fixed2 :: "rat \<Rightarrow> string" where
  "fixed2 x =
     (let c = roundHalfEven (\<bar>x\<bar> * 100); r = c mod 100
      in (if x < 0 then ''-'' else []) @ Itoa (c div 100) @ ''.'' @ (if r < 10 then ''0'' else []) @ Itoa r)"

section \<open>Rounding errors\<close>

lemma twoPow_pos [simp]: "twoPow e > 0"
  by (simp add: twoPow_def)

lemma roundHalfEven_near: "\<bar>of_int (roundHalfEven x) - x\<bar> \<le> 1 / 2"
proof -
  have "of_int \<lfloor>x\<rfloor> \<le> x" "x < of_int \<lfloor>x\<rfloor> + 1" by linarith+
  then show ?thesis by (auto simp: roundHalfEven_def Let_def abs_le_iff)
qed

lemma roundHalfEven_mono: "x \<le> y \<Longrightarrow> roundHalfEven x \<le> roundHalfEven y"
proof -
  assume le: "x \<le> y"
  have fl: "\<lfloor>x\<rfloor> \<le> \<lfloor>y\<rfloor>" using le by (rule floor_mono)
  show ?thesis
  proof (cases "\<lfloor>x\<rfloor> = \<lfloor>y\<rfloor>")
    case True
    then show ?thesis using le by (auto simp: roundHalfEven_def Let_def)
  next
    case False
    then have "\<lfloor>x\<rfloor> + 1 \<le> \<lfloor>y\<rfloor>" using fl by simp
    moreover have "roundHalfEven x \<le> \<lfloor>x\<rfloor> + 1" "\<lfloor>y\<rfloor> \<le> roundHalfEven y" by (auto simp: roundHalfEven_def Let_def)
    ultimately show ?thesis by simp
  qed
qed

lemma roundHalfEven_int [simp]: "roundHalfEven (of_int n) = n"
  by (simp add: roundHalfEven_def Let_def)

lemma twoPow_add: "twoPow (a + b) = twoPow a * twoPow b"
proof -
  have "twoPow e = 2 powi e" for e by (simp add: twoPow_def power_int_def field_simps)
  then show ?thesis by (simp add: power_int_add)
qed

lemma twoPow_nat: "0 \<le> e \<Longrightarrow> twoPow e = of_int (2 ^ nat e)"
  by (simp add: twoPow_def)

lemma twoPow_mono: "a \<le> b \<Longrightarrow> twoPow a \<le> twoPow b"
proof -
  assume "a \<le> b"
  then have "twoPow b = twoPow a * 2 ^ nat (b - a)" using twoPow_add [of a "b - a"] by (simp add: twoPow_nat)
  then show ?thesis by simp
qed

text \<open>The leading bit of a positive number is bit 52 of its significand.\<close>

lemma ulpExp_lower:
  assumes "x > 0" shows "twoPow 52 * twoPow (ulpExp x) \<le> x"
proof -
  obtain n d where q: "quotient_of x = (n, d)" by (cases "quotient_of x")
  have d: "d > 0" and x: "x = of_int n / of_int d" using q by (auto dest: quotient_of_denom_pos quotient_of_div)
  have n: "n > 0" using assms x d by (simp add: zero_less_divide_iff)
  define k where "k = bitlen n - bitlen d"
  have bn: "2 ^ nat (bitlen n - 1) \<le> n" using bitlen_bounds [OF n] by simp
  have bd: "d < 2 ^ nat (bitlen d)" using bitlen_bounds [OF d] by simp
  have "0 \<le> bitlen n - 1" using n bitlen_eq_zero_iff [of n] bitlen_nonneg [of n] by linarith
  then have "twoPow (bitlen n - 1) \<le> of_int n" using bn by (simp only: twoPow_nat of_int_le_iff)
  moreover have "of_int d \<le> twoPow (bitlen d)" using bd bitlen_nonneg [of d] by (simp only: twoPow_nat of_int_le_iff less_imp_le)
  ultimately have "twoPow (bitlen n - 1) * of_int d \<le> of_int n * twoPow (bitlen d)" using d n by (intro mult_mono) auto
  then have "twoPow (k - 1) * twoPow (bitlen d) * of_int d \<le> of_int n * twoPow (bitlen d)"
    unfolding k_def by (simp flip: twoPow_add)
  then have "twoPow (k - 1) * of_int d \<le> of_int n" using twoPow_pos [of "bitlen d"] by (simp add: mult.commute mult.left_commute)
  then have low: "twoPow (k - 1) \<le> x" using d by (simp add: x pos_le_divide_eq)
  have "ulpExp x = (if x \<ge> twoPow k then k else k - 1) - 52" using assms q by (simp add: ulpExp_def k_def)
  then show ?thesis using low by (auto simp flip: twoPow_add)
qed

text \<open>Rounding never falls below an integer of 53 bits that the exact result is not below of.\<close>

lemma fl64_lower:
  assumes "0 < n" "n < 2 ^ 53" "of_int n \<le> x" shows "of_int n \<le> fl64 x"
proof -
  define u where "u = twoPow (ulpExp x)"
  have "(0 :: rat) < of_int n" using assms(1) by simp
  then have x: "x > 0" using assms(3) by (rule less_le_trans)
  have fl: "fl64 x = of_int (roundHalfEven (x / u)) * u" using x by (simp add: fl64_def u_def)
  have u: "u > 0" by (simp add: u_def)
  show ?thesis
  proof (cases "ulpExp x \<le> 0")
    case True
    have "twoPow (ulpExp x) * twoPow (- ulpExp x) = 1" by (simp add: twoPow_def flip: twoPow_add)
    then have inv: "u * of_int (2 ^ nat (- ulpExp x)) = 1" using True by (simp add: u_def twoPow_nat)
    then have "of_int n / u = of_int (n * 2 ^ nat (- ulpExp x))" using u by (simp add: field_simps)
    moreover have "of_int n / u \<le> x / u" using assms(3) u by (simp add: divide_right_mono)
    ultimately have "n * 2 ^ nat (- ulpExp x) \<le> roundHalfEven (x / u)" using roundHalfEven_mono roundHalfEven_int by metis
    then have "of_int (n * 2 ^ nat (- ulpExp x)) * u \<le> fl64 x" unfolding fl using u by (intro mult_right_mono) (simp_all only: of_int_le_iff less_imp_le)
    moreover have "of_int (n * 2 ^ nat (- ulpExp x)) * u = of_int n * (u * of_int (2 ^ nat (- ulpExp x)))" by simp
    ultimately show ?thesis unfolding inv by (simp only: mult_1_right)
  next
    case False
    have "of_int (2 ^ 52) \<le> x / u" using ulpExp_lower [OF x] u by (simp add: u_def twoPow_nat pos_le_divide_eq)
    then have "2 ^ 52 \<le> roundHalfEven (x / u)" using roundHalfEven_mono roundHalfEven_int by metis
    moreover have "2 \<le> u" using False twoPow_mono [of 1 "ulpExp x"] by (simp add: u_def twoPow_def)
    moreover from \<open>2 ^ 52 \<le> roundHalfEven (x / u)\<close> have "of_int (2 ^ 52) \<le> (of_int (roundHalfEven (x / u)) :: rat)" by (simp only: of_int_le_iff)
    ultimately have "of_int (2 ^ 52) * 2 \<le> fl64 x" unfolding fl by (intro mult_mono) auto
    moreover have "of_int n \<le> (of_int (2 ^ 53) :: rat)" using assms(2) by (simp only: of_int_le_iff less_imp_le)
    ultimately show ?thesis by simp
  qed
qed

text \<open>Rounding never exceeds a power of two that the exact result does not.\<close>

lemma fl64_upper:
  assumes "0 < x" "x \<le> twoPow K" shows "fl64 x \<le> twoPow K"
proof -
  define u where "u = twoPow (ulpExp x)"
  have u: "u > 0" by (simp add: u_def)
  have "twoPow (52 + ulpExp x) \<le> twoPow K" using ulpExp_lower [OF assms(1)] assms(2) by (simp add: twoPow_add)
  then have k: "0 \<le> K - ulpExp x"
  proof (rule contrapos_pp)
    assume "\<not> 0 \<le> K - ulpExp x"
    then have "twoPow (K + 1) \<le> twoPow (52 + ulpExp x)" by (intro twoPow_mono) simp
    moreover have "twoPow K < twoPow (K + 1)" by (simp add: twoPow_add) (simp add: twoPow_def)
    ultimately show "\<not> twoPow (52 + ulpExp x) \<le> twoPow K" by simp
  qed
  have K: "twoPow K = of_int (2 ^ nat (K - ulpExp x)) * u"
    using twoPow_add [of "K - ulpExp x" "ulpExp x"] by (simp add: u_def twoPow_nat [OF k])
  then have "x / u \<le> of_int (2 ^ nat (K - ulpExp x))" using assms(2) u by (simp add: pos_divide_le_eq)
  then have "roundHalfEven (x / u) \<le> 2 ^ nat (K - ulpExp x)" using roundHalfEven_mono roundHalfEven_int by metis
  then have "of_int (roundHalfEven (x / u)) \<le> (of_int (2 ^ nat (K - ulpExp x)) :: rat)" by (simp only: of_int_le_iff)
  then have "of_int (roundHalfEven (x / u)) * u \<le> twoPow K" unfolding K using u by (intro mult_right_mono) simp_all
  then show ?thesis using assms(1) by (simp add: fl64_def u_def)
qed

end
