(* ===== verification/Placement.thy ===== *)
theory Placement
  imports K8s_Tools Go_Float "HOL-Library.Multiset"
begin

text \<open>
  Where a volume can go (\<^verbatim>\<open>pkg/migrator/placement.go\<close>): the capacities of the zones, the candidate storages, the choice
  of a target with headroom, and the greedy plan of a rebalance.
\<close>

section \<open>Capacities and targets\<close>

definition AnnotationDefaultStorageClass :: string where
  "AnnotationDefaultStorageClass = ''storageclass.kubernetes.io/is-default-class''"

definition DefaultHeadroom :: rat where
  "DefaultHeadroom = fl64 (15 / 100)"

record zone_capacity =
  zc_Zone :: string
  zc_Avail :: int
  zc_Total :: int

fun zoneStatuses :: "'e client \<Rightarrow> string \<Rightarrow> string list \<Rightarrow> ('e pworld, zone_capacity list) io" where
  "zoneStatuses cluster storageID [] = ret []"
| "zoneStatuses cluster storageID (zone # zones) =
     call (GetStorageStatus cluster zone storageID) (failAs (''failed to get storage status for '' @ storageID @ '' on '' @ zone)) (\<lambda>storage.
       bindE (zoneStatuses cluster storageID zones) (\<lambda>rest.
         ret (\<lparr>zc_Zone = zone, zc_Avail = wrap64 (ss_avail storage), zc_Total = wrap64 (ss_total storage)\<rparr> # rest)))"

definition ZoneCapacities :: "'e client \<Rightarrow> string \<Rightarrow> ('e pworld, zone_capacity list) io" where
  "ZoneCapacities cluster storageID =
     call (GetNodesForStorage cluster storageID)
       (\<lambda>e. fail (Wrap (''failed to get nodes for storage '' @ storageID @ '': '' @ Error e) e))
       (zoneStatuses cluster storageID)"

definition effectiveHeadroom :: "rat \<Rightarrow> rat" where
  "effectiveHeadroom headroom = (if headroom < 0 then DefaultHeadroom else headroom)"

definition requiredBytes :: "int \<Rightarrow> rat \<Rightarrow> int" where
  "requiredBytes sizeBytes headroom = toInt64 (fmul (ofInt64 sizeBytes) (fadd 1 (effectiveHeadroom headroom)))"

definition betterZone :: "string list \<Rightarrow> int \<Rightarrow> zone_capacity \<Rightarrow> zone_capacity \<Rightarrow> zone_capacity" where
  "betterZone exclude required z best =
     (if zc_Zone z \<in> set exclude then best
      else if zc_Avail z < required then best
      else if zc_Avail z > zc_Avail best then z else best)"

definition noZone :: zone_capacity where
  "noZone = \<lparr>zc_Zone = [], zc_Avail = 0, zc_Total = 0\<rparr>"

definition SelectTarget :: "zone_capacity list \<Rightarrow> string list \<Rightarrow> int \<Rightarrow> rat \<Rightarrow> goerr + string" where
  "SelectTarget zones exclude sizeBytes headroom =
     (let required = requiredBytes sizeBytes headroom;
          best = fold (betterZone exclude required) zones noZone
      in if zc_Zone best = []
         then Inl (invalidTarget (''no zone with '' @ Itoa required @ '' bytes available (headroom '' @ fixed2 (effectiveHeadroom headroom) @ '')''))
         else Inr (zc_Zone best))"

section \<open>Candidate storages\<close>

record candidates =
  cn_Capacities :: "(string \<times> zone_capacity list) list"
  cn_DefaultStorage :: string

text \<open>The loop over the classes: the storages so far and the default class so far.\<close>

definition blessClass :: "kclass \<Rightarrow> string list \<times> kclass option \<Rightarrow> string list \<times> kclass option" where
  "blessClass sc acc =
     (let (blessed, defaultSC) = acc; storage = mget (kl_Parameters sc) ''storage''
      in if kl_Provisioner sc \<noteq> DriverName \<or> storage = [] then acc
         else (if storage \<in> set blessed then blessed else blessed @ [storage],
               if mget (kl_Annotations sc) AnnotationDefaultStorageClass = ''true''
               then (case defaultSC of
                       None \<Rightarrow> Some sc
                     | Some d \<Rightarrow> if kl_CreationTimestamp sc > kl_CreationTimestamp d then Some sc else Some d)
               else defaultSC))"

definition blessedStoragesFromClasses :: "kclass list \<Rightarrow> string list \<Rightarrow> string list \<times> string" where
  "blessedStoragesFromClasses scs blessed =
     (let (blessed, defaultSC) = fold blessClass scs (blessed, None)
      in (blessed, case defaultSC of None \<Rightarrow> [] | Some d \<Rightarrow> mget (kl_Parameters d) ''storage''))"

fun gatherCapacities :: "'e client \<Rightarrow> string list \<Rightarrow> ('e pworld, (string \<times> zone_capacity list) list) io" where
  "gatherCapacities cluster [] = ret []"
| "gatherCapacities cluster (storage # rest) =
     call (ZoneCapacities cluster storage)
       (\<lambda>e. if errIs e ErrNotFound then gatherCapacities cluster rest else fail e)
       (\<lambda>zones. bindE (gatherCapacities cluster rest) (\<lambda>others. ret ((storage, zones) # others)))"

definition GatherStorageCandidates :: "'e client \<Rightarrow> 'e kube \<Rightarrow> string \<Rightarrow> ('e pworld, candidates) io" where
  "GatherStorageCandidates cluster k sourceStorage =
     (let gather = (\<lambda>(blessed, default).
            bindE (gatherCapacities cluster blessed) (\<lambda>caps. ret \<lparr>cn_Capacities = caps, cn_DefaultStorage = default\<rparr>))
      in call (KListClasses k) (\<lambda>_. gather ([sourceStorage], []))
           (\<lambda>scs. gather (blessedStoragesFromClasses scs [sourceStorage])))"

definition capacitiesOf :: "candidates \<Rightarrow> string \<Rightarrow> zone_capacity list" where
  "capacitiesOf c storage = (case map_of (cn_Capacities c) storage of None \<Rightarrow> [] | Some zs \<Rightarrow> zs)"

definition sortedStorages :: "candidates \<Rightarrow> string list" where
  "sortedStorages c = map fst (foldr insertKey (cn_Capacities c) [])"

definition summary :: "candidates \<Rightarrow> string" where
  "summary c =
     (let names = sortedStorages c;
          part = (\<lambda>name. ''storage '' @ name @ '' (zones '' @ Join '','' (map zc_Zone (capacitiesOf c name)) @ '')'')
      in if names = [] then ''no candidate storages (no StorageClass of this driver names a storage on this cluster)''
         else Join ''; '' (map part (take 5 names) @
                (if length names > 5 then [''and '' @ Itoa (int (length names) - 5) @ '' more''] else [])))"

text \<open>The best other storage: zone, storage and free space so far.\<close>

definition betterElsewhere :: "candidates \<Rightarrow> string \<Rightarrow> int \<Rightarrow> string \<Rightarrow> string \<times> string \<times> int \<Rightarrow> string \<times> string \<times> int" where
  "betterElsewhere c sourceZone required storage =
     fold (\<lambda>z best. if zc_Zone z = sourceZone \<or> zc_Avail z < required then best
                    else if zc_Avail z > snd (snd best) then (zc_Zone z, storage, zc_Avail z) else best) (capacitiesOf c storage)"

definition SelectCrossStorageTarget :: "candidates \<Rightarrow> string \<Rightarrow> string \<Rightarrow> int \<Rightarrow> rat \<Rightarrow> goerr + string \<times> string" where
  "SelectCrossStorageTarget c sourceZone sourceStorage sizeBytes headroom =
     (let default = cn_DefaultStorage c;
          other = (let required = requiredBytes sizeBytes headroom;
                       storages = filter (\<lambda>s. s \<noteq> sourceStorage \<and> s \<noteq> default) (sortedStorages c);
                       (bestZone, bestStorage, _) = fold (betterElsewhere c sourceZone required) storages ([], [], 0)
                   in if bestZone = []
                      then Inl (invalidTarget (''no zone with '' @ Itoa required @ '' bytes available (headroom '' @
                             fixed2 (effectiveHeadroom headroom) @ ''); considered '' @ summary c))
                      else Inr (bestZone, bestStorage))
      in case SelectTarget (capacitiesOf c sourceStorage) [sourceZone] sizeBytes headroom of
           Inr zone \<Rightarrow> Inr (zone, sourceStorage)
         | Inl _ \<Rightarrow>
             if default \<noteq> [] \<and> default \<noteq> sourceStorage
             then (case SelectTarget (capacitiesOf c default) [sourceZone] sizeBytes headroom of
                     Inr zone \<Rightarrow> Inr (zone, default)
                   | Inl _ \<Rightarrow> other)
             else other)"

definition hostsZone :: "candidates \<Rightarrow> string \<Rightarrow> string \<Rightarrow> bool" where
  "hostsZone c zone storage \<longleftrightarrow> list_ex (\<lambda>z. zc_Zone z = zone) (capacitiesOf c storage)"

definition StorageForZone :: "candidates \<Rightarrow> string \<Rightarrow> string \<Rightarrow> goerr + string" where
  "StorageForZone c zone sourceStorage =
     (if hostsZone c zone sourceStorage then Inr []
      else if cn_DefaultStorage c \<noteq> [] \<and> hostsZone c zone (cn_DefaultStorage c) then Inr (cn_DefaultStorage c)
      else let (best, _) = fold (\<lambda>storage best. fold (\<lambda>z best. if zc_Zone z = zone \<and> zc_Avail z > snd best then (storage, zc_Avail z) else best)
                              (capacitiesOf c storage) best) (sortedStorages c) ([], 0)
           in if best = [] then Inl (invalidTarget (''no candidate storage on zone '' @ zone @ ''; considered '' @ summary c))
              else Inr best)"

section \<open>Rebalancing\<close>

record move =
  mv_Namespace :: string
  mv_PVCName :: string
  mv_PVName :: string
  mv_Source :: string
  mv_Target :: string
  mv_SizeBytes :: int

record volume_info =
  vi_Namespace :: string
  vi_PVCName :: string
  vi_PVName :: string
  vi_Zone :: string
  vi_SizeBytes :: int
  vi_InUse :: bool

type_synonym zone_ints = "(string \<times> int) list"

definition zget :: "zone_ints \<Rightarrow> string \<Rightarrow> int" where
  "zget m zone = (case map_of m zone of None \<Rightarrow> 0 | Some n \<Rightarrow> n)"

definition vget :: "(string \<times> volume_info list) list \<Rightarrow> string \<Rightarrow> volume_info list" where
  "vget m zone = (case map_of m zone of None \<Rightarrow> [] | Some vs \<Rightarrow> vs)"

definition usedFraction :: "zone_ints \<Rightarrow> zone_ints \<Rightarrow> string \<Rightarrow> rat" where
  "usedFraction avail tot zone =
     (if zget tot zone = 0 then 0
      else fdiv (ofInt64 (wrap64 (zget tot zone - zget avail zone))) (ofInt64 (zget tot zone)))"

text \<open>The fullest zone above the threshold that has volumes left.\<close>

definition pickSource :: "rat \<Rightarrow> zone_ints \<Rightarrow> (string \<times> volume_info list) list \<Rightarrow> zone_ints \<Rightarrow> zone_capacity list \<Rightarrow> string" where
  "pickSource high tot byZone avail zones =
     fold (\<lambda>z source.
         if usedFraction avail tot (zc_Zone z) \<ge> high \<and> vget byZone (zc_Zone z) \<noteq> []
         then (if source = [] \<or> usedFraction avail tot (zc_Zone z) > usedFraction avail tot source then zc_Zone z else source)
         else source) zones []"

definition planCandidates :: "rat \<Rightarrow> zone_ints \<Rightarrow> zone_ints \<Rightarrow> string \<Rightarrow> zone_capacity list \<Rightarrow> zone_capacity list" where
  "planCandidates low tot avail source zones =
     map (\<lambda>z. \<lparr>zc_Zone = zc_Zone z, zc_Avail = zget avail (zc_Zone z), zc_Total = zget tot (zc_Zone z)\<rparr>)
       (filter (\<lambda>z. zc_Zone z \<noteq> source \<and> usedFraction avail tot (zc_Zone z) < low) zones)"

definition moveOf :: "volume_info \<Rightarrow> string \<Rightarrow> string \<Rightarrow> move" where
  "moveOf vol source target =
     \<lparr>mv_Namespace = vi_Namespace vol, mv_PVCName = vi_PVCName vol, mv_PVName = vi_PVName vol, mv_Source = source, mv_Target = target,
      mv_SizeBytes = vi_SizeBytes vol\<rparr>"

definition shift :: "int \<Rightarrow> string \<Rightarrow> string \<Rightarrow> zone_ints \<Rightarrow> zone_ints" where
  "shift n source target avail =
     (let avail = AList.update source (wrap64 (zget avail source + n)) avail
      in AList.update target (wrap64 (zget avail target - n)) avail)"

lemma update_shorter:
  "map_of m k = Some (v # vs) \<Longrightarrow> sum_list (map (\<lambda>(_, l). length l) (AList.update k vs m)) < sum_list (map (\<lambda>(_, l). length l) m)"
  by (induction m) (auto split: if_splits)

text \<open>The planning loop, for at most \<open>n\<close> more moves: each round takes a volume off its zone.\<close>

function planLoop ::
    "zone_capacity list \<Rightarrow> zone_ints \<Rightarrow> rat \<Rightarrow> rat \<Rightarrow> rat \<Rightarrow> nat \<Rightarrow> zone_ints \<Rightarrow> (string \<times> volume_info list) list \<Rightarrow> move list" where
  "planLoop zones tot high low headroom n avail byZone =
     (if n = 0 then []
      else let source = pickSource high tot byZone avail zones
           in if source = [] then []
              else case map_of byZone source of
                None \<Rightarrow> []
              | Some [] \<Rightarrow> []
              | Some (vol # vols) \<Rightarrow>
                  (case SelectTarget (planCandidates low tot avail source zones) [source] (vi_SizeBytes vol) headroom of
                     Inl _ \<Rightarrow> planLoop zones tot high low headroom n avail (AList.update source vols byZone)
                   | Inr target \<Rightarrow> moveOf vol source target #
                       planLoop zones tot high low headroom (n - 1) (shift (vi_SizeBytes vol) source target avail) (AList.update source vols byZone)))"
  by pat_completeness auto
termination
  by (relation "measure (\<lambda>(zones, tot, high, low, headroom, n, avail, byZone). sum_list (map (\<lambda>(_, l). length l) byZone))")
    (auto intro: update_shorter)

declare planLoop.simps [simp del]

definition groupByZone :: "volume_info list \<Rightarrow> (string \<times> volume_info list) list" where
  "groupByZone vols =
     fold (\<lambda>v m. if vi_InUse v then m else AList.update (vi_Zone v) (vget m (vi_Zone v) @ [v]) m) vols []"

text \<open>\<open>sortBySize\<close> is \<^verbatim>\<open>slices.SortFunc\<close> with the difference of the sizes, which need not be stable.\<close>

definition Plan :: "(volume_info list \<Rightarrow> volume_info list) \<Rightarrow> zone_capacity list \<Rightarrow> volume_info list \<Rightarrow> rat \<Rightarrow> rat \<Rightarrow> rat \<Rightarrow> int \<Rightarrow> move list" where
  "Plan sortBySize zones vols high low headroom maxMoves =
     (if maxMoves \<le> 0 \<or> length zones < 2 then []
      else let avail = fold (\<lambda>z. AList.update (zc_Zone z) (zc_Avail z)) zones [];
               tot = fold (\<lambda>z. AList.update (zc_Zone z) (zc_Total z)) zones [];
               byZone = map (\<lambda>(zone, vs). (zone, sortBySize vs)) (groupByZone vols)
           in planLoop zones tot high low headroom (nat maxMoves) avail byZone)"

section \<open>Targets have room\<close>

text \<open>With a headroom between nothing and everything, what is required is at least the size, for all sizes below 8 PiB.\<close>

lemma requiredBytes_ge:
  assumes "0 < bytes" "bytes < 2 ^ 53" "0 \<le> headroom" "headroom \<le> 1"
  shows "bytes \<le> requiredBytes bytes headroom"
proof -
  define s where "s = ofInt64 bytes"
  define f where "f = fadd 1 headroom"
  have s1: "of_int bytes \<le> s" unfolding s_def ofInt64_def by (rule fl64_lower) (use assms in simp_all)
  have "(of_int bytes :: rat) \<le> of_int (2 ^ 53)" using assms(2) by (simp only: of_int_le_iff less_imp_le)
  then have s2: "s \<le> twoPow 53" unfolding s_def ofInt64_def by (intro fl64_upper) (use assms(1) in \<open>simp_all add: twoPow_def\<close>)
  have f1: "of_int 1 \<le> f" unfolding f_def fadd_def by (rule fl64_lower) (use assms in simp_all)
  have f2: "f \<le> twoPow 1" unfolding f_def fadd_def by (rule fl64_upper) (use assms in \<open>simp_all add: twoPow_def\<close>)
  have s0: "0 < s" using s1 assms(1) by (metis less_le_trans of_int_0_less_iff)
  have "of_int bytes * of_int 1 \<le> s * f" using s1 f1 s0 by (intro mult_mono) (simp_all add: less_imp_le)
  then have p1: "of_int bytes \<le> fmul s f" unfolding fmul_def by (intro fl64_lower) (use assms in simp_all)
  have "s * f \<le> twoPow 53 * twoPow 1" using s2 f2 s0 f1 by (intro mult_mono) (simp_all add: less_imp_le)
  then have "fmul s f \<le> twoPow 54" unfolding fmul_def
    by (intro fl64_upper) (use s0 f1 in \<open>simp_all flip: twoPow_add\<close>)
  then have "\<lfloor>fmul s f\<rfloor> < 2 ^ 63" by (simp add: twoPow_def floor_less_iff)
  moreover have "bytes \<le> \<lfloor>fmul s f\<rfloor>" using p1 by (simp add: le_floor_iff)
  moreover have "0 \<le> fmul s f" using p1 assms(1) by (metis less_le_trans of_int_0_less_iff less_imp_le)
  ultimately show ?thesis
    using assms(1,3) by (simp add: requiredBytes_def effectiveHeadroom_def toInt64_def Let_def flip: s_def f_def)
qed

lemma betterZone_fold:
  fixes zones ex req start
  defines "b \<equiv> fold (betterZone ex req) zones start"
  shows "(b = start \<or> b \<in> set zones \<and> zc_Zone b \<notin> set ex \<and> req \<le> zc_Avail b) \<and> zc_Avail start \<le> zc_Avail b \<and>
    (\<forall>z \<in> set zones. zc_Zone z \<notin> set ex \<and> req \<le> zc_Avail z \<longrightarrow> zc_Avail z \<le> zc_Avail b)"
  unfolding b_def
proof (induction zones arbitrary: start)
  case (Cons z zones)
  show ?case using Cons.IH [of "betterZone ex req z start"] by (auto simp: betterZone_def split: if_splits)
qed simp

text \<open>C17: The target chosen for a volume is a zone that is not excluded and has the size plus the headroom free, and no
  such zone has more space; when there is none the answer is an invalid target.\<close>

theorem SelectTarget_best:
  assumes "list_all (\<lambda>z. zc_Zone z \<noteq> []) zones"
  shows "case SelectTarget zones exclude bytes headroom of
      Inr zone \<Rightarrow> (\<exists>c \<in> set zones. zc_Zone c = zone \<and> zone \<notin> set exclude \<and> requiredBytes bytes headroom \<le> zc_Avail c \<and>
        (\<forall>z \<in> set zones. zc_Zone z \<notin> set exclude \<and> requiredBytes bytes headroom \<le> zc_Avail z \<longrightarrow> zc_Avail z \<le> zc_Avail c))
    | Inl err \<Rightarrow> errIs err ErrInvalidTarget \<and>
        (\<forall>z \<in> set zones. zc_Zone z \<in> set exclude \<or> zc_Avail z < requiredBytes bytes headroom \<or> zc_Avail z \<le> 0)"
proof -
  define b where "b = fold (betterZone exclude (requiredBytes bytes headroom)) zones noZone"
  note spec = betterZone_fold [of exclude "requiredBytes bytes headroom" zones noZone, folded b_def]
  show ?thesis
  proof (cases "zc_Zone b = []")
    case True
    then have "b = noZone" using spec assms by (auto simp: list_all_iff)
    then have "zc_Avail b = 0" by (simp add: noZone_def)
    then have "\<forall>z \<in> set zones. zc_Zone z \<in> set exclude \<or> zc_Avail z < requiredBytes bytes headroom \<or> zc_Avail z \<le> 0"
      using spec by force
    then show ?thesis using True by (simp add: SelectTarget_def Let_def invalidTarget_def sentinelError_def flip: b_def)
  next
    case False
    then have "b \<noteq> noZone" by (auto simp: noZone_def)
    then show ?thesis using False spec by (auto simp: SelectTarget_def Let_def simp flip: b_def)
  qed
qed

section \<open>Plans\<close>

text \<open>A plan replayed: every move has room for its volume and the headroom when its turn comes.\<close>

primrec fits :: "rat \<Rightarrow> zone_ints \<Rightarrow> move list \<Rightarrow> bool" where
  "fits headroom avail [] = True"
| "fits headroom avail (m # ms) =
     (requiredBytes (mv_SizeBytes m) headroom \<le> zget avail (mv_Target m) \<and>
      fits headroom (shift (mv_SizeBytes m) (mv_Source m) (mv_Target m) avail) ms)"

definition sound_move :: "zone_capacity list \<Rightarrow> move \<Rightarrow> bool" where
  "sound_move zones m \<longleftrightarrow> mv_Target m \<in> zc_Zone ` set zones \<and> mv_Target m \<noteq> mv_Source m"

lemma planned_target:
  assumes "SelectTarget (planCandidates low tot avail source zones) [source] n headroom = Inr target"
  shows "target \<in> zc_Zone ` set zones" "target \<noteq> source" "requiredBytes n headroom \<le> zget avail target"
proof -
  define b where "b = fold (betterZone [source] (requiredBytes n headroom)) (planCandidates low tot avail source zones) noZone"
  note spec = betterZone_fold [of "[source]" "requiredBytes n headroom" "planCandidates low tot avail source zones" noZone, folded b_def]
  have t: "zc_Zone b = target" "target \<noteq> []" using assms by (auto simp: SelectTarget_def Let_def b_def split: if_splits)
  then have "b \<noteq> noZone" by (auto simp: noZone_def)
  then show "target \<in> zc_Zone ` set zones" "target \<noteq> source" "requiredBytes n headroom \<le> zget avail target"
    using spec t by (auto simp: planCandidates_def)
qed

abbreviation volumesOf :: "(string \<times> volume_info list) list \<Rightarrow> volume_info list" where
  "volumesOf byZone \<equiv> concat (map snd byZone)"

lemma mset_update:
  "map_of m k = Some (v # vs) \<Longrightarrow> mset (volumesOf m) = add_mset v (mset (volumesOf (AList.update k vs m)))"
  by (induction m) (auto split: if_splits)

lemma subset_add_mset: "A \<subseteq># B \<Longrightarrow> A \<subseteq># add_mset x B"
  by (simp add: subseteq_mset_def le_SucI)

lemma planLoop_sound:
  "length (planLoop zones tot high low headroom n avail byZone) \<le> n \<and>
   list_all (sound_move zones) (planLoop zones tot high low headroom n avail byZone) \<and>
   fits headroom avail (planLoop zones tot high low headroom n avail byZone) \<and>
   image_mset mv_PVName (mset (planLoop zones tot high low headroom n avail byZone)) \<subseteq># image_mset vi_PVName (mset (volumesOf byZone))"
proof (induction zones tot high low headroom n avail byZone rule: planLoop.induct)
  case (1 zones tot high low headroom n avail byZone)
  define source where "source = pickSource high tot byZone avail zones"
  show ?case
  proof (cases "n = 0 \<or> source = [] \<or> map_of byZone source = None \<or> map_of byZone source = Some []")
    case True
    then show ?thesis by (subst (1 2 3 4) planLoop.simps) (auto simp flip: source_def)
  next
    case False
    then obtain vol vols where s: "n \<noteq> 0" "source \<noteq> []" "map_of byZone source = Some (vol # vols)"
      by (metis list.exhaust option.exhaust)
    define rest where "rest = AList.update source vols byZone"
    have ms: "mset (volumesOf byZone) = add_mset vol (mset (volumesOf rest))" unfolding rest_def by (rule mset_update [OF s(3)])
    show ?thesis
    proof (cases "SelectTarget (planCandidates low tot avail source zones) [source] (vi_SizeBytes vol) headroom")
      case (Inl err)
      have eq: "planLoop zones tot high low headroom n avail byZone = planLoop zones tot high low headroom n avail rest"
        using s Inl by (subst planLoop.simps) (simp add: Let_def rest_def flip: source_def)
      show ?thesis using 1(1) [OF _ source_def _ s(3) refl Inl] s ms unfolding eq rest_def
        by (auto intro: subset_add_mset)
    next
      case (Inr target)
      define ending where "ending = planLoop zones tot high low headroom (n - 1) (shift (vi_SizeBytes vol) source target avail) rest"
      have eq: "planLoop zones tot high low headroom n avail byZone = moveOf vol source target # ending"
        using s Inr by (subst planLoop.simps) (simp add: Let_def rest_def ending_def flip: source_def)
      have ih: "length ending \<le> n - 1 \<and> list_all (sound_move zones) ending \<and> fits headroom (shift (vi_SizeBytes vol) source target avail) ending \<and>
          image_mset mv_PVName (mset ending) \<subseteq># image_mset vi_PVName (mset (volumesOf rest))"
        unfolding ending_def rest_def using 1(2) [OF _ source_def _ s(3) refl Inr] s by blast
      moreover have "sound_move zones (moveOf vol source target)"
        using planned_target [OF Inr] by (simp add: sound_move_def moveOf_def)
      ultimately show ?thesis
        unfolding eq ms using planned_target(3) [OF Inr] s(1) by (auto simp: moveOf_def)
    qed
  qed
qed

lemma mset_grow: "mset (volumesOf (AList.update k (vget m k @ [v]) m)) = add_mset v (mset (volumesOf m))"
  by (induction m) (auto simp: vget_def split: option.splits)

lemma mset_groupByZone: "mset (volumesOf (groupByZone vols)) = mset (filter (\<lambda>v. \<not> vi_InUse v) vols)"
  unfolding groupByZone_def by (induction vols rule: rev_induct) (simp_all add: mset_grow)

lemma mset_resorted: "(\<And>xs. mset (f xs) = mset xs) \<Longrightarrow> mset (volumesOf (map (\<lambda>(z, vs). (z, f vs)) m)) = mset (volumesOf m)"
  by (induction m) auto

text \<open>C16: A rebalance plan has no more moves than allowed, moves every volume at most once and only volumes that are not in use,
  moves it to another zone that is one of those given, and every move has room for its volume and the headroom at the time it is made.\<close>

theorem Plan_sound:
  assumes "\<And>xs. mset (sortBySize xs) = mset xs" "0 \<le> maxMoves"
  shows "int (length (Plan sortBySize zones vols high low headroom maxMoves)) \<le> maxMoves \<and>
     list_all (sound_move zones) (Plan sortBySize zones vols high low headroom maxMoves) \<and>
     fits headroom (fold (\<lambda>z. AList.update (zc_Zone z) (zc_Avail z)) zones []) (Plan sortBySize zones vols high low headroom maxMoves) \<and>
     image_mset mv_PVName (mset (Plan sortBySize zones vols high low headroom maxMoves)) \<subseteq>#
       image_mset vi_PVName (mset (filter (\<lambda>v. \<not> vi_InUse v) vols))"
proof (cases "maxMoves \<le> 0 \<or> length zones < 2")
  case True
  then show ?thesis using assms(2) by (auto simp: Plan_def)
next
  case False
  note sound = planLoop_sound [of zones "fold (\<lambda>z. AList.update (zc_Zone z) (zc_Total z)) zones []" high low headroom "nat maxMoves"
      "fold (\<lambda>z. AList.update (zc_Zone z) (zc_Avail z)) zones []" "map (\<lambda>(zone, vs). (zone, sortBySize vs)) (groupByZone vols)"]
  show ?thesis
    using False sound assms(2) unfolding Plan_def Let_def mset_resorted [of sortBySize, OF assms(1)] mset_groupByZone
    by (auto simp: le_nat_iff)
qed

definition sampleZones :: "zone_capacity list" where
  "sampleZones = [\<lparr>zc_Zone = ''pve-1'', zc_Avail = 100, zc_Total = 1000\<rparr>, \<lparr>zc_Zone = ''pve-2'', zc_Avail = 900, zc_Total = 1000\<rparr>,
     \<lparr>zc_Zone = ''pve-3'', zc_Avail = 700, zc_Total = 1000\<rparr>]"

definition sampleVolume :: "string \<Rightarrow> int \<Rightarrow> volume_info" where
  "sampleVolume n bytes = \<lparr>vi_Namespace = ''default'', vi_PVCName = n, vi_PVName = n, vi_Zone = ''pve-1'', vi_SizeBytes = bytes, vi_InUse = False\<rparr>"

theorem SelectTarget_best_witness:
  "SelectTarget sampleZones [''pve-1''] 600 (1 / 4) = Inr ''pve-2'' \<and> requiredBytes 600 (1 / 4) = 750 \<and>
   (\<exists>c \<in> set sampleZones. zc_Zone c = ''pve-2'' \<and> requiredBytes 600 (1 / 4) \<le> zc_Avail c)"
proof -
  have z: "list_all (\<lambda>z. zc_Zone z \<noteq> []) sampleZones" by (simp add: sampleZones_def)
  have t: "SelectTarget sampleZones [''pve-1''] 600 (1 / 4) = Inr ''pve-2''" "requiredBytes 600 (1 / 4) = 750" by code_simp+
  show ?thesis using SelectTarget_best [OF z, of "[''pve-1'']" 600 "1 / 4", unfolded t(1)] t by auto
qed

theorem Plan_sound_witness:
  "map mv_Target (Plan (sort_key vi_SizeBytes) sampleZones [sampleVolume ''b'' 60, sampleVolume ''a'' 50] (3 / 4) (1 / 2) 0 5) = [''pve-2'', ''pve-2''] \<and>
   fits 0 [(''pve-1'', 100), (''pve-2'', 900), (''pve-3'', 700)]
     (Plan (sort_key vi_SizeBytes) sampleZones [sampleVolume ''b'' 60, sampleVolume ''a'' 50] (3 / 4) (1 / 2) 0 5)"
proof
  show "map mv_Target (Plan (sort_key vi_SizeBytes) sampleZones [sampleVolume ''b'' 60, sampleVolume ''a'' 50] (3 / 4) (1 / 2) 0 5) = [''pve-2'', ''pve-2'']"
    by code_simp
  have a: "fold (\<lambda>z. AList.update (zc_Zone z) (zc_Avail z)) sampleZones [] = [(''pve-1'', 100), (''pve-2'', 900), (''pve-3'', 700)]"
    by (simp add: sampleZones_def)
  show "fits 0 [(''pve-1'', 100), (''pve-2'', 900), (''pve-3'', 700)]
     (Plan (sort_key vi_SizeBytes) sampleZones [sampleVolume ''b'' 60, sampleVolume ''a'' 50] (3 / 4) (1 / 2) 0 5)"
    using Plan_sound [of "sort_key vi_SizeBytes" 5 sampleZones] unfolding a by simp
qed

end
