(* ===== verification/Migration_Controller.thy ===== *)
theory Migration_Controller
  imports Migrator Placement
begin

text \<open>
  The annotation-driven migration controller (\<^verbatim>\<open>pkg/controller/migration/controller.go\<close>).  Its informers and work queues are
  libraries: an event handler is the list of the keys it adds to its queue, a reconciler is given a key.  The split of a key is a
  parameter.  A reactive evaluation that is put off returns the time after which its key is added again.
\<close>

section \<open>The controller\<close>

record migration_options =
  mo_MaxAttempts :: int
  mo_TaskTimeout :: int
  mo_DrainTimeout :: int
  mo_DetachTimeout :: int
  mo_Resync :: int
  mo_PodFollow :: bool
  mo_PrimaryStorage :: "(string \<times> gomap) list"
  mo_ReactiveEvacuation :: bool
  mo_ReactiveEvacuationGrace :: int

record 'e migration_controller =
  mc_kclient :: "'e kube"
  mc_migrator :: "'e migrator"
  mc_opts :: migration_options
  mc_SplitKey :: "string \<Rightarrow> goerr + string \<times> string"

definition minute :: int where
  "minute = 60 * 1000000000"

definition DefaultReactiveEvacuationGrace :: int where
  "DefaultReactiveEvacuationGrace = 2 * minute"

definition NewMigration :: "'e kube \<Rightarrow> 'e migrator \<Rightarrow> migration_options \<Rightarrow> (string \<Rightarrow> goerr + string \<times> string) \<Rightarrow> 'e migration_controller" where
  "NewMigration kclient m opts split =
     \<lparr>mc_kclient = kclient, mc_migrator = m,
      mc_opts = opts\<lparr>mo_MaxAttempts := (if mo_MaxAttempts opts \<le> 0 then 5 else mo_MaxAttempts opts),
                     mo_Resync := (if mo_Resync opts \<le> 0 then 10 * minute else mo_Resync opts),
                     mo_ReactiveEvacuationGrace := (if mo_ReactiveEvacuationGrace opts \<le> 0 then DefaultReactiveEvacuationGrace
                                                    else mo_ReactiveEvacuationGrace opts)\<rparr>,
      mc_SplitKey = split\<rparr>"

definition PhasePending :: string where "PhasePending = ''Pending''"
definition PhaseCompleted :: string where "PhaseCompleted = ''Completed''"
definition PhaseFailed :: string where "PhaseFailed = ''Failed''"
definition PhaseSkipped :: string where "PhaseSkipped = ''Skipped''"

section \<open>Event handlers\<close>

definition enqueuePVC :: "kpvc \<Rightarrow> string list" where
  "enqueuePVC pvc =
     (if GetAnnotation (km_Annotations (kc_Meta pvc)) AnnotationMigrateNode = [] then []
      else [nsName (km_Namespace (kc_Meta pvc)) (km_Name (kc_Meta pvc))])"

definition enqueueNode :: "knode \<Rightarrow> string list" where
  "enqueueNode node = (if GetAnnotation (kn_annotations node) AnnotationEvacuate = [] then [] else [kn_name node])"

definition enqueuePodPVCs :: "kpod \<Rightarrow> string list" where
  "enqueuePodPVCs pod =
     (if kp_NodeName pod = [] \<or> terminal pod then []
      else List.map_filter (map_option (nsName (kp_Namespace pod))) (kp_Volumes pod))"

text \<open>\<open>None\<close> unless the scheduler could not place the pod.\<close>

definition podUnschedulableSince :: "kpod \<Rightarrow> int option" where
  "podUnschedulableSince pod =
     (if kp_Phase pod \<noteq> PodPending then None
      else case List.find (\<lambda>c. pc_Type c = ''PodScheduled'') (kp_Conditions pod) of
             None \<Rightarrow> None
           | Some cond \<Rightarrow>
               if pc_Status cond \<noteq> ''False'' \<or> pc_Reason cond \<noteq> ''Unschedulable'' then None
               else Some (if pc_LastTransitionTime cond = 0 then kp_CreationTimestamp pod else pc_LastTransitionTime cond))"

definition enqueueReactivePod :: "kpod \<Rightarrow> string list" where
  "enqueueReactivePod pod =
     (if podUnschedulableSince pod = None then []
      else if list_ex (\<lambda>v. v \<noteq> None) (kp_Volumes pod) then [nsName (kp_Namespace pod) (kp_Name pod)] else [])"

section \<open>Patching annotations\<close>

text \<open>A read or write whose object is gone is nothing to do.\<close>

definition unlessGone :: "('w, 'a) io \<Rightarrow> ('a \<Rightarrow> ('w, 'b) io) \<Rightarrow> 'b \<Rightarrow> ('w, 'b) io" where
  "unlessGone m k gone = call m (\<lambda>e. if notFound e then ret gone else fail e) k"

definition patchPVCAnnotations :: "'e kube \<Rightarrow> string \<Rightarrow> string \<Rightarrow> annotation_patch \<Rightarrow> ('e pworld, unit) io" where
  "patchPVCAnnotations k namespace name annotations =
     unlessGone (KGetPVC k namespace name) (\<lambda>current.
       unlessGone (KPatchPVC k namespace name (PatchAnnotations (NormalizeLegacy (km_Annotations (kc_Meta current)) annotations))) ret ()) ()"

definition patchNodeAnnotations :: "'e kube \<Rightarrow> string \<Rightarrow> annotation_patch \<Rightarrow> ('e pworld, unit) io" where
  "patchNodeAnnotations k name annotations =
     unlessGone (KGetNode k name) (\<lambda>current.
       unlessGone (KPatchKNode k name (PatchAnnotations (NormalizeLegacy (kn_annotations current) annotations))) ret ()) ()"

definition failPVC :: "'e kube \<Rightarrow> string \<Rightarrow> string \<Rightarrow> string \<Rightarrow> ('e pworld, unit) io" where
  "failPVC k namespace name message =
     patchPVCAnnotations k namespace name [(AnnotationMigratePhase, Some PhaseFailed), (AnnotationMigrateMessage, Some message)]"

definition record_event :: "'e kube \<Rightarrow> string \<Rightarrow> string \<Rightarrow> string \<Rightarrow> string \<Rightarrow> ('e pworld, unit) io" where
  "record_event k object eventType reason message =
     attempt (invoke (K8s (KEvent object eventType reason message)) (q_Event k object eventType reason message))"

section \<open>Migration requests\<close>

text \<open>The number \<^verbatim>\<open>strconv.Atoi\<close> returns even with an error: the end of the range for one that is out of it, which is
  noticed as soon as the digits read exceed 64 bits, and zero for a text that is no number.\<close>

definition AtoiValue :: "string \<Rightarrow> int" where
  "AtoiValue s =
     (case Atoi s of
        Some n \<Rightarrow> n
      | None \<Rightarrow>
          let ds = (if s \<noteq> [] \<and> hd s \<in> {CHR ''-'', CHR ''+''} then tl s else s)
          in if ds \<noteq> [] \<and> (list_all is_digit ds \<or> dec_val (takeWhile is_digit ds) \<ge> 2 ^ 64)
             then if hd s = CHR ''-'' then - (2 ^ 63) else 2 ^ 63 - 1
             else 0)"

text \<open>The request annotations are stripped when a request is consumed.\<close>

definition consumed :: annotation_patch where
  "consumed = [(AnnotationMigrateNode, None), (AnnotationMigrateForce, None), (AnnotationMigrateStorage, None)]"

definition alreadyOnTarget :: "string \<Rightarrow> string \<Rightarrow> kpv \<Rightarrow> bool" where
  "alreadyOnTarget target reqStorage pv =
     (case kv_CSI pv of
        None \<Rightarrow> False
      | Some (_, handle) \<Rightarrow>
          (case NewVolumeFromVolumeID handle of
             Inl _ \<Rightarrow> False
           | Inr vol \<Rightarrow> vzone vol = target \<and> (reqStorage = [] \<or> reqStorage = vstorage vol)))"

text \<open>What follows the migrator's error.\<close>

definition migrationFailed :: "'e kube \<Rightarrow> string \<Rightarrow> string \<Rightarrow> string \<Rightarrow> goerr \<Rightarrow> ('e pworld, unit) io" where
  "migrationFailed k object namespace name err =
     (if errIs err ErrInvalidTarget \<or> errIs err ErrInUse
      then bindE (record_event k object ''Warning'' ''MigrationFailed'' (Error err)) (\<lambda>_. failPVC k namespace name (Error err))
      else if errIs err ErrAlreadyOnTarget
      then patchPVCAnnotations k namespace name (consumed @ [(AnnotationMigratePhase, Some PhaseCompleted)])
      else if errIs err ErrSharedStorage
      then bindE (record_event k object ''Normal'' ''MigrationSkipped'' (Error err)) (\<lambda>_.
             patchPVCAnnotations k namespace name
               (consumed @ [(AnnotationMigratePhase, Some PhaseSkipped), (AnnotationMigrateMessage, Some (Error err))]))
      else bindE (record_event k object ''Warning'' ''MigrationError'' (Error err)) (\<lambda>_.
             bindE (attempt (patchPVCAnnotations k namespace name [(AnnotationMigrateMessage, Some (Error err))])) (\<lambda>_. fail err)))"

definition migrationRequest :: "migration_options \<Rightarrow> string \<Rightarrow> string \<Rightarrow> gomap \<Rightarrow> migrate_request" where
  "migrationRequest opts namespace name annotations =
     \<lparr>mr_Namespace = namespace, mr_PVCName = name, mr_TargetNode = GetAnnotation annotations AnnotationMigrateNode,
      mr_TargetStorage = GetAnnotation annotations AnnotationMigrateStorage,
      mr_Force = (GetAnnotation annotations AnnotationMigrateForce = ''true''), mr_TaskTimeout = mo_TaskTimeout opts,
      mr_DrainTimeout = mo_DrainTimeout opts, mr_DetachTimeout = mo_DetachTimeout opts\<rparr>"

text \<open>The attempt itself: counted first, with the phases reported on the claim.\<close>

definition runMigration :: "'e migration_controller \<Rightarrow> waits \<Rightarrow> string \<Rightarrow> string \<Rightarrow> kpvc \<Rightarrow> int \<Rightarrow> ('e pworld, unit) io" where
  "runMigration c ws namespace name pvc attempts = withTime (mc_kclient c) (\<lambda>now.
     let k = mc_kclient c; annotations = km_Annotations (kc_Meta pvc); object = nsName (km_Namespace (kc_Meta pvc)) (km_Name (kc_Meta pvc));
         started = (if GetAnnotation annotations AnnotationMigrateStartedAt = [] then [(AnnotationMigrateStartedAt, Some (q_FormatTime k now))] else [])
     in bindE (patchPVCAnnotations k namespace name
                 ([(AnnotationMigratePhase, Some PhasePending), (AnnotationMigrateAttempts, Some (Itoa (attempts + 1))), (AnnotationMigrateMessage, None)] @ started)) (\<lambda>_.
        bindE (record_event k object ''Normal'' ''MigrationStarted'' (''migrating to proxmox node '' @ GetAnnotation annotations AnnotationMigrateNode)) (\<lambda>_.
        call (Migrate ((mc_migrator c)\<lparr>mg_OnPhase := Some (\<lambda>p. patchPVCAnnotations k namespace name [(AnnotationMigratePhase, Some p)])\<rparr>) ws
                (migrationRequest (mc_opts c) namespace name annotations))
          (migrationFailed k object namespace name)
          (\<lambda>_. attempt (patchPVCAnnotations k namespace name [(AnnotationMigratePhase, Some PhaseCompleted)])))))"

definition requestedMigration :: "'e migration_controller \<Rightarrow> waits \<Rightarrow> string \<Rightarrow> string \<Rightarrow> kpvc \<Rightarrow> ('e pworld, unit) io" where
  "requestedMigration c ws namespace name pvc =
     (let k = mc_kclient c; annotations = km_Annotations (kc_Meta pvc); object = nsName (km_Namespace (kc_Meta pvc)) (km_Name (kc_Meta pvc));
          force = (GetAnnotation annotations AnnotationMigrateForce = ''true'')
      in bindE (PVCPodUsage k namespace name) (\<lambda>(pods, _).
           if pods \<noteq> [] \<and> \<not> force
           then bindE (record_event k object ''Warning'' ''MigrationSkipped''
                        (''PVC is in use by pods and the '' @ AnnotationMigrateForce @ '' annotation is not set'')) (\<lambda>_.
                  failPVC k namespace name (''in use by pods: '' @ showStrings pods))
           else let attempts = AtoiValue (GetAnnotation annotations AnnotationMigrateAttempts) in
                if attempts \<ge> mo_MaxAttempts (mc_opts c)
                then bindE (record_event k object ''Warning'' ''MigrationFailed'' (''giving up after '' @ Itoa attempts @ '' attempts'')) (\<lambda>_.
                       failPVC k namespace name (''giving up after '' @ Itoa attempts @ '' attempts''))
                else runMigration c ws namespace name pvc attempts))"

definition reconcilePVC :: "'e migration_controller \<Rightarrow> waits \<Rightarrow> string \<Rightarrow> ('e pworld, unit) io" where
  "reconcilePVC c ws key =
     (case mc_SplitKey c key of
        Inl _ \<Rightarrow> ret ()
      | Inr (namespace, name) \<Rightarrow>
          let k = mc_kclient c in
          unlessGone (KGetPVC k namespace name) (\<lambda>pvc.
            let annotations = km_Annotations (kc_Meta pvc); target = GetAnnotation annotations AnnotationMigrateNode in
            if target = [] then ret ()
            else if GetAnnotation annotations AnnotationMigratePhase = PhaseFailed then ret ()
            else bindE (if kc_VolumeName pvc = [] then ret False
                        else call (KGetPV k (kc_VolumeName pvc)) (\<lambda>_. ret False)
                               (\<lambda>pv. ret (alreadyOnTarget target (GetAnnotation annotations AnnotationMigrateStorage) pv))) (\<lambda>there.
                   if there then patchPVCAnnotations k namespace name (consumed @ [(AnnotationMigratePhase, Some PhaseCompleted)])
                   else requestedMigration c ws namespace name pvc)) ())"

section \<open>Selecting a target\<close>

text \<open>The storage is empty when the volume keeps the name of its own.\<close>

definition autoTarget :: "'e migration_controller \<Rightarrow> kpv \<Rightarrow> string \<Rightarrow> ('e pworld, string \<times> string) io" where
  "autoTarget c pv sourceZone =
     (case kv_CSI pv of
        None \<Rightarrow> fail nilDereference
      | Some (_, handle) \<Rightarrow>
          bindE (lift (NewVolumeFromVolumeID handle)) (\<lambda>vol.
          case mg_PClient (mc_migrator c) of
            None \<Rightarrow> fail nilDereference
          | Some pool \<Rightarrow>
              bindE (lift (GetProxmoxCluster pool (vregion vol))) (\<lambda>cluster.
              bindE (GatherStorageCandidates cluster (mc_kclient c) (vstorage vol)) (\<lambda>candidates.
              bindE (lift (SelectCrossStorageTarget candidates sourceZone (vstorage vol) (kv_Capacity pv) DefaultHeadroom)) (\<lambda>(zone, storage).
              ret (zone, if storage = vstorage vol then [] else storage))))))"

text \<open>A panic is no error that a caller handles.\<close>

definition unlessPanic :: "(goerr \<Rightarrow> ('w, 'a) io) \<Rightarrow> goerr \<Rightarrow> ('w, 'a) io" where
  "unlessPanic h err = (if err = nilDereference then fail err else h err)"

section \<open>Evacuation of a node\<close>

text \<open>One volume of the zone: the number of requests stamped for it.\<close>

definition evacuatePV :: "'e migration_controller \<Rightarrow> knode \<Rightarrow> string \<Rightarrow> string \<Rightarrow> bool \<Rightarrow> kpv \<Rightarrow> ('e pworld, int) io" where
  "evacuatePV c node target zone force pv =
     (let k = mc_kclient c in
      case kv_ClaimRef pv of
        None \<Rightarrow> ret 0
      | Some ref \<Rightarrow>
          if rf_Kind ref \<noteq> ''PersistentVolumeClaim'' then ret 0
          else call (KGetPVC k (rf_Namespace ref) (rf_Name ref)) (\<lambda>_. ret 0) (\<lambda>pvc.
                 if GetAnnotation (km_Annotations (kc_Meta pvc)) AnnotationMigrateNode \<noteq> [] then ret 0
                 else call (if target = ''auto'' then autoTarget c pv zone else ret (target, []))
                   (unlessPanic (\<lambda>perr. bindE (record_event k (kn_name node) ''Warning'' ''EvacuationFailed''
                                   (''no target for '' @ nsName (rf_Namespace ref) (rf_Name ref) @ '': '' @ Error perr)) (\<lambda>_. ret 0)))
                   (\<lambda>(pvcTarget, pvcStorage).
                      bindE (patchPVCAnnotations k (rf_Namespace ref) (rf_Name ref)
                               ([(AnnotationMigrateNode, Some pvcTarget)]
                                @ (if pvcStorage = [] then [] else [(AnnotationMigrateStorage, Some pvcStorage)])
                                @ (if force then [(AnnotationMigrateForce, Some ''true'')] else []))) (\<lambda>_. ret 1))))"

fun evacuatePVs :: "'e migration_controller \<Rightarrow> knode \<Rightarrow> string \<Rightarrow> string \<Rightarrow> bool \<Rightarrow> int \<Rightarrow> kpv list \<Rightarrow> ('e pworld, int) io" where
  "evacuatePVs c node target zone force stamped [] = ret stamped"
| "evacuatePVs c node target zone force stamped (pv # pvs) =
     bindE (evacuatePV c node target zone force pv) (\<lambda>n. evacuatePVs c node target zone force (stamped + n) pvs)"

definition reconcileNode :: "'e migration_controller \<Rightarrow> string \<Rightarrow> ('e pworld, unit) io" where
  "reconcileNode c name =
     (let k = mc_kclient c in
      unlessGone (KGetNode k name) (\<lambda>node.
        let target = GetAnnotation (kn_annotations node) AnnotationEvacuate; (region, zone) = GetNodeTopology (kn_labels node)
        in if target = [] then ret ()
           else if region = [] \<or> zone = []
           then bindE (record_event k name ''Warning'' ''EvacuationFailed'' ''node has no region/zone topology labels'') (\<lambda>_.
                  patchNodeAnnotations k name [(AnnotationEvacuate, None)])
           else bindE (PVsInZone k DriverName region zone) (\<lambda>pvs.
                bindE (evacuatePVs c node target zone (GetAnnotation (kn_annotations node) AnnotationEvacuateForce = ''true'') 0 pvs) (\<lambda>stamped.
                bindE (record_event k name ''Normal'' ''EvacuationRequested''
                        (''requested migration of '' @ Itoa stamped @ '' PVCs out of zone '' @ zone)) (\<lambda>_.
                patchNodeAnnotations k name [(AnnotationEvacuate, None), (AnnotationEvacuateForce, None)])))) ())"

section \<open>Volumes that follow their pods\<close>

text \<open>The volume of a claim that is bound to one of this driver, in a zone.\<close>

definition zonalVolume :: "kpv \<Rightarrow> volume option" where
  "zonalVolume pv =
     (case kv_CSI pv of
        None \<Rightarrow> None
      | Some (driver, handle) \<Rightarrow>
          if driver \<noteq> DriverName then None
          else case NewVolumeFromVolumeID handle of Inl _ \<Rightarrow> None | Inr vol \<Rightarrow> if vzone vol = [] then None else Some vol)"

text \<open>The one zone of the nodes, in the order the range loop visits them; \<open>None\<close> if they are not settled in one zone of the region.\<close>

fun commonZone :: "'e kube \<Rightarrow> string \<Rightarrow> string \<Rightarrow> string list \<Rightarrow> ('e pworld, string option) io" where
  "commonZone k region podZone [] = ret (Some podZone)"
| "commonZone k region podZone (nodeName # nodes) =
     unlessGone (KGetNode k nodeName) (\<lambda>node.
       let (r, zone) = GetNodeTopology (kn_labels node)
       in if zone = [] \<or> r \<noteq> region then ret None
          else if podZone = [] then commonZone k region zone nodes
          else if podZone \<noteq> zone then ret None
          else commonZone k region podZone nodes) None"

definition primaryStorage :: "migration_options \<Rightarrow> string \<Rightarrow> string \<Rightarrow> string" where
  "primaryStorage opts region zone = (case map_of (mo_PrimaryStorage opts) region of None \<Rightarrow> [] | Some m \<Rightarrow> mget m zone)"

definition followPods :: "'e migration_controller \<Rightarrow> string \<Rightarrow> string \<Rightarrow> volume \<Rightarrow> string \<Rightarrow> ('e pworld, unit) io" where
  "followPods c namespace name vol podZone =
     (let k = mc_kclient c; object = nsName namespace name in
      case mg_PClient (mc_migrator c) of
        None \<Rightarrow> fail nilDereference
      | Some pool \<Rightarrow>
          bindE (lift (GetProxmoxCluster pool (vregion vol))) (\<lambda>cluster.
          bindE (GetNodesForStorage cluster (vstorage vol)) (\<lambda>zones.
          let targetStorage = (if podZone \<in> set zones then [] else primaryStorage (mc_opts c) (vregion vol) podZone)
          in if podZone \<notin> set zones \<and> targetStorage = []
             then record_event k object ''Warning'' ''FollowSkipped''
                    (''pods moved to zone '' @ podZone @ '' which has neither storage '' @ vstorage vol @ '' nor a configured primary storage'')
             else bindE (record_event k object ''Normal'' ''FollowRequested''
                          (''all pods moved to zone '' @ podZone @ '', requesting volume migration'')) (\<lambda>_.
                  patchPVCAnnotations k namespace name
                    ([(AnnotationMigrateNode, Some podZone)]
                     @ (if targetStorage = [] then [] else [(AnnotationMigrateStorage, Some targetStorage)]))))))"

definition reconcileFollow :: "'e migration_controller \<Rightarrow> (string list \<Rightarrow> string list) \<Rightarrow> string \<Rightarrow> ('e pworld, unit) io" where
  "reconcileFollow c visit key =
     (case mc_SplitKey c key of
        Inl _ \<Rightarrow> ret ()
      | Inr (namespace, name) \<Rightarrow>
          let k = mc_kclient c in
          unlessGone (KGetPVC k namespace name) (\<lambda>pvc.
            if GetAnnotation (km_Annotations (kc_Meta pvc)) AnnotationMigrateNode \<noteq> [] \<or> kc_VolumeName pvc = [] then ret ()
            else unlessGone (KGetPV k (kc_VolumeName pvc)) (\<lambda>pv.
                   case zonalVolume pv of
                     None \<Rightarrow> ret ()
                   | Some vol \<Rightarrow>
                       bindE (PVCPodPlacement k namespace name) (\<lambda>placement.
                       if placement = [] then ret ()
                       else bindE (commonZone k (vregion vol) [] (visit (map snd placement))) (\<lambda>podZone.
                              case podZone of
                                None \<Rightarrow> ret ()
                              | Some z \<Rightarrow> if z = vzone vol then ret () else followPods c namespace name vol z))) ()) ())"

section \<open>Reactive evacuation\<close>

definition nodeSchedulable :: "knode \<Rightarrow> bool" where
  "nodeSchedulable node \<longleftrightarrow> \<not> kn_unschedulable node \<and> \<not> list_ex (\<lambda>effect. effect = ''NoSchedule'' \<or> effect = ''NoExecute'') (kn_taints node)"

text \<open>The loop over the nodes: whether one of the zone was found, and whether one was blocked.\<close>

fun zoneScan :: "string \<Rightarrow> string \<Rightarrow> bool \<Rightarrow> bool \<Rightarrow> knode list \<Rightarrow> bool" where
  "zoneScan region zone found blocked [] = (found \<and> blocked)"
| "zoneScan region zone found blocked (node # nodes) =
     (if GetNodeTopology (kn_labels node) \<noteq> (region, zone) then zoneScan region zone found blocked nodes
      else if nodeSchedulable node then False
      else zoneScan region zone True True nodes)"

definition zoneBlocked :: "'e kube \<Rightarrow> string \<Rightarrow> string \<Rightarrow> ('e pworld, bool) io" where
  "zoneBlocked k region zone = bindE (KListNodes k) (\<lambda>nodes. ret (zoneScan region zone False False nodes))"

definition migrationInFlight :: "kpvc \<Rightarrow> bool" where
  "migrationInFlight pvc =
     (let annotations = km_Annotations (kc_Meta pvc)
      in GetAnnotation annotations AnnotationMigrateNode \<noteq> []
         \<or> GetAnnotation annotations AnnotationMigratePhase \<in> {PhasePending, PhaseDraining, PhaseMoving, PhaseRewiring})"

definition customResourceController :: "kpvc \<Rightarrow> owner_ref option" where
  "customResourceController pvc =
     (case List.find (\<lambda>ref. ow_Controller ref = Some True) (km_OwnerReferences (kc_Meta pvc)) of
        None \<Rightarrow> None
      | Some ref \<Rightarrow>
          let group = (case Cut CHR ''/'' (ow_APIVersion ref) of None \<Rightarrow> [] | Some (g, _) \<Rightarrow> g)
          in if group \<in> {[], ''apps'', ''batch''} then None else Some ref)"

definition reactiveEvacuationAllowed :: "kpvc \<Rightarrow> bool \<times> owner_ref option" where
  "reactiveEvacuationAllowed pvc =
     (let a = GetAnnotation (km_Annotations (kc_Meta pvc)) AnnotationReactiveEvacuation
      in if a = ''true'' then (True, None)
         else if a = ''false'' then (False, None)
         else case customResourceController pvc of None \<Rightarrow> (True, None) | Some owner \<Rightarrow> (False, Some owner))"

definition reactiveSkip :: "'e kube \<Rightarrow> string \<Rightarrow> owner_ref option \<Rightarrow> ('e pworld, unit) io" where
  "reactiveSkip k object owner =
     (case owner of
        None \<Rightarrow> ret ()
      | Some ow \<Rightarrow> record_event k object ''Normal'' ''ReactiveEvacuationSkipped''
          (''PVC is controller-owned by '' @ ow_Kind ow @ '' '' @ ow_Name ow @ '' ('' @ ow_APIVersion ow
           @ ''): storage is operator-managed; migrate via the operator or set '' @ AnnotationReactiveEvacuation @ ''=true''))"

definition reactiveStamp :: "'e migration_controller \<Rightarrow> kpod \<Rightarrow> string \<Rightarrow> string \<Rightarrow> volume \<Rightarrow> kpv \<Rightarrow> ('e pworld, unit) io" where
  "reactiveStamp c pod namespace pvcName vol pv =
     (let k = mc_kclient c; object = nsName namespace pvcName; blocked = ''pod '' @ nsName (kp_Namespace pod) (kp_Name pod) @ '' unschedulable: volume pinned to cordoned ''
      in call (autoTarget c pv (vzone vol))
           (unlessPanic (\<lambda>err. record_event k object ''Warning'' ''ReactiveEvacuation''
                    (blocked @ ''zone '' @ vzone vol @ '' but no target zone has capacity: '' @ Error err)))
           (\<lambda>(target, targetStorage).
              bindE (record_event k object ''Normal'' ''ReactiveEvacuation''
                      (blocked @ ''node in zone '' @ vzone vol @ '', migrating to ''
                       @ (if targetStorage = [] then target else target @ '' (storage '' @ targetStorage @ '')''))) (\<lambda>_.
              patchPVCAnnotations k namespace pvcName
                ([(AnnotationMigrateNode, Some target), (AnnotationMigrateForce, Some ''true'')]
                 @ (if targetStorage = [] then [] else [(AnnotationMigrateStorage, Some targetStorage)])))))"

definition evaluateReactivePVC :: "'e migration_controller \<Rightarrow> kpod \<Rightarrow> string \<Rightarrow> string \<Rightarrow> ('e pworld, unit) io" where
  "evaluateReactivePVC c pod namespace pvcName =
     (let k = mc_kclient c in
      unlessGone (KGetPVC k namespace pvcName) (\<lambda>pvc.
        if migrationInFlight pvc \<or> kc_VolumeName pvc = [] then ret ()
        else unlessGone (KGetPV k (kc_VolumeName pvc)) (\<lambda>pv.
               case zonalVolume pv of
                 None \<Rightarrow> ret ()
               | Some vol \<Rightarrow>
                   bindE (zoneBlocked k (vregion vol) (vzone vol)) (\<lambda>blocked.
                   if \<not> blocked then ret ()
                   else let (allowed, owner) = reactiveEvacuationAllowed pvc
                        in if allowed then reactiveStamp c pod namespace pvcName vol pv
                           else reactiveSkip k (nsName namespace pvcName) owner)) ()) ())"

fun evaluateReactivePVCs :: "'e migration_controller \<Rightarrow> kpod \<Rightarrow> string \<Rightarrow> string option list \<Rightarrow> ('e pworld, unit) io" where
  "evaluateReactivePVCs c pod namespace [] = ret ()"
| "evaluateReactivePVCs c pod namespace (None # vols) = evaluateReactivePVCs c pod namespace vols"
| "evaluateReactivePVCs c pod namespace (Some claim # vols) =
     bindE (evaluateReactivePVC c pod namespace claim) (\<lambda>_. evaluateReactivePVCs c pod namespace vols)"

text \<open>The result is the delay after which the key is added again, if it is.\<close>

definition reconcileReactivePod :: "'e migration_controller \<Rightarrow> string \<Rightarrow> ('e pworld, int option) io" where
  "reconcileReactivePod c key =
     (if \<not> mo_ReactiveEvacuation (mc_opts c) then ret None
      else case mc_SplitKey c key of
             Inl _ \<Rightarrow> ret None
           | Inr (namespace, name) \<Rightarrow>
               let k = mc_kclient c in
               unlessGone (KGetPod k namespace name) (\<lambda>pod.
                 case podUnschedulableSince pod of
                   None \<Rightarrow> ret None
                 | Some since \<Rightarrow> withTime k (\<lambda>now.
                     let remaining = mo_ReactiveEvacuationGrace (mc_opts c) - (now - since)
                     in if remaining > 0 then ret (Some remaining)
                        else bindE (evaluateReactivePVCs c pod namespace (kp_Volumes pod)) (\<lambda>_. ret None))) None)"

section \<open>Workers\<close>

text \<open>What a worker does with the key it took: it is added again after an error, with a backoff, and forgotten otherwise.\<close>

datatype queue_op = AddRateLimited | AddAfter int | Forget

definition work :: "('a \<Rightarrow> queue_op list) \<Rightarrow> ('e pworld, 'a) io \<Rightarrow> ('e pworld, queue_op list) io" where
  "work delays m = call m (\<lambda>_. ret [AddRateLimited]) (\<lambda>x. ret (delays x @ [Forget]))"

definition pvcWorker :: "'e migration_controller \<Rightarrow> waits \<Rightarrow> string \<Rightarrow> ('e pworld, queue_op list) io" where
  "pvcWorker c ws key = work (\<lambda>_. []) (reconcilePVC c ws key)"

definition nodeWorker :: "'e migration_controller \<Rightarrow> string \<Rightarrow> ('e pworld, queue_op list) io" where
  "nodeWorker c key = work (\<lambda>_. []) (reconcileNode c key)"

definition followWorker :: "'e migration_controller \<Rightarrow> (string list \<Rightarrow> string list) \<Rightarrow> string \<Rightarrow> ('e pworld, queue_op list) io" where
  "followWorker c visit key = work (\<lambda>_. []) (reconcileFollow c visit key)"

definition reactiveWorker :: "'e migration_controller \<Rightarrow> string \<Rightarrow> ('e pworld, queue_op list) io" where
  "reactiveWorker c key = work (\<lambda>delay. case delay of None \<Rightarrow> [] | Some d \<Rightarrow> [AddAfter d]) (reconcileReactivePod c key)"

end
