(* ===== verification/Sample_Kube.thy ===== *)
theory Sample_Kube
  imports Migrator
begin

text \<open>
  A small executable Kubernetes API server beside the sample Proxmox cluster, on which the properties of the migration are
  instantiated.  It stands for no code of the repository.
\<close>

record ksim =
  ks_px :: sim
  ks_pvs :: "(string \<times> kpv) list"
  ks_pvcs :: "(string \<times> kpvc) list"
  ks_pods :: "kpod list"
  ks_nodes :: "(string \<times> knode) list"

definition ksNotFound :: goerr where "ksNotFound = Sentinel K8sNotFound ''not found''"
definition ksExists :: goerr where "ksExists = Sentinel K8sAlreadyExists ''already exists''"

definition ksNamed :: "string \<times> kpv \<Rightarrow> kpv" where
  "ksNamed = (\<lambda>(n, v). v\<lparr>kv_Meta := (kv_Meta v)\<lparr>km_Name := n\<rparr>\<rparr>)"

definition ksView :: "ksim \<Rightarrow> kpv list" where
  "ksView s = map ksNamed (AList.clearjunk (ks_pvs s))"

definition ksGetPV :: "string \<Rightarrow> (ksim, kpv) api" where
  "ksGetPV n s = ((case map_of (ks_pvs s) n of None \<Rightarrow> Inl ksNotFound | Some v \<Rightarrow> Inr (ksNamed (n, v))), s)"

definition ksCreatePV :: "kpv \<Rightarrow> (ksim, unit) api" where
  "ksCreatePV v s =
     (let n = km_Name (kv_Meta v) in
      if map_of (ks_pvs s) n \<noteq> None then (Inl ksExists, s) else (Inr (), s\<lparr>ks_pvs := (n, v) # ks_pvs s\<rparr>))"

definition ksDeletePV :: "string \<Rightarrow> bool \<Rightarrow> (ksim, unit) api" where
  "ksDeletePV n fg s =
     (if map_of (ks_pvs s) n = None then (Inl ksNotFound, s) else (Inr (), s\<lparr>ks_pvs := AList.delete n (ks_pvs s)\<rparr>))"

fun ksPatched :: "kpatch \<Rightarrow> kpv \<Rightarrow> kpv" where
  "ksPatched (PatchReclaimPolicy p) v = v\<lparr>kv_ReclaimPolicy := p\<rparr>"
| "ksPatched (PatchAnnotations a) v =
     v\<lparr>kv_Meta := (kv_Meta v)\<lparr>km_Annotations := foldr (\<lambda>(k, x) m. case x of None \<Rightarrow> AList.delete k m | Some y \<Rightarrow> mset_key m k y) a (km_Annotations (kv_Meta v))\<rparr>\<rparr>"
| "ksPatched (PatchUnschedulable b) v = v"

definition ksPatchPV :: "string \<Rightarrow> kpatch \<Rightarrow> (ksim, unit) api" where
  "ksPatchPV n p s = (case map_of (ks_pvs s) n of
     None \<Rightarrow> (Inl ksNotFound, s) | Some v \<Rightarrow> (Inr (), s\<lparr>ks_pvs := AList.update n (ksPatched p v) (ks_pvs s)\<rparr>))"

text \<open>A new claim is bound to the volume reserved for it.\<close>

definition ksBind :: "ksim \<Rightarrow> kpvc \<Rightarrow> kpvc" where
  "ksBind s c = (case List.find (\<lambda>v. claims (kv_ClaimRef v) (km_Namespace (kc_Meta c)) (km_Name (kc_Meta c)) \<and>
       kv_StorageClassName v = pvcClassName c) (ksView s) of
     None \<Rightarrow> c | Some v \<Rightarrow> c\<lparr>kc_VolumeName := km_Name (kv_Meta v)\<rparr>)"

definition ksCreatePVC :: "kpvc \<Rightarrow> (ksim, kpvc) api" where
  "ksCreatePVC c s =
     (let n = nsName (km_Namespace (kc_Meta c)) (km_Name (kc_Meta c)) in
      if map_of (ks_pvcs s) n \<noteq> None then (Inl ksExists, s) else (Inr c, s\<lparr>ks_pvcs := (n, ksBind s c) # ks_pvcs s\<rparr>))"

definition ksRead :: "(ksim \<Rightarrow> (string \<times> 'a) list) \<Rightarrow> string \<Rightarrow> (ksim, 'a) api" where
  "ksRead f n s = ((case map_of (f s) n of None \<Rightarrow> Inl ksNotFound | Some v \<Rightarrow> Inr v), s)"

definition ksCordon :: "string \<Rightarrow> kpatch \<Rightarrow> (ksim, unit) api" where
  "ksCordon n p s = (case map_of (ks_nodes s) n of
     None \<Rightarrow> (Inl ksNotFound, s)
   | Some v \<Rightarrow> (Inr (), case p of PatchUnschedulable b \<Rightarrow> s\<lparr>ks_nodes := AList.update n (v\<lparr>kn_unschedulable := b\<rparr>) (ks_nodes s)\<rparr> | _ \<Rightarrow> s))"

definition sampleKube :: "ksim kube" where
  "sampleKube =
     \<lparr>q_GetPVC = (\<lambda>ns n. ksRead ks_pvcs (nsName ns n)), q_CreatePVC = ksCreatePVC,
      q_DeletePVC = (\<lambda>ns n fg s. (Inr (), s\<lparr>ks_pvcs := AList.delete (nsName ns n) (ks_pvcs s)\<rparr>)),
      q_PatchPVC = (\<lambda>ns n p s. (Inr (), s)),
      q_GetPV = ksGetPV, q_ListPVs = (\<lambda>s. (Inr (ksView s), s)), q_CreatePV = ksCreatePV, q_DeletePV = ksDeletePV,
      q_PatchPV = ksPatchPV, q_WatchPV = (\<lambda>n s. (Inr (), s)),
      q_GetPod = (\<lambda>ns n s. (Inl ksNotFound, s)),
      q_ListPods = (\<lambda>ns s. (Inr (filter (\<lambda>p. kp_Namespace p = ns) (ks_pods s)), s)),
      q_DeletePod = (\<lambda>ns n s. (Inr (), s\<lparr>ks_pods := filter (\<lambda>p. kp_Namespace p \<noteq> ns \<or> kp_Name p \<noteq> n) (ks_pods s)\<rparr>)),
      q_GetNode = ksRead ks_nodes, q_ListNodes = (\<lambda>s. (Inr (map snd (ks_nodes s)), s)), q_PatchNode = ksCordon,
      q_ListCSINodes = (\<lambda>s. (Inr (map (\<lambda>(n, _). [(DriverName, n)]) (ks_nodes s)), s)),
      q_ListClasses = (\<lambda>s. (Inr [], s)), q_ListQuotas = (\<lambda>ns s. (Inr [], s)),
      q_Event = (\<lambda>a b c d s. (Inr (), s)), q_NewUUID = (\<lambda>s. (Inr ''42'', s)), q_Now = (\<lambda>s. 0),
      q_FormatTime = Itoa, q_Quantity = Itoa, q_ShowRef = (\<lambda>r. case r of None \<Rightarrow> ''<nil>'' | Some x \<Rightarrow> ''&'' @ rf_Name x),
      q_Address = (\<lambda>m. ''0xc000'')\<rparr>"

section \<open>The Proxmox side\<close>

definition viaPx :: "(sim, 'a) api \<Rightarrow> (ksim, 'a) api" where
  "viaPx f s = (let (r, p) = f (ks_px s) in (r, s\<lparr>ks_px := p\<rparr>))"

text \<open>The copy endpoint adds a disk of the same size on the target; the content endpoint deletes one.\<close>

definition copyPost :: "string \<Rightarrow> params_map \<Rightarrow> (sim, string) api" where
  "copyPost p ps s =
     (Inr [], case List.find (\<lambda>(_, _, d, _). HasSuffix d ('':'' @ jget ps ''volume'')) (s_disks s) of
        None \<Rightarrow> s
      | Some (_, _, _, bytes) \<Rightarrow>
          s\<lparr>s_disks := (jget ps ''target_node'', hd (Split CHR '':'' (jget ps ''target'')), jget ps ''target'', bytes) # s_disks s\<rparr>)"

definition contentDelete :: "string \<Rightarrow> (sim, string) api" where
  "contentDelete p s =
     (Inr [], s\<lparr>s_disks := filter (\<lambda>(n, st, d, _). p \<noteq> ''/nodes/'' @ n @ ''/storage/'' @ st @ ''/content/'' @ drop (Suc (length st)) d) (s_disks s)\<rparr>)"

definition sampleMigrationClient :: "ksim client" where
  "sampleMigrationClient =
     \<lparr>c_name = ''sim'', c_vmNotFoundText = [], c_vmUnreachableText = [],
      c_GetVMConfig = (\<lambda>i. viaPx (simVM i)), c_GetNodesForStorage = (\<lambda>st s. (Inr (s_nodes (ks_px s)), s)),
      c_GetNodeList = (\<lambda>s. (Inr (s_nodes (ks_px s)), s)),
      c_GetStorageStatus = (\<lambda>n st. viaPx (simStatus n st)), c_GetStorageContent = (\<lambda>n st. viaPx (simContents n st)),
      c_GetClusterStorage = (\<lambda>st. viaPx (simStorage st)), c_ClusterStorage = (\<lambda>st s. (Inl simNotFound, s)),
      c_GetVMByID = (\<lambda>i. viaPx (simVMResource i)), c_Node = (\<lambda>n s. (Inr (), s)), c_VirtualMachine = (\<lambda>n i. viaPx (simVM i)),
      c_Version = (\<lambda>s. (Inr ''8'', s)), c_Cluster = (\<lambda>s. (Inr (), s)),
      c_VMResources = (\<lambda>s. (Inr (map simResource (s_vms (ks_px s))), s)), c_GetHAGroupList = (\<lambda>s. (Inr [], s)), c_GetNextID = (\<lambda>i s. (Inr i, s)),
      c_Config = (\<lambda>v n x. viaPx (simConfig v n x)), c_UnlinkDisk = (\<lambda>v d f. viaPx (simUnlink v d f)),
      c_Migrate = (\<lambda>v t f s. (Inr None, s)), c_CreateVMDisk = (\<lambda>i n st d b s. (Inr [], s)), c_DeleteVMDisk = (\<lambda>n st d s. (Inr (), s)),
      c_ResizeVMDisk = (\<lambda>i n d z s. (Inr (), s)), c_CreateVM = (\<lambda>n p s. (Inr (), s)), c_DeleteVMByID = (\<lambda>n i s. (Inr (), s)),
      c_NewTask = (\<lambda>u. None), c_WaitFor = (\<lambda>t n s. (Inr t, s)), c_WaitForCompleteStatus = (\<lambda>t n i s. (Inr (True, True, t), s)),
      c_GetConfig = (\<lambda>p. viaPx (simConfigAt p)), c_GetContentList = (\<lambda>p. viaPx (simContentAt p)),
      c_GetResources = (\<lambda>p s. (Inr (filter (\<lambda>r. CHR ''/'' \<notin> set (rs_node r)) (map simResource (s_vms (ks_px s)))), s)), c_GetJobs = (\<lambda>p s. (Inr [], s)),
      c_Post = (\<lambda>p b. viaPx (copyPost p b)), c_Put = (\<lambda>p b s. (Inr (), s)), c_Delete = (\<lambda>p. viaPx (contentDelete p)),
      c_GetVMByFilter = (\<lambda>f s. fail simNotFound), c_Retry = (\<lambda>t u f s. fail simNotFound), c_IsTimeout = (\<lambda>e. False)\<rparr>"

section \<open>A volume to migrate\<close>

definition ksMeta :: "string \<Rightarrow> string \<Rightarrow> kmeta" where
  "ksMeta ns n = \<lparr>km_Name = n, km_Namespace = ns, km_UID = ''u'', km_ResourceVersion = ''1'', km_CreationTimestamp = 0, km_DeletionTimestamp = None,
      km_DeletionGracePeriodSeconds = None, km_Annotations = [], km_OwnerReferences = []\<rparr>"

definition samplePV :: kpv where
  "samplePV = \<lparr>kv_Meta = ksMeta [] ''pv-1'', kv_CSI = Some (DriverName, ''r/pve-1/lvm/vm-9999-pvc-1''), kv_ReclaimPolicy = ''Delete'',
      kv_StorageClassName = ''fast'', kv_Capacity = 100, kv_AccessModes = [''ReadWriteOnce''], kv_VolumeMode = None,
      kv_ClaimRef = Some \<lparr>rf_Kind = ''PersistentVolumeClaim'', rf_APIVersion = ''v1'', rf_Namespace = ''db'', rf_Name = ''data'', rf_UID = ''u''\<rparr>,
      kv_NodeTerms = None, kv_Phase = ''Bound''\<rparr>"

definition samplePVC :: kpvc where
  "samplePVC = \<lparr>kc_Meta = ksMeta ''db'' ''data'', kc_VolumeName = ''pv-1'', kc_StorageClassName = Some ''fast'', kc_Requests = [(''storage'', 100)],
      kc_AccessModes = [''ReadWriteOnce''], kc_VolumeMode = None, kc_StatusCapacity = [(''storage'', 100)], kc_StatusPhase = ''Bound''\<rparr>"

definition samplePod :: kpod where
  "samplePod = \<lparr>kp_Namespace = ''db'', kp_Name = ''db-0'', kp_NodeName = ''worker-1'', kp_Phase = ''Running'', kp_CreationTimestamp = 0,
      kp_Volumes = [Some ''data''], kp_Conditions = []\<rparr>"

definition sampleKNode :: knode where
  "sampleKNode = \<lparr>kn_name = ''worker-1'', kn_providerID = ''proxmox://r/101'', kn_annotations = [], kn_labels = [], kn_systemUUID = ''u'',
      kn_unschedulable = False, kn_taints = []\<rparr>"

definition sampleKState :: "kpod list \<Rightarrow> ksim" where
  "sampleKState pods =
     \<lparr>ks_px = \<lparr>s_nodes = [''pve-1'', ''pve-2''], s_storages = [], s_vms = [],
        s_disks = [(''pve-1'', ''lvm'', ''lvm:vm-9999-pvc-1'', 100)]\<rparr>,
      ks_pvs = [(''pv-1'', samplePV)], ks_pvcs = [(''db/data'', samplePVC)], ks_pods = pods, ks_nodes = [(''worker-1'', sampleKNode)]\<rparr>"

definition sampleKWorld :: "kpod list \<Rightarrow> ksim pworld" where
  "sampleKWorld pods = \<lparr>env = sampleKState pods, trace = []\<rparr>"

definition sampleWaits :: waits where
  "sampleWaits = \<lparr>wt_DrainTicks = 0, wt_DrainDone = Plain ''ended'', wt_Grace = None, wt_DetachTicks = 0, wt_DetachDone = Plain ''ended'',
      wt_DeleteDone = None, wt_DeleteEvents = [], wt_BindTicks = 0, wt_BindEnd = None\<rparr>"

definition sampleMigrator :: "ksim migrator" where
  "sampleMigrator = \<lparr>mg_KClient = sampleKube,
      mg_PClient = Some \<lparr>pl_clients = [(''r'', sampleMigrationClient)], pl_tokenCopyEndpoint = [], pl_proxmodEndpoint = []\<rparr>,
      mg_Recorder = True, mg_OnPhase = None, mg_HelperVMID = 0, mg_TokenCopyEndpoint = False, mg_ProxmodEndpoint = False\<rparr>"

definition sampleMigration :: "bool \<Rightarrow> migrate_request" where
  "sampleMigration force = \<lparr>mr_Namespace = ''db'', mr_PVCName = ''data'', mr_TargetNode = ''pve-2'', mr_TargetStorage = [], mr_Force = force,
      mr_TaskTimeout = 0, mr_DrainTimeout = 0, mr_DetachTimeout = 0\<rparr>"

end
