(* ===== verification/Rewire_Safety.thy ===== *)
theory Rewire_Safety
  imports Sample_Kube
begin

text \<open>
  Properties of the annotation protocol and of the rewiring: normalisation onto the canonical keys, and that a moved
  disk is referenced by a retained volume at every destructive step.
\<close>

section \<open>Normalisation\<close>

text \<open>What a merge patch does to the annotations of an object.\<close>

definition applyPatch :: "gomap \<Rightarrow> annotation_patch \<Rightarrow> gomap" where
  "applyPatch current patch = foldr (\<lambda>(k, v) m. case v of None \<Rightarrow> AList.delete k m | Some x \<Rightarrow> mset_key m k x) patch current"

lemma map_of_applyPatch: "map_of (applyPatch current patch) k = (case map_of patch k of None \<Rightarrow> map_of current k | Some v \<Rightarrow> v)"
proof (induction patch)
  case (Cons p patch)
  then show ?case
    by (cases p) (auto simp: applyPatch_def map_of_set delete_conv' split: option.splits)
qed (simp add: applyPatch_def)

lemma migrationKey_inject [simp]: "migrationKey a = migrationKey b \<longleftrightarrow> a = b"
  by (simp add: migrationKey_def)

lemma legacyKey_inject [simp]: "legacyKey a = legacyKey b \<longleftrightarrow> a = b"
  by (simp add: legacyKey_def)

lemma migrationKey_not_legacy [simp]: "migrationKey a \<noteq> legacyKey b" "legacyKey b \<noteq> migrationKey a"
  by (simp_all add: migrationKey_def legacyKey_def Group_def DriverName_def)

lemma migrationKey_nonempty [simp]: "migrationKey a \<noteq> []" "legacyKey a \<noteq> []"
  by (simp_all add: migrationKey_def legacyKey_def)

lemma map_of_keyed: "inj f \<Longrightarrow> map_of (map (\<lambda>n. (f n, g n)) ns) (f n) = (if n \<in> set ns then Some (g n) else None)"
  by (induction ns) (auto dest: injD)

lemma LegacyAnnotation_key [simp]: "n \<in> set protocolNames \<Longrightarrow> LegacyAnnotation (migrationKey n) = legacyKey n"
  unfolding LegacyAnnotation_def mget_def legacyAnnotationAliases_def
  by (subst map_of_keyed) (auto intro: injI)

text \<open>What the alias of \<open>n\<close> adds to a patch at a key.\<close>

definition addedBy :: "gomap \<Rightarrow> string \<Rightarrow> string \<Rightarrow> string option option" where
  "addedBy current n k =
     (if map_of current (legacyKey n) = None then None
      else if k = migrationKey n \<and> GetAnnotation current k \<noteq> [] then Some (Some (GetAnnotation current k))
      else if k = legacyKey n then Some None else None)"

lemma map_of_normalizeAlias:
  "map_of (normalizeAlias current (migrationKey n, legacyKey n) patch) k =
     (case map_of patch k of Some x \<Rightarrow> Some x | None \<Rightarrow> addedBy current n k)"
  by (auto simp: normalizeAlias_def addedBy_def Let_def update_conv' split: option.splits)

lemma map_of_normalizeAll:
  "map_of (fold (normalizeAlias current) (map (\<lambda>n. (migrationKey n, legacyKey n)) ns) patch) k =
     (case map_of patch k of Some x \<Rightarrow> Some x
      | None \<Rightarrow> (case List.map_filter (\<lambda>n. addedBy current n k) ns of [] \<Rightarrow> None | x # _ \<Rightarrow> Some x))"
proof (induction ns arbitrary: patch)
  case (Cons n ns)
  then show ?case by (simp add: map_of_normalizeAlias List.map_filter_simps split: option.split)
qed (simp add: List.map_filter_simps split: option.split)

lemma map_filter_only:
  assumes "\<And>m. m \<noteq> n \<Longrightarrow> f m = None"
  shows "(case List.map_filter f ns of [] \<Rightarrow> None | x # _ \<Rightarrow> Some x) = (if n \<in> set ns then f n else None)"
proof (induction ns)
  case (Cons m ns)
  then show ?case using assms by (cases "m = n") (auto simp: List.map_filter_simps split: option.split list.split)
qed (simp add: List.map_filter_simps)

lemma map_of_NormalizeLegacy:
  "map_of (NormalizeLegacy current patch) (migrationKey n) =
     (case map_of patch (migrationKey n) of Some x \<Rightarrow> Some x
      | None \<Rightarrow> if n \<in> set protocolNames then addedBy current n (migrationKey n) else None)"
  "map_of (NormalizeLegacy current patch) (legacyKey n) =
     (case map_of patch (legacyKey n) of Some x \<Rightarrow> Some x
      | None \<Rightarrow> if n \<in> set protocolNames then addedBy current n (legacyKey n) else None)"
  unfolding NormalizeLegacy_def legacyAnnotationAliases_def map_of_normalizeAll
  by (subst map_filter_only [of n], simp add: addedBy_def, rule refl)+

lemma map_of_NormalizeLegacy_other:
  assumes "\<And>n. n \<in> set protocolNames \<Longrightarrow> k \<noteq> migrationKey n \<and> k \<noteq> legacyKey n"
  shows "map_of (NormalizeLegacy current patch) k = map_of patch k"
proof -
  have "List.map_filter (\<lambda>n. addedBy current n k) protocolNames = []"
    using assms by (auto simp: map_filter_Nil addedBy_def)
  then show ?thesis
    unfolding NormalizeLegacy_def legacyAnnotationAliases_def map_of_normalizeAll by (simp split: option.split)
qed

text \<open>C18: Moving an object off the legacy annotation keys.  A patch of canonical keys that has been normalised and is applied to the
  annotations of an object leaves none of the protocol's legacy keys.  Every canonical key of the protocol the patch does not
  address reads as it did before, a key it sets reads as set, and a key it deletes reads as
  absent: a legacy request cannot survive its deletion.  Keys outside the protocol and the patch are untouched.\<close>

theorem NormalizeLegacy_sound:
  assumes "\<forall>n. map_of patch (legacyKey n) = None"
  shows "let after = applyPatch current (NormalizeLegacy current patch) in
     (\<forall>n \<in> set protocolNames. map_of after (legacyKey n) = None \<and>
        GetAnnotation after (migrationKey n) =
          (case map_of patch (migrationKey n) of
             None \<Rightarrow> GetAnnotation current (migrationKey n) | Some None \<Rightarrow> [] | Some (Some v) \<Rightarrow> v)) \<and>
     (\<forall>k. (\<forall>n \<in> set protocolNames. k \<noteq> migrationKey n \<and> k \<noteq> legacyKey n) \<longrightarrow> map_of patch k = None \<longrightarrow> map_of after k = map_of current k)"
proof -
  define after where "after = applyPatch current (NormalizeLegacy current patch)"
  have legacy: "map_of after (legacyKey n) = None" if "n \<in> set protocolNames" for n
    using that assms unfolding after_def
    by (simp add: map_of_applyPatch map_of_NormalizeLegacy addedBy_def split: option.split)
  moreover have "GetAnnotation after (migrationKey n) =
      (case map_of patch (migrationKey n) of None \<Rightarrow> GetAnnotation current (migrationKey n) | Some None \<Rightarrow> [] | Some (Some v) \<Rightarrow> v)"
    if "n \<in> set protocolNames" for n
    using that legacy [OF that] unfolding GetAnnotation_def [of after]
    by (auto simp: mget_def after_def map_of_applyPatch map_of_NormalizeLegacy addedBy_def GetAnnotation_def split: option.splits)
  moreover have "map_of after k = map_of current k"
    if "\<forall>n \<in> set protocolNames. k \<noteq> migrationKey n \<and> k \<noteq> legacyKey n" "map_of patch k = None" for k
    using that by (simp add: after_def map_of_applyPatch map_of_NormalizeLegacy_other)
  ultimately show ?thesis by (simp add: Let_def flip: after_def)
qed

theorem NormalizeLegacy_sound_witness:
  "let current = [(legacyKey ''migrate-node'', ''pve-2''), (legacyKey ''migrate-force'', ''true''), (''app'', ''db'')];
       after = applyPatch current (NormalizeLegacy current [(migrationKey ''migrate-node'', None)])
   in GetAnnotation after (migrationKey ''migrate-node'') = [] \<and> GetAnnotation after (migrationKey ''migrate-force'') = ''true''"
proof -
  have "''migrate-node'' \<in> set protocolNames" "''migrate-force'' \<in> set protocolNames" by code_simp+
  moreover have "GetAnnotation [(legacyKey ''migrate-node'', ''pve-2''), (legacyKey ''migrate-force'', ''true''), (''app'', ''db'')]
      (migrationKey ''migrate-force'') = ''true''"
    by code_simp
  ultimately show ?thesis
    using NormalizeLegacy_sound [of "[(migrationKey ''migrate-node'', None)]"
        "[(legacyKey ''migrate-node'', ''pve-2''), (legacyKey ''migrate-force'', ''true''), (''app'', ''db'')]"]
    by (simp add: Let_def)
qed

section \<open>The cluster during a rewire\<close>

text \<open>\<open>pvs\<close> is the list of the volumes in the cluster.  \<open>held\<close>: a retained volume of that name references the disk;
  \<open>retained\<close>: a volume of that name, if there is one, is not deleted with its disk.\<close>

abbreviation pvName :: "kpv \<Rightarrow> string" where
  "pvName v \<equiv> km_Name (kv_Meta v)"

definition held :: "('e \<Rightarrow> kpv list) \<Rightarrow> string \<Rightarrow> string \<Rightarrow> 'e \<Rightarrow> bool" where
  "held pvs name handle e \<longleftrightarrow>
     (\<exists>v \<in> set (pvs e). pvName v = name \<and> kv_ReclaimPolicy v = ReclaimRetain \<and> volumeHandleOf v = handle)"

definition retained :: "('e \<Rightarrow> kpv list) \<Rightarrow> string \<Rightarrow> 'e \<Rightarrow> bool" where
  "retained pvs name e \<longleftrightarrow> (\<forall>v \<in> set (pvs e). pvName v = name \<longrightarrow> kv_ReclaimPolicy v = ReclaimRetain)"

definition preserves :: "('e \<Rightarrow> bool) \<Rightarrow> ('e, 'a) api \<Rightarrow> bool" where
  "preserves I f \<longleftrightarrow> (\<forall>e. I e \<longrightarrow> I (snd (f e)))"

text \<open>The calls that do not write volumes, during which other controllers may act.\<close>

definition undisturbed :: "'e kube \<Rightarrow> ('e \<Rightarrow> bool) \<Rightarrow> bool" where
  "undisturbed k I \<longleftrightarrow>
     (\<forall>ns n. preserves I (q_GetPVC k ns n)) \<and> (\<forall>c. preserves I (q_CreatePVC k c)) \<and>
     (\<forall>ns n fg. preserves I (q_DeletePVC k ns n fg)) \<and> (\<forall>n. preserves I (q_GetPV k n)) \<and>
     preserves I (q_ListPVs k) \<and> (\<forall>n. preserves I (q_WatchPV k n)) \<and> (\<forall>ns. preserves I (q_ListPods k ns)) \<and>
     preserves I (q_ListClasses k) \<and> (\<forall>ns. preserves I (q_ListQuotas k ns)) \<and> preserves I (q_NewUUID k)"

text \<open>The documented behaviour of the API server for volumes.  Names are unique; reads return what is there; a create
  fails on a name in use and stores the volume; a patch of the reclaim policy sets it; a
  delete or patch concerns the named volume only.  No other controller removes a retained
  volume, makes it reference another disk or changes its reclaim policy.\<close>

definition kube_spec :: "'e kube \<Rightarrow> ('e \<Rightarrow> kpv list) \<Rightarrow> bool" where
  "kube_spec k pvs \<longleftrightarrow>
     (\<forall>e. distinct (map pvName (pvs e))) \<and>
     (\<forall>n e v e'. q_GetPV k n e = (Inr v, e') \<longrightarrow> v \<in> set (pvs e) \<and> pvName v = n) \<and>
     (\<forall>e vs e'. q_ListPVs k e = (Inr vs, e') \<longrightarrow> set vs \<subseteq> set (pvs e)) \<and>
     (\<forall>v e e'. q_CreatePV k v e = (Inr (), e') \<longrightarrow> pvName v \<notin> pvName ` set (pvs e) \<and>
        (\<exists>u \<in> set (pvs e'). pvName u = pvName v \<and> kv_ReclaimPolicy u = kv_ReclaimPolicy v \<and> volumeHandleOf u = volumeHandleOf v)) \<and>
     (\<forall>n p e e'. q_PatchPV k n (PatchReclaimPolicy p) e = (Inr (), e') \<longrightarrow>
        (\<forall>u \<in> set (pvs e'). pvName u = n \<longrightarrow> kv_ReclaimPolicy u = p)) \<and>
     (\<forall>n h. undisturbed k (held pvs n h)) \<and> (\<forall>n. undisturbed k (retained pvs n)) \<and>
     (\<forall>n h m fg. n \<noteq> m \<longrightarrow> preserves (held pvs n h) (q_DeletePV k m fg)) \<and>
     (\<forall>n h m p. n \<noteq> m \<longrightarrow> preserves (held pvs n h) (q_PatchPV k m p)) \<and>
     (\<forall>n h v. preserves (held pvs n h) (q_CreatePV k v)) \<and>
     (\<forall>n m fg. preserves (retained pvs n) (q_DeletePV k m fg)) \<and>
     (\<forall>n v. kv_ReclaimPolicy v = ReclaimRetain \<longrightarrow> preserves (retained pvs n) (q_CreatePV k v))"

text \<open>The condition on a request of the rewire of the volume \<open>old\<close> to the disk \<open>h\<close>, and the state it keeps.\<close>

definition rewireSafe :: "('e \<Rightarrow> kpv list) \<Rightarrow> string \<Rightarrow> string \<Rightarrow> 'e \<times> req \<Rightarrow> bool" where
  "rewireSafe pvs h old = (\<lambda>(e, r).
     (\<forall>kind n. r = K8s (KDelete kind n) \<longrightarrow>
        (\<exists>m. held pvs m h e \<and> (kind = ''persistentvolumes'' \<longrightarrow> m \<noteq> n)) \<and> retained pvs old e) \<and>
     (\<forall>c. r = K8s (KCreatePVC c) \<longrightarrow> (\<exists>m. held pvs m h e)))"

definition guarded :: "('e \<Rightarrow> kpv list) \<Rightarrow> string \<Rightarrow> string \<Rightarrow> string \<Rightarrow> 'e \<Rightarrow> bool" where
  "guarded pvs h old n e \<longleftrightarrow> held pvs n h e \<and> retained pvs old e"

lemma undisturbed_conj: "undisturbed k I \<Longrightarrow> undisturbed k J \<Longrightarrow> undisturbed k (\<lambda>e. I e \<and> J e)"
  by (simp add: undisturbed_def preserves_def)

lemmas kube_law = iffD1 [OF kube_spec_def]

lemmas kube_laws =
  kube_law [THEN conjunct1]
  kube_law [THEN conjunct2, THEN conjunct1]
  kube_law [THEN conjunct2, THEN conjunct2, THEN conjunct1]
  kube_law [THEN conjunct2, THEN conjunct2, THEN conjunct2, THEN conjunct1]
  kube_law [THEN conjunct2, THEN conjunct2, THEN conjunct2, THEN conjunct2, THEN conjunct1]
  kube_law [THEN conjunct2, THEN conjunct2, THEN conjunct2, THEN conjunct2, THEN conjunct2, THEN conjunct1]
  kube_law [THEN conjunct2, THEN conjunct2, THEN conjunct2, THEN conjunct2, THEN conjunct2, THEN conjunct2, THEN conjunct1]
  kube_law [THEN conjunct2, THEN conjunct2, THEN conjunct2, THEN conjunct2, THEN conjunct2, THEN conjunct2, THEN conjunct2, THEN conjunct1]
  kube_law [THEN conjunct2, THEN conjunct2, THEN conjunct2, THEN conjunct2, THEN conjunct2, THEN conjunct2, THEN conjunct2, THEN conjunct2, THEN conjunct1]
  kube_law [THEN conjunct2, THEN conjunct2, THEN conjunct2, THEN conjunct2, THEN conjunct2, THEN conjunct2, THEN conjunct2, THEN conjunct2, THEN conjunct2, THEN conjunct1]
  kube_law [THEN conjunct2, THEN conjunct2, THEN conjunct2, THEN conjunct2, THEN conjunct2, THEN conjunct2, THEN conjunct2, THEN conjunct2, THEN conjunct2, THEN conjunct2, THEN conjunct1]
  kube_law [THEN conjunct2, THEN conjunct2, THEN conjunct2, THEN conjunct2, THEN conjunct2, THEN conjunct2, THEN conjunct2, THEN conjunct2, THEN conjunct2, THEN conjunct2, THEN conjunct2]

lemma kube_spec_undisturbed:
  assumes "kube_spec k pvs"
  shows "undisturbed k (guarded pvs h old n)" "undisturbed k (held pvs n h)" "undisturbed k (retained pvs n)"
proof -
  show "undisturbed k (held pvs n h)" for n h using kube_laws(6) [OF assms] by simp
  moreover show "undisturbed k (retained pvs n)" for n using kube_laws(7) [OF assms] by simp
  ultimately show "undisturbed k (guarded pvs h old n)" unfolding guarded_def [abs_def] by (rule undisturbed_conj)
qed

lemma kube_specD:
  assumes "kube_spec k pvs"
  shows "distinct (map pvName (pvs e))"
    and "q_GetPV k n e = (Inr v, e') \<Longrightarrow> v \<in> set (pvs e) \<and> pvName v = n"
    and "q_ListPVs k e = (Inr vs, e') \<Longrightarrow> set vs \<subseteq> set (pvs e)"
    and "q_CreatePV k v e = (Inr (), e') \<Longrightarrow> pvName v \<notin> pvName ` set (pvs e) \<and>
        (\<exists>u \<in> set (pvs e'). pvName u = pvName v \<and> kv_ReclaimPolicy u = kv_ReclaimPolicy v \<and> volumeHandleOf u = volumeHandleOf v)"
    and "q_PatchPV k n (PatchReclaimPolicy p) e = (Inr (), e') \<Longrightarrow> u \<in> set (pvs e') \<Longrightarrow> pvName u = n \<Longrightarrow> kv_ReclaimPolicy u = p"
    and "n \<noteq> m \<Longrightarrow> preserves (held pvs n h) (q_DeletePV k m fg)"
    and "n \<noteq> m \<Longrightarrow> preserves (held pvs n h) (q_PatchPV k m q)"
    and "preserves (held pvs n h) (q_CreatePV k v)"
    and "preserves (retained pvs n) (q_DeletePV k m fg)"
    and "kv_ReclaimPolicy v = ReclaimRetain \<Longrightarrow> preserves (retained pvs n) (q_CreatePV k v)"
  using kube_laws(1) [OF assms] kube_laws(2) [OF assms] kube_laws(3) [OF assms] kube_laws(4) [OF assms]
    kube_laws(5) [OF assms] kube_laws(8-12) [OF assms]
  by (simp, blast, blast, blast, blast, simp_all)

text \<open>Volume names identify volumes.\<close>

lemma held_other:
  assumes "kube_spec k pvs" "held pvs n h e" "v \<in> set (pvs e)" "volumeHandleOf v \<noteq> h"
  shows "pvName v \<noteq> n"
  using assms(2-) kube_specD(1) [OF assms(1), of e] by (auto simp: held_def distinct_map dest: inj_onD)

lemma triple_keeping:
  assumes "preserves I f" "\<And>e. I e \<Longrightarrow> P (e, r)"
  shows "triple I P (invoke r f) (\<lambda>_. I)"
  using assms by (intro triple_invoke) (auto simp: preserves_def)

lemma triple_withTime: "(\<And>t. triple I P (m t) Q) \<Longrightarrow> triple I P (withTime k m) Q"
  by (simp add: triple_def withTime_def)

lemma triple_failAs: "(\<And>e. I e \<Longrightarrow> Q (Inl (Plain (what @ '': '' @ Error err))) e) \<Longrightarrow> triple I P (failAs what err) Q"
  unfolding failAs_def by (rule triple_fail)

lemma triple_tolerating:
  assumes "triple I P m (\<lambda>_. J)"
  shows "triple I P (tolerating s what m) (\<lambda>_. J)"
  unfolding tolerating_def
  by (rule triple_call [OF assms]) (auto intro: triple_ret triple_failAs triple_if)

lemma triple_call_keep:
  assumes "triple I P m (\<lambda>_. I)" "\<And>e. triple I P (h e) (\<lambda>_. I)" "\<And>x. triple I P (n x) (\<lambda>_. I)"
  shows "triple I P (call m h n) (\<lambda>_. I)"
  by (rule triple_call [OF assms])

lemma triple_bind_keep: "triple I P m (\<lambda>_. I) \<Longrightarrow> (\<And>x. triple I P (n x) (\<lambda>_. I)) \<Longrightarrow> triple I P (bindE m n) (\<lambda>_. I)"
  by (rule triple_bindE) auto

lemmas triple_keep = triple_ret triple_fail triple_lift triple_if triple_prod triple_withTime triple_failAs triple_tolerating
  triple_call_keep triple_bind_keep triple_keeping

section \<open>The moved disk stays referenced\<close>

lemma undisturbedD:
  assumes "undisturbed k I"
  shows "preserves I (q_GetPVC k ns n)" "preserves I (q_CreatePVC k c)" "preserves I (q_DeletePVC k ns n fg)"
    "preserves I (q_GetPV k n)" "preserves I (q_ListPVs k)" "preserves I (q_WatchPV k n)" "preserves I (q_ListPods k ns)"
    "preserves I (q_ListClasses k)" "preserves I (q_ListQuotas k ns)" "preserves I (q_NewUUID k)"
  using assms unfolding undisturbed_def by simp_all

lemma rewireSafe_read [simp]:
  "rewireSafe pvs h old (e, K8s (KGet a b))" "rewireSafe pvs h old (e, K8s (KList a))" "rewireSafe pvs h old (e, K8s (KLocal a))"
  "rewireSafe pvs h old (e, K8s (KPatch a b c))" "rewireSafe pvs h old (e, K8s (KCreatePV v))"
  by (simp_all add: rewireSafe_def)

text \<open>Reads keep any state that is undisturbed.\<close>

lemma reads_keep:
  assumes "undisturbed k I"
  shows "triple I (rewireSafe pvs h old) (findExistingReservation k ns n d) (\<lambda>_. I)"
    and "triple I (rewireSafe pvs h old) (storageClassForStorage k s) (\<lambda>_. I)"
    and "triple I (rewireSafe pvs h old) (reservedPVCIsIdleWFFC k ns c r) (\<lambda>_. I)"
    and "triple I (rewireSafe pvs h old) (checkTargetClassQuota k ns cl q) (\<lambda>_. I)"
    and "triple I (rewireSafe pvs h old) (KGetPVC k ns n) (\<lambda>_. I)"
    and "triple I (rewireSafe pvs h old) (KNewUUID k) (\<lambda>_. I)"
  unfolding findExistingReservation_def storageClassForStorage_def reservedPVCIsIdleWFFC_def isWaitForFirstConsumer_def
    PVCConsumers_def listPods_def checkTargetClassQuota_def
  by (auto intro!: triple_keep undisturbedD [OF assms] split: list.split)

lemma pvWaitLoop_keep:
  assumes "undisturbed k I"
  shows "triple I (rewireSafe pvs h old) (pvWaitLoop k n evs) (\<lambda>_. I)"
proof (induction evs)
  case (Cons ev evs)
  then show ?case by (cases ev) (auto intro!: triple_keep undisturbedD [OF assms])
qed (auto intro!: triple_fail)

lemma PVWaitDelete_keep:
  assumes "undisturbed k I"
  shows "triple I (rewireSafe pvs h old) (PVWaitDelete k c evs n) (\<lambda>_. I)"
  unfolding PVWaitDelete_def
  by (auto intro!: triple_keep undisturbedD [OF assms] pvWaitLoop_keep [OF assms] split: option.split)

lemma guarded_delete:
  assumes "kube_spec k pvs" "n \<noteq> m"
  shows "triple (guarded pvs h old n) (rewireSafe pvs h old) (KDeletePV k m fg) (\<lambda>_. guarded pvs h old n)"
proof (rule triple_keeping)
  show "preserves (guarded pvs h old n) (q_DeletePV k m fg)"
    using kube_specD(6) [OF assms] kube_specD(9) [OF assms(1)] by (simp add: preserves_def guarded_def)
qed (use assms(2) in \<open>auto simp: guarded_def rewireSafe_def\<close>)

lemma guarded_deletePVC:
  assumes "kube_spec k pvs"
  shows "triple (guarded pvs h old n) (rewireSafe pvs h old) (KDeletePVC k ns m fg) (\<lambda>_. guarded pvs h old n)"
  by (rule triple_keeping) (auto simp: guarded_def rewireSafe_def undisturbedD(3) [OF kube_spec_undisturbed(1) [OF assms]])

lemma guarded_createPVC:
  assumes "kube_spec k pvs"
  shows "triple (guarded pvs h old n) (rewireSafe pvs h old) (KMakePVC k c) (\<lambda>_. guarded pvs h old n)"
  by (rule triple_keeping) (auto simp: guarded_def rewireSafe_def undisturbedD(2) [OF kube_spec_undisturbed(1) [OF assms]])

lemma getPV_other:
  assumes spec: "kube_spec k pvs"
  shows "triple (guarded pvs h old n) (rewireSafe pvs h old) (KGetPV k m)
     (\<lambda>r e. guarded pvs h old n e \<and> (\<forall>v. r = Inr v \<longrightarrow> pvName v = m \<and> (volumeHandleOf v \<noteq> h \<longrightarrow> m \<noteq> n)))"
proof (rule triple_invoke)
  fix e assume g: "guarded pvs h old n e"
  then have "guarded pvs h old n (snd (q_GetPV k m e))"
    using undisturbedD(4) [OF kube_spec_undisturbed(1) [OF spec]] unfolding preserves_def by blast
  moreover have "pvName v = m \<and> (volumeHandleOf v \<noteq> h \<longrightarrow> m \<noteq> n)" if "fst (q_GetPV k m e) = Inr v" for v
  proof -
    from that have "v \<in> set (pvs e) \<and> pvName v = m" using kube_specD(2) [OF spec] by (metis prod.collapse)
    then show ?thesis using held_other [OF spec] g unfolding guarded_def by blast
  qed
  ultimately show "rewireSafe pvs h old (e, K8s (KGet ''persistentvolumes'' m)) \<and> guarded pvs h old n (snd (q_GetPV k m e)) \<and>
      (\<forall>v. fst (q_GetPV k m e) = Inr v \<longrightarrow> pvName v = m \<and> (volumeHandleOf v \<noteq> h \<longrightarrow> m \<noteq> n))"
    by simp
qed

text \<open>The racing pair: the volume that is deleted is not the reservation.\<close>

lemma deleteRacingPair_guarded:
  assumes spec: "kube_spec k pvs" and "h \<noteq> []"
  shows "triple (guarded pvs h old n) (rewireSafe pvs h old) (deleteRacingPair k ns pvc h started) (\<lambda>_. guarded pvs h old n)"
  unfolding deleteRacingPair_def
proof (rule triple_call [OF getPV_other [OF spec]], goal_cases)
  case (1 e)
  show ?case by (rule triple_failAs) simp
next
  case (2 fresh)
  have "triple (\<lambda>e. guarded pvs h old n e \<and> pvName fresh = kc_VolumeName pvc \<and> (volumeHandleOf fresh \<noteq> h \<longrightarrow> kc_VolumeName pvc \<noteq> n))
     (rewireSafe pvs h old) m (\<lambda>_. guarded pvs h old n)"
    if "pvName fresh = kc_VolumeName pvc \<Longrightarrow> volumeHandleOf fresh \<noteq> h \<longrightarrow> kc_VolumeName pvc \<noteq> n \<Longrightarrow>
        triple (guarded pvs h old n) (rewireSafe pvs h old) m (\<lambda>_. guarded pvs h old n)" for m :: "('a pworld, unit) io"
    using that by (intro triple_const) blast
  note pre = this
  show ?case
    by (simp only: sum.inject simp_thms, rule pre)
      (cases "kv_CSI fresh"; use assms(2) in \<open>auto simp: Let_def volumeHandleOf_def
         intro!: triple_keep guarded_deletePVC [OF spec] guarded_delete [OF spec]\<close>)
qed

text \<open>The replaced reservation: the new one is there before the old one is deleted.\<close>

lemma createPV_guarded:
  assumes spec: "kube_spec k pvs" and "kv_ReclaimPolicy v = ReclaimRetain"
  shows "triple (guarded pvs (volumeHandleOf v) old n) (rewireSafe pvs h old) (KMakePV k v)
     (\<lambda>r e. guarded pvs (volumeHandleOf v) old n e \<and> (r = Inr () \<longrightarrow> guarded pvs (volumeHandleOf v) old (pvName v) e \<and> pvName v \<noteq> n))"
proof (rule triple_invoke)
  fix e assume g: "guarded pvs (volumeHandleOf v) old n e"
  have kept: "guarded pvs (volumeHandleOf v) old n (snd (q_CreatePV k v e))"
    using g kube_specD(8) [OF spec] kube_specD(10) [OF spec assms(2)] unfolding guarded_def preserves_def by blast
  moreover have "guarded pvs (volumeHandleOf v) old (pvName v) (snd (q_CreatePV k v e)) \<and> pvName v \<noteq> n"
    if "fst (q_CreatePV k v e) = Inr ()"
  proof -
    have c: "q_CreatePV k v e = (Inr (), snd (q_CreatePV k v e))" using that by (metis prod.collapse)
    have "pvName v \<noteq> n" using kube_specD(4) [OF spec c] g by (auto simp: guarded_def held_def)
    moreover have "held pvs (pvName v) (volumeHandleOf v) (snd (q_CreatePV k v e))"
      using kube_specD(4) [OF spec c] assms(2) by (auto simp: held_def)
    ultimately show ?thesis using kept by (simp add: guarded_def)
  qed
  ultimately show "rewireSafe pvs h old (e, K8s (KCreatePV v)) \<and> guarded pvs (volumeHandleOf v) old n (snd (q_CreatePV k v e)) \<and>
      (fst (q_CreatePV k v e) = Inr () \<longrightarrow> guarded pvs (volumeHandleOf v) old (pvName v) (snd (q_CreatePV k v e)) \<and> pvName v \<noteq> n)"
    by simp
qed

lemma nextReservation_sel [simp]:
  "kv_ReclaimPolicy (nextReservation c u cl) = kv_ReclaimPolicy c" "volumeHandleOf (nextReservation c u cl) = volumeHandleOf c"
  by (simp_all add: nextReservation_def volumeHandleOf_def)

definition reservedAs :: "('e \<Rightarrow> kpv list) \<Rightarrow> string \<Rightarrow> string \<Rightarrow> goerr + kpv \<Rightarrow> 'e \<Rightarrow> bool" where
  "reservedAs pvs h old r e \<longleftrightarrow> (case r of Inl _ \<Rightarrow> True | Inr v \<Rightarrow> guarded pvs h old (pvName v) e \<and> volumeHandleOf v = h)"

lemma replaceReservation_guarded:
  assumes spec: "kube_spec k pvs" and retain: "kv_ReclaimPolicy v = ReclaimRetain" and h: "volumeHandleOf v = h"
  shows "triple (guarded pvs h old n) (rewireSafe pvs h old)
     (call (KMakePV k v) (failAs what) (\<lambda>_. bindE (tolerating K8sNotFound what' (KDeletePV k n False)) (\<lambda>_. ret v))) (reservedAs pvs h old)"
proof (rule triple_call [OF createPV_guarded [OF spec retain, unfolded h]], goal_cases)
  case (1 e)
  show ?case by (rule triple_failAs) (simp add: reservedAs_def)
next
  case (2 x)
  have "triple (guarded pvs h old (pvName v)) (rewireSafe pvs h old)
      (bindE (tolerating K8sNotFound what' (KDeletePV k n False)) (\<lambda>_. ret v)) (reservedAs pvs h old)" if "pvName v \<noteq> n"
    by (rule triple_bindE [OF triple_tolerating [OF guarded_delete [OF spec that]]])
      (auto simp: reservedAs_def h intro: triple_ret)
  then have "triple (\<lambda>e. guarded pvs h old (pvName v) e \<and> pvName v \<noteq> n) (rewireSafe pvs h old)
      (bindE (tolerating K8sNotFound what' (KDeletePV k n False)) (\<lambda>_. ret v)) (reservedAs pvs h old)"
    by (rule triple_const)
  then show ?case by (rule triple_pre) simp
qed

lemma reservedAs_Inl [intro]: "reservedAs pvs h old (Inl err) e"
  by (simp add: reservedAs_def)

lemma replaceCurrent_guarded:
  assumes spec: "kube_spec k pvs" and "pvName current = n" "kv_ReclaimPolicy current = ReclaimRetain" "volumeHandleOf current = h"
  shows "triple (guarded pvs h old n) (rewireSafe pvs h old)
     (bindE (KNewUUID k) (\<lambda>uuid. call (KMakePV k (nextReservation current uuid cl)) (failAs (what uuid))
        (\<lambda>_. bindE (tolerating K8sNotFound what' (KDeletePV k (pvName current) False)) (\<lambda>_. ret (nextReservation current uuid cl)))))
     (reservedAs pvs h old)"
  unfolding assms(2)
  by (rule triple_bindE [OF reads_keep(6) [OF kube_spec_undisturbed(1) [OF spec]]])
    (auto simp: assms(3,4) intro!: replaceReservation_guarded [OF spec])

lemma reReserveDataPV_guarded:
  assumes spec: "kube_spec k pvs" and n: "pvName reserved = n" "volumeHandleOf reserved = h"
  shows "triple (guarded pvs h old n) (rewireSafe pvs h old) (reReserveDataPV k reserved cl) (reservedAs pvs h old)"
  unfolding reReserveDataPV_def n Let_def
proof (rule triple_call [OF getPV_other [OF spec]], goal_cases)
  case (1 e)
  show ?case by (rule triple_failAs) blast
next
  case (2 current)
  show ?case
    by (rule triple_pre, rule triple_const [where I = "guarded pvs h old n" and b = "pvName current = n"],
        intro triple_if triple_fail replaceCurrent_guarded [OF spec]; blast)
qed

lemma reconcileReservedClass_guarded:
  assumes spec: "kube_spec k pvs" and n: "pvName reserved = n" "volumeHandleOf reserved = h" and "h \<noteq> []"
  shows "triple (guarded pvs h old n) (rewireSafe pvs h old) (reconcileReservedClass k ns pvc reserved started) (reservedAs pvs h old)"
proof -
  obtain d where "kv_CSI reserved = Some (d, h)" using n assms(4) by (auto simp: volumeHandleOf_def split: option.splits)
  then show ?thesis
    unfolding reconcileReservedClass_def
    by (intro triple_bindE [where R = "\<lambda>_. guarded pvs h old n"] reReserveDataPV_guarded [OF spec n])
      (auto simp: reservedAs_def intro!: triple_keep deleteRacingPair_guarded [OF spec assms(4)])
qed

text \<open>The wait for the binding, with its reconciliations.\<close>

lemma waitReservedPVBind_guarded:
  assumes spec: "kube_spec k pvs" and "h \<noteq> []"
  shows "pvName reserved = n \<Longrightarrow> volumeHandleOf reserved = h \<Longrightarrow>
     triple (guarded pvs h old n) (rewireSafe pvs h old) (waitReservedPVBind k ending ns pvcName started left ticks reserved) (\<lambda>_ _. True)"
proof (induction "left + ticks" arbitrary: left ticks reserved n rule: less_induct)
  case less
  note keep = kube_spec_undisturbed(1) [OF spec]
  let ?T = "\<lambda>m. triple (guarded pvs h old n) (rewireSafe pvs h old) m (\<lambda>_ _. True)"
  have pause: "?T (case ticks of Suc m \<Rightarrow> waitReservedPVBind k ending ns pvcName started left m reserved | 0 \<Rightarrow> fail err)" for err
    by (cases ticks) (auto intro: less triple_fail)
  have reconcile: "?T (case left of 0 \<Rightarrow> fail err | Suc l \<Rightarrow> bindE (reconcileReservedClass k ns pvc reserved started)
      (\<lambda>next. waitReservedPVBind k ending ns pvcName started l ticks next))" for err pvc
  proof (cases left)
    case (Suc l)
    have "triple (reservedAs pvs h old (Inr v)) (rewireSafe pvs h old) (waitReservedPVBind k ending ns pvcName started l ticks v) (\<lambda>_ _. True)" for v
      unfolding reservedAs_def sum.case using less(1) [of l ticks v "pvName v"] Suc by (intro triple_const) simp
    then show ?thesis
      unfolding Suc nat.case
      by (intro triple_bindE [where R = "reservedAs pvs h old"] reconcileReservedClass_guarded [OF spec less(2,3) assms(2)]) auto
  qed (simp add: triple_fail)
  have idle: "?T (bindE (reservedPVCIsIdleWFFC k ns pvc reserved) (\<lambda>idle. if idle then ret x
      else case ticks of Suc m \<Rightarrow> waitReservedPVBind k ending ns pvcName started left m reserved | 0 \<Rightarrow> fail err))" for x pvc err
    by (intro triple_bindE [where R = "\<lambda>_. guarded pvs h old n"] reads_keep(3) [OF keep] triple_if triple_ret pause) auto
  show ?case
    unfolding waitReservedPVBind.simps [of k ending ns pvcName started left ticks] Let_def
    by (rule triple_call [where R = "\<lambda>_. guarded pvs h old n", OF reads_keep(5) [OF keep]];
        intro triple_if triple_ret triple_fail triple_failAs pause reconcile idle TrueI)
qed

lemma reservedPV_sel [simp]:
  "pvName (reservedPV pv n ns c t) = n" "kv_ReclaimPolicy (reservedPV pv n ns c t) = ReclaimRetain"
  "kv_CSI pv \<noteq> None \<Longrightarrow> volumeHandleOf (reservedPV pv n ns c t) = VolumeID t"
  by (auto simp: reservedPV_def volumeHandleOf_def)

text \<open>The pair carries the reservation of the moved disk.\<close>

definition reserves :: "string \<Rightarrow> string \<Rightarrow> kpv \<times> kpvc \<Rightarrow> bool" where
  "reserves name h p \<longleftrightarrow> pvName (fst p) = name \<and> kv_ReclaimPolicy (fst p) = ReclaimRetain \<and> volumeHandleOf (fst p) = h"

lemma rewiredPair_reserves:
  assumes "kv_CSI pv \<noteq> None"
  shows "returns (reserves name (VolumeID t)) (rewiredPair k ns pvc pv t name)"
  unfolding rewiredPair_def Let_def
  by (intro returns_bindE_any; simp split: option.split prod.split; intro allI impI conjI returns_bindE_any returns_ret;
      use assms in \<open>auto simp: reserves_def volumeHandleOf_def reservedPV_def\<close>)

lemma rewiredPair_keep:
  assumes "undisturbed k I"
  shows "triple I (rewireSafe pvs h old) (rewiredPair k ns pvc pv t name) (\<lambda>_. I)"
  unfolding rewiredPair_def Let_def
  by (auto intro!: triple_keep reads_keep [OF assms] split: option.split)

text \<open>Before the destructive steps: a reservation that is there already is held, and so is the old volume if it is retained.\<close>

definition prepared :: "('e \<Rightarrow> kpv list) \<Rightarrow> string \<Rightarrow> kpv \<Rightarrow> bool \<Rightarrow> string \<Rightarrow> 'e \<Rightarrow> bool" where
  "prepared pvs h pv existing n e \<longleftrightarrow>
     (existing \<longrightarrow> held pvs n h e) \<and> (kv_ReclaimPolicy pv = ReclaimRetain \<longrightarrow> retained pvs (pvName pv) e)"

lemma prepared_undisturbed: "kube_spec k pvs \<Longrightarrow> undisturbed k (prepared pvs h pv existing n)"
  using kube_spec_undisturbed(2) [of k pvs n h] kube_spec_undisturbed(3) [of k pvs "pvName pv"]
  by (auto simp: undisturbed_def preserves_def prepared_def)

definition oldRetained :: "('e \<Rightarrow> kpv list) \<Rightarrow> string \<Rightarrow> kpv \<Rightarrow> bool \<Rightarrow> string \<Rightarrow> 'e \<Rightarrow> bool" where
  "oldRetained pvs h pv existing n e \<longleftrightarrow> (existing \<longrightarrow> held pvs n h e) \<and> retained pvs (pvName pv) e"

lemma setRetain_prepared:
  assumes spec: "kube_spec k pvs" and "n \<noteq> pvName pv"
  shows "triple (prepared pvs h pv existing n) (rewireSafe pvs h old)
     (if kv_ReclaimPolicy pv = ReclaimRetain then ret ()
      else call (setPVReclaimPolicy k (pvName pv) ReclaimRetain) (failAs what) ret)
     (\<lambda>r e. \<forall>x. r = Inr x \<longrightarrow> oldRetained pvs h pv existing n e)"
proof (rule triple_if, goal_cases)
  case 1
  then show ?case by (intro triple_ret) (simp add: prepared_def oldRetained_def)
next
  case 2
  let ?R = "\<lambda>r e. \<forall>x. r = Inr x \<longrightarrow> oldRetained pvs h pv existing n e"
  have "triple (prepared pvs h pv existing n) (rewireSafe pvs h old) (setPVReclaimPolicy k (pvName pv) ReclaimRetain) ?R"
    unfolding setPVReclaimPolicy_def
  proof (rule triple_invoke, intro conjI allI impI)
    fix e assume p: "prepared pvs h pv existing n e"
    show "rewireSafe pvs h old (e, K8s (KPatch ''persistentvolumes'' (pvName pv) (PatchReclaimPolicy ReclaimRetain)))" by simp
    fix x assume "fst (q_PatchPV k (pvName pv) (PatchReclaimPolicy ReclaimRetain) e) = Inr x"
    then have "q_PatchPV k (pvName pv) (PatchReclaimPolicy ReclaimRetain) e =
        (Inr (), snd (q_PatchPV k (pvName pv) (PatchReclaimPolicy ReclaimRetain) e))" by (metis old.unit.exhaust prod.collapse)
    from kube_specD(5) [OF spec this] show "oldRetained pvs h pv existing n (snd (q_PatchPV k (pvName pv) (PatchReclaimPolicy ReclaimRetain) e))"
      using p kube_specD(7) [OF spec assms(2)] unfolding oldRetained_def retained_def prepared_def preserves_def by blast
  qed
  then show ?case by (rule triple_call) (auto intro: triple_failAs triple_ret)
qed

lemma createReservation_guarded:
  assumes spec: "kube_spec k pvs" and v: "pvName newPV = n" "kv_ReclaimPolicy newPV = ReclaimRetain" "volumeHandleOf newPV = h"
  shows "triple (oldRetained pvs h pv existing n) (rewireSafe pvs h old)
     (if existing then ret () else call (KMakePV k newPV) (failAs what) ret)
     (\<lambda>r e. \<forall>x. r = Inr x \<longrightarrow> guarded pvs h (pvName pv) n e)"
proof (rule triple_if, goal_cases)
  case 1
  then show ?case by (intro triple_ret) (simp add: oldRetained_def guarded_def)
next
  case 2
  have "triple (oldRetained pvs h pv existing n) (rewireSafe pvs h old) (KMakePV k newPV)
      (\<lambda>r e. \<forall>x. r = Inr x \<longrightarrow> guarded pvs h (pvName pv) n e)"
  proof (rule triple_invoke, intro conjI allI impI)
    fix e assume p: "oldRetained pvs h pv existing n e"
    show "rewireSafe pvs h old (e, K8s (KCreatePV newPV))" by simp
    fix x assume "fst (q_CreatePV k newPV e) = Inr x"
    then have "q_CreatePV k newPV e = (Inr (), snd (q_CreatePV k newPV e))" by (metis old.unit.exhaust prod.collapse)
    from kube_specD(4) [OF spec this] have "held pvs n h (snd (q_CreatePV k newPV e))" using v by (auto simp: held_def)
    moreover have "retained pvs (pvName pv) (snd (q_CreatePV k newPV e))"
      using p kube_specD(10) [OF spec v(2)] unfolding oldRetained_def preserves_def by blast
    ultimately show "guarded pvs h (pvName pv) n (snd (q_CreatePV k newPV e))" by (simp add: guarded_def)
  qed
  then show ?case by (rule triple_call) (auto intro: triple_failAs triple_ret)
qed

lemma triple_then:
  assumes "triple I P m (\<lambda>r e. \<forall>x. r = Inr x \<longrightarrow> J e)" "\<And>x. triple J P (n x) (\<lambda>_ _. True)"
  shows "triple I P (bindE m n) (\<lambda>_ _. True)"
  using assms by (intro triple_bindE [where R = "\<lambda>r e. \<forall>x. r = Inr x \<longrightarrow> J e"]) (auto intro: triple_pre)

lemma rewirePair_safe:
  assumes spec: "kube_spec k pvs" and v: "reserves n h (newPV, newPVC)" and "n \<noteq> pvName pv" "h \<noteq> []"
  shows "triple (prepared pvs h pv existing n) (rewireSafe pvs h (pvName pv)) (rewirePair k ws ns pvc pv started existing newPV newPVC) (\<lambda>_ _. True)"
proof -
  have v': "pvName newPV = n" "kv_ReclaimPolicy newPV = ReclaimRetain" "volumeHandleOf newPV = h" using v by (simp_all add: reserves_def)
  note keep = kube_spec_undisturbed(1) [OF spec]
  let ?G = "guarded pvs h (pvName pv) n"
  let ?P = "rewireSafe pvs h (pvName pv)"
  have restore: "triple (\<lambda>_. True) ?P (if b then ret () else call (setPVReclaimPolicy k m p) (failAs what) ret) (\<lambda>_ _. True)" for b m p what
    unfolding setPVReclaimPolicy_def
    by (intro triple_if triple_ret TrueI triple_call [where R = "\<lambda>_ _. True"] triple_invoke triple_failAs) simp_all
  have call: "triple ?G ?P (call m (failAs what) f) (\<lambda>_ _. True)"
    if "triple ?G ?P m (\<lambda>_. ?G)" "\<And>x. triple ?G ?P (f x) (\<lambda>_ _. True)" for m f what
    by (rule triple_call [OF that(1)]) (auto intro: triple_failAs that(2))
  have seq: "triple ?G ?P (bindE m f) (\<lambda>_ _. True)"
    if "triple ?G ?P m (\<lambda>_. ?G)" "\<And>x. triple ?G ?P (f x) (\<lambda>_ _. True)" for m f
    by (rule triple_bindE [OF that(1)]) (auto intro: that(2))
  show ?thesis
    unfolding rewirePair_def Let_def v'(1)
    by (intro triple_then [OF setRetain_prepared [OF spec assms(3)]] triple_then [OF createReservation_guarded [OF spec v']]
        call seq triple_tolerating guarded_deletePVC [OF spec] guarded_delete [OF spec assms(3)] PVWaitDelete_keep [OF keep]
        guarded_createPVC [OF spec] triple_bindE [where R = "\<lambda>_ _. True", OF waitReservedPVBind_guarded [OF spec assms(4) v'(1,3)]] restore TrueI)
qed

text \<open>What the search for an earlier reservation establishes.\<close>

lemma find_SomeD: "List.find P xs = Some x \<Longrightarrow> x \<in> set xs \<and> P x"
  by (auto simp: find_Some_iff)

lemma findExistingReservation_prepared:
  assumes spec: "kube_spec k pvs" and "volumeHandleOf pv \<noteq> h"
  shows "triple (\<lambda>e. pv \<in> set (pvs e)) (rewireSafe pvs h old) (findExistingReservation k ns c h)
     (\<lambda>r e. \<forall>x. r = Inr x \<longrightarrow> prepared pvs h pv (x \<noteq> None) (case x of None \<Rightarrow> [] | Some v \<Rightarrow> pvName v) e \<and>
        (\<forall>v. x = Some v \<longrightarrow> pvName v \<noteq> pvName pv))"
proof -
  let ?R = "\<lambda>r e. (kv_ReclaimPolicy pv = ReclaimRetain \<longrightarrow> retained pvs (pvName pv) e) \<and>
     (\<forall>vs. r = Inr vs \<longrightarrow> (\<forall>v \<in> set vs. isReservation ns c h v \<longrightarrow> held pvs (pvName v) h e \<and> pvName v \<noteq> pvName pv))"
  have list: "triple (\<lambda>e. pv \<in> set (pvs e)) (rewireSafe pvs h old) (KListPVs k) ?R"
  proof (rule triple_invoke, intro conjI allI ballI impI)
    fix e assume e: "pv \<in> set (pvs e)"
    have inj: "inj_on pvName (set (pvs e))" using kube_specD(1) [OF spec, of e] by (simp add: distinct_map)
    show "rewireSafe pvs h old (e, K8s (KList ''persistentvolumes''))" by simp
    show "retained pvs (pvName pv) (snd (q_ListPVs k e))" if "kv_ReclaimPolicy pv = ReclaimRetain"
    proof -
      have "retained pvs (pvName pv) e" using that e inj by (auto simp: retained_def dest: inj_onD)
      then show ?thesis using undisturbedD(5) [OF kube_spec_undisturbed(3) [OF spec]] by (simp add: preserves_def)
    qed
    fix vs v assume vs: "fst (q_ListPVs k e) = Inr vs" "v \<in> set vs" and v: "isReservation ns c h v"
    then have "v \<in> set (pvs e)" using kube_specD(3) [OF spec, of e vs "snd (q_ListPVs k e)"] by (metis prod.collapse subsetD)
    moreover from this have "held pvs (pvName v) h e" using v by (auto simp: held_def isReservation_def)
    ultimately show "held pvs (pvName v) h (snd (q_ListPVs k e))" "pvName v \<noteq> pvName pv"
      using undisturbedD(5) [OF kube_spec_undisturbed(2) [OF spec]] held_other [OF spec _ e assms(2)] unfolding preserves_def by metis+
  qed
  show ?thesis
    unfolding findExistingReservation_def
    by (rule triple_call [OF list]; rule triple_ret)
      (auto simp: prepared_def dest: find_SomeD split: option.split)
qed

lemma newUUID_keep:
  assumes "undisturbed k I" "\<And>e u e'. q_NewUUID k e = (Inr u, e') \<Longrightarrow> F u"
  shows "triple I (rewireSafe pvs h old) (KNewUUID k) (\<lambda>r e. \<forall>u. r = Inr u \<longrightarrow> I e \<and> F u)"
  using undisturbedD(10) [OF assms(1)] assms(2) by (intro triple_invoke) (auto simp: preserves_def, metis prod.collapse)

lemma named_reservation:
  assumes spec: "kube_spec k pvs" and fresh: "\<And>e u e'. q_NewUUID k e = (Inr u, e') \<Longrightarrow> ''pvc-'' @ u \<noteq> pvName pv"
    and f: "\<And>n. n \<noteq> pvName pv \<Longrightarrow> triple (prepared pvs h pv (existing \<noteq> None) n) P (f n) (\<lambda>_ _. True)"
    and P: "P = rewireSafe pvs h (pvName pv)"
  shows "triple (\<lambda>e. prepared pvs h pv (existing \<noteq> None) (case existing of None \<Rightarrow> [] | Some v \<Rightarrow> pvName v) e \<and>
      (\<forall>v. existing = Some v \<longrightarrow> pvName v \<noteq> pvName pv)) P
    (bindE (KNewUUID k) (\<lambda>uuid. f (case existing of Some v \<Rightarrow> pvName v | None \<Rightarrow> ''pvc-'' @ uuid))) (\<lambda>_ _. True)"
proof (rule triple_const)
  let ?n = "case existing of None \<Rightarrow> [] | Some v \<Rightarrow> pvName v"
  let ?f = "\<lambda>u. f (case existing of Some v \<Rightarrow> pvName v | None \<Rightarrow> ''pvc-'' @ u)"
  assume e: "\<forall>v. existing = Some v \<longrightarrow> pvName v \<noteq> pvName pv"
  have "triple (\<lambda>e. prepared pvs h pv (existing \<noteq> None) ?n e \<and> ''pvc-'' @ u \<noteq> pvName pv) P (?f u) (\<lambda>_ _. True)" for u
  proof (rule triple_const)
    assume "''pvc-'' @ u \<noteq> pvName pv"
    then show "triple (prepared pvs h pv (existing \<noteq> None) ?n) P (?f u) (\<lambda>_ _. True)"
      using e by (intro triple_pre [OF f]) (auto simp: prepared_def split: option.splits)
  qed
  then show "triple (prepared pvs h pv (existing \<noteq> None) ?n) P (bindE (KNewUUID k) ?f) (\<lambda>_ _. True)"
    unfolding P by (intro triple_bindE [OF newUUID_keep [OF prepared_undisturbed [OF spec] fresh]]) (auto intro: triple_pre)
qed

lemma replacePVTopology_safe:
  assumes spec: "kube_spec k pvs" and "volumeHandleOf pv \<noteq> VolumeID t"
    and fresh: "\<And>e u e'. q_NewUUID k e = (Inr u, e') \<Longrightarrow> ''pvc-'' @ u \<noteq> pvName pv"
  shows "triple (\<lambda>e. pv \<in> set (pvs e)) (rewireSafe pvs (VolumeID t) (pvName pv)) (replacePVTopology k ws ns pvc pv t) (\<lambda>_ _. True)"
proof -
  let ?h = "VolumeID t"
  have h: "?h \<noteq> []" by (simp add: VolumeID_def)
  have "triple (prepared pvs ?h pv b n) (rewireSafe pvs ?h (pvName pv))
      (if kv_CSI pv = None then fail nilDereference
       else bindE (rewiredPair k ns pvc pv t n) (\<lambda>(newPV, newPVC). rewirePair k ws ns pvc pv started b newPV newPVC)) (\<lambda>_ _. True)"
    if "n \<noteq> pvName pv" for n b started
    by (intro triple_if triple_fail TrueI triple_bindR [OF rewiredPair_reserves rewiredPair_keep [OF prepared_undisturbed [OF spec]]])
      (auto intro: rewirePair_safe [OF spec _ that h])
  from named_reservation [OF spec fresh this refl] show ?thesis
    unfolding replacePVTopology_def Let_def
    by (intro triple_withTime triple_bindE [OF findExistingReservation_prepared [OF spec assms(2)]]) (auto intro: triple_pre)
qed


section \<open>The sample API server behaves as documented\<close>

lemma ksView_iff: "v \<in> set (ksView s) \<longleftrightarrow> (\<exists>n u. map_of (ks_pvs s) n = Some u \<and> v = ksNamed (n, u))"
proof -
  have "(n, u) \<in> set (AList.clearjunk (ks_pvs s)) \<longleftrightarrow> map_of (ks_pvs s) n = Some u" for n u
    by (metis distinct_clearjunk map_of_clearjunk map_of_eq_Some_iff)
  then show ?thesis by (auto simp: ksView_def image_iff)
qed

lemma ksNamed_sel [simp]:
  "pvName (ksNamed (n, u)) = n" "kv_ReclaimPolicy (ksNamed (n, u)) = kv_ReclaimPolicy u" "volumeHandleOf (ksNamed (n, u)) = volumeHandleOf u"
  by (simp_all add: ksNamed_def volumeHandleOf_def)

lemma held_ksView:
  "held ksView n h s \<longleftrightarrow> (\<exists>u. map_of (ks_pvs s) n = Some u \<and> kv_ReclaimPolicy u = ReclaimRetain \<and> volumeHandleOf u = h)"
  unfolding held_def Bex_def ksView_iff by (metis ksNamed_sel)

lemma retained_ksView: "retained ksView n s \<longleftrightarrow> (\<forall>u. map_of (ks_pvs s) n = Some u \<longrightarrow> kv_ReclaimPolicy u = ReclaimRetain)"
  unfolding retained_def Ball_def ksView_iff by (metis ksNamed_sel)

lemma ks_keeps:
  assumes "\<And>s. map_of (ks_pvs (snd (f s))) n = map_of (ks_pvs s) n"
  shows "preserves (held ksView n h) f" "preserves (retained ksView n) f"
  by (simp_all add: preserves_def held_ksView retained_ksView assms)

lemma sampleKube_sel [simp]:
  "q_GetPV sampleKube = ksGetPV" "q_ListPVs sampleKube = (\<lambda>s. (Inr (ksView s), s))" "q_CreatePV sampleKube = ksCreatePV"
  "q_DeletePV sampleKube = ksDeletePV" "q_PatchPV sampleKube = ksPatchPV" "q_NewUUID sampleKube = (\<lambda>s. (Inr ''42'', s))"
  by (simp_all add: sampleKube_def)

lemma sampleKube_undisturbed:
  "undisturbed sampleKube (held ksView n h)" "undisturbed sampleKube (retained ksView n)"
  unfolding undisturbed_def
  by (intro conjI allI ks_keeps;
      simp add: sampleKube_def ksRead_def ksGetPV_def ksCreatePVC_def Let_def split: option.split)+

lemma sampleKube_writes:
  "n \<noteq> m \<Longrightarrow> map_of (ks_pvs (snd (ksDeletePV m fg s))) n = map_of (ks_pvs s) n"
  "n \<noteq> m \<Longrightarrow> map_of (ks_pvs (snd (ksPatchPV m p s))) n = map_of (ks_pvs s) n"
  "map_of (ks_pvs s) n = Some u \<Longrightarrow> map_of (ks_pvs (snd (ksCreatePV v s))) n = Some u"
  by (auto simp: ksDeletePV_def ksPatchPV_def ksCreatePV_def Let_def delete_conv' update_conv' split: option.split)

lemma sampleKube_create: "ksCreatePV v s = (Inr (), s') \<Longrightarrow> map_of (ks_pvs s) (pvName v) = None \<and> map_of (ks_pvs s') (pvName v) = Some v"
  by (auto simp: ksCreatePV_def Let_def split: if_splits)

lemma ksView_distinct: "distinct (map pvName (ksView e))"
proof -
  have "map pvName (ksView e) = map fst (AList.clearjunk (ks_pvs e))" by (auto simp: ksView_def)
  then show ?thesis by (simp add: distinct_clearjunk)
qed

lemma sampleKube_patch:
  assumes "ksPatchPV n (PatchReclaimPolicy p) e = (Inr (), e')" "u \<in> set (ksView e')" "pvName u = n"
  shows "kv_ReclaimPolicy u = p"
  using assms by (auto simp: ksView_iff ksPatchPV_def update_conv' split: option.splits)

lemma sampleKube_reads:
  "ksGetPV n e = (Inr v, e') \<Longrightarrow> v \<in> set (ksView e) \<and> pvName v = n"
  by (auto simp: ksView_iff ksGetPV_def split: option.splits)

lemma sampleKube_created:
  assumes "ksCreatePV v e = (Inr (), e')"
  shows "pvName v \<notin> pvName ` set (ksView e) \<and>
     (\<exists>u \<in> set (ksView e'). pvName u = pvName v \<and> kv_ReclaimPolicy u = kv_ReclaimPolicy v \<and> volumeHandleOf u = volumeHandleOf v)"
proof
  show "pvName v \<notin> pvName ` set (ksView e)" using sampleKube_create [OF assms] by (auto simp: ksView_iff)
  have "ksNamed (pvName v, v) \<in> set (ksView e')" using sampleKube_create [OF assms] by (auto simp: ksView_iff)
  then show "\<exists>u \<in> set (ksView e'). pvName u = pvName v \<and> kv_ReclaimPolicy u = kv_ReclaimPolicy v \<and> volumeHandleOf u = volumeHandleOf v"
    by (rule bexI [rotated]) simp
qed

lemma sampleKube_spec: "kube_spec sampleKube ksView"
  unfolding kube_spec_def sampleKube_sel
proof (intro conjI, goal_cases)
  case 1 show ?case by (simp add: ksView_distinct)
next
  case 2 show ?case using sampleKube_reads by blast
next
  case 3 show ?case by simp
next
  case 4 show ?case using sampleKube_created by blast
next
  case 5 show ?case using sampleKube_patch by blast
next
  case 6 show ?case by (simp add: sampleKube_undisturbed)
next
  case 7 show ?case by (simp add: sampleKube_undisturbed)
next
  case 8 show ?case by (intro allI impI ks_keeps(1) sampleKube_writes(1))
next
  case 9 show ?case by (intro allI impI ks_keeps(1) sampleKube_writes(2))
next
  case 10 show ?case by (auto simp: preserves_def held_ksView dest: sampleKube_writes(3))
next
  case 11 show ?case by (auto simp: preserves_def retained_ksView ksDeletePV_def delete_conv')
next
  case 12 show ?case by (auto simp: preserves_def retained_ksView ksCreatePV_def Let_def)
qed

definition sampleTarget :: volume where
  "sampleTarget = NewVolume ''r'' ''pve-2'' ''lvm'' ''vm-9999-pvc-1''"


end
