(* ===== verification/Migrator_Safety.thy ===== *)
theory Migrator_Safety
  imports Rewire_Safety Csi_Safety
begin

text \<open>
  What a migration may do and in which order: a failed migration has not deleted the source disk, the rewiring
  starts only after the copy has been seen complete on the target, and pods and nodes are touched only by a forced one.
\<close>

section \<open>Paths of disks\<close>

lemma slash_split:
  "CHR ''/'' \<notin> set a \<Longrightarrow> CHR ''/'' \<notin> set b \<Longrightarrow> a @ CHR ''/'' # x = b @ CHR ''/'' # y \<longleftrightarrow> a = b \<and> x = y"
proof (induction a arbitrary: b)
  case Nil
  then show ?case by (cases b) auto
next
  case (Cons c a)
  then show ?case by (cases b) auto
qed

lemma hex_digit_inject:
  assumes "m < 16" "n < 16"
  shows "hex_digit m = hex_digit n \<longleftrightarrow> m = n"
proof -
  have h: "(of_char (hex_digit k) :: nat) = (if k < 10 then 48 + k else 55 + k)" if "k < 16" for k
    unfolding hex_digit_def if_distrib [of of_char] of_char_of using that by simp
  show ?thesis
  proof
    assume "hex_digit m = hex_digit n"
    then have "(if m < 10 then 48 + m else 55 + m) = (if n < 10 then 48 + n else 55 + n)"
      unfolding h [OF assms(1), symmetric] h [OF assms(2), symmetric] by (rule arg_cong)
    then show "m = n" by (simp split: if_splits)
  qed simp
qed

lemma pctEncode_prefix: "pctEncode c @ xs = pctEncode d @ ys \<longleftrightarrow> c = d \<and> xs = ys"
proof -
  have "c = d" if "\<not> path_safe c" "\<not> path_safe d" "hex_digit (of_char c div 16) = hex_digit (of_char d div 16)"
    "hex_digit (of_char c mod 16) = hex_digit (of_char d mod 16)"
  proof -
    have "of_char c div 16 < (16 :: nat)" "of_char d div 16 < (16 :: nat)"
      using nat_of_char_less_256 [of c] nat_of_char_less_256 [of d] by (simp_all add: less_mult_imp_div_less)
    then have "of_char c div 16 = (of_char d div 16 :: nat)" "of_char c mod 16 = (of_char d mod 16 :: nat)"
      using that hex_digit_inject by simp_all
    then have "(of_char c :: nat) = of_char d" by (metis div_mult_mod_eq)
    then show ?thesis by simp
  qed
  moreover have "path_safe c \<Longrightarrow> c \<noteq> CHR ''%''" for c using path_safe_not(3) by blast
  ultimately show ?thesis by (auto simp: pctEncode_def)
qed

lemma PathEscape_inject: "PathEscape a = PathEscape b \<longleftrightarrow> a = b"
proof (induction a arbitrary: b)
  case Nil
  then show ?case by (cases b) (auto simp: PathEscape_def pctEncode_def)
next
  case (Cons c a)
  then show ?case by (cases b) (auto simp: PathEscape_def pctEncode_prefix, simp add: pctEncode_def split: if_splits)
qed

definition diskPath :: "string \<Rightarrow> volume \<Rightarrow> string" where
  "diskPath node vol = contentPath node (vstorage vol) @ ''/'' @ escapeVolumePath (vdisk vol)"

lemma diskPath_location: "diskPath n v = diskPath m u \<Longrightarrow> n = m \<and> vstorage v = vstorage u"
  by (simp add: diskPath_def contentPath_def append_Cons slash_split PathEscape_free PathEscape_inject)

lemma diskPath_not_vm: "CHR ''/'' \<notin> set n \<Longrightarrow> diskPath m v \<noteq> ''/nodes/'' @ n @ ''/qemu/'' @ i"
  by (simp add: diskPath_def contentPath_def append_Cons slash_split PathEscape_free)

lemma vmPath_inject:
  assumes "CHR ''/'' \<notin> set i" "CHR ''/'' \<notin> set j" "''/nodes/'' @ n @ ''/qemu/'' @ i = ''/nodes/'' @ m @ ''/qemu/'' @ j"
  shows "i = j"
proof -
  have "rev i @ CHR ''/'' # rev (''/nodes/'' @ n @ ''/qemu'') = rev j @ CHR ''/'' # rev (''/nodes/'' @ m @ ''/qemu'')"
    using arg_cong [OF assms(3), of rev] by simp
  then show ?thesis using slash_split [of "rev i" "rev j"] assms(1,2) by simp
qed

section \<open>Requests of the steps\<close>

text \<open>What every migration may send: reads, events, tasks, and the creation and annotation of volumes.\<close>

definition benign :: "(req \<Rightarrow> bool) \<Rightarrow> bool" where
  "benign P \<longleftrightarrow>
     (\<forall>k n. P (K8s (KGet k n))) \<and> (\<forall>k. P (K8s (KList k))) \<and> (\<forall>k. P (K8s (KLocal k))) \<and>
     (\<forall>a b c d. P (K8s (KEvent a b c d))) \<and> (\<forall>n p. P (K8s (KPatch ''persistentvolumes'' n p))) \<and>
     (\<forall>v. P (K8s (KCreatePV v))) \<and> (\<forall>c. P (K8s (KCreatePVC c))) \<and>
     (\<forall>n p. P (Px n (RGet p))) \<and> (\<forall>n. P (Px n RWait)) \<and> (\<forall>n p b. P (Px n (RPost p b))) \<and> (\<forall>n p b. P (Px n (RPut p b)))"

lemma benignD:
  assumes "benign P"
  shows "P (K8s (KGet k n))" "P (K8s (KList k))" "P (K8s (KLocal k))" "P (K8s (KEvent a b c d))"
    "P (K8s (KPatch ''persistentvolumes'' n p))" "P (K8s (KCreatePV v))" "P (K8s (KCreatePVC cc))"
    "P (Px n (RGet q))" "P (Px n RWait)" "P (Px n (RPost q bb))" "P (Px n (RPut q bb))"
  using assms unfolding benign_def by simp_all

named_theorems migrate_emits \<open>requests of the steps of a migration\<close>

lemma emits_failAs [migrate_emits]: "emits P (failAs what e)"
  by (simp add: failAs_def emits_fail)

lemma emits_withTime [migrate_emits]: "(\<And>t. emits P (m t)) \<Longrightarrow> emits P (withTime k m)"
  unfolding emits_def by (rule triple_withTime)

lemma emits_tolerating [migrate_emits]: "emits P m \<Longrightarrow> emits P (tolerating s what m)"
  unfolding tolerating_def by (intro emits_intros emits_failAs)

lemma emits_attempt [migrate_emits]: "emits P m \<Longrightarrow> emits P (attempt m)"
  unfolding attempt_def by (intro emits_intros)

lemma emits_deferring [migrate_emits]: "emits P c \<Longrightarrow> emits P m \<Longrightarrow> emits P (deferring c m)"
  unfolding deferring_def by (intro emits_intros emits_attempt)

lemma emits_sum_list [migrate_emits]:
  "emits P a \<Longrightarrow> (\<And>x xs. emits P (f x xs)) \<Longrightarrow> emits P (case xs of [] \<Rightarrow> a | x # xs \<Rightarrow> f x xs)"
  by (simp split: list.split)

lemma emits_nat [migrate_emits]: "emits P a \<Longrightarrow> (\<And>n. m = Suc n \<Longrightarrow> emits P (f n)) \<Longrightarrow> emits P (case m of 0 \<Rightarrow> a | Suc n \<Rightarrow> f n)"
  by (simp split: nat.split)

lemma emits_Let [migrate_emits]: "emits P (f x) \<Longrightarrow> emits P (let y = x in f y)"
  by simp

text \<open>The operations on disks and on the helper VM.\<close>

lemma emits_waitTask [migrate_emits]: "benign P \<Longrightarrow> emits P (waitTask cl upid t what)"
  unfolding waitTask_def Let_def by (intro emits_intros; simp add: benignD)

lemma emits_DiskOnNode [migrate_emits]: "benign P \<Longrightarrow> emits P (DiskOnNode cl vol n)"
  unfolding DiskOnNode_def by (intro emits_intros; simp add: benignD)

lemma emits_DeleteDisk: "benign P \<Longrightarrow> P (Px (c_name cl) (RDelete (diskPath n vol))) \<Longrightarrow> emits P (DeleteDisk cl vol n t)"
  unfolding DeleteDisk_def diskPath_def append_assoc by (intro emits_intros; simp add: benignD)

lemma emits_MoveQemuDisk [migrate_emits]: "benign P \<Longrightarrow> emits P (MoveQemuDisk cl vol n v t ep)"
  unfolding MoveQemuDisk_def Let_def by (intro emits_intros; simp add: benignD)

lemma emits_waitDetachLoop: "benign P \<Longrightarrow> emits P (waitDetachLoop ticks err cl i d)"
proof (induction ticks)
  case 0
  then show ?case by (subst waitDetachLoop.simps) (auto intro!: emits_intros simp: benignD)
next
  case (Suc n)
  then show ?case by (subst waitDetachLoop.simps) (auto intro!: emits_intros simp: benignD)
qed

lemma emits_WaitForVolumeDetach [migrate_emits]: "benign P \<Longrightarrow> emits P (WaitForVolumeDetach ticks err cl i d)"
  unfolding WaitForVolumeDetach_def by (intro emits_intros emits_waitDetachLoop)

lemma emits_FindVMNode [migrate_emits]: "benign P \<Longrightarrow> emits P (FindVMNode cl i)"
  unfolding FindVMNode_def by (intro emits_intros; simp add: benignD)

lemma emits_CreateHelperVM [migrate_emits]: "benign P \<Longrightarrow> emits P (CreateHelperVM cl n i)"
  unfolding CreateHelperVM_def by (intro emits_intros emits_waitTask; simp add: benignD)

lemma emits_AttachDisk [migrate_emits]: "benign P \<Longrightarrow> emits P (AttachDisk cl n i v)"
  unfolding AttachDisk_def by (intro emits_intros; simp add: benignD)

lemma emits_ConvertDiskToRaw [migrate_emits]: "benign P \<Longrightarrow> emits P (ConvertDiskToRaw cl n i s t)"
  unfolding ConvertDiskToRaw_def Let_def by (intro emits_intros emits_waitTask; simp add: benignD)

lemma emits_DeleteVM: "benign P \<Longrightarrow> P (Px (c_name cl) (RDelete (''/nodes/'' @ n @ ''/qemu/'' @ Itoa i))) \<Longrightarrow> emits P (DeleteVM cl n i)"
  unfolding DeleteVM_def by (intro emits_intros emits_waitTask; simp add: benignD)

text \<open>The Kubernetes helpers.\<close>

lemma emits_PVCResources [migrate_emits]: "benign P \<Longrightarrow> emits P (PVCResources k ns n)"
  unfolding PVCResources_def by (intro emits_intros migrate_emits; simp add: benignD)

lemma emits_listPods [migrate_emits]: "benign P \<Longrightarrow> emits P (listPods k ns f)"
  unfolding listPods_def by (intro emits_intros migrate_emits; simp add: benignD)

lemma emits_PVCPodUsage [migrate_emits]: "benign P \<Longrightarrow> emits P (PVCPodUsage k ns n)"
  unfolding PVCPodUsage_def by (rule emits_listPods)

lemma emits_CSINodes [migrate_emits]: "benign P \<Longrightarrow> emits P (CSINodes k d)"
  unfolding CSINodes_def by (intro emits_intros migrate_emits; simp add: benignD)

lemma emits_CondonNodes: "benign P \<Longrightarrow> (\<And>n. P (K8s (KPatch ''nodes'' n (PatchUnschedulable True)))) \<Longrightarrow> emits P (CondonNodes k ns)"
  by (induction ns) (auto intro!: emits_intros migrate_emits simp: benignD)

lemma emits_UncondonNodes: "(\<And>n. P (K8s (KPatch ''nodes'' n (PatchUnschedulable False)))) \<Longrightarrow> emits P (UncondonNodes k ns)"
  by (induction ns) (auto intro!: emits_intros migrate_emits)

lemma emits_deletePods: "(\<And>n. P (K8s (KDelete ''pods'' n))) \<Longrightarrow> emits P (deletePods k ns pods)"
  by (induction pods) (auto intro!: emits_intros migrate_emits)

lemma emits_annotatePV [migrate_emits]: "benign P \<Longrightarrow> emits P (annotatePV k n a b)"
  unfolding annotatePV_def by (intro emits_intros; simp add: benignD)

lemma emits_event [migrate_emits]: "benign P \<Longrightarrow> emits P (event m pvc t r x)"
  unfolding event_def Let_def by (intro emits_intros migrate_emits; simp add: benignD)

lemma emits_podsGoneLoop: "benign P \<Longrightarrow> emits P (podsGoneLoop k err ns n d ticks)"
proof (induction ticks)
  case 0
  then show ?case by (subst podsGoneLoop.simps) (auto intro!: emits_intros migrate_emits)
next
  case (Suc m)
  then show ?case by (subst podsGoneLoop.simps) (auto intro!: emits_intros migrate_emits)
qed

lemma emits_waitPodsGone [migrate_emits]: "benign P \<Longrightarrow> emits P (waitPodsGone k ws req)"
  unfolding waitPodsGone_def by (intro emits_intros migrate_emits emits_podsGoneLoop)

lemma emits_phase: "(\<And>f. mg_OnPhase m = Some f \<Longrightarrow> emits P (f p)) \<Longrightarrow> emits P (phase m p)"
  unfolding phase_def by (auto intro!: emits_intros migrate_emits split: option.split)

text \<open>The rewiring.\<close>

definition deletesVolumes :: "(req \<Rightarrow> bool) \<Rightarrow> bool" where
  "deletesVolumes P \<longleftrightarrow> (\<forall>n. P (K8s (KDelete ''persistentvolumes'' n))) \<and> (\<forall>n. P (K8s (KDelete ''persistentvolumeclaims'' n)))"

lemma emits_rewire_reads [migrate_emits]:
  assumes "benign P"
  shows "emits P (findExistingReservation k ns n h)" "emits P (storageClassForStorage k s)" "emits P (isWaitForFirstConsumer k c)"
    "emits P (reservedPVCIsIdleWFFC k ns pvc r)" "emits P (checkTargetClassQuota k ns c q)"
  unfolding findExistingReservation_def storageClassForStorage_def isWaitForFirstConsumer_def reservedPVCIsIdleWFFC_def
    checkTargetClassQuota_def PVCConsumers_def
  using assms by (auto intro!: emits_intros migrate_emits simp: benignD)

lemma emits_pvWaitLoop: "benign P \<Longrightarrow> emits P (pvWaitLoop k n evs)"
proof (induction evs)
  case (Cons ev evs)
  then show ?case by (cases ev) (auto intro!: emits_intros simp: benignD)
qed (simp add: emits_fail)

lemma emits_PVWaitDelete [migrate_emits]: "benign P \<Longrightarrow> emits P (PVWaitDelete k c evs n)"
  unfolding PVWaitDelete_def by (auto intro!: emits_intros emits_pvWaitLoop simp: benignD split: option.split)

lemma emits_setPVReclaimPolicy [migrate_emits]: "benign P \<Longrightarrow> emits P (setPVReclaimPolicy k n p)"
  unfolding setPVReclaimPolicy_def by (intro emits_intros) (simp add: benignD)

lemma emits_reconcileReservedClass [migrate_emits]:
  assumes "benign P" "deletesVolumes P"
  shows "emits P (reconcileReservedClass k ns pvc r t)"
  unfolding reconcileReservedClass_def deleteRacingPair_def reReserveDataPV_def Let_def
  by (intro emits_intros migrate_emits assms; use assms in \<open>simp add: benignD deletesVolumes_def\<close>)

lemma emits_waitReservedPVBind:
  assumes "benign P" "deletesVolumes P"
  shows "emits P (waitReservedPVBind k ending ns n t left ticks reserved)"
proof (induction "left + ticks" arbitrary: left ticks reserved rule: less_induct)
  case less
  show ?case
    by (subst waitReservedPVBind.simps, unfold Let_def, intro emits_intros migrate_emits assms less; use assms in \<open>simp add: benignD\<close>)
qed

lemma emits_replacePVTopology [migrate_emits]:
  assumes "benign P" "deletesVolumes P"
  shows "emits P (replacePVTopology k ws ns pvc pv t)"
proof -
  have "emits P (rewirePair k ws ns pvc pv s b v c)" for s b v c
    unfolding rewirePair_def Let_def
    by (intro emits_intros migrate_emits emits_waitReservedPVBind assms; use assms in \<open>simp add: benignD deletesVolumes_def\<close>)
  moreover have "emits P (rewiredPair k ns pvc pv t n)" for n
    unfolding rewiredPair_def Let_def by (intro emits_intros migrate_emits assms)
  ultimately show ?thesis
    unfolding replacePVTopology_def Let_def by (intro emits_intros migrate_emits assms; simp add: benignD [OF assms(1)])
qed

text \<open>Finding the VM of a node, for a pool whose clients search as documented.\<close>

definition filter_spec :: "'e pool \<Rightarrow> bool" where
  "filter_spec p \<longleftrightarrow> (\<forall>cl \<in> snd ` set (pl_clients p). GetVMByFilter_spec cl)"

lemma emits_resolveVM [migrate_emits]:
  assumes "benign P" "filter_spec pool"
  shows "emits P (resolveVM k pool n r)"
proof -
  have "emits P (FindVMByNode pool x)" "emits P (FindVMByUUID pool u)" for x u
    using assms unfolding FindVMByNode_def FindVMByUUID_def filter_spec_def
    by (auto intro!: emits_FindVMByNodeIn emits_FindVMByUUIDIn simp: benignD)
  then show ?thesis
    unfolding resolveVM_def lookupVM_def Let_def
    by (intro emits_intros migrate_emits; simp add: benignD [OF assms(1)])
qed

text \<open>The conversion, for a cluster whose node names are host names.\<close>

definition hostnames :: "'e client \<Rightarrow> bool" where
  "hostnames cl \<longleftrightarrow> (\<forall>p e rs. fst (c_GetResources cl p e) = Inr rs \<longrightarrow> (\<forall>r \<in> set rs. CHR ''/'' \<notin> set (rs_node r)))"

lemma returns_px: "(\<And>e x. fst (f e) = Inr x \<Longrightarrow> A x) \<Longrightarrow> returns A (px cl r f)"
  unfolding returns_def px_def invoke_def Let_def by (auto split: prod.splits) (metis fst_conv)

lemma FindVMNode_hostname:
  assumes "hostnames cl"
  shows "returns (\<lambda>(node, name, found). CHR ''/'' \<notin> set node) (FindVMNode cl i)"
  unfolding FindVMNode_def
proof (rule returns_call [where A = "\<lambda>rs. \<forall>r \<in> set rs. CHR ''/'' \<notin> set (rs_node r)"])
  show "returns (\<lambda>rs. \<forall>r \<in> set rs. CHR ''/'' \<notin> set (rs_node r)) (GetResourcesAt cl ''/cluster/resources?type=vm'')"
    using assms unfolding hostnames_def by (intro returns_px) blast
qed (auto intro!: returns_fail returns_ret split: option.split dest: find_SomeD)

lemma emits_convertAndMove:
  assumes "benign P" "hostnames cl" "CHR ''/'' \<notin> set (vnode vol)"
    and del: "\<And>n i. CHR ''/'' \<notin> set n \<Longrightarrow> Itoa i \<noteq> VMID vol \<Longrightarrow> P (Px (c_name cl) (RDelete (''/nodes/'' @ n @ ''/qemu/'' @ Itoa i)))"
  shows "emits P (convertAndMove m cl vol t n timeout)"
proof -
  have "emits P (convertedMove m cl vol t n timeout i)" for i
    unfolding convertedMove_def by (auto intro!: emits_intros migrate_emits assms split: list.split)
  then show ?thesis
    unfolding convertAndMove_def Let_def
    by (auto intro!: emits_intros migrate_emits emits_bindR [OF FindVMNode_hostname [OF assms(2)]] emits_DeleteVM assms del)
qed

section \<open>Failing runs\<close>

text \<open>\<open>failEmits P m\<close>: when \<open>m\<close> fails, every request it has sent satisfies \<open>P\<close>.\<close>

definition failEmits :: "('r \<Rightarrow> bool) \<Rightarrow> (('e, 'r) world, 'a) io \<Rightarrow> bool" where
  "failEmits P m \<longleftrightarrow> (\<forall>w e w'. m w = (Inl e, w') \<longrightarrow> (\<exists>rs. trace w' = trace w @ rs \<and> list_all (\<lambda>(_, r). P r) rs))"

named_theorems fail_emits \<open>composition rules for failing runs\<close>

lemma failEmits_emits: "emits P m \<Longrightarrow> failEmits P m"
  unfolding failEmits_def by (auto dest: emits_step)

lemma failEmits_never: "fails (\<lambda>_. False) m \<Longrightarrow> failEmits P m"
  unfolding failEmits_def fails_def by blast

lemma failEmits_callR:
  assumes "returns B m" "emits P m" "\<And>e. failEmits P (h e)" "\<And>x. B x \<Longrightarrow> failEmits P (k x)"
  shows "failEmits P (call m h k)"
  unfolding failEmits_def
proof (intro allI impI)
  fix w e w' assume run: "call m h k w = (Inl e, w')"
  obtain r v where m: "m w = (r, v)" by fastforce
  obtain rs where rs: "trace v = trace w @ rs" "list_all (\<lambda>(_, r). P r) rs" using emits_step [OF assms(2) m] by blast
  define n where "n = (case r of Inl e \<Rightarrow> h e | Inr x \<Rightarrow> k x)"
  have "n v = (Inl e, w')" using run m by (auto simp: call_def n_def split: sum.splits)
  moreover have "failEmits P n" using assms(3,4) returnsD [OF assms(1)] m by (auto simp: n_def split: sum.splits)
  ultimately obtain rs' where "trace w' = trace v @ rs'" "list_all (\<lambda>(_, r). P r) rs'" unfolding failEmits_def by blast
  then show "\<exists>rs. trace w' = trace w @ rs \<and> list_all (\<lambda>(_, r). P r) rs" using rs by (intro exI [of _ "rs @ rs'"]) simp
qed

lemma failEmits_call [fail_emits]:
  "emits P m \<Longrightarrow> (\<And>e. failEmits P (h e)) \<Longrightarrow> (\<And>x. failEmits P (k x)) \<Longrightarrow> failEmits P (call m h k)"
  by (rule failEmits_callR [OF returns_any])

lemma failEmits_bind [fail_emits]: "emits P m \<Longrightarrow> (\<And>x. failEmits P (k x)) \<Longrightarrow> failEmits P (bindE m k)"
  unfolding bindE_def by (rule failEmits_call) (auto intro: failEmits_emits emits_fail)

lemma failEmits_if [fail_emits]: "(b \<Longrightarrow> failEmits P m) \<Longrightarrow> (\<not> b \<Longrightarrow> failEmits P n) \<Longrightarrow> failEmits P (if b then m else n)"
  by simp

lemma failEmits_prod [fail_emits]: "(\<And>x y. failEmits P (f x y)) \<Longrightarrow> failEmits P (case s of (x, y) \<Rightarrow> f x y)"
  by (simp split: prod.split)

lemma fails_attempt: "fails B (attempt c)"
  unfolding attempt_def by (intro fails_intros)

lemma attempt_then: "bindE (attempt c) f v = f () (snd (attempt c v))"
  using fails_attempt [of "\<lambda>_. False" c]
  by (cases "attempt c v") (auto simp: fails_def bindE_def call_def split: sum.split)

lemma failEmits_deferring [fail_emits]:
  assumes "emits P c" "failEmits P m"
  shows "failEmits P (deferring c m)"
  unfolding failEmits_def
proof (intro allI impI)
  fix w e w' assume run: "deferring c m w = (Inl e, w')"
  obtain r v where m: "m w = (r, v)" by fastforce
  from run m have r: "r = Inl e" and w': "w' = snd (attempt c v)"
    by (auto simp: deferring_def call_def attempt_then fail_def ret_def split: sum.splits)
  obtain rs where "trace v = trace w @ rs" "list_all (\<lambda>(_, r). P r) rs" using assms(2) m r unfolding failEmits_def by blast
  moreover obtain rs' where "trace w' = trace v @ rs'" "list_all (\<lambda>(_, r). P r) rs'"
    using emits_step [OF emits_attempt [OF assms(1)], of v] w' by (metis prod.collapse)
  ultimately show "\<exists>rs. trace w' = trace w @ rs \<and> list_all (\<lambda>(_, r). P r) rs" by (intro exI [of _ "rs @ rs'"]) simp
qed

lemma failEmits_sent:
  assumes "failEmits P m" "fst (m w) = Inl err" "x \<in> set (sent m w)"
  shows "P (snd x)"
proof -
  obtain rs where "trace (snd (m w)) = trace w @ rs" "list_all (\<lambda>(_, r). P r) rs"
    using assms(1,2) unfolding failEmits_def by (metis prod.collapse)
  then show ?thesis using assms(3) by (auto simp: sent_def list_all_iff)
qed

section \<open>A failed migration keeps the source\<close>

definition spares :: "volume \<Rightarrow> req \<Rightarrow> bool" where
  "spares vol r \<longleftrightarrow> (\<forall>c p. r = Px c (RDelete p) \<longrightarrow> p \<noteq> diskPath (vnode vol) vol \<and>
     (\<forall>n. CHR ''/'' \<notin> set n \<longrightarrow> p \<noteq> ''/nodes/'' @ n @ ''/qemu/'' @ VMID vol))"

lemma spares_benign [simp]: "benign (spares vol)" "deletesVolumes (spares vol)" "spares vol (K8s r)"
  by (simp_all add: benign_def deletesVolumes_def spares_def)

lemma vmidre_scan_vmid: "vmidre_scan s = Some v \<Longrightarrow> is_vmid v"
proof (induction s)
  case (Cons x xs)
  then show ?case by (auto simp: vmidre_at_def Let_def split: if_splits option.splits)
qed simp

lemma VMID_free: "CHR ''/'' \<notin> set (VMID vol)"
proof (cases "vmidre (vdisk vol)")
  case (Some v)
  then have "is_vmid v" using vmidre_scan_vmid by (auto simp: vmidre_def vmidre_at_def Let_def split: if_splits option.splits)
  then show ?thesis using Some by (simp add: VMID_def is_vmid_def list_all_iff is_digit_def) auto
qed (simp add: VMID_def)

lemma spares_target:
  assumes "node \<noteq> vnode vol \<or> vstorage t \<noteq> vstorage vol"
  shows "spares vol (Px c (RDelete (diskPath node t)))"
  using assms diskPath_location [of node t "vnode vol" vol] diskPath_not_vm by (auto simp: spares_def)

lemma spares_helper: "CHR ''/'' \<notin> set n \<Longrightarrow> Itoa i \<noteq> VMID vol \<Longrightarrow> spares vol (Px c (RDelete (''/nodes/'' @ n @ ''/qemu/'' @ Itoa i)))"
  using vmPath_inject [OF Itoa_free(1) VMID_free, of n i _ vol] diskPath_not_vm [of n "vnode vol" vol "Itoa i"] by (fastforce simp: spares_def)

text \<open>The hypotheses on the callback and the clients of a migrator.\<close>

definition phaseSends :: "'e migrator \<Rightarrow> (req \<Rightarrow> bool) \<Rightarrow> bool" where
  "phaseSends m P \<longleftrightarrow> (\<forall>f p. mg_OnPhase m = Some f \<longrightarrow> emits P (f p))"

lemma emits_phaseSends: "phaseSends m P \<Longrightarrow> emits P (phase m p)"
  by (rule emits_phase) (simp add: phaseSends_def)

text \<open>A volume on its way: the target is another place than the source, and the node of the source is a path segment.\<close>

lemma migrationVolumes_Inr:
  assumes "migrationVolumes req pv = Inr (driver, vol, t)"
  shows "mr_TargetNode req \<noteq> vnode vol \<or> vstorage t \<noteq> vstorage vol" "CHR ''/'' \<notin> set (vnode vol)"
    "vnode t = mr_TargetNode req" "driver = DriverName" "kv_CSI pv = Some (driver, VolumeID vol)"
proof -
  obtain handle where h: "kv_CSI pv = Some (driver, handle)" "driver = DriverName" "parseVolumeID handle = Inr vol"
    using assms by (auto simp: migrationVolumes_def Let_def split: option.splits if_splits sum.splits)
  then show "CHR ''/'' \<notin> set (vnode vol)" "driver = DriverName" "kv_CSI pv = Some (driver, VolumeID vol)"
    using vid.enc_dec [of handle vol] by (auto simp: wf_volume_def)
  show "mr_TargetNode req \<noteq> vnode vol \<or> vstorage t \<noteq> vstorage vol" "vnode t = mr_TargetNode req"
    using assms by (auto simp: migrationVolumes_def Let_def NewVolume_def NewVolumeF_def split: option.splits if_splits sum.splits)
qed

lemma emits_moveDisk:
  assumes "benign P" "hostnames cl" "CHR ''/'' \<notin> set (vnode vol)" "phaseSends m P"
    and "P (Px (c_name cl) (RDelete (diskPath (mr_TargetNode req) t)))"
    and "\<And>n i. CHR ''/'' \<notin> set n \<Longrightarrow> Itoa i \<noteq> VMID vol \<Longrightarrow> P (Px (c_name cl) (RDelete (''/nodes/'' @ n @ ''/qemu/'' @ Itoa i)))"
  shows "emits P (moveDisk m cl req pvc pv vol t timeout)"
  unfolding moveDisk_def removePartial_def Let_def
  by (intro emits_intros migrate_emits emits_phaseSends emits_convertAndMove emits_DeleteDisk assms)

lemma emits_resumeOrShared:
  assumes "benign P" "P (Px (c_name cl) (RDelete (diskPath (mr_TargetNode req) t)))"
  shows "emits P (resumeOrShared cl req pv vol t)"
  unfolding resumeOrShared_def by (intro emits_intros migrate_emits emits_DeleteDisk assms)

lemma fails_event: "fails B (event m pvc a b c)"
  unfolding event_def Let_def by (intro fails_intros fails_attempt)

lemma fails_reclaim: "fails B (bindE (reclaimSourceDisk m cl pvc vol t timeout) (\<lambda>_. event m pvc a b c))"
  unfolding reclaimSourceDisk_def by (intro fails_intros fails_event)

lemma verifyAndRewire_spares:
  assumes "phaseSends m (spares vol)"
  shows "failEmits (spares vol) (verifyAndRewire m ws cl req pvc pv vol t timeout)"
  unfolding verifyAndRewire_def Let_def
  by (intro fail_emits migrate_emits spares_benign failEmits_emits [OF emits_failAs] failEmits_emits [OF emits_fail] emits_phaseSends assms
      failEmits_never [OF fails_reclaim])

lemma drained_spares:
  assumes "phaseSends m (spares vol)" "failEmits (spares vol) rest"
  shows "failEmits (spares vol) (drained m ws req pvc driver pods vmName rest)"
  unfolding drained_def Let_def
  by (intro fail_emits migrate_emits emits_CondonNodes emits_UncondonNodes emits_deletePods spares_benign
      failEmits_emits [OF emits_failAs] failEmits_emits [OF emits_fail] emits_phaseSends assms)

lemma migrateOn_spares:
  assumes "filter_spec pool" "hostnames cl" "phaseSends m (spares vol)" "migrationVolumes req pv = Inr (driver, vol, t)"
  shows "failEmits (spares vol) (migrateOn m ws req pool cl pvc pv driver vol t)"
proof -
  note v = migrationVolumes_Inr [OF assms(4)]
  have "emits (spares vol) (moveDisk m cl req pvc pv vol t timeout)" for timeout
    by (rule emits_moveDisk [OF spares_benign(1) assms(2) v(2) assms(3) spares_target [OF v(1)] spares_helper])
  moreover have "emits (spares vol) (resumeOrShared cl req pv vol t)"
    by (rule emits_resumeOrShared [OF spares_benign(1) spares_target [OF v(1)]])
  ultimately show ?thesis
    unfolding migrateOn_def detachMoveRewire_def Let_def
    by (intro fail_emits migrate_emits emits_intros spares_benign failEmits_emits [OF emits_failAs] failEmits_emits [OF emits_fail]
        drained_spares verifyAndRewire_spares assms; simp add: spares_benign benignD [OF spares_benign(1)])
qed

lemma Migrate_runs:
  assumes "PVCResources (mg_KClient m) (mr_Namespace req) (mr_PVCName req) w = (Inr (pvc, pv), w1)"
    and "migrationVolumes req pv = Inr (driver, vol, t)" "mg_PClient m = Some pool" "GetProxmoxCluster pool (vregion vol) = Inr cl"
  shows "Migrate m ws req w = migrateOn m ws req pool cl pvc pv driver vol t w1"
  unfolding Migrate_def by (simp add: call_def assms bindE_def)

lemma sent_after:
  assumes "emits P m" "m w = (r, w1)" "n w = f w1" "\<exists>rs. trace (snd (f w1)) = trace w1 @ rs \<and> list_all (\<lambda>(_, r). P r) rs"
    and "x \<in> set (sent n w)"
  shows "P (snd x)"
proof -
  obtain rs rs' where "trace w1 = trace w @ rs" "list_all (\<lambda>(_, r). P r) rs" "trace (snd (n w)) = trace w1 @ rs'" "list_all (\<lambda>(_, r). P r) rs'"
    using emits_step [OF assms(1,2)] assms(3,4) by auto
  then show ?thesis using assms(5) by (auto simp: sent_def list_all_iff)
qed

text \<open>C8: A migration that fails, at whichever step, has not deleted the source disk.  No request it sent
  deletes the disk the volume lives on or destroys a VM with the number that owns the disk, which would free the disk with it:
  partial copies are deleted only at the target, and the conversion helper is another VM.\<close>

theorem Migrate_failure_keeps_source:
  assumes "PVCResources (mg_KClient m) (mr_Namespace req) (mr_PVCName req) w = (Inr (pvc, pv), w1)"
    and "migrationVolumes req pv = Inr (driver, vol, target)" "mg_PClient m = Some pool" "GetProxmoxCluster pool (vregion vol) = Inr cl"
    and "filter_spec pool" "hostnames cl" "phaseSends m (spares vol)"
    and "fst (Migrate m ws req w) = Inl err" "(e, Px c (RDelete path)) \<in> set (sent (Migrate m ws req) w)"
  shows "path \<noteq> diskPath (vnode vol) vol \<and> (\<forall>n. CHR ''/'' \<notin> set n \<longrightarrow> path \<noteq> ''/nodes/'' @ n @ ''/qemu/'' @ VMID vol)"
proof -
  note run = Migrate_runs [OF assms(1-4), of ws]
  have "\<exists>rs. trace (snd (migrateOn m ws req pool cl pvc pv driver vol target w1)) = trace w1 @ rs \<and> list_all (\<lambda>(_, r). spares vol r) rs"
    using migrateOn_spares [OF assms(5,6,7,2), of ws pvc] assms(8) unfolding run failEmits_def by (metis prod.collapse)
  from sent_after [where n = "Migrate m ws req" and f = "migrateOn m ws req pool cl pvc pv driver vol target",
      OF emits_PVCResources [OF spares_benign(1)] assms(1) run this assms(9)]
  show ?thesis by (simp add: spares_def)
qed

text \<open>The sample migration, which fails when its claim is in use and it is not forced.\<close>

definition samplePool2 :: "ksim pool" where
  "samplePool2 = \<lparr>pl_clients = [(''r'', sampleMigrationClient)], pl_tokenCopyEndpoint = [], pl_proxmodEndpoint = []\<rparr>"

definition sampleSource :: volume where
  "sampleSource = NewVolume ''r'' ''pve-1'' ''lvm'' ''vm-9999-pvc-1''"

lemma sampleMigrationClient_filter: "GetVMByFilter_spec sampleMigrationClient"
  unfolding GetVMByFilter_spec_def Let_def
proof (intro allI)
  fix f s and w :: "ksim pworld"
  have "c_GetVMByFilter sampleMigrationClient f s w = (Inl simNotFound, w\<lparr>env := env w, trace := trace w @ []\<rparr>)"
    by (simp add: sampleMigrationClient_def fail_def)
  then show "\<exists>reads e1 rss. (\<forall>x \<in> set reads. \<exists>e p. x = (e, Px (c_name sampleMigrationClient) (RGet p))) \<and>
     ((\<exists>err. c_GetVMByFilter sampleMigrationClient f s w = (Inl err, w\<lparr>env := e1, trace := trace w @ reads\<rparr>)) \<or>
      scanned f s rss (w\<lparr>env := e1, trace := trace w @ reads\<rparr>) (fst (c_GetVMByFilter sampleMigrationClient f s w))
        (snd (c_GetVMByFilter sampleMigrationClient f s w)))"
    by (intro exI [of _ "[]"] exI [of _ "env w"] exI [of _ "[]"]) simp
qed

lemma sampleMigrationClient_hostnames: "hostnames sampleMigrationClient"
  by (simp add: hostnames_def sampleMigrationClient_def)

lemma sampleMigrator_ok:
  "mg_PClient sampleMigrator = Some samplePool2" "GetProxmoxCluster samplePool2 ''r'' = Inr sampleMigrationClient" "filter_spec samplePool2"
  "phaseSends sampleMigrator P" "hostnames sampleMigrationClient"
  by (simp_all add: sampleMigrationClient_hostnames sampleMigrator_def samplePool2_def GetProxmoxCluster_def filter_spec_def sampleMigrationClient_filter phaseSends_def)

text \<open>An interrupted attempt has left a copy on the target, with that many bytes.\<close>

definition sampleCopied :: "kpod list \<Rightarrow> int \<Rightarrow> ksim pworld" where
  "sampleCopied pods bytes = (let s = sampleKState pods in
     \<lparr>env = s\<lparr>ks_px := (ks_px s)\<lparr>s_disks := (''pve-2'', ''lvm'', ''lvm:vm-9999-pvc-1'', bytes) # s_disks (ks_px s)\<rparr>,
                ks_pvs := [(''pv-1'', samplePV\<lparr>kv_Meta := (kv_Meta samplePV)\<lparr>km_Annotations := [(AnnotationMigrateState, ''pve-2'')]\<rparr>\<rparr>)]\<rparr>,
      trace = []\<rparr>)"

lemma sampleResources:
  assumes "case fst (PVCResources (mg_KClient sampleMigrator) ''db'' ''data'' w) of
     Inl _ \<Rightarrow> False | Inr (pvc, pv) \<Rightarrow> migrationVolumes (sampleMigration f) pv = Inr (DriverName, sampleSource, sampleTarget) \<and> kv_Capacity pv = 100"
  obtains pvc pv w1 where "PVCResources (mg_KClient sampleMigrator) (mr_Namespace (sampleMigration f)) (mr_PVCName (sampleMigration f)) w = (Inr (pvc, pv), w1)"
    "migrationVolumes (sampleMigration f) pv = Inr (DriverName, sampleSource, sampleTarget)" "kv_Capacity pv = 100"
  using assms by (cases "PVCResources (mg_KClient sampleMigrator) ''db'' ''data'' w") (auto simp: sampleMigration_def split: sum.splits prod.splits)

lemma sampleSource_region: "GetProxmoxCluster samplePool2 (vregion sampleSource) = Inr sampleMigrationClient"
  by (simp add: sampleMigrator_ok sampleSource_def NewVolume_def NewVolumeF_def)

theorem Migrate_failure_keeps_source_witness:
  "\<exists>e err path. fst (Migrate sampleMigrator sampleWaits (sampleMigration False) (sampleCopied [samplePod] 50)) = Inl err \<and>
     (e, Px ''sim'' (RDelete path)) \<in> set (sent (Migrate sampleMigrator sampleWaits (sampleMigration False)) (sampleCopied [samplePod] 50)) \<and>
     path \<noteq> diskPath (vnode sampleSource) sampleSource"
proof -
  have "case fst (PVCResources (mg_KClient sampleMigrator) ''db'' ''data'' (sampleCopied [samplePod] 50)) of
     Inl _ \<Rightarrow> False | Inr (pvc, pv) \<Rightarrow> migrationVolumes (sampleMigration False) pv = Inr (DriverName, sampleSource, sampleTarget) \<and> kv_Capacity pv = 100"
    by code_simp
  then obtain pvc pv w1 where r: "PVCResources (mg_KClient sampleMigrator) (mr_Namespace (sampleMigration False)) (mr_PVCName (sampleMigration False)) (sampleCopied [samplePod] 50) = (Inr (pvc, pv), w1)"
    "migrationVolumes (sampleMigration False) pv = Inr (DriverName, sampleSource, sampleTarget)" by (rule sampleResources)
  have "case fst (Migrate sampleMigrator sampleWaits (sampleMigration False) (sampleCopied [samplePod] 50)) of Inl _ \<Rightarrow> True | Inr _ \<Rightarrow> False" by code_simp
  then obtain err where err: "fst (Migrate sampleMigrator sampleWaits (sampleMigration False) (sampleCopied [samplePod] 50)) = Inl err" by (auto split: sum.splits)
  have "list_ex (\<lambda>(e, r). r = Px ''sim'' (RDelete ''/nodes/pve-2/storage/lvm/content/vm-9999-pvc-1''))
      (sent (Migrate sampleMigrator sampleWaits (sampleMigration False)) (sampleCopied [samplePod] 50))" by code_simp
  then obtain e where e: "(e, Px ''sim'' (RDelete ''/nodes/pve-2/storage/lvm/content/vm-9999-pvc-1'')) \<in>
      set (sent (Migrate sampleMigrator sampleWaits (sampleMigration False)) (sampleCopied [samplePod] 50))" by (auto simp: list_ex_iff)
  from Migrate_failure_keeps_source [OF r sampleMigrator_ok(1) sampleSource_region sampleMigrator_ok(3,5,4) err e] show ?thesis
    using err e by blast
qed

section \<open>A migration is rewired after its copy was seen\<close>

text \<open>\<open>ordered V D\<close>: no request satisfies \<open>D\<close> before one, with its state, satisfies \<open>V\<close>.\<close>

fun ordered :: "('e \<times> 'r \<Rightarrow> bool) \<Rightarrow> ('r \<Rightarrow> bool) \<Rightarrow> ('e \<times> 'r) list \<Rightarrow> bool" where
  "ordered V D [] \<longleftrightarrow> True"
| "ordered V D (x # xs) \<longleftrightarrow> \<not> D (snd x) \<and> (V x \<or> ordered V D xs)"

lemma ordered_before: "ordered V D rs \<Longrightarrow> rs = xs @ x # ys \<Longrightarrow> D (snd x) \<Longrightarrow> \<exists>v \<in> set xs. V v"
  by (induction xs arbitrary: rs) auto

lemma ordered_none: "list_all (\<lambda>(_, r). \<not> D r) xs \<Longrightarrow> ordered V D xs"
  by (induction xs) auto

lemma ordered_append: "list_all (\<lambda>(_, r). \<not> D r) xs \<Longrightarrow> ordered V D ys \<Longrightarrow> ordered V D (xs @ ys)"
  by (induction xs) auto

lemma ordered_then: "ordered V D xs \<Longrightarrow> list_all (\<lambda>(_, r). \<not> D r) ys \<Longrightarrow> ordered V D (xs @ ys)"
  by (induction xs) (auto simp: ordered_none)

lemma ordered_seen: "list_all (\<lambda>(_, r). \<not> D r) xs \<Longrightarrow> x \<in> set xs \<Longrightarrow> V x \<Longrightarrow> ordered V D (xs @ ys)"
  by (induction xs) auto

definition orders :: "('e \<times> 'r \<Rightarrow> bool) \<Rightarrow> ('r \<Rightarrow> bool) \<Rightarrow> (('e, 'r) world, 'a) io \<Rightarrow> bool" where
  "orders V D m \<longleftrightarrow> (\<forall>w. \<exists>rs. trace (snd (m w)) = trace w @ rs \<and> ordered V D rs)"

named_theorems orders_intros \<open>composition rules for the order of requests\<close>

lemma orders_emits: "emits (\<lambda>r. \<not> D r) m \<Longrightarrow> orders V D m"
  unfolding orders_def by (metis emits_step ordered_none prod.collapse)

lemma call_trace:
  assumes "\<exists>rs. trace (snd (m w)) = trace w @ rs \<and> A rs"
    and "\<And>e v rs. m w = (Inl e, v) \<Longrightarrow> A rs \<Longrightarrow> trace v = trace w @ rs \<Longrightarrow> \<exists>rs'. trace (snd (h e v)) = trace v @ rs' \<and> B (rs @ rs')"
    and "\<And>x v rs. m w = (Inr x, v) \<Longrightarrow> A rs \<Longrightarrow> trace v = trace w @ rs \<Longrightarrow> \<exists>rs'. trace (snd (k x v)) = trace v @ rs' \<and> B (rs @ rs')"
  shows "\<exists>rs. trace (snd (call m h k w)) = trace w @ rs \<and> B rs"
proof -
  obtain r v where m: "m w = (r, v)" by fastforce
  obtain rs where rs: "trace v = trace w @ rs" "A rs" using assms(1) m by auto
  show ?thesis
  proof (cases r)
    case (Inl e)
    then show ?thesis using assms(2) [OF _ rs(2,1), of e] m rs(1) by (auto simp: call_def)
  next
    case (Inr x)
    then show ?thesis using assms(3) [OF _ rs(2,1), of x] m rs(1) by (auto simp: call_def)
  qed
qed

lemma orders_call [orders_intros]:
  assumes "emits (\<lambda>r. \<not> D r) m" "\<And>e. orders V D (h e)" "\<And>x. orders V D (k x)"
  shows "orders V D (call m h k)"
  unfolding orders_def
proof
  fix w
  have "\<exists>rs. trace (snd (m w)) = trace w @ rs \<and> list_all (\<lambda>(_, r). \<not> D r) rs" using emits_step [OF assms(1)] by (metis prod.collapse)
  then show "\<exists>rs. trace (snd (call m h k w)) = trace w @ rs \<and> ordered V D rs"
    by (rule call_trace) (metis assms(2,3) orders_def ordered_append)+
qed

lemma orders_then:
  assumes "orders V D m" "\<And>e. emits (\<lambda>r. \<not> D r) (h e)" "\<And>x. emits (\<lambda>r. \<not> D r) (k x)"
  shows "orders V D (call m h k)"
  unfolding orders_def
proof
  fix w
  have "\<exists>rs. trace (snd (m w)) = trace w @ rs \<and> ordered V D rs" using assms(1) by (simp add: orders_def)
  then show "\<exists>rs. trace (snd (call m h k w)) = trace w @ rs \<and> ordered V D rs"
    by (rule call_trace) (metis assms(2,3) emits_step ordered_then prod.collapse)+
qed

lemma orders_bind [orders_intros]: "emits (\<lambda>r. \<not> D r) m \<Longrightarrow> (\<And>x. orders V D (k x)) \<Longrightarrow> orders V D (bindE m k)"
  unfolding bindE_def by (rule orders_call) (auto intro: orders_emits emits_fail)

lemma orders_if [orders_intros]: "(b \<Longrightarrow> orders V D m) \<Longrightarrow> (\<not> b \<Longrightarrow> orders V D n) \<Longrightarrow> orders V D (if b then m else n)"
  by simp

lemma orders_prod [orders_intros]: "(\<And>x y. orders V D (f x y)) \<Longrightarrow> orders V D (case s of (x, y) \<Rightarrow> f x y)"
  by (simp split: prod.split)

lemma orders_deferring [orders_intros]: "emits (\<lambda>r. \<not> D r) c \<Longrightarrow> orders V D m \<Longrightarrow> orders V D (deferring c m)"
  unfolding deferring_def by (rule orders_then) (auto intro!: emits_intros migrate_emits)

text \<open>A single request whose answer decides: what follows an accepting answer may send anything.\<close>

lemma orders_seen:
  fixes r :: 'r and f :: "('e, 'a) api"
  assumes "\<not> D r" "\<And>e x. fst (f e) = Inr x \<Longrightarrow> B x \<Longrightarrow> V (e, r)"
    and "\<And>e. emits (\<lambda>r. \<not> D r) (h e)" "\<And>x. \<not> B x \<Longrightarrow> emits (\<lambda>r. \<not> D r) (k x)" "\<And>x. emits (\<lambda>_. True) (k x)"
  shows "orders V D (call (invoke r f) h k)"
  unfolding orders_def
proof
  fix w :: "('e, 'r) world"
  let ?A = "\<lambda>rs. rs = [(env w, r)]"
  have none: "\<exists>rs'. trace (snd (n v)) = trace v @ rs' \<and> ordered V D ([(env w, r)] @ rs')" if n: "emits (\<lambda>r. \<not> D r) n" for n :: "(('e, 'r) world, 'b) io" and v
  proof -
    obtain rs' where "trace (snd (n v)) = trace v @ rs'" "ordered V D rs'"
      using emits_step [OF n, of v] ordered_none by (metis prod.collapse)
    then show ?thesis using assms(1) by auto
  qed
  have "\<exists>rs. trace (snd (invoke r f w)) = trace w @ rs \<and> ?A rs" by (auto simp: invoke_def split: prod.split)
  then show "\<exists>rs. trace (snd (call (invoke r f) h k w)) = trace w @ rs \<and> ordered V D rs"
  proof (rule call_trace, goal_cases)
    case (1 e v rs)
    show ?case unfolding 1(2) by (rule none [OF assms(3)])
  next
    case (2 x v rs)
    have fx: "fst (f (env w)) = Inr x" using 2(1) by (auto simp: invoke_def split: prod.splits)
    show ?case
    proof (cases "B x")
      case True
      then have "V (env w, r)" using assms(2) fx by blast
      moreover obtain rs' where "trace (snd (k x v)) = trace v @ rs'" using emits_step [OF assms(5), of x v] by (metis prod.collapse)
      ultimately show ?thesis using 2 assms(1) by auto
    next
      case False
      show ?thesis unfolding 2(2) by (rule none [OF assms(4) [OF False]])
    qed
  qed
qed

text \<open>The listing shows a complete copy.\<close>

definition showsCopy :: "'e client \<Rightarrow> string \<Rightarrow> volume \<Rightarrow> int \<Rightarrow> 'e \<times> req \<Rightarrow> bool" where
  "showsCopy cl node t bytes = (\<lambda>(e, r). r = Px (c_name cl) (RGet (contentPath node (vstorage t))) \<and>
     (\<exists>content volid n. fst (c_GetContentList cl (contentPath node (vstorage t)) e) = Inr content \<and> (volid, n) \<in> set content \<and>
        (volid = VolID t \<or> HasSuffix volid (''/'' @ vdisk t)) \<and> bytes \<le> n))"

definition rewires :: "req \<Rightarrow> bool" where
  "rewires r \<longleftrightarrow> (\<exists>n. r = K8s (KDelete ''persistentvolumeclaims'' n) \<or> r = K8s (KDelete ''persistentvolumes'' n))"

lemma rewires_benign [simp]: "benign (\<lambda>r. \<not> rewires r)" "\<not> rewires (Px c p)" "\<not> rewires (K8s (KDelete ''pods'' n))" "\<not> rewires (K8s (KPatch a b q))"
  by (simp_all add: benign_def rewires_def)

lemma call_call: "call (call m h k) h' k' = call m (\<lambda>e. call (h e) h' k') (\<lambda>x. call (k x) h' k')"
  by (rule ext) (auto simp: call_def split: prod.split sum.split)

lemma DiskOnNode_orders:
  assumes "\<And>e. emits (\<lambda>r. \<not> rewires r) (h e)" "\<And>x. \<not> (fst x \<and> bytes \<le> snd x) \<Longrightarrow> emits (\<lambda>r. \<not> rewires r) (k x)" "\<And>x. emits (\<lambda>_. True) (k x)"
  shows "orders (showsCopy cl node t bytes) rewires (call (DiskOnNode cl t node) h k)"
  unfolding DiskOnNode_def px_def call_call call_ret call_fail
proof (rule orders_seen [where B = "\<lambda>content. case find (\<lambda>(volid, _). volid = VolID t \<or> HasSuffix volid (''/'' @ vdisk t)) content of
      Some (_, n) \<Rightarrow> bytes \<le> n | None \<Rightarrow> False"], goal_cases)
  case (2 e content)
  then show ?case by (auto simp: showsCopy_def split: option.splits dest!: find_SomeD)
next
  case (4 content)
  then show ?case by (intro assms(2)) (auto split: option.splits)
qed (simp_all add: assms)

lemma verifyAndRewire_orders:
  assumes "phaseSends m (\<lambda>r. \<not> rewires r)"
  shows "orders (showsCopy cl (mr_TargetNode req) t (kv_Capacity pv)) rewires (verifyAndRewire m ws cl req pvc pv vol t timeout)"
  unfolding verifyAndRewire_def Let_def
proof (rule DiskOnNode_orders, goal_cases)
  case (3 x)
  have "phaseSends m (\<lambda>_. True)" using assms by (auto simp: phaseSends_def intro: emits_mono)
  moreover have "benign (\<lambda>_. True)" "deletesVolumes (\<lambda>_. True)" by (simp_all add: benign_def deletesVolumes_def)
  ultimately show ?case
    unfolding reclaimSourceDisk_def by (intro emits_intros migrate_emits emits_DeleteDisk emits_phaseSends TrueI)
qed (auto intro!: emits_intros migrate_emits)

lemma migrateOn_orders:
  assumes "filter_spec pool" "phaseSends m (\<lambda>r. \<not> rewires r)" "hostnames cl" "migrationVolumes req pv = Inr (driver, vol, t)"
  shows "orders (showsCopy cl (mr_TargetNode req) t (kv_Capacity pv)) rewires (migrateOn m ws req pool cl pvc pv driver vol t)"
proof -
  note v = migrationVolumes_Inr [OF assms(4)]
  have move: "emits (\<lambda>r. \<not> rewires r) (moveDisk m cl req pvc pv vol t timeout)" for timeout
    by (rule emits_moveDisk [OF rewires_benign(1) assms(3) v(2) assms(2)]) simp_all
  have resume: "emits (\<lambda>r. \<not> rewires r) (resumeOrShared cl req pv vol t)"
    by (rule emits_resumeOrShared [OF rewires_benign(1)]) simp
  have rest: "orders (showsCopy cl (mr_TargetNode req) t (kv_Capacity pv)) rewires (detachMoveRewire m ws cl req pvc pv vol t skip i timeout)"
    for skip i timeout
    unfolding detachMoveRewire_def
    by (intro orders_intros migrate_emits emits_intros rewires_benign move verifyAndRewire_orders assms orders_emits [OF emits_failAs])
  have "orders (showsCopy cl (mr_TargetNode req) t (kv_Capacity pv)) rewires
      (drained m ws req pvc driver pods vmName (detachMoveRewire m ws cl req pvc pv vol t skip i timeout))" for pods vmName skip i timeout
    unfolding drained_def Let_def
    by (intro orders_intros migrate_emits emits_CondonNodes emits_UncondonNodes emits_deletePods rest rewires_benign emits_phaseSends assms
        orders_emits [OF emits_failAs] orders_emits [OF emits_fail])
  then show ?thesis
    unfolding migrateOn_def Let_def
    by (intro orders_intros migrate_emits emits_intros rewires_benign resume assms orders_emits [OF emits_failAs] orders_emits [OF emits_fail])
qed

text \<open>C9: A claim or a volume is deleted only after the copy was seen complete.  Before a migration deletes a claim or a volume of the cluster, it has
  read the storage of the target node, and the answer listed the copy of the disk with at least the bytes of the volume's capacity.\<close>

theorem Migrate_verifies_copy:
  assumes "PVCResources (mg_KClient m) (mr_Namespace req) (mr_PVCName req) w = (Inr (pvc, pv), w1)"
    and "migrationVolumes req pv = Inr (driver, vol, target)" "mg_PClient m = Some pool" "GetProxmoxCluster pool (vregion vol) = Inr cl"
    and "filter_spec pool" "hostnames cl" "phaseSends m (\<lambda>r. \<not> rewires r)"
    and "sent (Migrate m ws req) w = before @ (e, r) # after"
    and "r = K8s (KDelete ''persistentvolumeclaims'' n) \<or> r = K8s (KDelete ''persistentvolumes'' n)"
  shows "\<exists>x \<in> set before. showsCopy cl (mr_TargetNode req) target (kv_Capacity pv) x"
proof -
  note run = Migrate_runs [OF assms(1-4), of ws]
  obtain rs where rs: "trace w1 = trace w @ rs" "list_all (\<lambda>(_, r). \<not> rewires r) rs"
    using emits_step [OF emits_PVCResources [OF rewires_benign(1)] assms(1)] by blast
  obtain rs' where "trace (snd (Migrate m ws req w)) = trace w1 @ rs'" "ordered (showsCopy cl (mr_TargetNode req) target (kv_Capacity pv)) rewires rs'"
    using migrateOn_orders [OF assms(5,7,6,2), of ws pvc] unfolding run orders_def by blast
  then have "ordered (showsCopy cl (mr_TargetNode req) target (kv_Capacity pv)) rewires (sent (Migrate m ws req) w)"
    using rs by (simp add: sent_def ordered_append)
  from ordered_before [OF this assms(8)] show ?thesis using assms(9) by (auto simp: rewires_def)
qed

theorem Migrate_verifies_copy_witness:
  "\<exists>before e after. sent (Migrate sampleMigrator sampleWaits (sampleMigration True)) (sampleCopied [] 100) =
       before @ (e, K8s (KDelete ''persistentvolumes'' ''pv-1'')) # after \<and>
     (\<exists>x \<in> set before. showsCopy sampleMigrationClient ''pve-2'' sampleTarget 100 x)"
proof -
  have "case fst (PVCResources (mg_KClient sampleMigrator) ''db'' ''data'' (sampleCopied [] 100)) of
     Inl _ \<Rightarrow> False | Inr (pvc, pv) \<Rightarrow> migrationVolumes (sampleMigration True) pv = Inr (DriverName, sampleSource, sampleTarget) \<and> kv_Capacity pv = 100"
    by code_simp
  then obtain pvc pv w1 where r: "PVCResources (mg_KClient sampleMigrator) (mr_Namespace (sampleMigration True)) (mr_PVCName (sampleMigration True)) (sampleCopied [] 100) = (Inr (pvc, pv), w1)"
    "migrationVolumes (sampleMigration True) pv = Inr (DriverName, sampleSource, sampleTarget)" and c: "kv_Capacity pv = 100" by (rule sampleResources)
  have "list_ex (\<lambda>(e, r). r = K8s (KDelete ''persistentvolumes'' ''pv-1''))
      (sent (Migrate sampleMigrator sampleWaits (sampleMigration True)) (sampleCopied [] 100))" by code_simp
  then obtain before e after where e: "sent (Migrate sampleMigrator sampleWaits (sampleMigration True)) (sampleCopied [] 100) =
       before @ (e, K8s (KDelete ''persistentvolumes'' ''pv-1'')) # after" by (auto simp: list_ex_iff dest!: split_list)
  from Migrate_verifies_copy [OF r sampleMigrator_ok(1) sampleSource_region sampleMigrator_ok(3,5,4) e disjI2 [OF refl]]
  show ?thesis using e c by (auto simp: sampleMigration_def)
qed

section \<open>Disruption needs force\<close>

definition disrupts :: "req \<Rightarrow> bool" where
  "disrupts r \<longleftrightarrow> (\<exists>n. r = K8s (KDelete ''pods'' n)) \<or> (\<exists>n p. r = K8s (KPatch ''nodes'' n p))"

lemma disrupts_benign [simp]: "benign (\<lambda>r. \<not> disrupts r)" "deletesVolumes (\<lambda>r. \<not> disrupts r)" "\<not> disrupts (Px c p)"
  by (simp_all add: benign_def deletesVolumes_def disrupts_def)

lemma emits_plain_move:
  assumes "benign P" "\<And>c p. P (Px c (RDelete p))" "phaseSends m P"
  shows "emits P (moveDisk m cl req pvc pv vol t timeout)"
proof -
  have "emits P (convertedMove m cl vol t n timeout i)" for n i
    unfolding convertedMove_def by (auto intro!: emits_intros migrate_emits assms split: list.split)
  then have "emits P (convertAndMove m cl vol t n timeout)" for n
    unfolding convertAndMove_def Let_def by (intro emits_intros migrate_emits emits_DeleteVM assms)
  then show ?thesis
    unfolding moveDisk_def removePartial_def Let_def by (intro emits_intros migrate_emits emits_phaseSends emits_DeleteDisk assms)
qed

text \<open>C15: Without force a migration touches no pod and no node: it deletes no pod and neither cordons nor uncordons a node, whatever it finds.\<close>

theorem Migrate_disruption_needs_force:
  assumes "\<not> mr_Force req" "\<forall>pool. mg_PClient m = Some pool \<longrightarrow> filter_spec pool" "phaseSends m (\<lambda>r. \<not> disrupts r)"
    and "(e, r) \<in> set (sent (Migrate m ws req) w)"
  shows "r \<noteq> K8s (KDelete ''pods'' n) \<and> r \<noteq> K8s (KPatch ''nodes'' n p)"
proof -
  have "emits (\<lambda>r. \<not> disrupts r) (verifyAndRewire m ws cl req pvc pv vol t timeout)" for cl pvc pv vol t timeout
    unfolding verifyAndRewire_def reclaimSourceDisk_def Let_def
    by (intro emits_intros migrate_emits emits_DeleteDisk emits_phaseSends assms(3) disrupts_benign)
  then have rest: "emits (\<lambda>r. \<not> disrupts r) (detachMoveRewire m ws cl req pvc pv vol t skip i timeout)" for cl pvc pv vol t skip i timeout
    unfolding detachMoveRewire_def by (intro emits_intros migrate_emits emits_plain_move assms(3) disrupts_benign)
  have "emits (\<lambda>r. \<not> disrupts r) (drained m ws req pvc driver pods vmName (detachMoveRewire m ws cl req pvc pv vol t skip i timeout))"
    for pvc driver pods vmName cl pv vol t skip i timeout
    using rest assms(1) by (auto simp: drained_def Let_def intro!: emits_fail)
  then have "emits (\<lambda>r. \<not> disrupts r) (migrateOn m ws req pool cl pvc pv driver vol t)" if "mg_PClient m = Some pool" for pool cl pvc pv driver vol t
    unfolding migrateOn_def Let_def
    using assms(2) that by (intro emits_intros migrate_emits emits_resumeOrShared disrupts_benign; simp add: benignD [OF disrupts_benign(1)])
  then have "emits (\<lambda>r. \<not> disrupts r) (Migrate m ws req)"
    unfolding Migrate_def by (cases "mg_PClient m") (auto intro!: emits_intros migrate_emits)
  from emits_sent [OF this assms(4)] show ?thesis by (auto simp: disrupts_def)
qed

theorem Migrate_disruption_needs_force_witness:
  "\<exists>e err. fst (Migrate sampleMigrator sampleWaits (sampleMigration False) (sampleKWorld [samplePod])) = Inl err \<and> errIs err ErrInUse \<and>
     (e, K8s (KList ''pods/db'')) \<in> set (sent (Migrate sampleMigrator sampleWaits (sampleMigration False)) (sampleKWorld [samplePod])) \<and>
     K8s (KList ''pods/db'') \<noteq> K8s (KDelete ''pods'' ''db/db-0'')"
proof -
  have "(case fst (Migrate sampleMigrator sampleWaits (sampleMigration False) (sampleKWorld [samplePod])) of Inl err \<Rightarrow> errIs err ErrInUse | Inr _ \<Rightarrow> False) \<and>
      list_ex (\<lambda>(e, r). r = K8s (KList ''pods/db'')) (sent (Migrate sampleMigrator sampleWaits (sampleMigration False)) (sampleKWorld [samplePod]))"
    by code_simp
  then obtain e err where e: "fst (Migrate sampleMigrator sampleWaits (sampleMigration False) (sampleKWorld [samplePod])) = Inl err" "errIs err ErrInUse"
    "(e, K8s (KList ''pods/db'')) \<in> set (sent (Migrate sampleMigrator sampleWaits (sampleMigration False)) (sampleKWorld [samplePod]))"
    by (auto simp: list_ex_iff split: sum.splits)
  have "\<not> mr_Force (sampleMigration False)" by (simp add: sampleMigration_def)
  from Migrate_disruption_needs_force [OF this _ sampleMigrator_ok(4) e(3)] show ?thesis using e by (auto simp: sampleMigrator_ok)
qed

end
