(* ===== verification/Migration_Safety.thy ===== *)
theory Migration_Safety
  imports Migration_Controller Migrator_Safety
begin

text \<open>
  Properties of the migration controller: what has to hold before a request reaches Proxmox, and what the three automatic
  triggers may do.
\<close>

section \<open>What the controller sends\<close>

lemma emits_unlessGone [migrate_emits]: "emits P m \<Longrightarrow> (\<And>x. emits P (k x)) \<Longrightarrow> emits P (unlessGone m k gone)"
  unfolding unlessGone_def by (intro emits_intros)

lemma emits_unlessPanic [migrate_emits]: "(\<And>e. emits P (h e)) \<Longrightarrow> emits P (unlessPanic h e)"
  unfolding unlessPanic_def by (intro emits_intros)

text \<open>Reads and events, and the annotations of one claim.\<close>

definition observes :: "(req \<Rightarrow> bool) \<Rightarrow> bool" where
  "observes P \<longleftrightarrow> (\<forall>k n. P (K8s (KGet k n))) \<and> (\<forall>k. P (K8s (KList k))) \<and> (\<forall>a b c d. P (K8s (KEvent a b c d)))"

lemma observesD:
  assumes "observes P"
  shows "P (K8s (KGet k n))" "P (K8s (KList k))" "P (K8s (KEvent a b c d))"
  using assms unfolding observes_def by blast+

lemma emits_patchPVCAnnotations:
  assumes "observes P" "\<And>a. P (K8s (KPatch ''persistentvolumeclaims'' (nsName ns n) (PatchAnnotations (NormalizeLegacy a p))))"
  shows "emits P (patchPVCAnnotations k ns n p)"
  unfolding patchPVCAnnotations_def by (intro emits_intros migrate_emits; simp add: observesD assms)

lemma emits_patchNodeAnnotations:
  assumes "observes P" "\<And>a. P (K8s (KPatch ''nodes'' n (PatchAnnotations (NormalizeLegacy a p))))"
  shows "emits P (patchNodeAnnotations k n p)"
  unfolding patchNodeAnnotations_def by (intro emits_intros migrate_emits; simp add: observesD assms)

lemma emits_record_event [migrate_emits]: "observes P \<Longrightarrow> emits P (record_event k obj t r m)"
  unfolding record_event_def by (intro emits_intros migrate_emits) (simp add: observesD)

section \<open>Requests before a migration\<close>

lemma emits_Migrate:
  assumes "\<forall>pool. mg_PClient m = Some pool \<longrightarrow> filter_spec pool" "phaseSends m (\<lambda>_. True)"
  shows "emits (\<lambda>_. True) (Migrate m ws req)"
proof -
  have b: "benign (\<lambda>_. True)" "deletesVolumes (\<lambda>_. True)" by (simp_all add: benign_def deletesVolumes_def)
  have "emits (\<lambda>_. True) (verifyAndRewire m ws cl req pvc pv vol t timeout)" for cl pvc pv vol t timeout
    unfolding verifyAndRewire_def reclaimSourceDisk_def Let_def
    by (intro emits_intros migrate_emits emits_DeleteDisk emits_phaseSends assms(2) b TrueI)
  then have rest: "emits (\<lambda>_. True) (detachMoveRewire m ws cl req pvc pv vol t skip i timeout)" for cl pvc pv vol t skip i timeout
    unfolding detachMoveRewire_def by (intro emits_intros migrate_emits emits_plain_move assms(2) b TrueI)
  have "emits (\<lambda>_. True) (drained m ws req pvc driver pods vmName (detachMoveRewire m ws cl req pvc pv vol t skip i timeout))"
    for pvc driver pods vmName cl pv vol t skip i timeout
    unfolding drained_def Let_def
    by (intro emits_intros migrate_emits emits_CondonNodes emits_UncondonNodes emits_deletePods emits_phaseSends rest assms(2) b TrueI)
  then have "emits (\<lambda>_. True) (migrateOn m ws req pool cl pvc pv driver vol t)" if "mg_PClient m = Some pool" for pool cl pvc pv driver vol t
    unfolding migrateOn_def Let_def
    using assms(1) that by (intro emits_intros migrate_emits emits_resumeOrShared b; simp add: benignD [OF b(1)])
  then show ?thesis
    unfolding Migrate_def by (cases "mg_PClient m") (auto intro!: emits_intros migrate_emits b)
qed

text \<open>A step that leaves a sign of itself when it succeeds: what follows may send anything.\<close>

lemma orders_bind_seen:
  assumes m: "emits (\<lambda>r. \<not> D r) m" and k: "\<And>x. emits (\<lambda>_. True) (k x)"
    and seen: "\<And>w x w'. m w = (Inr x, w') \<Longrightarrow> \<exists>v \<in> set (sent m w). V v"
  shows "orders V D (bindE m k)"
  unfolding orders_def
proof
  fix w
  obtain rs where rs: "trace (snd (m w)) = trace w @ rs" "list_all (\<lambda>(_, r). \<not> D r) rs"
    using emits_step [OF m, of w] by (metis prod.collapse)
  show "\<exists>rs. trace (snd (bindE m k w)) = trace w @ rs \<and> ordered V D rs"
  proof (cases "m w")
    case (Pair r w1)
    show ?thesis
    proof (cases r)
      case (Inl e)
      then show ?thesis using Pair rs by (auto simp: bindE_def call_def fail_def intro: ordered_none)
    next
      case (Inr x)
      obtain rs' where rs': "trace (snd (k x w1)) = trace w1 @ rs'" using emits_step [OF k, of x w1] by (metis prod.collapse)
      have "\<exists>v \<in> set rs. V v" using seen Pair Inr rs unfolding sent_def by fastforce
      then have "ordered V D (rs @ rs')" using rs(2) ordered_seen by blast
      then show ?thesis using Pair Inr rs rs' by (auto simp: bindE_def call_def)
    qed
  qed
qed

text \<open>The sign of a counted attempt: the patch that writes the count, unless the claim was gone by then.\<close>

definition counted :: "'e kube \<Rightarrow> string \<Rightarrow> string \<Rightarrow> int \<Rightarrow> 'e \<times> req \<Rightarrow> bool" where
  "counted k ns n attempts x \<longleftrightarrow>
     (\<exists>a p. snd x = K8s (KPatch ''persistentvolumeclaims'' (nsName ns n) (PatchAnnotations (NormalizeLegacy a p))) \<and>
            (AnnotationMigrateAttempts, Some (Itoa attempts)) \<in> set p) \<or>
     (snd x = K8s (KGet ''persistentvolumeclaims'' (nsName ns n)) \<and> (\<exists>err. fst (q_GetPVC k ns n (fst x)) = Inl err \<and> notFound err))"

lemma sent_invoke_call:
  "sent (call (invoke r f) h k) w =
     (let v = snd (invoke r f w) in (env w, r) # sent (case fst (f (env w)) of Inl e \<Rightarrow> h e | Inr x \<Rightarrow> k x) v)"
  if "\<And>e. emits (\<lambda>_. True) (h e)" "\<And>x. emits (\<lambda>_. True) (k x)"
proof -
  obtain r' e' where f: "f (env w) = (r', e')" by fastforce
  let ?n = "case r' of Inl e \<Rightarrow> h e | Inr x \<Rightarrow> k x" and ?v = "w\<lparr>env := e', trace := trace w @ [(env w, r)]\<rparr>"
  have "emits (\<lambda>_. True) ?n" using that by (simp split: sum.split)
  then obtain rs where "trace (snd (?n ?v)) = trace ?v @ rs" using emits_step [of _ ?n ?v] by (metis prod.collapse)
  moreover have "call (invoke r f) h k w = ?n ?v" by (simp add: call_def invoke_def f split: sum.split)
  ultimately show ?thesis by (simp add: sent_def invoke_def f Let_def)
qed

lemma patch_counted:
  assumes "patchPVCAnnotations k ns n p w = (Inr u, w')" "(AnnotationMigrateAttempts, Some (Itoa attempts)) \<in> set p"
  shows "\<exists>v \<in> set (sent (patchPVCAnnotations k ns n p) w). counted k ns n attempts v"
proof (cases "fst (q_GetPVC k ns n (env w))")
  case (Inl err)
  then have "notFound err"
    using assms(1) by (auto simp: patchPVCAnnotations_def unlessGone_def call_def invoke_def fail_def split: prod.splits if_splits)
  then have "counted k ns n attempts (env w, K8s (KGet ''persistentvolumeclaims'' (nsName ns n)))"
    using Inl by (simp add: counted_def)
  then show ?thesis
    unfolding patchPVCAnnotations_def unlessGone_def
    by (subst sent_invoke_call) (auto intro!: emits_intros simp: Let_def)
next
  case (Inr current)
  have "counted k ns n attempts (e, K8s (KPatch ''persistentvolumeclaims'' (nsName ns n) (PatchAnnotations (NormalizeLegacy a p))))" for e a
    using assms(2) by (auto simp: counted_def)
  then show ?thesis
    unfolding patchPVCAnnotations_def unlessGone_def
    by (subst sent_invoke_call, (auto intro!: emits_intros)[2], simp add: Let_def Inr, subst sent_invoke_call)
      (auto intro!: emits_intros simp: Let_def)
qed

lemma orders_withTime [orders_intros]: "(\<And>t. orders V D (m t)) \<Longrightarrow> orders V D (withTime k m)"
  unfolding orders_def withTime_def by blast

definition toProxmox :: "req \<Rightarrow> bool" where
  "toProxmox r \<longleftrightarrow> (\<exists>c p. r = Px c p)"

lemma observes_toProxmox [simp]: "observes (\<lambda>r. \<not> toProxmox r)" "observes (\<lambda>_. True)" "\<not> toProxmox (K8s r)" "toProxmox (Px c p)"
  by (simp_all add: observes_def toProxmox_def)

lemma emits_failPVC: "observes P \<Longrightarrow> (\<And>n p. P (K8s (KPatch ''persistentvolumeclaims'' n p))) \<Longrightarrow> emits P (failPVC k ns n m)"
  unfolding failPVC_def by (rule emits_patchPVCAnnotations)

lemma emits_migrationFailed:
  assumes "observes P" "\<And>n p. P (K8s (KPatch ''persistentvolumeclaims'' n p))"
  shows "emits P (migrationFailed k obj ns n err)"
  unfolding migrationFailed_def
  by (intro emits_intros migrate_emits emits_failPVC emits_patchPVCAnnotations assms)

lemma emits_runMigration_rest:
  assumes "\<forall>pool. mg_PClient m = Some pool \<longrightarrow> filter_spec pool"
  shows "emits (\<lambda>_. True) (call (Migrate (m\<lparr>mg_OnPhase := Some (\<lambda>p. patchPVCAnnotations k ns n [(AnnotationMigratePhase, Some p)])\<rparr>) ws req)
           (migrationFailed k obj ns n) (\<lambda>_. attempt (patchPVCAnnotations k ns n q)))"
proof (rule emits_call [OF emits_Migrate], goal_cases)
  case 2
  show ?case by (auto simp: phaseSends_def intro!: emits_patchPVCAnnotations)
qed (use assms in \<open>auto intro!: emits_migrationFailed migrate_emits emits_patchPVCAnnotations\<close>)

lemma runMigration_orders:
  assumes "\<forall>pool. mg_PClient (mc_migrator c) = Some pool \<longrightarrow> filter_spec pool"
  shows "orders (counted (mc_kclient c) ns n (attempts + 1)) toProxmox (runMigration c ws ns n pvc attempts)"
  unfolding runMigration_def Let_def
proof (rule orders_withTime, rule orders_bind_seen, goal_cases)
  case (3 t w x w')
  show ?case by (rule patch_counted [OF 3]) simp
qed (auto intro!: emits_patchPVCAnnotations emits_bindE migrate_emits emits_runMigration_rest [OF assms])

text \<open>The sign that the claim may be migrated: the list of the pods showed none that uses it, or the request is forced.\<close>

definition unused :: "'e kube \<Rightarrow> string \<Rightarrow> string \<Rightarrow> bool \<Rightarrow> 'e \<times> req \<Rightarrow> bool" where
  "unused k ns n force x \<longleftrightarrow> snd x = K8s (KList (''pods/'' @ ns)) \<and>
     (\<exists>pods. fst (q_ListPods k ns (fst x)) = Inr pods \<and> (force \<or> fst (usage n pods) = []))"

lemma emits_runMigration:
  assumes "\<forall>pool. mg_PClient (mc_migrator c) = Some pool \<longrightarrow> filter_spec pool"
  shows "emits (\<lambda>_. True) (runMigration c ws ns n pvc attempts)"
  unfolding runMigration_def Let_def
  by (intro emits_withTime emits_bindE emits_patchPVCAnnotations emits_record_event emits_runMigration_rest [OF assms] observes_toProxmox TrueI)

text \<open>The gate of a request: the attempts before this one.\<close>

abbreviation attemptsOf :: "kpvc \<Rightarrow> int" where
  "attemptsOf pvc \<equiv> AtoiValue (GetAnnotation (km_Annotations (kc_Meta pvc)) AnnotationMigrateAttempts)"

lemma requestedMigration_counted:
  assumes "\<forall>pool. mg_PClient (mc_migrator c) = Some pool \<longrightarrow> filter_spec pool"
  shows "orders (\<lambda>x. attemptsOf pvc < mo_MaxAttempts (mc_opts c) \<and> counted (mc_kclient c) ns n (attemptsOf pvc + 1) x) toProxmox
           (requestedMigration c ws ns n pvc)"
proof -
  have run: "orders (\<lambda>x. attemptsOf pvc < mo_MaxAttempts (mc_opts c) \<and> counted (mc_kclient c) ns n (attemptsOf pvc + 1) x) toProxmox
     (runMigration c ws ns n pvc (attemptsOf pvc))" if "\<not> attemptsOf pvc \<ge> mo_MaxAttempts (mc_opts c)"
    using runMigration_orders [OF assms, of ns n "attemptsOf pvc"] that by (simp add: not_le)
  have none: "orders V toProxmox (bindE (record_event (mc_kclient c) obj a b m) (\<lambda>_. failPVC (mc_kclient c) ns n m'))" for V obj a b m m'
    by (intro orders_emits emits_bindE emits_record_event emits_failPVC observes_toProxmox)
  show ?thesis
    unfolding requestedMigration_def PVCPodUsage_def listPods_def Let_def
    by (intro orders_intros emits_intros migrate_emits none run) simp_all
qed

lemma requestedMigration_unused:
  assumes "\<forall>pool. mg_PClient (mc_migrator c) = Some pool \<longrightarrow> filter_spec pool"
  shows "orders (unused (mc_kclient c) ns n (GetAnnotation (km_Annotations (kc_Meta pvc)) AnnotationMigrateForce = ''true'')) toProxmox
           (requestedMigration c ws ns n pvc)"
proof -
  have none: "emits P (bindE (record_event (mc_kclient c) obj a b m) (\<lambda>_. failPVC (mc_kclient c) ns n m'))" if "observes P" "\<And>n p. P (K8s (KPatch ''persistentvolumeclaims'' n p))" for P obj a b m m'
    by (intro emits_bindE emits_record_event emits_failPVC that)
  show ?thesis
    unfolding requestedMigration_def PVCPodUsage_def listPods_def Let_def bindE_def call_call call_ret
    apply (rule orders_seen [where B = "\<lambda>pods. GetAnnotation (km_Annotations (kc_Meta pvc)) AnnotationMigrateForce = ''true'' \<or> fst (usage n pods) = []"])
    subgoal by simp
    subgoal by (auto simp: unused_def)
    subgoal by (simp add: failAs_def emits_fail)
    subgoal by (auto split: prod.split intro!: none [unfolded bindE_def])
    subgoal by (auto split: prod.split intro!: none [unfolded bindE_def] emits_runMigration [OF assms])
    done
qed

lemma orders_sent: "orders V D m \<Longrightarrow> ordered V D (sent m w)"
  unfolding orders_def sent_def by (metis append_eq_conv_conj)

lemma orders_mono: "orders V D m \<Longrightarrow> (\<And>x. V x \<Longrightarrow> V' x) \<Longrightarrow> orders V' D m"
proof -
  assume o: "orders V D m" and v: "\<And>x. V x \<Longrightarrow> V' x"
  have "ordered V D rs \<Longrightarrow> ordered V' D rs" for rs by (induction rs) (auto intro: v)
  then show ?thesis using o unfolding orders_def by meson
qed

text \<open>What the reconciler does once it has read the claim.\<close>

definition claimRead :: "'e migration_controller \<Rightarrow> waits \<Rightarrow> string \<Rightarrow> string \<Rightarrow> kpvc \<Rightarrow> ('e pworld, unit) io" where
  "claimRead c ws ns n pvc =
     (let annotations = km_Annotations (kc_Meta pvc); target = GetAnnotation annotations AnnotationMigrateNode in
      if target = [] then ret ()
      else if GetAnnotation annotations AnnotationMigratePhase = PhaseFailed then ret ()
      else bindE (if kc_VolumeName pvc = [] then ret False
                  else call (KGetPV (mc_kclient c) (kc_VolumeName pvc)) (\<lambda>_. ret False)
                         (\<lambda>pv. ret (alreadyOnTarget target (GetAnnotation annotations AnnotationMigrateStorage) pv))) (\<lambda>there.
             if there then patchPVCAnnotations (mc_kclient c) ns n (consumed @ [(AnnotationMigratePhase, Some PhaseCompleted)])
             else requestedMigration c ws ns n pvc))"

lemma claimRead_orders:
  assumes "orders V toProxmox (requestedMigration c ws ns n pvc)"
  shows "orders (\<lambda>x. GetAnnotation (km_Annotations (kc_Meta pvc)) AnnotationMigrateNode \<noteq> [] \<and>
             GetAnnotation (km_Annotations (kc_Meta pvc)) AnnotationMigratePhase \<noteq> PhaseFailed \<and> V x) toProxmox (claimRead c ws ns n pvc)"
  unfolding claimRead_def Let_def
  by (intro orders_intros emits_intros orders_mono [OF assms] orders_emits [OF emits_ret] orders_emits [OF emits_patchPVCAnnotations]) simp_all

lemma emits_claimRead:
  assumes "\<forall>pool. mg_PClient (mc_migrator c) = Some pool \<longrightarrow> filter_spec pool"
  shows "emits (\<lambda>_. True) (claimRead c ws ns n pvc)"
  unfolding claimRead_def requestedMigration_def Let_def PVCPodUsage_def listPods_def
  by (intro emits_intros emits_failAs emits_patchPVCAnnotations emits_record_event emits_failPVC emits_runMigration [OF assms] observes_toProxmox TrueI)

lemma reconcilePVC_sent:
  assumes "mc_SplitKey c key = Inr (ns, n)" "fst (q_GetPVC (mc_kclient c) ns n (env w)) = Inr pvc"
    and "\<forall>pool. mg_PClient (mc_migrator c) = Some pool \<longrightarrow> filter_spec pool"
  shows "\<exists>v. sent (reconcilePVC c ws key) w = (env w, K8s (KGet ''persistentvolumeclaims'' (nsName ns n))) # sent (claimRead c ws ns n pvc) v"
proof -
  have "reconcilePVC c ws key = unlessGone (KGetPVC (mc_kclient c) ns n) (claimRead c ws ns n) ()"
    by (simp add: reconcilePVC_def claimRead_def [abs_def] assms(1) Let_def)
  then show ?thesis
    using assms(2) unfolding unlessGone_def
    by (simp add: sent_invoke_call emits_claimRead [OF assms(3)] emits_intros Let_def) blast
qed


section \<open>A sample controller\<close>

definition sampleSplit :: "string \<Rightarrow> goerr + string \<times> string" where
  "sampleSplit key = (case Split CHR ''/'' key of [n] \<Rightarrow> Inr ([], n) | [ns, n] \<Rightarrow> Inr (ns, n) | _ \<Rightarrow> Inl (Plain ''unexpected key format''))"

definition sampleController :: "ksim migration_controller" where
  "sampleController = NewMigration sampleKube sampleMigrator
     \<lparr>mo_MaxAttempts = 0, mo_TaskTimeout = 0, mo_DrainTimeout = 0, mo_DetachTimeout = 0, mo_Resync = 0, mo_PodFollow = True,
      mo_PrimaryStorage = [], mo_ReactiveEvacuation = True, mo_ReactiveEvacuationGrace = 0\<rparr> sampleSplit"

definition annotatedPVC :: "gomap \<Rightarrow> kpvc" where
  "annotatedPVC a = samplePVC\<lparr>kc_Meta := (kc_Meta samplePVC)\<lparr>km_Annotations := a\<rparr>\<rparr>"

definition sampleRequest :: kpvc where
  "sampleRequest = annotatedPVC [(AnnotationMigrateNode, ''pve-9''), (AnnotationMigrateAttempts, ''4'')]"

definition sampleRequested :: "ksim pworld" where
  "sampleRequested = (let w = sampleKWorld [] in w\<lparr>env := (env w)\<lparr>ks_pvcs := [(''db/data'', sampleRequest)]\<rparr>\<rparr>)"

lemma sampleController_filter: "\<forall>pool. mg_PClient (mc_migrator sampleController) = Some pool \<longrightarrow> filter_spec pool"
  using sampleMigrator_ok(1,3) by (simp add: sampleController_def NewMigration_def)

text \<open>The run for a target that does not host the storage, step by step.\<close>

lemma sample_answers:
  "q_GetPVC sampleKube ''db'' ''data'' (env sampleRequested) = (Inr sampleRequest, env sampleRequested)"
  "q_ListPods sampleKube ''db'' (env sampleRequested) = (Inr [], env sampleRequested)"
  "q_PatchPVC sampleKube ns n p e = (Inr (), e)" "q_Event sampleKube a b m d e = (Inr (), e)" "q_Now sampleKube e = 0"
  by code_simp (code_simp, simp_all add: sampleKube_def)

lemma sample_patch:
  "env w = env sampleRequested \<Longrightarrow> patchPVCAnnotations sampleKube ''db'' ''data'' p w =
     (Inr (), w\<lparr>trace := trace w @ [(env w, K8s (KGet ''persistentvolumeclaims'' (nsName ''db'' ''data''))),
        (env w, K8s (KPatch ''persistentvolumeclaims'' (nsName ''db'' ''data'') (PatchAnnotations (NormalizeLegacy (km_Annotations (kc_Meta sampleRequest)) p))))]\<rparr>)"
  by (simp add: patchPVCAnnotations_def unlessGone_def call_def invoke_def ret_def sample_answers)

lemma sample_event:
  "record_event sampleKube obj t r m w = (Inr (), w\<lparr>trace := trace w @ [(env w, K8s (KEvent obj t r m))]\<rparr>)"
  by (simp add: record_event_def attempt_def call_def invoke_def ret_def sample_answers)

lemma sample_PVC: "env w = env sampleRequested \<Longrightarrow> KGetPVC sampleKube ''db'' ''data'' w =
     (Inr sampleRequest, w\<lparr>trace := trace w @ [(env w, K8s (KGet ''persistentvolumeclaims'' (nsName ''db'' ''data'')))]\<rparr>)"
  by (simp add: invoke_def sample_answers)

lemma sample_stored: "ksGetPV ''pv-1'' (env sampleRequested) = (Inr samplePV, env sampleRequested)"
  by code_simp

lemma sample_PV: "env w = env sampleRequested \<Longrightarrow> KGetPV sampleKube ''pv-1'' w = (Inr samplePV, w\<lparr>trace := trace w @ [(env w, K8s (KGet ''persistentvolumes'' ''pv-1''))]\<rparr>)"
  by (simp add: invoke_def sample_stored)

lemma sample_nodes: "env w = env sampleRequested \<Longrightarrow> GetNodesForStorage sampleMigrationClient s w =
     (Inr [''pve-1'', ''pve-2''], w\<lparr>trace := trace w @ [(env w, Px ''sim'' (RGet (''storagenodes/'' @ s)))]\<rparr>)"
  by (simp add: px_def invoke_def sampleMigrationClient_def sampleRequested_def sampleKWorld_def sampleKState_def)

abbreviation sampleAsked :: migrate_request where
  "sampleAsked \<equiv> migrationRequest (mc_opts sampleController) ''db'' ''data'' (km_Annotations (kc_Meta sampleRequest))"

definition sampleMoved :: volume where
  "sampleMoved = NewVolume ''r'' ''pve-9'' ''lvm'' ''vm-9999-pvc-1''"

lemma sample_asked: "mr_TargetNode sampleAsked = ''pve-9''" "mr_Namespace sampleAsked = ''db''" "mr_PVCName sampleAsked = ''data''"
    "kc_VolumeName sampleRequest = ''pv-1''" "vstorage sampleMoved = ''lvm''" "migrationVolumes sampleAsked samplePV = Inr (DriverName, sampleSource, sampleMoved)"
  by code_simp+

lemma sample_Migrate:
  assumes "env w = env sampleRequested"
  shows "\<exists>err. Migrate (sampleMigrator\<lparr>mg_OnPhase := f\<rparr>) ws sampleAsked w =
     (Inl err, w\<lparr>trace := trace w @ [(env w, K8s (KGet ''persistentvolumeclaims'' (nsName ''db'' ''data''))), (env w, K8s (KGet ''persistentvolumes'' ''pv-1'')),
        (env w, Px ''sim'' (RGet (''storagenodes/'' @ ''lvm'')))]\<rparr>) \<and> errIs err ErrInvalidTarget"
proof -
  let ?m = "sampleMigrator\<lparr>mg_OnPhase := f\<rparr>"
  have k: "mg_KClient ?m = sampleKube" "mg_PClient ?m = Some samplePool2" using sampleMigrator_ok(1) by (simp_all add: sampleMigrator_def)
  let ?w1 = "w\<lparr>trace := trace w @ [(env w, K8s (KGet ''persistentvolumeclaims'' (nsName ''db'' ''data''))), (env w, K8s (KGet ''persistentvolumes'' ''pv-1''))]\<rparr>"
  have "PVCResources (mg_KClient ?m) (mr_Namespace sampleAsked) (mr_PVCName sampleAsked) w = (Inr (sampleRequest, samplePV), ?w1)"
    by (simp add: PVCResources_def k sample_asked call_def sample_PVC sample_PV [simplified] ret_def assms)
  from Migrate_runs [OF this sample_asked(6) k(2) sampleSource_region]
  show ?thesis
    by (simp add: migrateOn_def Let_def call_def sample_nodes [of _ "''lvm''", simplified] sample_asked assms fail_def invalidTarget_def sentinelError_def)
qed

lemma sample_controller:
  "mc_SplitKey sampleController ''db/data'' = Inr (''db'', ''data'')" "mc_kclient sampleController = sampleKube" "mc_migrator sampleController = sampleMigrator"
  by (code_simp, simp_all add: sampleController_def NewMigration_def)

lemma sample_annotations:
  "GetAnnotation (km_Annotations (kc_Meta sampleRequest)) AnnotationMigrateNode = ''pve-9''"
  "GetAnnotation (km_Annotations (kc_Meta sampleRequest)) AnnotationMigratePhase = []" "attemptsOf sampleRequest = 4" "mo_MaxAttempts (mc_opts sampleController) = 5"
  "GetAnnotation (km_Annotations (kc_Meta sampleRequest)) AnnotationMigrateForce = []" "GetAnnotation (km_Annotations (kc_Meta sampleRequest)) AnnotationMigrateStorage = []"
  "alreadyOnTarget ''pve-9'' [] samplePV = False" "PhaseFailed = ''Failed''" "usage ''data'' [] = ([], [])"
  by code_simp+

lemma bindE_Inr: "m w = (Inr x, v) \<Longrightarrow> bindE m k w = k x v"
  by (simp add: bindE_def call_def)

lemma sample_runMigration:
  assumes "env w = env sampleRequested"
  shows "(env w, Px ''sim'' (RGet ''storagenodes/lvm'')) \<in> set (sent (runMigration sampleController sampleWaits ''db'' ''data'' sampleRequest 4) w)"
proof -
  let ?f = "Some (\<lambda>p. patchPVCAnnotations sampleKube ''db'' ''data'' [(AnnotationMigratePhase, Some p)])"
  have m: "\<exists>err. Migrate (sampleMigrator\<lparr>mg_OnPhase := ?f\<rparr>) sampleWaits sampleAsked v =
     (Inl err, v\<lparr>trace := trace v @ [(env v, K8s (KGet ''persistentvolumeclaims'' (nsName ''db'' ''data''))), (env v, K8s (KGet ''persistentvolumes'' ''pv-1'')),
        (env v, Px ''sim'' (RGet ''storagenodes/lvm''))]\<rparr>) \<and> errIs err ErrInvalidTarget" if "env v = env sampleRequested" for v
    using sample_Migrate [OF that] by simp
  have f: "migrationFailed sampleKube obj ''db'' ''data'' err v = failPVC sampleKube ''db'' ''data'' (Error err) (v\<lparr>trace := trace v @ [(env v, K8s (KEvent obj ''Warning'' ''MigrationFailed'' (Error err)))]\<rparr>)"
    if "errIs err ErrInvalidTarget" for obj err v
    using that by (simp add: migrationFailed_def bindE_def call_def sample_event)
  have "\<exists>obj v. runMigration sampleController sampleWaits ''db'' ''data'' sampleRequest 4 w =
       call (Migrate (sampleMigrator\<lparr>mg_OnPhase := ?f\<rparr>) sampleWaits sampleAsked) (migrationFailed sampleKube obj ''db'' ''data'')
         (\<lambda>_. attempt (patchPVCAnnotations sampleKube ''db'' ''data'' [(AnnotationMigratePhase, Some PhaseCompleted)])) v \<and>
       env v = env w \<and> (\<exists>rs. trace v = trace w @ rs)"
    unfolding runMigration_def Let_def withTime_def sample_controller
    by (intro exI conjI, subst bindE_Inr, rule sample_patch [OF assms], subst bindE_Inr, rule sample_event, rule refl) simp_all
  then obtain obj v rs where v: "runMigration sampleController sampleWaits ''db'' ''data'' sampleRequest 4 w =
       call (Migrate (sampleMigrator\<lparr>mg_OnPhase := ?f\<rparr>) sampleWaits sampleAsked) (migrationFailed sampleKube obj ''db'' ''data'')
         (\<lambda>_. attempt (patchPVCAnnotations sampleKube ''db'' ''data'' [(AnnotationMigratePhase, Some PhaseCompleted)])) v"
    "env v = env w" "trace v = trace w @ rs" by blast
  obtain err where e: "Migrate (sampleMigrator\<lparr>mg_OnPhase := ?f\<rparr>) sampleWaits sampleAsked v =
     (Inl err, v\<lparr>trace := trace v @ [(env v, K8s (KGet ''persistentvolumeclaims'' (nsName ''db'' ''data''))), (env v, K8s (KGet ''persistentvolumes'' ''pv-1'')),
        (env v, Px ''sim'' (RGet ''storagenodes/lvm''))]\<rparr>)" "errIs err ErrInvalidTarget" using m [of v] v(2) assms by auto
  show ?thesis
    unfolding sent_def v(1)
    by (subst call_Inl, rule e(1), unfold f [OF e(2)] failPVC_def, subst sample_patch) (auto simp: v(2,3) assms)
qed


section \<open>The automatic triggers\<close>

text \<open>Reads, events, and the annotations of claims and nodes.\<close>

fun stamps :: "req \<Rightarrow> bool" where
  "stamps (Px c (RGet p)) = True"
| "stamps (K8s (KGet k n)) = True"
| "stamps (K8s (KList k)) = True"
| "stamps (K8s (KEvent a b c d)) = True"
| "stamps (K8s (KPatch kind n (PatchAnnotations p))) = (kind = ''persistentvolumeclaims'' \<or> kind = ''nodes'')"
| "stamps r = False"

lemma observes_stamps [simp]: "observes stamps"
  by (simp add: observes_def)

lemma stampsI:
  "stamps (Px c (RGet p))" "stamps (K8s (KGet k n))" "stamps (K8s (KList k))"
  "stamps (K8s (KPatch ''persistentvolumeclaims'' n (PatchAnnotations q)))" "stamps (K8s (KPatch ''nodes'' n (PatchAnnotations q)))"
  by simp_all

lemma emits_zoneStatuses: "(\<And>c p. P (Px c (RGet p))) \<Longrightarrow> emits P (zoneStatuses cl s zs)"
  by (induction zs) (auto intro!: emits_intros migrate_emits)

lemma emits_gatherCapacities: "(\<And>c p. P (Px c (RGet p))) \<Longrightarrow> emits P (gatherCapacities cl ss)"
  by (induction ss) (auto simp: ZoneCapacities_def intro!: emits_intros emits_zoneStatuses)

lemma emits_autoTarget:
  assumes "observes P" "\<And>c p. P (Px c (RGet p))"
  shows "emits P (autoTarget c pv z)"
  unfolding autoTarget_def GatherStorageCandidates_def Let_def
  by (intro emits_intros emits_gatherCapacities assms observesD [OF assms(1)])

lemma emits_evacuatePV: "emits stamps (evacuatePV c node target zone force pv)"
  unfolding evacuatePV_def Let_def
  by (intro emits_intros migrate_emits emits_autoTarget emits_patchPVCAnnotations observes_stamps stampsI)

lemma emits_evacuatePVs: "emits stamps (evacuatePVs c node target zone force stamped pvs)"
proof (induction pvs arbitrary: stamped)
  case (Cons pv pvs)
  then show ?case unfolding evacuatePVs.simps by (intro emits_bindE emits_evacuatePV)
qed (simp add: emits_ret)

lemma emits_commonZone: "observes P \<Longrightarrow> emits P (commonZone k r z ns)"
  by (induction ns arbitrary: z) (auto simp: observesD split: prod.split intro!: emits_intros migrate_emits)

lemma emits_zoneBlocked: "observes P \<Longrightarrow> emits P (zoneBlocked k r z)"
  unfolding zoneBlocked_def by (intro emits_intros) (simp add: observesD)

lemma emits_reactiveStamp:
  assumes "observes P" "\<And>c p. P (Px c (RGet p))" "\<And>p. P (K8s (KPatch ''persistentvolumeclaims'' (nsName ns n) (PatchAnnotations p)))"
  shows "emits P (reactiveStamp c pod ns n vol pv)"
  unfolding reactiveStamp_def Let_def
  by (intro emits_intros migrate_emits emits_autoTarget emits_patchPVCAnnotations assms)

lemma emits_reactiveSkip: "observes P \<Longrightarrow> emits P (reactiveSkip k obj owner)"
  unfolding reactiveSkip_def by (intro emits_intros migrate_emits)

lemma emits_evaluateReactivePVC:
  assumes "observes P" "\<And>c p. P (Px c (RGet p))" "\<And>p. P (K8s (KPatch ''persistentvolumeclaims'' (nsName ns n) (PatchAnnotations p)))"
  shows "emits P (evaluateReactivePVC c pod ns n)"
  unfolding evaluateReactivePVC_def Let_def
  by (intro emits_intros migrate_emits emits_reactiveStamp emits_reactiveSkip emits_zoneBlocked observesD [OF assms(1)] assms)

lemma emits_work: "emits P m \<Longrightarrow> emits P (work delays m)"
  unfolding work_def by (intro emits_intros)

lemma emits_nodeWorker: "emits stamps (nodeWorker c key)"
  unfolding nodeWorker_def reconcileNode_def Let_def PVsInZone_def
  by (intro emits_work emits_intros migrate_emits emits_evacuatePVs emits_patchNodeAnnotations observes_stamps stampsI)

lemma emits_followWorker: "emits stamps (followWorker c visit key)"
  unfolding followWorker_def reconcileFollow_def followPods_def Let_def PVCPodPlacement_def listPods_def
  by (intro emits_work emits_intros migrate_emits emits_commonZone emits_patchPVCAnnotations observes_stamps stampsI)

lemma emits_reactivePVCs: "emits stamps (evaluateReactivePVCs c pod ns vs)"
proof (induction vs)
  case (Cons v vs)
  then show ?case by (cases v) (auto intro!: emits_intros emits_evaluateReactivePVC)
qed (auto intro!: emits_intros)

lemma emits_reactiveWorker: "emits stamps (reactiveWorker c key)"
  unfolding reactiveWorker_def reconcileReactivePod_def Let_def
  by (intro emits_work emits_intros migrate_emits emits_reactivePVCs observes_stamps stampsI)

text \<open>C14: The automatic triggers only ask for migrations.  The evacuation of nodes, the volumes that follow their pods and the reactive evacuation
  read from Proxmox and from Kubernetes, record events and patch annotations of claims and of nodes; they change nothing else, on any path.\<close>

theorem triggers_only_stamp:
  assumes "(e, r) \<in> set (sent (nodeWorker c key) w) \<union> set (sent (followWorker c visit key) w) \<union> set (sent (reactiveWorker c key) w)"
  shows "stamps r"
  using assms emits_sent [OF emits_nodeWorker] emits_sent [OF emits_followWorker] emits_sent [OF emits_reactiveWorker] by fastforce

definition sampleEvacuated :: knode where
  "sampleEvacuated = sampleKNode\<lparr>kn_annotations := [(AnnotationEvacuate, ''auto'')]\<rparr>"

definition sampleEvacuation :: "ksim pworld" where
  "sampleEvacuation = \<lparr>env = (sampleKState [])\<lparr>ks_nodes := [(''worker-1'', sampleEvacuated)]\<rparr>, trace = []\<rparr>"

lemma sample_node: "q_GetNode sampleKube ''worker-1'' (env sampleEvacuation) = (Inr sampleEvacuated, env sampleEvacuation)"
  "GetAnnotation (kn_annotations sampleEvacuated) AnnotationEvacuate = ''auto''" "GetNodeTopology (kn_labels sampleEvacuated) = ([], [])"
  "q_PatchNode sampleKube ''worker-1'' (PatchAnnotations p) (env sampleEvacuation) = (Inr (), env sampleEvacuation)" "trace sampleEvacuation = []"
  by (code_simp, code_simp, code_simp) (simp_all add: sampleKube_def ksCordon_def sampleEvacuation_def)

theorem triggers_only_stamp_witness:
  "\<exists>e p. (e, K8s (KPatch ''nodes'' ''worker-1'' (PatchAnnotations p))) \<in> set (sent (nodeWorker sampleController ''worker-1'') sampleEvacuation) \<and>
     stamps (K8s (KPatch ''nodes'' ''worker-1'' (PatchAnnotations p)))"
proof -
  let ?p = "NormalizeLegacy (kn_annotations sampleEvacuated) [(AnnotationEvacuate, None)]"
  have "(env sampleEvacuation, K8s (KPatch ''nodes'' ''worker-1'' (PatchAnnotations ?p))) \<in> set (sent (nodeWorker sampleController ''worker-1'') sampleEvacuation)"
    by (simp add: sent_def nodeWorker_def work_def reconcileNode_def patchNodeAnnotations_def unlessGone_def bindE_def call_def invoke_def sample_controller sample_node
        sample_event Let_def ret_def)
  then show ?thesis using triggers_only_stamp [of _ _ sampleController] by blast
qed

section \<open>When the automatic triggers ask\<close>

text \<open>A read leaves the API server as it is.\<close>

definition kube_reads :: "'e kube \<Rightarrow> bool" where
  "kube_reads k \<longleftrightarrow> (\<forall>ns n e. snd (q_GetPVC k ns n e) = e) \<and> (\<forall>n e. snd (q_GetPV k n e) = e) \<and> (\<forall>e. snd (q_ListNodes k e) = e) \<and>
     (\<forall>n e. snd (q_GetNode k n e) = e) \<and> (\<forall>ns e. snd (q_ListPods k ns e) = e)"

lemma triple_read:
  assumes "\<And>e. snd (f e) = e" "P (e0, r)" "\<And>err. fst (f e0) = Inl err \<Longrightarrow> triple (\<lambda>e. e = e0) P (h err) Q"
    and "\<And>x. fst (f e0) = Inr x \<Longrightarrow> triple (\<lambda>e. e = e0) P (k x) Q"
  shows "triple (\<lambda>e. e = e0) P (call (invoke r f) h k) Q"
proof (rule triple_call [where R = "\<lambda>res e. e = e0 \<and> res = fst (f e0)"])
  show "triple (\<lambda>e. e = e0) P (invoke r f) (\<lambda>res e. e = e0 \<and> res = fst (f e0))" using assms(1,2) by (intro triple_invoke) simp
next
  fix err show "triple (\<lambda>e. e = e0 \<and> Inl err = fst (f e0)) P (h err) Q" by (rule triple_const) (simp add: assms(3))
next
  fix x show "triple (\<lambda>e. e = e0 \<and> Inr x = fst (f e0)) P (k x) Q" by (rule triple_const) (simp add: assms(4))
qed

lemma triple_here: "emits Q m \<Longrightarrow> (\<And>e r. Q r \<Longrightarrow> P (e, r)) \<Longrightarrow> triple I P m (\<lambda>_ _. True)"
  unfolding emits_def by (rule triple_pre, erule triple_mono) auto

lemma triple_still: "triple I P (ret x) (\<lambda>_ _. True)" "triple I P (fail err) (\<lambda>_ _. True)"
  by (auto intro!: triple_ret triple_fail)

lemma SelectTarget_elsewhere: "SelectTarget zones exclude n h = Inr z \<Longrightarrow> z \<noteq> [] \<and> z \<notin> set exclude"
  using betterZone_fold [of exclude "requiredBytes n h" zones noZone] by (auto simp: SelectTarget_def Let_def noZone_def split: if_splits)

lemma betterElsewhere_fold:
  assumes "fst acc = [] \<or> fst acc \<noteq> zone"
  shows "fst (fold (betterElsewhere c zone req) ss acc) = [] \<or> fst (fold (betterElsewhere c zone req) ss acc) \<noteq> zone"
proof (rule fold_invariant [where Q = "\<lambda>_. True" and P = "\<lambda>b. fst b = [] \<or> fst b \<noteq> zone"])
  fix s and a :: "string \<times> string \<times> int"
  assume a: "fst a = [] \<or> fst a \<noteq> zone"
  show "fst (betterElsewhere c zone req s a) = [] \<or> fst (betterElsewhere c zone req s a) \<noteq> zone"
    unfolding betterElsewhere_def by (rule fold_invariant [where Q = "\<lambda>_. True" and P = "\<lambda>b. fst b = [] \<or> fst b \<noteq> zone"]) (use a in auto)
qed (use assms in auto)

lemma SelectCross_elsewhere:
  assumes "SelectCrossStorageTarget c zone storage n h = Inr (z, s)"
  shows "z \<noteq> [] \<and> z \<noteq> zone"
proof -
  obtain bz bs b where f: "fold (betterElsewhere c zone (requiredBytes n h)) (filter (\<lambda>s. s \<noteq> storage \<and> s \<noteq> cn_DefaultStorage c) (sortedStorages c)) ([], [], 0) = (bz, bs, b)"
    by (metis prod.collapse)
  then have "bz = [] \<or> bz \<noteq> zone"
    using betterElsewhere_fold [of "([], [], 0)" zone c "requiredBytes n h"] by (metis fst_conv)
  then show ?thesis
    using assms unfolding SelectCrossStorageTarget_def Let_def f
    by (auto split: sum.splits if_splits dest: SelectTarget_elsewhere)
qed

lemma returns_autoTarget: "returns (\<lambda>(z, s). z \<noteq> [] \<and> z \<noteq> zone) (autoTarget c pv zone)"
proof -
  have t: "returns (\<lambda>(z, s). z \<noteq> [] \<and> z \<noteq> zone) (lift (SelectCrossStorageTarget cs zone st n h))" for cs st n h
    by (rule returns_lift) (auto dest: SelectCross_elsewhere)
  show ?thesis
    unfolding autoTarget_def
    by (intro returns_option returns_fail returns_prod, rule returns_bindE_any, intro returns_option returns_fail, rule returns_bindE_any, rule returns_bindE_any,
        rule returns_bindE [OF t]) (auto intro: returns_intros)
qed

lemma zoneScan_iff:
  "zoneScan region zone found found nodes \<longleftrightarrow> (found \<or> (\<exists>node \<in> set nodes. GetNodeTopology (kn_labels node) = (region, zone))) \<and>
     (\<forall>node \<in> set nodes. GetNodeTopology (kn_labels node) = (region, zone) \<longrightarrow> \<not> nodeSchedulable node)"
  by (induction nodes arbitrary: found) (auto split: if_splits)

text \<open>The request a trigger writes: a target and, for another storage, its name.\<close>

definition asksFor :: "string \<Rightarrow> string \<Rightarrow> (string \<Rightarrow> bool) \<Rightarrow> req \<Rightarrow> bool" where
  "asksFor ns n good r \<longleftrightarrow> (\<exists>a target rest. good target \<and>
     r = K8s (KPatch ''persistentvolumeclaims'' (nsName ns n) (PatchAnnotations (NormalizeLegacy a ((AnnotationMigrateNode, Some target) # rest)))))"

definition isPatch :: "req \<Rightarrow> bool" where
  "isPatch r \<longleftrightarrow> (\<exists>kind n p. r = K8s (KPatch kind n p))"

lemma observes_patch: "observes (\<lambda>r. isPatch r \<longrightarrow> Q r)" "\<not> isPatch (Px c p)"
  by (simp_all add: observes_def isPatch_def)

lemma reactiveStamp_asks:
  "emits (\<lambda>r. isPatch r \<longrightarrow> asksFor ns n (\<lambda>t. t \<noteq> [] \<and> t \<noteq> vzone vol) r) (reactiveStamp c pod ns n vol pv)"
  unfolding reactiveStamp_def Let_def
proof (rule emits_callR [OF returns_autoTarget], goal_cases)
  case (3 x)
  then show ?case
    by (cases x) (auto intro!: emits_intros migrate_emits observes_patch emits_patchPVCAnnotations simp: asksFor_def)
qed (auto intro!: emits_autoTarget migrate_emits observes_patch simp: observes_patch)

text \<open>C12: Reactive evacuation is asked for only when the volume's zone is blocked.  For a claim of an unschedulable pod, a patch is sent only when no migration
  of the claim is under way, the claim is bound to a volume of this driver in a zone, that zone has a node and none of its nodes takes pods, and neither the claim's
  annotation nor a custom resource that owns it forbids it; the patch asks, for this claim, for a target that is another zone.\<close>

theorem reactive_evacuation_sound:
  assumes "kube_reads (mc_kclient c)" "(e, r) \<in> set (sent (evaluateReactivePVC c pod ns n) w)" "isPatch r"
  shows "\<exists>pvc pv vol nodes. fst (q_GetPVC (mc_kclient c) ns n (env w)) = Inr pvc \<and> \<not> migrationInFlight pvc \<and> fst (reactiveEvacuationAllowed pvc) \<and>
     fst (q_GetPV (mc_kclient c) (kc_VolumeName pvc) (env w)) = Inr pv \<and> zonalVolume pv = Some vol \<and> fst (q_ListNodes (mc_kclient c) (env w)) = Inr nodes \<and>
     (\<exists>node \<in> set nodes. GetNodeTopology (kn_labels node) = (vregion vol, vzone vol)) \<and>
     (\<forall>node \<in> set nodes. GetNodeTopology (kn_labels node) = (vregion vol, vzone vol) \<longrightarrow> \<not> nodeSchedulable node) \<and>
     asksFor ns n (\<lambda>target. target \<noteq> [] \<and> target \<noteq> vzone vol) r" (is "?good r")
proof -
  let ?P = "\<lambda>(e, r). isPatch r \<longrightarrow> ?good r"
  have reads: "\<And>ns n e. snd (q_GetPVC (mc_kclient c) ns n e) = e" "\<And>n e. snd (q_GetPV (mc_kclient c) n e) = e" "\<And>e. snd (q_ListNodes (mc_kclient c) e) = e"
    using assms(1) by (auto simp: kube_reads_def)
  have quiet: "?P (e, K8s (KGet k m))" "?P (e, K8s (KList k))" for e k m by (simp_all add: isPatch_def)
  have skip: "triple I ?P (reactiveSkip k obj owner) (\<lambda>_ _. True)" for I k obj owner
    by (rule triple_here [OF emits_reactiveSkip [OF observes_patch(1) [of "\<lambda>_. False"]]]) auto
  have stamp: "triple I ?P (reactiveStamp c pod ns n vol pv) (\<lambda>_ _. True)"
    if "\<And>r. asksFor ns n (\<lambda>t. t \<noteq> [] \<and> t \<noteq> vzone vol) r \<Longrightarrow> ?good r" for I vol pv
    by (rule triple_here [OF reactiveStamp_asks]) (use that in auto)
  have "triple (\<lambda>e. e = env w) ?P (evaluateReactivePVC c pod ns n) (\<lambda>_ _. True)"
    unfolding evaluateReactivePVC_def unlessGone_def Let_def zoneBlocked_def bindE_def call_call call_ret call_fail
  proof (rule triple_read, rule reads(1), rule quiet(1), goal_cases)
    case pvc: (2 pvc)
    show ?case
    proof (rule triple_if [OF triple_still(1)], rule triple_read, rule reads(2), rule quiet(1), goal_cases)
      case pv: (2 pv)
      have "triple (\<lambda>e. e = env w) ?P
          (call (KListNodes (mc_kclient c)) fail (\<lambda>nodes. if \<not> zoneScan (vregion vol) (vzone vol) False False nodes then ret ()
             else case reactiveEvacuationAllowed pvc of (allowed, owner) \<Rightarrow> if allowed then reactiveStamp c pod ns n vol pv
               else reactiveSkip (mc_kclient c) (nsName ns n) owner)) (\<lambda>_ _. True)" if vol: "zonalVolume pv = Some vol" for vol
      proof (rule triple_read, rule reads(3), rule quiet(2), goal_cases)
        case (2 nodes)
        obtain allowed owner where a: "reactiveEvacuationAllowed pvc = (allowed, owner)" by fastforce
        have "?good r" if "allowed" "zoneScan (vregion vol) (vzone vol) False False nodes" "asksFor ns n (\<lambda>t. t \<noteq> [] \<and> t \<noteq> vzone vol) r" for r
          using pvc pv vol 2 a that by (simp add: zoneScan_iff)
        then show ?case unfolding a prod.case by (intro triple_if triple_still skip stamp) blast
      qed (rule triple_still)
      then show ?case by (cases "zonalVolume pv") (simp_all only: option.case triple_still)
    qed (auto intro!: triple_if triple_still)
  qed (auto intro!: triple_if triple_still)
  from triple_sent [OF this refl assms(2)] show ?thesis using assms(3) by simp
qed

definition sampleCordoned :: knode where
  "sampleCordoned = sampleKNode\<lparr>kn_labels := [(LabelTopologyRegion, ''r''), (LabelTopologyZone, ''pve-1'')], kn_unschedulable := True\<rparr>"

definition sampleDrain :: "ksim pworld" where
  "sampleDrain = (let s = sampleKState [] in
     \<lparr>env = s\<lparr>ks_px := (ks_px s)\<lparr>s_storages := [(''lvm'', \<lparr>rs_type = ''storage'', rs_vmid = 0, rs_node = ''pve-1'', rs_name = ''lvm'',
                  rs_status = ''available'', rs_pluginType = ''lvm'', rs_shared = 0\<rparr>)]\<rparr>, ks_nodes := [(''worker-1'', sampleCordoned)]\<rparr>,
      trace = []\<rparr>)"

lemma sampleKube_pure: "kube_reads sampleKube"
  by (simp add: kube_reads_def sampleKube_def ksRead_def ksGetPV_def)

lemma sample_drain:
  "q_GetPVC sampleKube ''db'' ''data'' (env sampleDrain) = (Inr samplePVC, env sampleDrain)"
  "ksGetPV ''pv-1'' (env sampleDrain) = (Inr samplePV, env sampleDrain)"
  "q_ListNodes sampleKube (env sampleDrain) = (Inr [sampleCordoned], env sampleDrain)"
  "migrationInFlight samplePVC = False" "kc_VolumeName samplePVC = ''pv-1''" "zonalVolume samplePV = Some sampleSource"
  "vregion sampleSource = ''r''" "vzone sampleSource = ''pve-1''" "nodeSchedulable sampleCordoned = False" "GetNodeTopology (kn_labels sampleCordoned) = (''r'', ''pve-1'')" "reactiveEvacuationAllowed samplePVC = (True, None)"
  "trace sampleDrain = []"
  by code_simp+

definition sampleSeen :: "ksim pworld" where
  "sampleSeen = sampleDrain\<lparr>trace := [(env sampleDrain, K8s (KGet ''persistentvolumeclaims'' (nsName ''db'' ''data''))),
      (env sampleDrain, K8s (KGet ''persistentvolumes'' ''pv-1'')), (env sampleDrain, K8s (KList ''nodes''))]\<rparr>"

lemma sample_evaluate:
  "evaluateReactivePVC sampleController samplePod ''db'' ''data'' sampleDrain = reactiveStamp sampleController samplePod ''db'' ''data'' sampleSource samplePV sampleSeen"
  by (simp add: evaluateReactivePVC_def sample_controller unlessGone_def bindE_def call_def invoke_def sample_drain zoneBlocked_def ret_def sampleSeen_def)

lemma sample_target:
  "fst (autoTarget sampleController samplePV ''pve-1'' sampleSeen) = Inr (''pve-2'', [])"
  "env (snd (autoTarget sampleController samplePV ''pve-1'' sampleSeen)) = env sampleDrain"
  by code_simp+

theorem reactive_evacuation_sound_witness:
  "\<exists>e r. (e, r) \<in> set (sent (evaluateReactivePVC sampleController samplePod ''db'' ''data'') sampleDrain) \<and> isPatch r \<and>
     asksFor ''db'' ''data'' (\<lambda>target. target \<noteq> [] \<and> target \<noteq> ''pve-1'') r \<and> \<not> nodeSchedulable sampleCordoned"
proof -
  let ?p = "[(AnnotationMigrateNode, Some ''pve-2''), (AnnotationMigrateForce, Some ''true'')]"
  let ?r = "K8s (KPatch ''persistentvolumeclaims'' (nsName ''db'' ''data'') (PatchAnnotations (NormalizeLegacy (km_Annotations (kc_Meta samplePVC)) ?p)))"
  obtain v where v: "autoTarget sampleController samplePV ''pve-1'' sampleSeen = (Inr (''pve-2'', []), v)" "env v = env sampleDrain"
    using sample_target by (metis prod.collapse)
  have "patchPVCAnnotations sampleKube ''db'' ''data'' ?p x =
     (Inr (), x\<lparr>trace := trace x @ [(env x, K8s (KGet ''persistentvolumeclaims'' (nsName ''db'' ''data''))), (env x, ?r)]\<rparr>)" if "env x = env sampleDrain" for x
    using that by (simp add: patchPVCAnnotations_def unlessGone_def call_def invoke_def ret_def sample_answers sample_drain)
  then have "(env sampleDrain, ?r) \<in> set (sent (evaluateReactivePVC sampleController samplePod ''db'' ''data'') sampleDrain)"
    unfolding sent_def sample_evaluate reactiveStamp_def Let_def sample_controller sample_drain(8) call_Inr [where m = "autoTarget sampleController samplePV ''pve-1''", OF v(1)]
    by (simp add: v bindE_def call_def sample_event sample_drain)
  then have s: "(env sampleDrain, ?r) \<in> set (sent (evaluateReactivePVC sampleController samplePod ''db'' ''data'') sampleDrain)" "isPatch ?r" by (auto simp: isPatch_def)
  have k: "kube_reads (mc_kclient sampleController)" by (simp add: sample_controller sampleKube_pure)
  from reactive_evacuation_sound [OF k s] show ?thesis
    using s by (auto simp: sample_controller sample_drain)
qed

section \<open>Following the pods\<close>

definition settledIn :: "'e kube \<Rightarrow> 'e \<Rightarrow> string \<Rightarrow> string \<Rightarrow> string list \<Rightarrow> bool" where
  "settledIn k e region zone nodes \<longleftrightarrow>
     (\<forall>node \<in> set nodes. \<exists>kn. fst (q_GetNode k node e) = Inr kn \<and> GetNodeTopology (kn_labels kn) = (region, zone))"

lemma commonZone_settled:
  assumes "\<And>n e. snd (q_GetNode k n e) = e" "\<And>kind n. P (e0, K8s (KGet kind n))"
  shows "triple (\<lambda>e. e = e0) P (commonZone k region pz nodes)
     (\<lambda>res e. e = e0 \<and> (\<forall>z. res = Inr (Some z) \<longrightarrow> (pz = [] \<or> z = pz) \<and> settledIn k e0 region z nodes))"
proof (induction nodes arbitrary: pz)
  case Nil
  then show ?case by (auto intro!: triple_ret simp: settledIn_def)
next
  case (Cons node nodes)
  have step: "triple (\<lambda>e. e = e0) P (commonZone k region p nodes)
      (\<lambda>res e. e = e0 \<and> (\<forall>z. res = Inr (Some z) \<longrightarrow> (pz = [] \<or> z = pz) \<and> settledIn k e0 region z (node # nodes)))"
    if "fst (q_GetNode k node e0) = Inr kn" "GetNodeTopology (kn_labels kn) = (region, p)" "p \<noteq> []" "pz = [] \<or> pz = p" for kn p
    by (rule triple_mono [OF Cons.IH [of p]]) (use that in \<open>auto simp: settledIn_def\<close>)
  show ?case
    unfolding commonZone.simps unlessGone_def
  proof (rule triple_read, rule assms(1), rule assms(2), goal_cases)
    case (2 kn)
    obtain r z where t: "GetNodeTopology (kn_labels kn) = (r, z)" by fastforce
    show ?case unfolding t Let_def prod.case
      using 2 t by (intro triple_if triple_ret step) auto
  qed (auto intro!: triple_if triple_ret triple_fail)
qed

lemma followPods_asks: "emits (\<lambda>r. isPatch r \<longrightarrow> asksFor ns n (\<lambda>t. t = z) r) (followPods c ns n vol z)"
  unfolding followPods_def Let_def
  by (intro emits_intros migrate_emits observes_patch emits_patchPVCAnnotations) (auto simp: asksFor_def isPatch_def)

lemma follow_settled:
  assumes "\<And>n e. snd (q_GetNode k n e) = e" "\<And>kind n. P (e0, K8s (KGet kind n))" "set (visit ns) = set ns"
    and "\<And>z. settledIn k e0 region z ns \<Longrightarrow> z \<noteq> zone \<Longrightarrow> triple (\<lambda>e. e = e0) P (m z) (\<lambda>_ _. True)"
  shows "triple (\<lambda>e. e = e0) P (call (commonZone k region [] (visit ns)) fail (\<lambda>podZone. case podZone of None \<Rightarrow> ret ()
     | Some z \<Rightarrow> if z = zone then ret () else m z)) (\<lambda>_ _. True)"
proof (rule triple_call, rule commonZone_settled, rule assms(1), rule assms(2), goal_cases)
  case (2 x)
  show ?case
  proof (cases x)
    case (Some z)
    have "settledIn k e0 region z (visit ns) = settledIn k e0 region z ns" using assms(3) by (simp add: settledIn_def)
    then have "triple (\<lambda>e. e = e0 \<and> settledIn k e0 region z (visit ns)) P (if z = zone then ret () else m z) (\<lambda>_ _. True)"
      by (intro triple_const triple_if triple_still assms(4)) simp_all
    then show ?thesis unfolding Some option.case by (rule triple_pre) auto
  qed (simp only: option.case triple_still)
qed (rule triple_still)

text \<open>C13: A volume follows its pods only when all of them are settled in one other zone.  The reconciler of followers sends a patch only for a claim without a request,
  bound to a volume of this driver in a zone, whose placed pods all run on nodes of one zone of the volume's region, in whatever order the map of the pods is visited;
  that zone is not the volume's, and the patch asks for it.\<close>

theorem follow_sound:
  assumes "kube_reads (mc_kclient c)" "mc_SplitKey c key = Inr (ns, n)" "\<forall>xs. set (visit xs) = set xs"
    and "(e, r) \<in> set (sent (reconcileFollow c visit key) w)" "isPatch r"
  shows "\<exists>pvc pv vol pods z. fst (q_GetPVC (mc_kclient c) ns n (env w)) = Inr pvc \<and> GetAnnotation (km_Annotations (kc_Meta pvc)) AnnotationMigrateNode = [] \<and>
     fst (q_GetPV (mc_kclient c) (kc_VolumeName pvc) (env w)) = Inr pv \<and> zonalVolume pv = Some vol \<and>
     fst (q_ListPods (mc_kclient c) ns (env w)) = Inr pods \<and> placements n pods \<noteq> [] \<and>
     settledIn (mc_kclient c) (env w) (vregion vol) z (map snd (placements n pods)) \<and> z \<noteq> vzone vol \<and> asksFor ns n (\<lambda>t. t = z) r" (is "?good r")
proof -
  let ?k = "mc_kclient c" and ?P = "\<lambda>(e, r). isPatch r \<longrightarrow> ?good r"
  have reads: "\<And>ns n e. snd (q_GetPVC ?k ns n e) = e" "\<And>n e. snd (q_GetPV ?k n e) = e" "\<And>ns e. snd (q_ListPods ?k ns e) = e" "\<And>n e. snd (q_GetNode ?k n e) = e"
    using assms(1) by (auto simp: kube_reads_def)
  have quiet: "?P (e, K8s (KGet kind m))" "?P (e, K8s (KList kind))" for e kind m by (simp_all add: isPatch_def)
  have follow: "triple I ?P (followPods c ns n vol z) (\<lambda>_ _. True)" if "\<And>r. asksFor ns n (\<lambda>t. t = z) r \<Longrightarrow> ?good r" for I vol z
    by (rule triple_here [OF followPods_asks]) (use that in auto)
  have "triple (\<lambda>e. e = env w) ?P (reconcileFollow c visit key) (\<lambda>_ _. True)"
    unfolding reconcileFollow_def assms(2) sum.case prod.case unlessGone_def Let_def PVCPodPlacement_def listPods_def bindE_def failAs_def call_call call_ret call_fail
  proof (rule triple_read, rule reads(1), rule quiet(1), goal_cases)
    case pvc: (2 pvc)
    show ?case
    proof (rule triple_if [OF triple_still(1)], rule triple_read, rule reads(2), rule quiet(1), goal_cases)
      case pv: (2 pv)
      have "triple (\<lambda>e. e = env w) ?P
          (call (KListPods ?k ns) (\<lambda>err. fail (Plain (''failed to list pods'' @ '': '' @ Error err))) (\<lambda>pods. if placements n pods = [] then ret ()
             else call (commonZone ?k (vregion vol) [] (visit (map snd (placements n pods)))) fail (\<lambda>podZone. case podZone of None \<Rightarrow> ret ()
                | Some z \<Rightarrow> if z = vzone vol then ret () else followPods c ns n vol z))) (\<lambda>_ _. True)" if vol: "zonalVolume pv = Some vol" for vol
      proof (rule triple_read, rule reads(3), rule quiet(2), goal_cases)
        case (2 pods)
        show ?case using pvc pv vol 2 assms(3)
          by (intro triple_if triple_still, intro follow_settled reads quiet follow; blast)
      qed (rule triple_still)
      then show ?case by (cases "zonalVolume pv") (simp_all only: option.case triple_still)
    qed (auto intro!: triple_if triple_still)
  qed (auto intro!: triple_if triple_still)
  from triple_sent [OF this refl assms(4)] show ?thesis using assms(5) by simp
qed

definition sampleMovedNode :: knode where
  "sampleMovedNode = sampleKNode\<lparr>kn_labels := [(LabelTopologyRegion, ''r''), (LabelTopologyZone, ''pve-2'')]\<rparr>"

definition sampleFollow :: "ksim pworld" where
  "sampleFollow = \<lparr>env = (sampleKState [samplePod])\<lparr>ks_nodes := [(''worker-1'', sampleMovedNode)]\<rparr>, trace = []\<rparr>"

lemma sample_follow:
  "q_GetPVC sampleKube ''db'' ''data'' (env sampleFollow) = (Inr samplePVC, env sampleFollow)"
  "ksGetPV ''pv-1'' (env sampleFollow) = (Inr samplePV, env sampleFollow)"
  "q_ListPods sampleKube ''db'' (env sampleFollow) = (Inr [samplePod], env sampleFollow)"
  "q_GetNode sampleKube ''worker-1'' (env sampleFollow) = (Inr sampleMovedNode, env sampleFollow)"
  "c_GetNodesForStorage sampleMigrationClient ''lvm'' (env sampleFollow) = (Inr [''pve-1'', ''pve-2''], env sampleFollow)"
  "GetAnnotation (km_Annotations (kc_Meta samplePVC)) AnnotationMigrateNode = []" "placements ''data'' [samplePod] = [(''db-0'', ''worker-1'')]"
  "GetNodeTopology (kn_labels sampleMovedNode) = (''r'', ''pve-2'')" "vstorage sampleSource = ''lvm''" "trace sampleFollow = []"
  by code_simp+

theorem follow_sound_witness:
  "\<exists>e r. (e, r) \<in> set (sent (reconcileFollow sampleController (\<lambda>xs. xs) ''db/data'') sampleFollow) \<and> isPatch r \<and>
     asksFor ''db'' ''data'' (\<lambda>t. t = ''pve-2'') r"
proof -
  let ?r = "K8s (KPatch ''persistentvolumeclaims'' (nsName ''db'' ''data'') (PatchAnnotations (NormalizeLegacy (km_Annotations (kc_Meta samplePVC)) [(AnnotationMigrateNode, Some ''pve-2'')])))"
  have "(env sampleFollow, ?r) \<in> set (sent (reconcileFollow sampleController (\<lambda>xs. xs) ''db/data'') sampleFollow)"
    by (simp add: sent_def reconcileFollow_def followPods_def sample_controller unlessGone_def bindE_def call_def invoke_def px_def lift_def sample_follow sample_drain ret_def
        PVCPodPlacement_def listPods_def sampleMigrator_ok sample_event sample_answers patchPVCAnnotations_def Let_def)
  then have s: "(env sampleFollow, ?r) \<in> set (sent (reconcileFollow sampleController (\<lambda>xs. xs) ''db/data'') sampleFollow)" "isPatch ?r" by (auto simp: isPatch_def)
  have k: "kube_reads (mc_kclient sampleController)" by (simp add: sample_controller sampleKube_pure)
  have "\<forall>xs. set ((\<lambda>xs. xs) xs) = set (xs :: string list)" by simp
  from follow_sound [OF k sample_controller(1) this s] show ?thesis
    using s by (auto simp: sample_controller sample_follow sample_drain settledIn_def)
qed

end
