(* ===== verification/Spec2Isabelle.thy ===== *)
theory Spec2Isabelle
  imports Csi_Properties Cloud_Config Vm_Locks Operator_Safety Operator_Storage Remote_Safety Migration_Safety
begin

text \<open>
  A verification development of the Proxmox CSI plugin, a Kubernetes storage driver in Go whose volumes are disks of
  Proxmox VE clusters.

  \<^bold>\<open>The program.\<close>  The CSI controller (\<^verbatim>\<open>pkg/csi/controller.go\<close>) answers the RPCs of Kubernetes: it creates, deletes, publishes,
  unpublishes, expands, modifies and snapshots volumes by calls of the Proxmox API, through the disk operations of
  \<^verbatim>\<open>pkg/tools/proxmox\<close> and the pool of clusters of \<^verbatim>\<open>pkg/proxmoxpool\<close>.  In the multi-tenant setup a tenant cluster runs the remote
  controller (\<^verbatim>\<open>pkg/csi/remote\<close>), which hands every RPC to the volume API of an operator (\<^verbatim>\<open>pkg/operator/api\<close>); the API authenticates the
  tenant and writes records, and the operator's reconcilers (\<^verbatim>\<open>pkg/operator/controller\<close>) carry the records out with the same disk
  operations.  Volumes on local storage are moved between nodes by the migrator (\<^verbatim>\<open>pkg/migrator\<close>), which copies the disk and rewires
  the volume and the claim to it, driven by annotations through the migration controller (\<^verbatim>\<open>pkg/controller/migration\<close>).

  \<^bold>\<open>How the model is built.\<close>  A Go string is a byte list, a struct a record, a map an association list, an integer an \<open>int\<close> with
  the wrap-around written out where sizes are computed.  An error keeps its text, the sentinel it wraps and its gRPC code
  (\<open>goerr\<close>); a panic is the error that names it.  A function with effects takes a world and returns an error or a value and the next
  world: \<open>call m h k\<close> is the idiom of a call, its error branch and the rest.  A world is the state of everything outside the program,
  of an arbitrary type, together with the list of the requests sent so far, each with the state it was sent in.  Libraries
  (the Proxmox and Kubernetes clients, OIDC, the YAML decoder, the token bucket) are records of functions over that state, and what
  the program relies on of them is a named hypothesis (\<open>reads_pure\<close>, \<open>pool_spec\<close>, \<open>kube_spec\<close>, \<open>kube_reads\<close>, \<open>filter_spec\<close>,
  \<open>hostnames\<close> and others).  Every hypothesis is shown to hold for an executable sample (\<^verbatim>\<open>Sample_Cluster\<close>, \<^verbatim>\<open>Sample_Mgmt\<close>,
  \<^verbatim>\<open>Sample_Kube\<close>), on which the properties are also instantiated.  The order in which Go visits a map is an argument or any order
  of the list.

  \<^bold>\<open>Groups of theories.\<close>
  \<^item> Language and libraries: \<^verbatim>\<open>Go_Prelude\<close> (strings, numbers, maps), \<^verbatim>\<open>Go_Effects\<close> (errors, calls and the rules for \<open>triple\<close>, \<open>emits\<close>,
    \<open>returns\<close> and \<open>fails\<close> that most proofs use), \<^verbatim>\<open>Go_Float\<close> (double precision), \<^verbatim>\<open>Go_Json\<close> (JSON and base64), \<^verbatim>\<open>Sha256\<close>.
  \<^item> Identifiers and parameters: \<^verbatim>\<open>Volume_ID\<close> (\<^verbatim>\<open>pkg/utils/volume\<close>), \<^verbatim>\<open>Node_ID\<close> (\<^verbatim>\<open>pkg/utils/provider\<close>, \<^verbatim>\<open>pkg/utils/node\<close>),
    \<^verbatim>\<open>Csi_Helper\<close> (\<^verbatim>\<open>pkg/csi/helper.go\<close>, \<^verbatim>\<open>driver.go\<close>), \<^verbatim>\<open>Parameters\<close> (\<^verbatim>\<open>pkg/csi/parameters.go\<close>).  Round trips of the textual forms,
    least rounding, and that the disk options of a class survive the volume context.
  \<^item> Proxmox: \<^verbatim>\<open>Proxmox_Api\<close> (the client), \<^verbatim>\<open>Proxmox_Pool\<close>, \<^verbatim>\<open>Transport\<close> (\<^verbatim>\<open>pkg/proxmoxpool\<close>), \<^verbatim>\<open>Cloud_Config\<close> (\<^verbatim>\<open>pkg/config\<close>),
    \<^verbatim>\<open>Volume_Ops\<close> and \<^verbatim>\<open>Disk_Ops\<close> (\<^verbatim>\<open>pkg/tools/proxmox\<close>).  \<^verbatim>\<open>Disk_Safety\<close> shows which requests each disk operation may send and in which state;
    the transport sends a write once and a read a bounded number of times.
  \<^item> The controller: \<^verbatim>\<open>Csi_Controller\<close> has every handler, \<^verbatim>\<open>Csi_Safety\<close> the rules for their requests and \<^verbatim>\<open>Csi_Properties\<close> the properties: no
    handler deallocates, overwrites or deletes another disk than its own, changes happen under the lock of the node, and errors are statuses.
    \<^verbatim>\<open>Vm_Locks\<close> models the two lock tables under every interleaving and refines them to an abstract lock.
  \<^item> The operator: \<^verbatim>\<open>Operator_Types\<close> (custom resources), \<^verbatim>\<open>Operator_Pool\<close>, \<^verbatim>\<open>Operator_Volume\<close>, \<^verbatim>\<open>Operator_Tenant\<close>, \<^verbatim>\<open>Operator_Attachment\<close>,
    \<^verbatim>\<open>Operator_Storage\<close> (reconcilers, publisher, drift detector), \<^verbatim>\<open>Operator_Api\<close> (methods), \<^verbatim>\<open>Operator_Authn\<close> (authentication and interceptors).
    \<^verbatim>\<open>Operator_Safety\<close> justifies every write to Proxmox by the records read, \<^verbatim>\<open>Api_Safety\<close> confines a call to its tenant.
  \<^item> Tenant clusters: \<^verbatim>\<open>Remote_Controller\<close> and \<^verbatim>\<open>Remote_Safety\<close>, with the isolation of tenants from the CSI call to the management cluster.
  \<^item> Migration: \<^verbatim>\<open>K8s_Objects\<close> and \<^verbatim>\<open>K8s_Tools\<close> (\<^verbatim>\<open>pkg/tools/kubernetes\<close>), \<^verbatim>\<open>Placement\<close> (\<^verbatim>\<open>placement.go\<close>), \<^verbatim>\<open>Rewire\<close> (\<^verbatim>\<open>topology.go\<close> and
    the annotation protocol), \<^verbatim>\<open>Migrator\<close> (\<^verbatim>\<open>migrator.go\<close>), \<^verbatim>\<open>Migration_Controller\<close>.  \<^verbatim>\<open>Rewire_Safety\<close> shows that a retained volume references the moved
    disk at every destructive step, \<^verbatim>\<open>Migrator_Safety\<close> that a failure keeps the source and that nothing is rewired before the copy was seen,
    \<^verbatim>\<open>Migration_Safety\<close> what stands before a migration and when the automatic triggers ask for one.

  \<^bold>\<open>Bounds.\<close>  Loops over data are structural or have a termination proof.  A loop that polls the outside takes the number of its
  ticks, or the list of what a select statement sees, as an argument, and the statements hold for every such argument; running out of
  ticks is the timeout of the code.  The JSON recognisers are bounded by the length of the text, which every step shortens, and by the nesting
  limit of the library.

  \<^bold>\<open>Not modelled.\<close>  Log lines and metrics; no behaviour depends on them.  Starting and stopping of servers, informers and queues, flag parsing and
  the wiring in \<^verbatim>\<open>cmd\<close>.  Generated code (protocol buffers, deep copies).  The CSI node service and the Kata direct volumes
  (\<^verbatim>\<open>pkg/csi/node.go\<close>, \<^verbatim>\<open>kata.go\<close>, \<^verbatim>\<open>node_windows.go\<close>), which format and mount through utilities of the host.
\<close>

end
